(* ===== verification/Prelude.thy ===== *)
theory Prelude
  imports Main "HOL-Library.List_Lexorder" "HOL-Library.Char_ord" "HOL-Library.Multiset"
begin

text \<open>
  Shared vocabulary of the development: the parts of Go's \<open>strings\<close>, \<open>sort\<close>,
  \<open>slices\<close> and \<open>strconv\<close> packages that the repository calls, Go maps that are ranged
  over, and the collections of facts the component theories use.

  A Go \<open>string\<close> is a byte sequence, as HOL's \<open>string\<close> is; comparison \<open><\<close> is
  bytewise lexicographic in both. \<open>strings.TrimSpace\<close> and \<open>strings.ToLower\<close> are
  modelled on their ASCII paths: bytes from 0x80 up are neither white space nor letters here,
  so the theorems speak about ASCII host names, labels and paths. A Go \<open>error\<close> is its
  message; an operation that returns only an error returns \<open>string option\<close> (\<open>None\<close> is
  \<open>nil\<close>), one that returns a value and an error returns \<open>string + 'a\<close>.
\<close>

named_theorems str_simps \<open>rewriting Go string operations\<close>
named_theorems sort_facts \<open>what sorting by a comparison keeps\<close>

type_synonym go_error = string

text \<open>\<open>time.Time\<close>: the zero time, or an instant.\<close>

datatype go_time = ZeroTime | At nat

section \<open>Strings\<close>

definition is_space :: "char \<Rightarrow> bool" where
  "is_space c \<longleftrightarrow> c \<in> {CHR 0x09, CHR 0x0A, CHR 0x0B, CHR 0x0C, CHR 0x0D, CHR '' ''}"

definition lower_char :: "char \<Rightarrow> char" where
  "lower_char c =
     (if CHR ''A'' \<le> c \<and> c \<le> CHR ''Z''
      then (case c of Char b0 b1 b2 b3 b4 b5 b6 b7 \<Rightarrow> Char b0 b1 b2 b3 b4 True b6 b7)
      else c)"

definition to_lower :: "string \<Rightarrow> string" where
  "to_lower s = map lower_char s"

definition trim_by :: "(char \<Rightarrow> bool) \<Rightarrow> string \<Rightarrow> string" where
  "trim_by p s = rev (dropWhile p (rev (dropWhile p s)))"

definition trim_space :: "string \<Rightarrow> string" where
  "trim_space s = trim_by is_space s"

text \<open>\<open>strings.Trim(s, ".")\<close>.\<close>

definition trim_dots :: "string \<Rightarrow> string" where
  "trim_dots s = trim_by (\<lambda>c. c = CHR ''.'') s"

definition has_prefix :: "string \<Rightarrow> string \<Rightarrow> bool" where
  "has_prefix s p \<longleftrightarrow> take (length p) s = p"

definition has_suffix :: "string \<Rightarrow> string \<Rightarrow> bool" where
  "has_suffix s t \<longleftrightarrow> length t \<le> length s \<and> drop (length s - length t) s = t"

definition trim_prefix :: "string \<Rightarrow> string \<Rightarrow> string" where
  "trim_prefix s p = (if has_prefix s p then drop (length p) s else s)"

text \<open>\<open>strings.Split\<close> on a one-byte separator: never empty.\<close>

fun split_on :: "char \<Rightarrow> string \<Rightarrow> string list" where
  "split_on c [] = [[]]"
| "split_on c (x # xs) =
     (if x = c then [] # split_on c xs
      else (case split_on c xs of [] \<Rightarrow> [[x]] | y # ys \<Rightarrow> (x # y) # ys))"

text \<open>\<open>strings.Join\<close>.\<close>

fun join_with :: "string \<Rightarrow> string list \<Rightarrow> string" where
  "join_with sep [] = []"
| "join_with sep [x] = x"
| "join_with sep (x # y # ys) = x @ sep @ join_with sep (y # ys)"

text \<open>\<open>strings.Contains\<close>.\<close>

fun contains_sub :: "string \<Rightarrow> string \<Rightarrow> bool" where
  "contains_sub [] t = (t = [])"
| "contains_sub (x # xs) t = (has_prefix (x # xs) t \<or> contains_sub xs t)"

text \<open>\<open>strings.Cut\<close> at a one-byte separator: the part before, the part after, found.\<close>

fun cut_at :: "char \<Rightarrow> string \<Rightarrow> string \<times> string \<times> bool" where
  "cut_at c [] = ([], [], False)"
| "cut_at c (x # xs) =
     (if x = c then ([], xs, True)
      else (case cut_at c xs of (a, b, ok) \<Rightarrow> (x # a, b, ok)))"

text \<open>\<open>strings.ReplaceAll\<close> of a one-byte string.\<close>

definition replace_all :: "string \<Rightarrow> char \<Rightarrow> string \<Rightarrow> string" where
  "replace_all s c t = concat (map (\<lambda>x. if x = c then t else [x]) s)"

subsection \<open>Decimal numbers\<close>

definition digit_char :: "nat \<Rightarrow> char" where
  "digit_char d = char_of (48 + d)"

fun digits_of :: "nat \<Rightarrow> string" where
  "digits_of n = (if n < 10 then [digit_char n] else digits_of (n div 10) @ [digit_char (n mod 10)])"

declare digits_of.simps [simp del]

text \<open>The \<open>%d\<close> verb and \<open>strconv.Itoa\<close>.\<close>

definition itoa :: "int \<Rightarrow> string" where
  "itoa i = (if i < 0 then CHR ''-'' # digits_of (nat (- i)) else digits_of (nat i))"

definition is_digit :: "char \<Rightarrow> bool" where
  "is_digit c \<longleftrightarrow> CHR ''0'' \<le> c \<and> c \<le> CHR ''9''"

fun digits_value :: "int \<Rightarrow> string \<Rightarrow> int" where
  "digits_value acc [] = acc"
| "digits_value acc (c # cs) = digits_value (10 * acc + (of_char c - 48)) cs"

text \<open>
  \<open>strconv.Atoi\<close> on a 64-bit platform: an optional sign, at least one decimal digit, nothing
  else, and a value that fits in \<open>int\<close>. \<open>None\<close> stands for \<open>err \<noteq> nil\<close>.
\<close>

definition atoi_unsigned :: "string \<Rightarrow> int option" where
  "atoi_unsigned s = (if s \<noteq> [] \<and> (\<forall>c \<in> set s. is_digit c) then Some (digits_value 0 s) else None)"

definition atoi :: "string \<Rightarrow> int option" where
  "atoi s =
     (let neg = (s \<noteq> [] \<and> hd s = CHR ''-'');
          body = (if s \<noteq> [] \<and> (hd s = CHR ''-'' \<or> hd s = CHR ''+'') then tl s else s)
      in case atoi_unsigned body of
           None \<Rightarrow> None
         | Some n \<Rightarrow>
             (if neg then (if n \<le> 2 ^ 63 then Some (- n) else None)
              else if n < 2 ^ 63 then Some n else None))"

text \<open>
  The \<open>%q\<close> verb and \<open>strconv.Quote\<close> on ASCII: quotes and backslashes escaped, the
  named control characters by their letter, the others by \<open>\\x\<close> and two hexadecimal digits.
\<close>

definition hex_digit :: "nat \<Rightarrow> char" where
  "hex_digit n = (if n < 10 then char_of (48 + n) else char_of (87 + n))"

definition quote_char :: "char \<Rightarrow> string" where
  "quote_char c =
     (let bs = char_of (92 :: nat); n = (of_char c :: nat) in
      if c = CHR 0x22 \<or> c = bs then [bs, c]
      else if n = 7 then [bs, CHR ''a''] else if n = 8 then [bs, CHR ''b'']
      else if n = 12 then [bs, CHR ''f''] else if n = 10 then [bs, CHR ''n'']
      else if n = 13 then [bs, CHR ''r''] else if n = 9 then [bs, CHR ''t'']
      else if n = 11 then [bs, CHR ''v'']
      else if n < 32 \<or> n = 127 then [bs, CHR ''x'', hex_digit (n div 16), hex_digit (n mod 16)]
      else [c])"

definition go_quote :: "string \<Rightarrow> string" where
  "go_quote s = [CHR 0x22] @ concat (map quote_char s) @ [CHR 0x22]"

section \<open>Paths\<close>

text \<open>\<open>filepath.Clean\<close>, \<open>filepath.Join\<close>, \<open>filepath.Dir\<close> and \<open>filepath.Base\<close> on a Unix system.\<close>

definition clean_step :: "bool \<Rightarrow> string \<Rightarrow> string list \<Rightarrow> string list" where
  "clean_step rooted p st =
     (if p = [] \<or> p = ''.'' then st
      else if p = ''..''
      then (case st of [] \<Rightarrow> (if rooted then [] else [p]) | q # rest \<Rightarrow> (if q = ''..'' then p # st else rest))
      else p # st)"

definition path_clean :: "string \<Rightarrow> string" where
  "path_clean s =
     (let rooted = has_prefix s ''/'';
          body = join_with ''/'' (rev (fold (clean_step rooted) (split_on CHR ''/'' s) []))
      in if rooted then ''/'' @ body else if body = [] then ''.'' else body)"

definition filepath_join :: "string list \<Rightarrow> string" where
  "filepath_join es =
     (let es = dropWhile (\<lambda>e. e = []) es in if es = [] then [] else path_clean (join_with ''/'' es))"

definition filepath_dir :: "string \<Rightarrow> string" where
  "filepath_dir s = path_clean (rev (dropWhile (\<lambda>c. c \<noteq> CHR ''/'') (rev s)))"

definition filepath_base :: "string \<Rightarrow> string" where
  "filepath_base path =
     (if path = [] then ''.''
      else let base = last (split_on CHR ''/'' (rev (dropWhile (\<lambda>c. c = CHR ''/'') (rev path))))
        in if base = [] then ''/'' else base)"

section \<open>Sorting\<close>

text \<open>
  \<open>sort.SliceStable(xs, less)\<close>. \<open>lt\<close> is the comparison the code passes. \<open>sort.Slice\<close>
  promises no order among equals: it is the stable sort of some rearrangement of its input,
  which the callers below take as a parameter.
\<close>

fun insert_by :: "('a \<Rightarrow> 'a \<Rightarrow> bool) \<Rightarrow> 'a \<Rightarrow> 'a list \<Rightarrow> 'a list" where
  "insert_by lt x [] = [x]"
| "insert_by lt x (y # ys) =
     (if lt y x then y # insert_by lt x ys else x # y # ys)"

definition stable_sort :: "('a \<Rightarrow> 'a \<Rightarrow> bool) \<Rightarrow> 'a list \<Rightarrow> 'a list" where
  "stable_sort lt xs = foldr (insert_by lt) xs []"

lemma stable_sort_Nil [simp]: "stable_sort lt [] = []"
  by (simp add: stable_sort_def)

lemma stable_sort_Cons [simp]:
  "stable_sort lt (x # xs) = insert_by lt x (stable_sort lt xs)"
  by (simp add: stable_sort_def)

definition sort_slice :: "('a list \<Rightarrow> 'a list) \<Rightarrow> ('a \<Rightarrow> 'a \<Rightarrow> bool) \<Rightarrow> 'a list \<Rightarrow> 'a list" where
  "sort_slice shuf lt xs = stable_sort lt (shuf xs)"

text \<open>\<open>sort.Strings\<close>: equal strings are indistinguishable, so stability is no choice.\<close>

definition sort_strings :: "string list \<Rightarrow> string list" where
  "sort_strings xs = stable_sort (<) xs"

lemma mset_insert_by [simp, sort_facts]: "mset (insert_by lt x xs) = add_mset x (mset xs)"
  by (induction xs) auto

lemma mset_stable_sort [simp, sort_facts]: "mset (stable_sort lt xs) = mset xs"
  by (induction xs) auto

lemma set_insert_by [simp, sort_facts]: "set (insert_by lt x xs) = insert x (set xs)"
  by (induction xs) auto

lemma set_stable_sort [simp, sort_facts]: "set (stable_sort lt xs) = set xs"
  by (induction xs) auto

lemma length_stable_sort [simp, sort_facts]: "length (stable_sort lt xs) = length xs"
  by (metis mset_stable_sort size_mset)

lemma distinct_stable_sort [simp, sort_facts]: "distinct (stable_sort lt xs) = distinct xs"
  by (metis mset_stable_sort mset_eq_imp_distinct_iff)

lemma stable_sort_eq_Nil [simp]: "stable_sort lt xs = [] \<longleftrightarrow> xs = []"
  by (metis length_0_conv length_stable_sort)

lemma map_insert_by:
  assumes "\<And>a b. lt a b = lt' (f a) (f b)"
  shows "map f (insert_by lt x xs) = insert_by lt' (f x) (map f xs)"
  by (induction xs) (simp_all add: assms)

lemma map_stable_sort:
  assumes "\<And>a b. lt a b = lt' (f a) (f b)"
  shows "map f (stable_sort lt xs) = stable_sort lt' (map f xs)"
  by (induction xs) (simp_all add: map_insert_by [of lt lt' f, OF assms])

text \<open>
  The contract a comparison passed to \<open>sort\<close> must keep (a strict weak order), and what
  sorting then promises. It is interpreted for every comparison of the repository.
\<close>

locale weak_order =
  fixes lt :: "'a \<Rightarrow> 'a \<Rightarrow> bool"
  assumes less_asym: "lt a b \<Longrightarrow> \<not> lt b a"
    and not_less_trans: "\<not> lt b a \<Longrightarrow> \<not> lt c b \<Longrightarrow> \<not> lt c a"
begin

abbreviation ordered :: "'a list \<Rightarrow> bool" where
  "ordered \<equiv> sorted_wrt (\<lambda>a b. \<not> lt b a)"

lemma ordered_insert_by: "ordered xs \<Longrightarrow> ordered (insert_by lt x xs)"
proof (induction xs)
  case Nil
  then show ?case by simp
next
  case (Cons y ys)
  show ?case
  proof (cases "lt y x")
    case True
    with Cons show ?thesis by (auto dest: less_asym)
  next
    case False
    with Cons.prems have "\<forall>z\<in>set ys. \<not> lt z x"
      by (metis list.set_intros(2) not_less_trans sorted_wrt.simps(2))
    with Cons.prems False show ?thesis by auto
  qed
qed

lemma ordered_stable_sort: "ordered (stable_sort lt xs)"
  by (induction xs) (auto intro: ordered_insert_by)

lemma head_least:
  assumes "stable_sort lt xs = w # rest" and "x \<in> set xs"
  shows "\<not> lt x w"
proof -
  have "x \<in> set (w # rest)" using assms by (metis set_stable_sort)
  moreover have "ordered (w # rest)" using ordered_stable_sort [of xs] assms(1) by simp
  ultimately show ?thesis by (auto dest: less_asym)
qed

text \<open>Elements the comparison does not tell apart stay in the order they came in.\<close>

definition same :: "'a \<Rightarrow> 'a \<Rightarrow> bool" where
  "same a b \<longleftrightarrow> \<not> lt a b \<and> \<not> lt b a"

lemma same_less: "same a b \<Longrightarrow> lt b c \<longleftrightarrow> lt a c"
  by (metis less_asym not_less_trans same_def)

lemma filter_insert_by:
  "filter (same a) (insert_by lt x xs) =
     (if same a x then x # filter (same a) xs else filter (same a) xs)"
proof (induction xs)
  case Nil
  then show ?case by simp
next
  case (Cons y ys)
  have "same a x \<Longrightarrow> lt y x \<Longrightarrow> \<not> same a y"
    by (metis not_less_trans same_def)
  with Cons show ?case by auto
qed

text \<open>
  Where the comparison tells every two elements apart, there is only one ordered arrangement:
  sorting forgets the order of its input.
\<close>

lemma ordered_unique:
  assumes "ordered xs" and "ordered ys" and "mset xs = mset ys"
    and "\<And>a b. a \<in> set xs \<Longrightarrow> b \<in> set xs \<Longrightarrow> same a b \<Longrightarrow> a = b"
  shows "xs = ys"
  using assms
proof (induction xs arbitrary: ys)
  case Nil
  then show ?case by simp
next
  case (Cons x xs)
  then obtain y zs where ys: "ys = y # zs" by (cases ys) auto
  have sets: "set (x # xs) = set (y # zs)" using Cons.prems(3) ys by (metis set_mset_mset)
  have "x = y"
  proof (rule ccontr)
    assume "x \<noteq> y"
    then have "y \<in> set xs" and "x \<in> set zs" using sets by auto
    then have "\<not> lt y x" and "\<not> lt x y" using Cons.prems(1,2) ys by auto
    then show False
      using Cons.prems(4) [of x y] \<open>x \<noteq> y\<close> \<open>y \<in> set xs\<close> by (simp add: same_def)
  qed
  with Cons ys show ?case by simp
qed

lemma stable_sort_unique:
  assumes "mset xs = mset ys"
    and "\<And>a b. a \<in> set xs \<Longrightarrow> b \<in> set xs \<Longrightarrow> same a b \<Longrightarrow> a = b"
  shows "stable_sort lt xs = stable_sort lt ys"
  by (rule ordered_unique) (use assms ordered_stable_sort in simp_all)

lemma stable_sort_stable: "filter (same a) (stable_sort lt xs) = filter (same a) xs"
  by (induction xs) (auto simp: filter_insert_by)

end

interpretation str_order: weak_order "(<) :: string \<Rightarrow> string \<Rightarrow> bool"
  by unfold_locales auto

lemma sorted_sort_strings [simp, sort_facts]: "sorted (sort_strings xs)"
  using str_order.ordered_stable_sort [of xs]
  by (simp add: sort_strings_def not_less)

lemma set_sort_strings [simp, sort_facts]: "set (sort_strings xs) = set xs"
  and mset_sort_strings [simp, sort_facts]: "mset (sort_strings xs) = mset xs"
  and distinct_sort_strings [simp, sort_facts]: "distinct (sort_strings xs) = distinct xs"
  and length_sort_strings [simp, sort_facts]: "length (sort_strings xs) = length xs"
  by (simp_all add: sort_strings_def)

lemma sort_strings_eq_sort: "sort_strings xs = sort xs"
  by (rule properties_for_sort [symmetric]) simp_all

text \<open>Sorting forgets the order its input came in.\<close>

lemma sort_strings_cong: "mset xs = mset ys \<Longrightarrow> sort_strings xs = sort_strings ys"
  by (metis sort_strings_eq_sort properties_for_sort mset_sort sorted_sort)

lemma sort_strings_set_cong:
  "distinct xs \<Longrightarrow> distinct ys \<Longrightarrow> set xs = set ys \<Longrightarrow> sort_strings xs = sort_strings ys"
  by (rule sort_strings_cong) (simp add: set_eq_iff_mset_eq_distinct)

section \<open>Maps that are ranged over\<close>

text \<open>
  A Go map whose iteration order can be observed is an association list with distinct keys;
  \<open>range\<close> visits its keys in an order Go leaves open: an arbitrary rearrangement, the
  parameter \<open>it\<close> of every definition that ranges over a map. A map that is only indexed is
  a HOL map.
\<close>

type_synonym 'v gomap = "(string \<times> 'v) list"

definition rearranges :: "('a list \<Rightarrow> 'a list) \<Rightarrow> bool" where
  "rearranges it \<longleftrightarrow> (\<forall>xs. mset (it xs) = mset xs)"

fun gm_put :: "string \<Rightarrow> 'v \<Rightarrow> 'v gomap \<Rightarrow> 'v gomap" where
  "gm_put k v [] = [(k, v)]"
| "gm_put k v ((k', v') # m) = (if k = k' then (k, v) # m else (k', v') # gm_put k v m)"

abbreviation gm_get :: "'v gomap \<Rightarrow> string \<Rightarrow> 'v option" where
  "gm_get m k \<equiv> map_of m k"

definition gm_keys :: "'v gomap \<Rightarrow> string list" where
  "gm_keys m = map fst m"

definition range_map :: "(string list \<Rightarrow> string list) \<Rightarrow> 'v gomap \<Rightarrow> (string \<times> 'v) list" where
  "range_map it m =
     List.map_filter (\<lambda>k. map_option (Pair k) (gm_get m k)) (it (gm_keys m))"

definition wf_gomap :: "'v gomap \<Rightarrow> bool" where
  "wf_gomap m \<longleftrightarrow> distinct (map fst m)"

lemma rearranges_mset: "rearranges it \<Longrightarrow> mset (it xs) = mset xs"
  by (simp add: rearranges_def)

lemma rearranges_set: "rearranges it \<Longrightarrow> set (it xs) = set xs"
  by (metis rearranges_mset set_mset_mset)

lemma rearranges_distinct: "rearranges it \<Longrightarrow> distinct (it xs) = distinct xs"
  by (metis rearranges_mset mset_eq_imp_distinct_iff)

lemma rearranges_length: "rearranges it \<Longrightarrow> length (it xs) = length xs"
  by (metis rearranges_mset size_mset)

lemma rearranges_id [simp]: "rearranges (\<lambda>xs. xs)"
  by (simp add: rearranges_def)

lemma rearranges_rev [simp]: "rearranges rev"
  by (simp add: rearranges_def)

lemma gm_get_put [simp]: "gm_get (gm_put k v m) = (gm_get m)(k \<mapsto> v)"
  by (induction m) (auto simp: fun_eq_iff)

lemma keys_put:
  "map fst (gm_put k v m) = (if k \<in> set (map fst m) then map fst m else map fst m @ [k])"
  by (induction k v m rule: gm_put.induct) simp_all

lemma set_keys_put [simp]: "fst ` set (gm_put k v m) = insert k (fst ` set m)"
  using arg_cong [OF keys_put [of k v m], of set] by (auto split: if_splits)

lemma wf_gomap_put [simp]: "wf_gomap m \<Longrightarrow> wf_gomap (gm_put k v m)"
  by (simp add: wf_gomap_def keys_put)

lemma wf_gomap_Nil [simp]: "wf_gomap []"
  by (simp add: wf_gomap_def)

lemma wf_gomap_fold:
  "wf_gomap m \<Longrightarrow> (\<And>m x. wf_gomap m \<Longrightarrow> wf_gomap (f x m)) \<Longrightarrow> wf_gomap (fold f xs m)"
  by (induction xs arbitrary: m) auto

lemma find_SomeD: "find P xs = Some x \<Longrightarrow> x \<in> set xs \<and> P x"
  by (induction xs) (auto split: if_splits)

lemma in_map_filter_iff: "y \<in> set (List.map_filter f xs) \<longleftrightarrow> (\<exists>x \<in> set xs. f x = Some y)"
  by (induction xs) (auto split: option.splits)

lemma gm_get_in_keys: "gm_get m k = Some v \<Longrightarrow> k \<in> set (gm_keys m)"
  by (force simp: gm_keys_def dest: map_of_SomeD)

lemma set_range_map:
  assumes "rearranges it" and "wf_gomap m"
  shows "set (range_map it m) = set m"
proof -
  have "(k, v) \<in> set (range_map it m) \<longleftrightarrow> gm_get m k = Some v" for k v
    by (auto simp: range_map_def in_map_filter_iff rearranges_set [OF assms(1)]
        dest: gm_get_in_keys)
  moreover have "gm_get m k = Some v \<longleftrightarrow> (k, v) \<in> set m" for k v
    using assms(2) by (simp add: wf_gomap_def)
  ultimately show ?thesis by auto
qed

lemma map_filter_gm_get:
  assumes "set ks \<subseteq> fst ` set m"
  shows "map fst (List.map_filter (\<lambda>k. map_option (Pair k) (gm_get m k)) ks) = ks"
  using assms
proof (induction ks)
  case Nil
  then show ?case by simp
next
  case (Cons k ks)
  then obtain v where "gm_get m k = Some v" by (force dest: weak_map_of_SomeI)
  with Cons show ?case by simp
qed

lemma range_map_keys:
  assumes "rearranges it"
  shows "map fst (range_map it m) = it (gm_keys m)"
  unfolding range_map_def
  by (rule map_filter_gm_get) (simp add: rearranges_set [OF assms] gm_keys_def)

lemma range_map_distinct:
  "rearranges it \<Longrightarrow> wf_gomap m \<Longrightarrow> distinct (map fst (range_map it m))"
  by (simp add: range_map_keys rearranges_distinct gm_keys_def wf_gomap_def)


text \<open>Filling a map from a list: the last entry of a key wins.\<close>

lemma gm_get_fold_put:
  "gm_get (fold (\<lambda>r m. gm_put (f r) r m) rs m) k =
     (case find (\<lambda>r. f r = k) (rev rs) of None \<Rightarrow> gm_get m k | Some r \<Rightarrow> Some r)"
proof (induction rs arbitrary: m)
  case Nil
  then show ?case by simp
next
  case (Cons r rs)
  have "find P (xs @ [x]) = (case find P xs of None \<Rightarrow> (if P x then Some x else None) | s \<Rightarrow> s)"
    for P :: "'a \<Rightarrow> bool" and xs x
    by (induction xs) auto
  with Cons show ?case by (simp split: option.splits)
qed

lemma gm_get_fold_put_distinct:
  assumes "distinct (map f rs)"
  shows "gm_get (fold (\<lambda>r m. gm_put (f r) r m) rs []) k = Some r \<longleftrightarrow> r \<in> set rs \<and> f r = k"
proof -
  have inj: "inj_on f (set rs)" using assms by (simp add: distinct_map)
  show ?thesis
  proof (cases "find (\<lambda>r. f r = k) (rev rs)")
    case None
    then have "\<forall>r \<in> set rs. f r \<noteq> k" by (simp add: find_None_iff)
    with None show ?thesis by (auto simp: gm_get_fold_put)
  next
    case (Some q)
    then have "q \<in> set (rev rs)" and "f q = k" by (auto dest: find_SomeD)
    then have "q \<in> set rs" by simp
    with \<open>f q = k\<close> Some inj show ?thesis by (auto simp: gm_get_fold_put inj_on_def)
  qed
qed

section \<open>Laws of the string operations\<close>

lemma has_suffix_iff: "has_suffix s t \<longleftrightarrow> (\<exists>p. s = p @ t)"
proof
  assume "has_suffix s t"
  then have "s = take (length s - length t) s @ t"
    unfolding has_suffix_def by (metis append_take_drop_id)
  then show "\<exists>p. s = p @ t" by blast
qed (auto simp: has_suffix_def)

lemma has_prefix_iff: "has_prefix s p \<longleftrightarrow> (\<exists>r. s = p @ r)"
  unfolding has_prefix_def by (metis append_eq_conv_conj append_take_drop_id)

lemma has_suffix_append [str_simps]: "has_suffix (a @ t) t"
  by (auto simp: has_suffix_iff)

lemma trim_prefix_append [str_simps]: "trim_prefix (p @ r) p = r"
  by (simp add: trim_prefix_def has_prefix_def)

lemma length_to_lower [simp, str_simps]: "length (to_lower s) = length s"
  and to_lower_Nil [simp, str_simps]: "to_lower [] = []"
  and to_lower_append [simp, str_simps]: "to_lower (s @ t) = to_lower s @ to_lower t"
  by (simp_all add: to_lower_def)

lemma lower_char_cases:
  "lower_char c = c \<or>
   (\<exists>b0 b1 b2 b3 b4. c = Char b0 b1 b2 b3 b4 False True False \<and>
      lower_char c = Char b0 b1 b2 b3 b4 True True False)"
proof (cases c)
  case (Char b0 b1 b2 b3 b4 b5 b6 b7)
  then show ?thesis
    by (cases b7; cases b6; cases b5) (simp_all add: lower_char_def)
qed

lemma lower_char_idem [simp, str_simps]: "lower_char (lower_char c) = lower_char c"
  using lower_char_cases [of c] by (auto simp: lower_char_def)

lemma is_space_lower [simp, str_simps]: "is_space (lower_char c) = is_space c"
  using lower_char_cases [of c] by (elim disjE exE conjE) (simp_all add: is_space_def)

lemma lower_char_dot [simp, str_simps]: "lower_char c = CHR ''.'' \<longleftrightarrow> c = CHR ''.''"
  using lower_char_cases [of c] by (auto simp: lower_char_def)

lemma to_lower_idem [simp, str_simps]: "to_lower (to_lower s) = to_lower s"
  by (simp add: to_lower_def)

subsection \<open>Trimming\<close>

lemma trim_by_Nil [simp, str_simps]: "trim_by p [] = []"
  by (simp add: trim_by_def)

lemma trim_by_map: "trim_by p (map f s) = map f (trim_by (p \<circ> f) s)"
  by (simp add: trim_by_def dropWhile_map rev_map comp_def)

lemma set_trim_by: "set (trim_by p s) \<subseteq> set s"
  unfolding trim_by_def by (metis set_dropWhileD set_rev subsetI)

lemma trim_by_id: "s = [] \<or> \<not> p (hd s) \<and> \<not> p (last s) \<Longrightarrow> trim_by p s = s"
proof (cases s rule: rev_cases)
  case (snoc ys y)
  assume "s = [] \<or> \<not> p (hd s) \<and> \<not> p (last s)"
  with snoc have "dropWhile p s = s" and "\<not> p y" by (cases ys; auto)+
  with snoc show ?thesis by (simp add: trim_by_def)
qed simp

lemma trim_by_ends:
  "trim_by p s = [] \<or> \<not> p (hd (trim_by p s)) \<and> \<not> p (last (trim_by p s))"
proof -
  let ?t = "dropWhile p s"
  have l: "\<not> p (last (trim_by p s))" if "trim_by p s \<noteq> []"
    using that hd_dropWhile [of p "rev ?t"] by (simp add: trim_by_def last_rev)
  have "\<not> p (hd (trim_by p s))" if "trim_by p s \<noteq> []"
  proof -
    obtain ys where ys: "?t = trim_by p s @ ys"
      unfolding trim_by_def
      by (metis rev_append rev_rev_ident takeWhile_dropWhile_id)
    then have "hd ?t = hd (trim_by p s)" and "?t \<noteq> []" using that by auto
    then show ?thesis using hd_dropWhile [of p s] by auto
  qed
  with l show ?thesis by blast
qed

lemma trim_by_id_iff:
  "trim_by p s = s \<longleftrightarrow> s = [] \<or> \<not> p (hd s) \<and> \<not> p (last s)"
  by (metis trim_by_id trim_by_ends)

lemma trim_by_idem [simp, str_simps]: "trim_by p (trim_by p s) = trim_by p s"
  using trim_by_ends by (rule trim_by_id)

lemma trim_by_none: "\<forall>c\<in>set s. \<not> p c \<Longrightarrow> trim_by p s = s"
  by (rule trim_by_id) auto

lemma trim_space_idem [simp, str_simps]: "trim_space (trim_space s) = trim_space s"
  and trim_dots_idem [simp, str_simps]: "trim_dots (trim_dots s) = trim_dots s"
  by (simp_all add: trim_space_def trim_dots_def)

lemma trim_space_lower: "trim_space (to_lower s) = to_lower (trim_space s)"
  by (simp add: trim_space_def to_lower_def trim_by_map comp_def)

lemma trim_dots_lower: "trim_dots (to_lower s) = to_lower (trim_dots s)"
  by (simp add: trim_dots_def to_lower_def trim_by_map comp_def)

subsection \<open>Host names in normal form\<close>

text \<open>
  Four packages normalise a host name in the same way (\<open>TrimSpace\<close>, \<open>ToLower\<close>, then
  \<open>Trim\<close> of dots). \<open>normalize\<close> is that function, for the laws the packages share;
  each package's own function is defined in its theory.
\<close>

definition normalize :: "string \<Rightarrow> string" where
  "normalize s = trim_dots (to_lower (trim_space s))"

definition plain :: "string \<Rightarrow> bool" where
  "plain s \<longleftrightarrow> (\<forall>c \<in> set s. \<not> is_space c)"

definition canonical :: "string \<Rightarrow> bool" where
  "canonical s \<longleftrightarrow> normalize s = s"

lemma plain_simps [simp, str_simps]:
  "plain []" "plain (c # s) \<longleftrightarrow> \<not> is_space c \<and> plain s"
  "plain (s @ t) \<longleftrightarrow> plain s \<and> plain t"
  by (auto simp: plain_def)

lemma plain_trim_by [simp]: "plain s \<Longrightarrow> plain (trim_by p s)"
  using set_trim_by by (fastforce simp: plain_def)

lemma plain_lower [simp]: "plain (to_lower s) = plain s"
  by (simp add: plain_def to_lower_def)

lemma plain_normalize: "plain s \<Longrightarrow> plain (normalize s)"
  by (simp add: normalize_def trim_dots_def trim_space_def)

lemma trim_space_plain: "plain s \<Longrightarrow> trim_space s = s"
  by (simp add: trim_space_def plain_def trim_by_none)

lemma normalize_idem: "plain (normalize s) \<Longrightarrow> normalize (normalize s) = normalize s"
  by (simp add: normalize_def trim_space_plain trim_dots_lower [symmetric])

lemma canonical_normalize: "plain s \<Longrightarrow> canonical (normalize s)"
  by (simp add: canonical_def normalize_idem plain_normalize)

lemma is_space_dot [simp]: "\<not> is_space CHR ''.''"
  by (simp add: is_space_def)

text \<open>A host name in normal form is lower case, with no dot or space at either end.\<close>

lemma normalize_ends:
  "canonical s \<Longrightarrow> s = [] \<or> hd s \<noteq> CHR ''.'' \<and> last s \<noteq> CHR ''.''"
  using trim_by_ends [of "\<lambda>c. c = CHR ''.''" "to_lower (trim_space s)"]
  by (simp add: canonical_def normalize_def trim_dots_def)

lemma canonical_lower: "canonical s \<Longrightarrow> to_lower s = s"
  by (metis canonical_def normalize_def to_lower_idem trim_dots_lower)

lemma canonicalI:
  assumes "to_lower s = s" and "trim_space s = s" and "trim_dots s = s"
  shows "canonical s"
  using assms by (simp add: canonical_def normalize_def)

lemma canonical_plainI: "plain s \<Longrightarrow> to_lower s = s \<Longrightarrow> trim_dots s = s \<Longrightarrow> canonical s"
  by (simp add: canonicalI trim_space_plain)

subsection \<open>Splitting\<close>

lemma split_on_neq_Nil [simp, str_simps]: "split_on c s \<noteq> []"
  by (induction s) (auto split: list.splits)

lemma join_split_on: "join_with [c] (split_on c s) = s"
proof (induction s)
  case Nil
  then show ?case by simp
next
  case (Cons x xs)
  obtain y ys where "split_on c xs = y # ys" by (cases "split_on c xs") auto
  with Cons show ?case by (cases ys) auto
qed

lemma length_split_on: "length (split_on c s) = Suc (count_list s c)"
  by (induction s) (auto split: list.splits)

lemma split_on_none: "c \<notin> set s \<Longrightarrow> split_on c s = [s]"
  by (induction s) auto

lemma split_on_append: "split_on c (a @ c # b) = split_on c a @ split_on c b"
proof (induction a)
  case Nil
  then show ?case by simp
next
  case (Cons x xs)
  obtain y ys where "split_on c xs = y # ys" by (cases "split_on c xs") auto
  with Cons show ?case by simp
qed

lemma split_on_no_sep: "p \<in> set (split_on c s) \<Longrightarrow> c \<notin> set p"
proof (induction s arbitrary: p)
  case Nil
  then show ?case by simp
next
  case (Cons x xs)
  obtain y ys where "split_on c xs = y # ys" by (cases "split_on c xs") auto
  with Cons show ?case by (auto split: if_splits)
qed

lemma split_on_subset: "p \<in> set (split_on c s) \<Longrightarrow> set p \<subseteq> set s"
proof (induction s arbitrary: p)
  case Nil
  then show ?case by simp
next
  case (Cons x xs)
  obtain y ys where "split_on c xs = y # ys" by (cases "split_on c xs") auto
  with Cons show ?case by (fastforce split: if_splits)
qed


subsection \<open>Decimal numbers\<close>

lemma digits_value_append: "digits_value a (s @ t) = digits_value (digits_value a s) t"
  by (induction s arbitrary: a) auto

lemma of_digit_char: "d < 10 \<Longrightarrow> (of_char (digit_char d) :: nat) = 48 + d"
  by (simp add: digit_char_def)

lemma int_digit_char: "d < 10 \<Longrightarrow> (of_char (digit_char d) :: int) = 48 + int d"
  using of_digit_char [of d] by (metis of_nat_add of_nat_numeral of_nat_of_char)

lemma is_digit_digit_char: "d < 10 \<Longrightarrow> is_digit (digit_char d)"
  by (simp add: is_digit_def less_eq_char_def of_digit_char)

lemma digits_of_digits: "\<forall>c \<in> set (digits_of n). is_digit c"
proof (induction n rule: digits_of.induct)
  case (1 n)
  then show ?case
    by (subst digits_of.simps) (auto simp: is_digit_digit_char)
qed

lemma digits_of_not_Nil [simp]: "digits_of n \<noteq> []"
  by (subst digits_of.simps) simp

lemma digits_value_digits_of: "digits_value 0 (digits_of n) = int n"
proof (induction n rule: digits_of.induct)
  case (1 n)
  then show ?case
    by (subst digits_of.simps) (auto simp: digits_value_append int_digit_char zdiv_int zmod_int)
qed

lemma atoi_unsigned_digits_of [simp]: "atoi_unsigned (digits_of n) = Some (int n)"
  by (simp add: atoi_unsigned_def digits_of_digits digits_value_digits_of)

lemma hd_digits_of: "hd (digits_of n) \<noteq> CHR ''-''" "hd (digits_of n) \<noteq> CHR ''+''"
proof -
  have "is_digit (hd (digits_of n))" using digits_of_digits [of n] by simp
  then show "hd (digits_of n) \<noteq> CHR ''-''" "hd (digits_of n) \<noteq> CHR ''+''"
    by (auto simp: is_digit_def)
qed

text \<open>Reading back a printed \<open>int\<close>.\<close>

lemma atoi_itoa: "- (2 ^ 63) \<le> i \<Longrightarrow> i < 2 ^ 63 \<Longrightarrow> atoi (itoa i) = Some i"
  by (auto simp: atoi_def itoa_def Let_def hd_digits_of)

text \<open>Evaluation over integers, which the kernel computes in binary.\<close>

function int_digits :: "int \<Rightarrow> string" where
  "int_digits i =
     (if i < 10 then [digit_char (nat i)] else int_digits (i div 10) @ [digit_char (nat (i mod 10))])"
  by auto
termination by (relation "measure nat") auto

declare int_digits.simps [simp del]

lemma digits_of_nat: "digits_of (nat i) = int_digits i"
proof (induction i rule: int_digits.induct)
  case (1 i)
  show ?case
  proof (cases "i < 10")
    case True
    then show ?thesis by (simp add: digits_of.simps [of "nat i"] int_digits.simps [of i])
  next
    case False
    then have "\<not> nat i < 10" "nat i div 10 = nat (i div 10)" "nat i mod 10 = nat (i mod 10)"
      by (simp_all add: nat_div_distrib nat_mod_distrib)
    with False 1 show ?thesis
      by (simp add: digits_of.simps [of "nat i"] int_digits.simps [of i])
  qed
qed

lemma itoa_code [code]:
  "itoa i = (if i < 0 then CHR ''-'' # int_digits (- i) else int_digits i)"
  by (simp add: itoa_def digits_of_nat)

lemma digit_value_nonneg: "is_digit c \<Longrightarrow> (48 :: int) \<le> of_char c"
proof -
  assume "is_digit c"
  then have "(48 :: nat) \<le> of_char c" by (simp add: is_digit_def less_eq_char_def)
  then show ?thesis by (metis of_nat_le_iff of_nat_numeral of_nat_of_char)
qed

lemma digits_value_nonneg: "\<forall>c \<in> set s. is_digit c \<Longrightarrow> 0 \<le> a \<Longrightarrow> 0 \<le> digits_value a s"
  by (induction s arbitrary: a) (auto dest: digit_value_nonneg)

lemma atoi_unsigned_nonneg: "atoi_unsigned s = Some n \<Longrightarrow> 0 \<le> n"
  by (auto simp: atoi_unsigned_def digits_value_nonneg split: if_splits)

lemma atoi_bounds: "atoi s = Some i \<Longrightarrow> - (2 ^ 63) \<le> i \<and> i < 2 ^ 63"
  by (auto simp: atoi_def Let_def dest: atoi_unsigned_nonneg split: option.splits if_splits)

lemma inj_digits_of: "digits_of m = digits_of n \<longleftrightarrow> m = n"
  by (metis digits_value_digits_of of_nat_eq_iff)

end
