(* ===== verification/Routing_Types.thy ===== *)
theory Routing_Types
  imports Prelude
begin

text \<open>
  The data the daemon passes around: \<open>internal/routing/types.go\<close> and
  \<open>internal/config/config.go\<close>. A Go pointer to a \<open>bool\<close> or an \<open>int\<close> is an option; a
  Go \<open>int\<close> is 64 bits wide and only compared here, so it is an \<open>int\<close> (what can reach
  it is bounded where it is parsed, see \<open>atoi_bounds\<close>). \<open>Labels\<close> and the override tables
  are only indexed, never ranged over: they are HOL maps. \<open>Routes\<close> of a snapshot is ranged
  over: it is a \<open>gomap\<close>.
\<close>

section \<open>Time\<close>

instantiation go_time :: linorder
begin

fun less_eq_go_time :: "go_time \<Rightarrow> go_time \<Rightarrow> bool" where
  "less_eq_go_time ZeroTime t = True"
| "less_eq_go_time (At m) ZeroTime = False"
| "less_eq_go_time (At m) (At n) = (m \<le> n)"

definition less_go_time :: "go_time \<Rightarrow> go_time \<Rightarrow> bool" where
  "less_go_time s t = (s \<le> t \<and> \<not> t \<le> s)"

instance
proof
  fix x y z :: go_time
  show "x < y \<longleftrightarrow> x \<le> y \<and> \<not> y \<le> x" by (simp add: less_go_time_def)
  show "x \<le> x" by (cases x) auto
  show "x \<le> y \<Longrightarrow> y \<le> z \<Longrightarrow> x \<le> z" by (cases x; cases y; cases z) auto
  show "x \<le> y \<Longrightarrow> y \<le> x \<Longrightarrow> x = y" by (cases x; cases y) auto
  show "x \<le> y \<or> y \<le> x" by (cases x; cases y) auto
qed

end

section \<open>Routing data\<close>

type_synonym source_kind = string

definition SourceComposeLabels :: source_kind where
  "SourceComposeLabels = ''compose-labels''"

definition SourceContainerName :: source_kind where
  "SourceContainerName = ''container-name''"

record routing_port =
  rp_ContainerPort :: int
  rp_HostPort :: int
  rp_Protocol :: string
  rp_HostIP :: string

record upstream =
  up_Host :: string
  up_Port :: int
  up_Scheme :: string

record warning =
  warn_Code :: string
  warn_Message :: string
  warn_Container :: string
  warn_Field :: string
  warn_Severity :: string
  warn_Source :: string

record candidate =
  cand_ContainerID :: string
  cand_ContainerName :: string
  cand_Project :: string
  cand_Service :: string
  cand_Source :: source_kind
  cand_PublishedPorts :: "routing_port list"
  cand_Labels :: "string \<rightharpoonup> string"
  cand_Warnings :: "warning list"

record route_provenance =
  prov_MetadataSource :: source_kind
  prov_DomainSource :: string
  prov_PortSource :: string
  prov_PrioritySource :: string

record route =
  route_Hostname :: string
  route_Domains :: "string list"
  route_ServedHostnames :: "string list"
  route_Upstream :: upstream
  route_Winner :: candidate
  route_Losers :: "candidate list"
  route_Priority :: int
  route_HTTPSRedirect :: bool
  route_HTTPSOnly :: bool
  route_Provenance :: route_provenance

record conflict =
  conf_Hostname :: string
  conf_Winner :: candidate
  conf_Losers :: "candidate list"
  conf_Reason :: string
  conf_PriorityTie :: bool

record snapshot =
  snap_Version :: string
  snap_CreatedAt :: go_time
  snap_Routes :: "route gomap"
  snap_Warnings :: "warning list"
  snap_Conflicts :: "conflict list"

text \<open>The zero values Go gives to variables of these types.\<close>

definition zero_warning :: warning where
  "zero_warning = \<lparr>warn_Code = [], warn_Message = [], warn_Container = [], warn_Field = [],
     warn_Severity = [], warn_Source = []\<rparr>"

definition zero_provenance :: route_provenance where
  "zero_provenance = \<lparr>prov_MetadataSource = [], prov_DomainSource = [], prov_PortSource = [],
     prov_PrioritySource = []\<rparr>"

definition zero_snapshot :: snapshot where
  "zero_snapshot = \<lparr>snap_Version = [], snap_CreatedAt = ZeroTime, snap_Routes = [],
     snap_Warnings = [], snap_Conflicts = []\<rparr>"

section \<open>Preferences and configuration\<close>

record route_preferences =
  pref_Enable :: "bool option"
  pref_Domain :: string
  pref_Domains :: "string list"
  pref_Root :: "bool option"
  pref_Port :: "int option"
  pref_Scheme :: string
  pref_Priority :: "int option"

definition zero_preferences :: route_preferences where
  "zero_preferences = \<lparr>pref_Enable = None, pref_Domain = [], pref_Domains = [], pref_Root = None,
     pref_Port = None, pref_Scheme = [], pref_Priority = None\<rparr>"

record service_override =
  so_Enable :: "bool option"
  so_Domain :: string
  so_Domains :: "string list"
  so_Root :: "bool option"
  so_Port :: "int option"
  so_Scheme :: string
  so_Priority :: "int option"

record project_config =
  pc_Services :: "string \<rightharpoonup> service_override"

record serving_config =
  sc_ManagedSuffix :: string
  sc_RedirectHTTPToHTTPS :: bool

record config =
  cfg_DomainSuffix :: string
  cfg_RootServices :: "string list"
  cfg_IgnoredServices :: "string list"
  cfg_IgnoredPorts :: "int list"
  cfg_PortPreferenceOrder :: "int list"
  cfg_Serving :: serving_config
  cfg_Overrides :: "string \<rightharpoonup> project_config"

definition DefaultConfig :: config where
  "DefaultConfig = \<lparr>
     cfg_DomainSuffix = ''test'',
     cfg_RootServices = [''app'', ''web'', ''nginx'', ''laravel.test''],
     cfg_IgnoredServices = [''mysql'', ''mariadb'', ''postgres'', ''redis'', ''memcached'',
       ''meilisearch'', ''selenium''],
     cfg_IgnoredPorts = [3306, 5432, 6379, 9200, 11211],
     cfg_PortPreferenceOrder = [443, 8443, 80, 8080, 8000, 3000, 5173, 8025],
     cfg_Serving = \<lparr>sc_ManagedSuffix = ''test'', sc_RedirectHTTPToHTTPS = False\<rparr>,
     cfg_Overrides = Map.empty\<rparr>"

end
