(* ===== verification/Discovery.thy ===== *)
theory Discovery
  imports Routing_Types
begin

text \<open>
  \<open>internal/discovery\<close>: what the daemon reads off one container. \<open>metadata.go\<close> (project
  and service of a container, the \<open>devproxy.*\<close> labels), \<open>ports.go\<close> (which published port a
  route goes to) and \<open>eligibility.go\<close> (whether the container gets a route at all).
\<close>

section \<open>Metadata\<close>

record container =
  ctr_ID :: string
  ctr_Name :: string
  ctr_Labels :: "string \<rightharpoonup> string"

record label_options =
  lo_EnabledLabel :: "bool option"
  lo_LabelDomain :: "string option"
  lo_LabelDomains :: "string list"
  lo_LabelRoot :: "bool option"
  lo_LabelPort :: "int option"
  lo_LabelScheme :: "string option"
  lo_LabelPriority :: "int option"
  lo_OverridePort :: int

definition zero_label_options :: label_options where
  "zero_label_options = \<lparr>lo_EnabledLabel = None, lo_LabelDomain = None, lo_LabelDomains = [],
     lo_LabelRoot = None, lo_LabelPort = None, lo_LabelScheme = None, lo_LabelPriority = None,
     lo_OverridePort = 0\<rparr>"

text \<open>Indexing a \<open>map[string]string\<close>: the empty string for a missing key.\<close>

definition label_value :: "(string \<rightharpoonup> string) \<Rightarrow> string \<Rightarrow> string" where
  "label_value m k = (case m k of None \<Rightarrow> [] | Some v \<Rightarrow> v)"

definition parseContainerName :: "string \<Rightarrow> string \<times> string" where
  "parseContainerName name =
     (let clean = trim_prefix name ''/'' in
      case split_on CHR ''-'' clean of
        p0 # p1 # _ \<Rightarrow> (p0, p1)
      | _ \<Rightarrow> (clean, clean))"

text \<open>\<open>(value, true)\<close> is \<open>Some value\<close>, \<open>(false, false)\<close> is \<open>None\<close>.\<close>

definition parseBool :: "string \<Rightarrow> bool option" where
  "parseBool v =
     (let s = to_lower (trim_space v) in
      if s \<in> {''true'', ''1'', ''yes''} then Some True
      else if s \<in> {''false'', ''0'', ''no''} then Some False
      else None)"

definition badLabelWarning :: "container \<Rightarrow> string \<Rightarrow> string \<Rightarrow> warning" where
  "badLabelWarning c field value =
     \<lparr>warn_Code = ''invalid_label'', warn_Message = ''ignored malformed label value'',
      warn_Container = trim_prefix (ctr_Name c) ''/'', warn_Field = field,
      warn_Severity = ''warning'', warn_Source = value\<rparr>"

definition BuildCandidateBase :: "container \<Rightarrow> candidate" where
  "BuildCandidateBase c =
     (let project = trim_space (label_value (ctr_Labels c) ''com.docker.compose.project'');
          service = trim_space (label_value (ctr_Labels c) ''com.docker.compose.service'');
          (project, service, source) =
            (if project = [] \<or> service = []
             then (case parseContainerName (ctr_Name c) of (p, s) \<Rightarrow> (p, s, SourceContainerName))
             else (project, service, SourceComposeLabels))
      in \<lparr>cand_ContainerID = ctr_ID c, cand_ContainerName = trim_prefix (ctr_Name c) ''/'',
          cand_Project = project, cand_Service = service, cand_Source = source,
          cand_PublishedPorts = [], cand_Labels = ctr_Labels c, cand_Warnings = []\<rparr>)"

text \<open>
  \<open>ApplyLabelFields\<close> is seven blocks in a row, each of which reads one label, and either
  sets a field of the result or appends a warning. Each block is a function of the options and
  the warnings so far.
\<close>

type_synonym label_state = "label_options \<times> warning list"

definition apply_enable_label :: "container \<Rightarrow> label_state \<Rightarrow> label_state" where
  "apply_enable_label c = (\<lambda>(r, ws).
     case ctr_Labels c ''devproxy.enable'' of
       None \<Rightarrow> (r, ws)
     | Some v \<Rightarrow>
         (case parseBool v of
            Some b \<Rightarrow> (r\<lparr>lo_EnabledLabel := Some b\<rparr>, ws)
          | None \<Rightarrow> (r, ws @ [badLabelWarning c ''devproxy.enable'' v])))"

definition apply_domain_label :: "container \<Rightarrow> label_state \<Rightarrow> label_state" where
  "apply_domain_label c = (\<lambda>(r, ws).
     let v = trim_space (label_value (ctr_Labels c) ''devproxy.domain'') in
     if v \<noteq> [] then (r\<lparr>lo_LabelDomain := Some v\<rparr>, ws) else (r, ws))"

definition apply_domains_label :: "container \<Rightarrow> label_state \<Rightarrow> label_state" where
  "apply_domains_label c = (\<lambda>(r, ws).
     let v = trim_space (label_value (ctr_Labels c) ''devproxy.domains'') in
     if v \<noteq> []
     then (r\<lparr>lo_LabelDomains :=
             lo_LabelDomains r @ filter (\<lambda>d. d \<noteq> []) (map trim_space (split_on CHR '','' v))\<rparr>, ws)
     else (r, ws))"

definition apply_root_label :: "container \<Rightarrow> label_state \<Rightarrow> label_state" where
  "apply_root_label c = (\<lambda>(r, ws).
     case ctr_Labels c ''devproxy.root'' of
       None \<Rightarrow> (r, ws)
     | Some v \<Rightarrow>
         (case parseBool v of
            Some b \<Rightarrow> (r\<lparr>lo_LabelRoot := Some b\<rparr>, ws)
          | None \<Rightarrow> (r, ws @ [badLabelWarning c ''devproxy.root'' v])))"

definition apply_port_label :: "container \<Rightarrow> label_state \<Rightarrow> label_state" where
  "apply_port_label c = (\<lambda>(r, ws).
     case ctr_Labels c ''devproxy.port'' of
       None \<Rightarrow> (r, ws)
     | Some v \<Rightarrow>
         (case atoi (trim_space v) of
            Some p \<Rightarrow> (if p > 0 then (r\<lparr>lo_LabelPort := Some p\<rparr>, ws)
                        else (r, ws @ [badLabelWarning c ''devproxy.port'' v]))
          | None \<Rightarrow> (r, ws @ [badLabelWarning c ''devproxy.port'' v])))"

definition apply_scheme_label :: "container \<Rightarrow> label_state \<Rightarrow> label_state" where
  "apply_scheme_label c = (\<lambda>(r, ws).
     let v = trim_space (label_value (ctr_Labels c) ''devproxy.scheme'') in
     if v \<noteq> []
     then (if v = ''http'' \<or> v = ''https''
           then (r\<lparr>lo_LabelScheme := Some v\<rparr>, ws)
           else (r, ws @ [badLabelWarning c ''devproxy.scheme'' v]))
     else (r, ws))"

definition apply_priority_label :: "container \<Rightarrow> label_state \<Rightarrow> label_state" where
  "apply_priority_label c = (\<lambda>(r, ws).
     case ctr_Labels c ''devproxy.priority'' of
       None \<Rightarrow> (r, ws)
     | Some v \<Rightarrow>
         (case atoi (trim_space v) of
            Some p \<Rightarrow> (r\<lparr>lo_LabelPriority := Some p\<rparr>, ws)
          | None \<Rightarrow> (r, ws @ [badLabelWarning c ''devproxy.priority'' v])))"

definition ApplyLabelFields ::
  "label_options \<Rightarrow> container \<Rightarrow> warning list \<Rightarrow> label_state" where
  "ApplyLabelFields base c warnings =
     (let s = (base, warnings);
          s = apply_enable_label c s;
          s = apply_domain_label c s;
          s = apply_domains_label c s;
          s = apply_root_label c s;
          s = apply_port_label c s;
          s = apply_scheme_label c s
      in apply_priority_label c s)"

lemmas label_block_defs =
  apply_enable_label_def apply_domain_label_def apply_domains_label_def apply_root_label_def
  apply_port_label_def apply_scheme_label_def apply_priority_label_def

section \<open>Published ports\<close>

record published_port =
  pp_HostIP :: string
  pp_HostPort :: int
  pp_Protocol :: string

definition preferredPorts :: "int list" where
  "preferredPorts = [443, 8443, 80, 8080, 8000, 3000, 5173, 8025]"

definition lookupPort :: "published_port list \<Rightarrow> int \<Rightarrow> published_port option" where
  "lookupPort ports value = find (\<lambda>p. pp_HostPort p = value) ports"

text \<open>The loop over the preferred ports returns at the first that is published.\<close>

fun first_preferred :: "published_port list \<Rightarrow> int list \<Rightarrow> published_port option" where
  "first_preferred tcp [] = None"
| "first_preferred tcp (p # ps) =
     (case lookupPort tcp p of Some port \<Rightarrow> Some port | None \<Rightarrow> first_preferred tcp ps)"

text \<open>\<open>(port, source, true)\<close> is \<open>Some (port, source)\<close>; \<open>(_, _, false)\<close> is \<open>None\<close>.\<close>

definition SelectPublishedPort ::
  "published_port list \<Rightarrow> label_options \<Rightarrow> int \<Rightarrow> (published_port \<times> string) option" where
  "SelectPublishedPort ports opts configOverridePort =
     (let tcp = filter (\<lambda>p. pp_Protocol p = ''tcp'') ports in
      case tcp of
        [] \<Rightarrow> None
      | first # _ \<Rightarrow>
          (case Option.bind (lo_LabelPort opts) (lookupPort tcp) of
             Some port \<Rightarrow> Some (port, ''label'')
           | None \<Rightarrow>
               (case (if configOverridePort > 0 then lookupPort tcp configOverridePort else None) of
                  Some port \<Rightarrow> Some (port, ''override'')
                | None \<Rightarrow>
                    (case first_preferred tcp preferredPorts of
                       Some port \<Rightarrow> Some (port, ''preference'')
                     | None \<Rightarrow> Some (first, ''first-published'')))))"

section \<open>Eligibility\<close>

record candidate_input =
  ci_Service :: string
  ci_Running :: bool
  ci_EnabledLabel :: "bool option"
  ci_DisabledLabel :: "bool option"
  ci_PublishedTCPPorts :: "int list"

record eligibility_config =
  ec_IgnoredServices :: "string list"
  ec_IgnoredPorts :: "int list"

definition IsEligible :: "candidate_input \<Rightarrow> eligibility_config \<Rightarrow> bool" where
  "IsEligible inp cfg =
     (if \<not> ci_Running inp then False
      else if ci_PublishedTCPPorts inp = [] then False
      else if ci_DisabledLabel inp = Some True then False
      else if ci_EnabledLabel inp = Some True then True
      else if ci_Service inp \<in> set (ec_IgnoredServices cfg) then False
      else \<not> list_all (\<lambda>p. p \<in> set (ec_IgnoredPorts cfg)) (ci_PublishedTCPPorts inp))"


section \<open>What the labels say\<close>

text \<open>The labels \<open>ApplyLabelFields\<close> ignores with a warning, in the order it meets them.\<close>

definition malformed_label :: "container \<Rightarrow> string \<Rightarrow> (string \<Rightarrow> bool) \<Rightarrow> (string \<times> string) list" where
  "malformed_label c field bad =
     (case ctr_Labels c field of None \<Rightarrow> [] | Some v \<Rightarrow> if bad v then [(field, v)] else [])"

definition malformed_labels :: "container \<Rightarrow> (string \<times> string) list" where
  "malformed_labels c =
     malformed_label c ''devproxy.enable'' (\<lambda>v. parseBool v = None) @
     malformed_label c ''devproxy.root'' (\<lambda>v. parseBool v = None) @
     malformed_label c ''devproxy.port'' (\<lambda>v. \<not> (\<exists>p > 0. atoi (trim_space v) = Some p)) @
     (let v = trim_space (label_value (ctr_Labels c) ''devproxy.scheme'') in
      if v \<notin> {[], ''http'', ''https''} then [(''devproxy.scheme'', v)] else []) @
     malformed_label c ''devproxy.priority'' (\<lambda>v. atoi (trim_space v) = None)"

text \<open>What a label of the right form may put into the options.\<close>

definition well_formed_options :: "label_options \<Rightarrow> bool" where
  "well_formed_options r \<longleftrightarrow>
     (\<forall>d. lo_LabelDomain r = Some d \<longrightarrow> d \<noteq> [] \<and> trim_space d = d) \<and>
     (\<forall>d \<in> set (lo_LabelDomains r). d \<noteq> [] \<and> trim_space d = d) \<and>
     (\<forall>p. lo_LabelPort r = Some p \<longrightarrow> 0 < p \<and> p < 2 ^ 63) \<and>
     (\<forall>s. lo_LabelScheme r = Some s \<longrightarrow> s = ''http'' \<or> s = ''https'') \<and>
     (\<forall>n. lo_LabelPriority r = Some n \<longrightarrow> - (2 ^ 63) \<le> n \<and> n < 2 ^ 63)"

text \<open>A block's warnings, appended to those before it, and its options, which ignore them.\<close>

lemma block_warnings:
  "snd (apply_enable_label c s) = snd s @ map (\<lambda>(f, v). badLabelWarning c f v)
     (malformed_label c ''devproxy.enable'' (\<lambda>v. parseBool v = None))"
  "snd (apply_root_label c s) = snd s @ map (\<lambda>(f, v). badLabelWarning c f v)
     (malformed_label c ''devproxy.root'' (\<lambda>v. parseBool v = None))"
  "snd (apply_port_label c s) = snd s @ map (\<lambda>(f, v). badLabelWarning c f v)
     (malformed_label c ''devproxy.port'' (\<lambda>v. \<not> (\<exists>p > 0. atoi (trim_space v) = Some p)))"
  "snd (apply_priority_label c s) = snd s @ map (\<lambda>(f, v). badLabelWarning c f v)
     (malformed_label c ''devproxy.priority'' (\<lambda>v. atoi (trim_space v) = None))"
  "snd (apply_scheme_label c s) = snd s @
     (let v = trim_space (label_value (ctr_Labels c) ''devproxy.scheme'') in
      if v \<notin> {[], ''http'', ''https''} then [badLabelWarning c ''devproxy.scheme'' v] else [])"
  "snd (apply_domain_label c s) = snd s"
  "snd (apply_domains_label c s) = snd s"
  by (auto simp: label_block_defs malformed_label_def Let_def split: option.splits prod.splits)

lemma block_options:
  "fst (apply_enable_label c s) = fst (apply_enable_label c (fst s, []))"
  "fst (apply_root_label c s) = fst (apply_root_label c (fst s, []))"
  "fst (apply_port_label c s) = fst (apply_port_label c (fst s, []))"
  "fst (apply_priority_label c s) = fst (apply_priority_label c (fst s, []))"
  "fst (apply_scheme_label c s) = fst (apply_scheme_label c (fst s, []))"
  "fst (apply_domain_label c s) = fst (apply_domain_label c (fst s, []))"
  "fst (apply_domains_label c s) = fst (apply_domains_label c (fst s, []))"
  by (auto simp: label_block_defs Let_def split: option.splits prod.splits)

lemma label_warnings:
  "snd (ApplyLabelFields base c ws) =
     ws @ map (\<lambda>(field, v). badLabelWarning c field v) (malformed_labels c)"
  by (simp add: ApplyLabelFields_def Let_def malformed_labels_def block_warnings)

lemma block_options_cong:
  assumes "fst s = fst t"
  shows "fst (apply_enable_label c s) = fst (apply_enable_label c t)"
    "fst (apply_root_label c s) = fst (apply_root_label c t)"
    "fst (apply_port_label c s) = fst (apply_port_label c t)"
    "fst (apply_priority_label c s) = fst (apply_priority_label c t)"
    "fst (apply_scheme_label c s) = fst (apply_scheme_label c t)"
    "fst (apply_domain_label c s) = fst (apply_domain_label c t)"
    "fst (apply_domains_label c s) = fst (apply_domains_label c t)"
  by (metis assms block_options)+

lemma label_options_only:
  "fst (ApplyLabelFields base c ws) = fst (ApplyLabelFields base c [])"
  unfolding ApplyLabelFields_def Let_def by (intro block_options_cong) simp

lemma block_well_formed:
  assumes "well_formed_options (fst s)"
  shows "well_formed_options (fst (apply_enable_label c s))"
    "well_formed_options (fst (apply_root_label c s))"
    "well_formed_options (fst (apply_domain_label c s))"
    "well_formed_options (fst (apply_domains_label c s))"
    "well_formed_options (fst (apply_port_label c s))"
    "well_formed_options (fst (apply_scheme_label c s))"
    "well_formed_options (fst (apply_priority_label c s))"
  using assms
  by (auto simp: label_block_defs well_formed_options_def Let_def dest: atoi_bounds
      split: option.splits prod.splits)

lemma labels_well_formed:
  "well_formed_options base \<Longrightarrow> well_formed_options (fst (ApplyLabelFields base c ws))"
  by (simp add: ApplyLabelFields_def Let_def block_well_formed)

lemma zero_well_formed: "well_formed_options zero_label_options"
  by (simp add: well_formed_options_def zero_label_options_def)

lemma parseBool_cases:
  "parseBool v = Some b \<longleftrightarrow>
     to_lower (trim_space v) \<in> (if b then {''true'', ''1'', ''yes''} else {''false'', ''0'', ''no''})"
  by (auto simp: parseBool_def Let_def)

text \<open>Only the enable block reads the enable label, and only it writes the enable option.\<close>

lemma enable_label_local:
  "lo_EnabledLabel (fst (ApplyLabelFields base c ws)) =
     (case ctr_Labels c ''devproxy.enable'' of
        None \<Rightarrow> lo_EnabledLabel base
      | Some v \<Rightarrow> (case parseBool v of None \<Rightarrow> lo_EnabledLabel base | Some b \<Rightarrow> Some b))"
proof -
  have keep: "lo_EnabledLabel (fst (apply_domain_label c s)) = lo_EnabledLabel (fst s)"
    "lo_EnabledLabel (fst (apply_domains_label c s)) = lo_EnabledLabel (fst s)"
    "lo_EnabledLabel (fst (apply_root_label c s)) = lo_EnabledLabel (fst s)"
    "lo_EnabledLabel (fst (apply_port_label c s)) = lo_EnabledLabel (fst s)"
    "lo_EnabledLabel (fst (apply_scheme_label c s)) = lo_EnabledLabel (fst s)"
    "lo_EnabledLabel (fst (apply_priority_label c s)) = lo_EnabledLabel (fst s)" for s
    by (auto simp: label_block_defs Let_def split: option.splits prod.splits)
  show ?thesis
    by (simp add: ApplyLabelFields_def Let_def keep)
      (simp add: apply_enable_label_def split: option.splits)
qed

section \<open>What port a route gets\<close>

lemma lookupPort_Some:
  "lookupPort ports v = Some p \<Longrightarrow> p \<in> set ports \<and> pp_HostPort p = v"
  by (auto simp: lookupPort_def find_Some_iff)

lemma lookupPort_None: "lookupPort ports v = None \<longleftrightarrow> (\<forall>p \<in> set ports. pp_HostPort p \<noteq> v)"
  by (auto simp: lookupPort_def find_None_iff)

lemma first_preferred_Some:
  "first_preferred tcp ps = Some p \<Longrightarrow> p \<in> set tcp \<and> pp_HostPort p \<in> set ps"
  by (induction ps) (auto split: option.splits dest: lookupPort_Some)

lemma first_preferred_None:
  "first_preferred tcp ps = None \<longleftrightarrow> (\<forall>p \<in> set tcp. pp_HostPort p \<notin> set ps)"
  by (induction ps) (auto split: option.splits simp: lookupPort_None dest: lookupPort_Some)

lemma SelectPublishedPort_None:
  "SelectPublishedPort ports opts n = None \<longleftrightarrow> (\<forall>p \<in> set ports. pp_Protocol p \<noteq> ''tcp'')"
proof (cases "filter (\<lambda>p. pp_Protocol p = ''tcp'') ports")
  case Nil
  then show ?thesis by (auto simp: SelectPublishedPort_def filter_empty_conv)
next
  case (Cons f rest)
  then have "f \<in> set ports" and "pp_Protocol f = ''tcp''"
    by (auto dest!: filter_eq_ConsD)
  with Cons show ?thesis
    by (auto simp: SelectPublishedPort_def Let_def split: option.splits)
qed

text \<open>Which of the four rules chose the port, and that the rules before it found nothing.\<close>

lemma SelectPublishedPort_Some:
  assumes "SelectPublishedPort ports opts n = Some (p, src)"
    and "tcp = filter (\<lambda>p. pp_Protocol p = ''tcp'') ports"
  shows "(src = ''label'' \<and> (\<exists>v. lo_LabelPort opts = Some v \<and> lookupPort tcp v = Some p)) \<or>
    (Option.bind (lo_LabelPort opts) (lookupPort tcp) = None \<and>
      (src = ''override'' \<and> n > 0 \<and> lookupPort tcp n = Some p \<or>
       (n > 0 \<longrightarrow> lookupPort tcp n = None) \<and>
        (src = ''preference'' \<and> first_preferred tcp preferredPorts = Some p \<or>
         src = ''first-published'' \<and> first_preferred tcp preferredPorts = None \<and>
           (\<exists>rest. tcp = p # rest))))"
  using assms
  by (cases tcp; cases "lo_LabelPort opts")
    (auto simp: SelectPublishedPort_def Let_def split: option.splits if_splits list.splits)

lemma selected_port_in_tcp:
  assumes "SelectPublishedPort ports opts n = Some (p, src)"
  shows "p \<in> set (filter (\<lambda>p. pp_Protocol p = ''tcp'') ports)"
  using SelectPublishedPort_Some [OF assms refl]
  by (elim disjE conjE exE) (auto dest: lookupPort_Some first_preferred_Some dest!: filter_eq_ConsD)

lemma selected_port_published:
  "SelectPublishedPort ports opts n = Some (p, src) \<Longrightarrow> p \<in> set ports \<and> pp_Protocol p = ''tcp''"
  by (drule selected_port_in_tcp) simp

end
