(* ===== verification/Routing.thy ===== *)
theory Routing
  imports Routing_Types
begin

text \<open>
  \<open>internal/routing\<close>: the host names of a service (\<open>domains.go\<close>), the merge of
  configuration and labels (\<open>overrides.go\<close>) and the choice between containers that claim the
  same host name (\<open>conflicts.go\<close>).
\<close>

section \<open>Domains\<close>

record route_options =
  ro_Suffix :: string
  ro_RootServices :: "string list"

definition publicSuffixes :: "string list" where
  "publicSuffixes = [''.com'', ''.net'', ''.org'', ''.io'', ''.dev'', ''.co'']"

definition isPublicDomain :: "string \<Rightarrow> bool" where
  "isPublicDomain domain =
     (if list_ex (\<lambda>suffix. has_suffix (to_lower domain) suffix) publicSuffixes then True
      else
        (let parts = split_on CHR ''.'' domain in
         length parts > 1 \<and> length (last parts) = 2))"

definition domain_warning :: "string \<Rightarrow> string \<Rightarrow> string \<Rightarrow> string \<Rightarrow> string \<Rightarrow> warning" where
  "domain_warning code message field severity source =
     zero_warning\<lparr>warn_Code := code, warn_Message := message, warn_Field := field,
       warn_Severity := severity, warn_Source := source\<rparr>"

text \<open>One round of the loop over the extra domains.\<close>

definition add_extra_domain ::
  "string \<Rightarrow> string \<Rightarrow> string list \<times> warning list \<Rightarrow> string list \<times> warning list" where
  "add_extra_domain suffix extra = (\<lambda>(domains, warnings).
     if isPublicDomain extra
     then (domains, warnings @ [domain_warning ''public_suffix_rejected''
             ''extra explicit domain rejected because suffix appears public''
             ''domains'' ''error'' extra])
     else
       (let warnings =
          (if \<not> has_suffix extra (''.'' @ suffix)
           then warnings @ [domain_warning ''unmanaged_suffix''
                  ''explicit domain uses unmanaged suffix'' ''domains'' ''warning'' extra]
           else warnings)
        in (domains @ [extra], warnings)))"

definition GenerateDomains ::
  "string \<Rightarrow> string \<Rightarrow> route_preferences \<Rightarrow> route_options \<Rightarrow> string list \<times> warning list" where
  "GenerateDomains project service prefs opts =
     (let suffix = (if ro_Suffix opts = [] then ''test'' else ro_Suffix opts) in
      if pref_Domain prefs \<noteq> [] then
        (if isPublicDomain (pref_Domain prefs)
         then ([], [domain_warning ''public_suffix_rejected''
                 ''explicit domain rejected because suffix appears public'' ''domain'' ''error'' []])
         else
           ([pref_Domain prefs],
            if \<not> has_suffix (pref_Domain prefs) (''.'' @ suffix)
            then [domain_warning ''unmanaged_suffix'' ''explicit domain uses unmanaged suffix''
                    ''domain'' ''warning'' []]
            else []))
      else
        (let shouldRoot = (case pref_Root prefs of
               None \<Rightarrow> service \<in> set (ro_RootServices opts)
             | Some b \<Rightarrow> b);
             domains = (if shouldRoot then [project @ ''.'' @ suffix]
                        else [service @ ''.'' @ project @ ''.'' @ suffix])
         in fold (add_extra_domain suffix) (pref_Domains prefs) (domains, [])))"

section \<open>Overrides\<close>

definition MergeOverrides ::
  "route_preferences \<Rightarrow> route_preferences \<Rightarrow> route_preferences \<times> warning list" where
  "MergeOverrides config labels =
     (let merged = config;
          merged = (if pref_Enable labels \<noteq> None
                    then merged\<lparr>pref_Enable := pref_Enable labels\<rparr> else merged);
          merged = (if pref_Domain labels \<noteq> []
                    then merged\<lparr>pref_Domain := pref_Domain labels\<rparr> else merged);
          merged = (if length (pref_Domains labels) > 0
                    then merged\<lparr>pref_Domains := pref_Domains labels\<rparr> else merged);
          merged = (if pref_Root labels \<noteq> None
                    then merged\<lparr>pref_Root := pref_Root labels\<rparr> else merged);
          merged = (if pref_Port labels \<noteq> None
                    then merged\<lparr>pref_Port := pref_Port labels\<rparr> else merged);
          merged = (if pref_Scheme labels \<noteq> []
                    then merged\<lparr>pref_Scheme := pref_Scheme labels\<rparr> else merged);
          merged = (if pref_Priority labels \<noteq> None
                    then merged\<lparr>pref_Priority := pref_Priority labels\<rparr> else merged)
      in (merged, []))"

section \<open>Conflicts\<close>

text \<open>\<open>grouped[route.Hostname] = append(grouped[route.Hostname], route)\<close>.\<close>

definition add_claim :: "route \<Rightarrow> route list gomap \<Rightarrow> route list gomap" where
  "add_claim r grouped =
     gm_put (route_Hostname r)
       ((case gm_get grouped (route_Hostname r) of None \<Rightarrow> [] | Some rs \<Rightarrow> rs) @ [r]) grouped"

definition group_claims :: "route list \<Rightarrow> route list gomap" where
  "group_claims routes = fold add_claim routes []"

definition claim_before :: "route \<Rightarrow> route \<Rightarrow> bool" where
  "claim_before a b =
     (if route_Priority a \<noteq> route_Priority b then route_Priority a > route_Priority b
      else cand_ContainerName (route_Winner a) < cand_ContainerName (route_Winner b))"

text \<open>
  One round of the loop over the groups. \<open>claims[0]\<close> would panic on an empty claims; no claims
  is empty (\<open>group_claims_not_Nil\<close> below), so that branch is never taken.
\<close>

definition settle_group ::
  "string \<times> route list \<Rightarrow> route list \<times> conflict list \<Rightarrow> route list \<times> conflict list" where
  "settle_group = (\<lambda>(hostname, claims) (active, conflicts).
     case stable_sort claim_before claims of
       [] \<Rightarrow> (active, conflicts)
     | winner # rest \<Rightarrow>
         (active @ [winner],
          case rest of
            [] \<Rightarrow> conflicts
          | second # _ \<Rightarrow>
              conflicts @ [\<lparr>conf_Hostname = hostname, conf_Winner = route_Winner winner,
                conf_Losers = map route_Winner rest,
                conf_Reason = ''highest priority, then stable container-name tie-break'',
                conf_PriorityTie = (route_Priority winner = route_Priority second)\<rparr>]))"

definition ResolveConflicts ::
  "(string list \<Rightarrow> string list) \<Rightarrow> route list \<Rightarrow> route list \<times> conflict list" where
  "ResolveConflicts it routes = fold settle_group (range_map it (group_claims routes)) ([], [])"

section \<open>Who wins a host name\<close>

interpretation claim_order: weak_order claim_before
  by unfold_locales (auto simp: claim_before_def split: if_splits)

definition claims_for :: "string \<Rightarrow> route list \<Rightarrow> route list" where
  "claims_for h routes = filter (\<lambda>r. route_Hostname r = h) routes"

text \<open>The abstract contract: the claims of one host name, best first.\<close>

definition ranking :: "string \<Rightarrow> route list \<Rightarrow> route list" where
  "ranking h routes = stable_sort claim_before (claims_for h routes)"

lemma fold_add_claim:
  "gm_get (fold add_claim routes m) h =
     (if claims_for h routes = [] then gm_get m h
      else Some ((case gm_get m h of None \<Rightarrow> [] | Some rs \<Rightarrow> rs) @ claims_for h routes))"
  by (induction routes arbitrary: m) (auto simp: claims_for_def add_claim_def split: option.splits)

lemma group_claims_get:
  "gm_get (group_claims routes) h =
     (if claims_for h routes = [] then None else Some (claims_for h routes))"
  by (simp add: group_claims_def fold_add_claim)

lemma wf_group_claims: "wf_gomap (group_claims routes)"
  unfolding group_claims_def by (rule wf_gomap_fold) (simp_all add: add_claim_def)

lemma in_group_claims:
  "(h, rs) \<in> set (group_claims routes) \<longleftrightarrow> claims_for h routes \<noteq> [] \<and> rs = claims_for h routes"
proof -
  have "(h, rs) \<in> set (group_claims routes) \<longleftrightarrow> gm_get (group_claims routes) h = Some rs"
    using wf_group_claims by (simp add: wf_gomap_def)
  then show ?thesis by (auto simp: group_claims_get)
qed

lemma set_group_claims:
  "set (group_claims routes) = (\<lambda>h. (h, claims_for h routes)) ` {h. claims_for h routes \<noteq> []}"
  by (auto simp: in_group_claims)

lemma claims_for_not_Nil: "{h. claims_for h routes \<noteq> []} = route_Hostname ` set routes"
  by (auto simp: claims_for_def filter_empty_conv)

lemma group_claims_not_Nil: "(h, rs) \<in> set (group_claims routes) \<Longrightarrow> rs \<noteq> []"
  by (auto simp: in_group_claims)

text \<open>What one claims contributes.\<close>

definition group_active :: "route list \<Rightarrow> route list" where
  "group_active claims = take 1 (stable_sort claim_before claims)"

definition group_conflicts :: "string \<Rightarrow> route list \<Rightarrow> conflict list" where
  "group_conflicts hostname claims =
     (case stable_sort claim_before claims of
        winner # second # rest \<Rightarrow>
          [\<lparr>conf_Hostname = hostname, conf_Winner = route_Winner winner,
            conf_Losers = map route_Winner (second # rest),
            conf_Reason = ''highest priority, then stable container-name tie-break'',
            conf_PriorityTie = (route_Priority winner = route_Priority second)\<rparr>]
      | _ \<Rightarrow> [])"

lemma settle_group_eq:
  "settle_group (h, g) acc = (fst acc @ group_active g, snd acc @ group_conflicts h g)"
  by (cases acc)
    (auto simp: settle_group_def group_active_def group_conflicts_def split: list.splits)

lemma fold_settle_group:
  "fold settle_group gs acc =
     (fst acc @ concat (map (\<lambda>(h, g). group_active g) gs),
      snd acc @ concat (map (\<lambda>(h, g). group_conflicts h g) gs))"
  by (induction gs arbitrary: acc) (auto simp: settle_group_eq)

lemma ResolveConflicts_eq:
  "ResolveConflicts it routes =
     (concat (map (\<lambda>(h, g). group_active g) (range_map it (group_claims routes))),
      concat (map (\<lambda>(h, g). group_conflicts h g) (range_map it (group_claims routes))))"
  by (simp add: ResolveConflicts_def fold_settle_group)

lemma ranking_hosts: "r \<in> set (ranking h routes) \<longleftrightarrow> r \<in> set routes \<and> route_Hostname r = h"
  by (auto simp: ranking_def claims_for_def)

lemma ranking_Nil: "ranking h routes = [] \<longleftrightarrow> h \<notin> route_Hostname ` set routes"
  by (auto simp: ranking_def claims_for_def filter_empty_conv image_iff)

lemma group_active_claims:
  "group_active (claims_for h routes) = take 1 (ranking h routes)"
  by (simp add: group_active_def ranking_def)

lemma active_iff:
  assumes "rearranges it"
  shows "r \<in> set (fst (ResolveConflicts it routes)) \<longleftrightarrow>
    (\<exists>rest. ranking (route_Hostname r) routes = r # rest)"
proof -
  have "r \<in> set (fst (ResolveConflicts it routes)) \<longleftrightarrow>
      (\<exists>h. claims_for h routes \<noteq> [] \<and> r \<in> set (take 1 (ranking h routes)))"
    by (auto simp: ResolveConflicts_eq set_range_map [OF assms wf_group_claims] set_group_claims
        group_active_claims)
  also have "\<dots> \<longleftrightarrow> (\<exists>h rest. ranking h routes = r # rest)"
    by (metis One_nat_def empty_iff list.set(1) list.set_intros(1) neq_Nil_conv ranking_def
        set_ConsD stable_sort_eq_Nil take0 take_Suc_Cons)
  also have "\<dots> \<longleftrightarrow> (\<exists>rest. ranking (route_Hostname r) routes = r # rest)"
    by (metis list.set_intros(1) ranking_hosts)
  finally show ?thesis .
qed

lemma active_hostnames:
  assumes "rearranges it"
  shows "map route_Hostname (fst (ResolveConflicts it routes)) = it (gm_keys (group_claims routes))"
proof -
  have "map route_Hostname (group_active g) = [h]"
    if "(h, g) \<in> set (range_map it (group_claims routes))" for h g
  proof -
    from that have g: "g = claims_for h routes" "g \<noteq> []"
      by (auto simp: set_range_map [OF assms wf_group_claims] in_group_claims)
    then obtain w rest where "ranking h routes = w # rest"
      by (metis neq_Nil_conv ranking_def stable_sort_eq_Nil)
    moreover from this have "route_Hostname w = h"
      by (metis list.set_intros(1) ranking_hosts)
    ultimately show ?thesis using g by (simp add: group_active_claims)
  qed
  then have "map route_Hostname (fst (ResolveConflicts it routes)) =
      concat (map (\<lambda>(h, g). [h]) (range_map it (group_claims routes)))"
    by (auto simp: ResolveConflicts_eq map_concat comp_def intro!: arg_cong [where f = concat])
  also have "\<dots> = map fst (range_map it (group_claims routes))"
    by (induction "range_map it (group_claims routes)" rule: list.induct)
      (auto simp: case_prod_unfold concat_map_singleton)
  finally show ?thesis by (simp add: range_map_keys [OF assms])
qed

lemma set_group_keys: "set (gm_keys (group_claims routes)) = route_Hostname ` set routes"
  by (simp add: gm_keys_def set_group_claims image_image claims_for_not_Nil)

lemma active_hostnames_distinct:
  "rearranges it \<Longrightarrow> distinct (map route_Hostname (fst (ResolveConflicts it routes)))"
  using wf_group_claims by (simp add: active_hostnames rearranges_distinct gm_keys_def wf_gomap_def)

lemma active_hostnames_set:
  "rearranges it \<Longrightarrow>
   route_Hostname ` set (fst (ResolveConflicts it routes)) = route_Hostname ` set routes"
  by (metis active_hostnames list.set_map rearranges_set set_group_keys)

definition conflict_of :: "string \<Rightarrow> route \<Rightarrow> route \<Rightarrow> route list \<Rightarrow> conflict" where
  "conflict_of h w s rest =
     \<lparr>conf_Hostname = h, conf_Winner = route_Winner w, conf_Losers = map route_Winner (s # rest),
      conf_Reason = ''highest priority, then stable container-name tie-break'',
      conf_PriorityTie = (route_Priority w = route_Priority s)\<rparr>"

lemma in_group_conflicts:
  "c \<in> set (group_conflicts h claims) \<longleftrightarrow>
     (\<exists>w s rest. stable_sort claim_before claims = w # s # rest \<and> c = conflict_of h w s rest)"
proof (cases "stable_sort claim_before claims")
  case (Cons w t)
  then show ?thesis by (cases t) (auto simp: group_conflicts_def conflict_of_def)
qed (simp add: group_conflicts_def)

lemma conflict_iff:
  assumes "rearranges it"
  shows "c \<in> set (snd (ResolveConflicts it routes)) \<longleftrightarrow>
    (\<exists>h w s rest. ranking h routes = w # s # rest \<and> c = conflict_of h w s rest)"
proof -
  have "c \<in> set (snd (ResolveConflicts it routes)) \<longleftrightarrow>
      (\<exists>h. claims_for h routes \<noteq> [] \<and> c \<in> set (group_conflicts h (claims_for h routes)))"
    by (auto simp: ResolveConflicts_eq set_range_map [OF assms wf_group_claims] set_group_claims)
  also have "\<dots> \<longleftrightarrow> (\<exists>h. c \<in> set (group_conflicts h (claims_for h routes)))"
    by (metis in_group_conflicts list.distinct(1) stable_sort_Nil)
  finally show ?thesis by (simp add: in_group_conflicts ranking_def)
qed


section \<open>Which names a service gets\<close>

definition effective_suffix :: "route_options \<Rightarrow> string" where
  "effective_suffix opts = (if ro_Suffix opts = [] then ''test'' else ro_Suffix opts)"

text \<open>The name made from project and service.\<close>

definition generated_name :: "string \<Rightarrow> string \<Rightarrow> route_preferences \<Rightarrow> route_options \<Rightarrow> string" where
  "generated_name project service prefs opts =
     (if (case pref_Root prefs of None \<Rightarrow> service \<in> set (ro_RootServices opts) | Some b \<Rightarrow> b)
      then project @ ''.'' @ effective_suffix opts
      else service @ ''.'' @ project @ ''.'' @ effective_suffix opts)"

lemma add_extra_domain_fst:
  "fst (add_extra_domain suffix e s) = fst s @ (if isPublicDomain e then [] else [e])"
  by (cases s) (simp add: add_extra_domain_def Let_def)

lemma fst_fold_extra:
  "fst (fold (add_extra_domain suffix) es s) = fst s @ filter (\<lambda>e. \<not> isPublicDomain e) es"
  by (induction es arbitrary: s) (simp_all add: add_extra_domain_fst)

text \<open>The names of a service, as a list: explicit if there is one, generated otherwise.\<close>

lemma GenerateDomains_domains:
  "fst (GenerateDomains project service prefs opts) =
     (if pref_Domain prefs \<noteq> []
      then (if isPublicDomain (pref_Domain prefs) then [] else [pref_Domain prefs])
      else generated_name project service prefs opts #
             filter (\<lambda>e. \<not> isPublicDomain e) (pref_Domains prefs))"
  by (simp add: GenerateDomains_def Let_def fst_fold_extra generated_name_def effective_suffix_def)

definition extra_warnings :: "string \<Rightarrow> string \<Rightarrow> warning list" where
  "extra_warnings suffix e =
     (if isPublicDomain e
      then [domain_warning ''public_suffix_rejected''
             ''extra explicit domain rejected because suffix appears public''
             ''domains'' ''error'' e]
      else if \<not> has_suffix e (''.'' @ suffix)
      then [domain_warning ''unmanaged_suffix''
             ''explicit domain uses unmanaged suffix'' ''domains'' ''warning'' e]
      else [])"

lemma add_extra_domain_snd:
  "snd (add_extra_domain suffix e s) = snd s @ extra_warnings suffix e"
  by (cases s) (simp add: add_extra_domain_def extra_warnings_def Let_def)

lemma snd_fold_extra:
  "snd (fold (add_extra_domain suffix) es s) = snd s @ concat (map (extra_warnings suffix) es)"
  by (induction es arbitrary: s) (simp_all add: add_extra_domain_snd)

text \<open>Labels win over the configuration, field by field.\<close>

lemma MergeOverrides_fields:
  "pref_Enable (fst (MergeOverrides c l)) = (case pref_Enable l of None \<Rightarrow> pref_Enable c | s \<Rightarrow> s)"
  "pref_Domain (fst (MergeOverrides c l)) = (if pref_Domain l \<noteq> [] then pref_Domain l else pref_Domain c)"
  "pref_Domains (fst (MergeOverrides c l)) = (if pref_Domains l \<noteq> [] then pref_Domains l else pref_Domains c)"
  "pref_Root (fst (MergeOverrides c l)) = (case pref_Root l of None \<Rightarrow> pref_Root c | s \<Rightarrow> s)"
  "pref_Port (fst (MergeOverrides c l)) = (case pref_Port l of None \<Rightarrow> pref_Port c | s \<Rightarrow> s)"
  "pref_Scheme (fst (MergeOverrides c l)) = (if pref_Scheme l \<noteq> [] then pref_Scheme l else pref_Scheme c)"
  "pref_Priority (fst (MergeOverrides c l)) =
     (case pref_Priority l of None \<Rightarrow> pref_Priority c | s \<Rightarrow> s)"
  "snd (MergeOverrides c l) = []"
  by (simp_all add: MergeOverrides_def Let_def split: option.splits)

end
