(* ===== verification/Reconciler.thy ===== *)
theory Reconciler
  imports Discovery Routing "HOL-Library.Word"
begin

text \<open>
  \<open>internal/registry/snapshot.go\<close> and \<open>internal/daemon/reconciler.go\<close>: from the containers
  Docker reports to the snapshot of active routes. Each operation takes the state and returns
  the new one; the clock is an argument (\<open>now\<close>), and \<open>it\<close> is the order in which this call
  ranges over a Go map.
\<close>

section \<open>The snapshot builder\<close>

record builder =
  bld_seq :: "64 word"

definition NewBuilder :: builder where
  "NewBuilder = \<lparr>bld_seq = 0\<rparr>"

definition Build ::
  "go_time \<Rightarrow> route list \<Rightarrow> conflict list \<Rightarrow> warning list \<Rightarrow> builder \<Rightarrow> snapshot \<times> builder" where
  "Build now routes conflicts warnings b =
     (let seq = bld_seq b + 1;
          byHost = fold (\<lambda>route m. gm_put (route_Hostname route) route m) routes []
      in (\<lparr>snap_Version = ''snapshot-'' @ digits_of (unat seq), snap_CreatedAt = now,
           snap_Routes = byHost, snap_Warnings = warnings, snap_Conflicts = conflicts\<rparr>,
          b\<lparr>bld_seq := seq\<rparr>))"

section \<open>The reconciler\<close>

record container_state =
  cs_ID :: string
  cs_Name :: string
  cs_Running :: bool
  cs_Labels :: "string \<rightharpoonup> string"
  cs_Ports :: "published_port list"

record reconciler_options =
  opt_Suffix :: string
  opt_RootServices :: "string list"
  opt_IgnoredServices :: "string list"
  opt_IgnoredPorts :: "int list"
  opt_Overrides :: "string \<rightharpoonup> project_config"

record reconciler =
  rec_builder :: builder
  rec_opts :: reconciler_options
  rec_snapshot :: snapshot
  rec_lastSync :: go_time
  rec_routingPaused :: bool

definition NewReconciler :: "reconciler_options \<Rightarrow> reconciler" where
  "NewReconciler opts = \<lparr>rec_builder = NewBuilder, rec_opts = opts, rec_snapshot = zero_snapshot,
     rec_lastSync = ZeroTime, rec_routingPaused = False\<rparr>"

definition servicePreferences ::
  "reconciler_options \<Rightarrow> string \<Rightarrow> string \<Rightarrow> route_preferences" where
  "servicePreferences opts project service =
     (case opt_Overrides opts project of
        None \<Rightarrow> zero_preferences
      | Some projectConfig \<Rightarrow>
          (case pc_Services projectConfig service of
             None \<Rightarrow> zero_preferences
           | Some ov \<Rightarrow>
               (let prefs = \<lparr>pref_Enable = so_Enable ov, pref_Domain = so_Domain ov,
                      pref_Domains = [], pref_Root = so_Root ov, pref_Port = so_Port ov,
                      pref_Scheme = so_Scheme ov, pref_Priority = so_Priority ov\<rparr>
                in if length (so_Domains ov) > 0
                   then prefs\<lparr>pref_Domains := so_Domains ov\<rparr> else prefs)))"

definition routePreferencesFromLabels :: "label_options \<Rightarrow> route_preferences" where
  "routePreferencesFromLabels opts =
     (let prefs = zero_preferences\<lparr>pref_Enable := lo_EnabledLabel opts,
            pref_Root := lo_LabelRoot opts, pref_Port := lo_LabelPort opts,
            pref_Priority := lo_LabelPriority opts\<rparr>;
          prefs = (case lo_LabelDomain opts of None \<Rightarrow> prefs | Some d \<Rightarrow> prefs\<lparr>pref_Domain := d\<rparr>);
          prefs = (if length (lo_LabelDomains opts) > 0
                   then prefs\<lparr>pref_Domains := lo_LabelDomains opts\<rparr> else prefs)
      in (case lo_LabelScheme opts of None \<Rightarrow> prefs | Some s \<Rightarrow> prefs\<lparr>pref_Scheme := s\<rparr>))"

definition the_container :: "container_state \<Rightarrow> container" where
  "the_container c = \<lparr>ctr_ID = cs_ID c, ctr_Name = cs_Name c, ctr_Labels = cs_Labels c\<rparr>"

text \<open>One round of the loop of \<open>RebuildSnapshot\<close> over the containers.\<close>

definition rebuild_step ::
  "reconciler_options \<Rightarrow> container_state \<Rightarrow> route list \<times> warning list \<Rightarrow> route list \<times> warning list" where
  "rebuild_step opts c = (\<lambda>(routes, warnings).
     let candidate = BuildCandidateBase (the_container c);
         (routeOpts, warnings) = ApplyLabelFields zero_label_options (the_container c) warnings;
         configPrefs = servicePreferences opts (cand_Project candidate) (cand_Service candidate);
         labelPrefs = routePreferencesFromLabels routeOpts;
         (effectivePrefs, overrideWarnings) = MergeOverrides configPrefs labelPrefs;
         warnings = warnings @ overrideWarnings;
         configPort = (case pref_Port effectivePrefs of None \<Rightarrow> 0 | Some p \<Rightarrow> p)
     in case SelectPublishedPort (cs_Ports c) routeOpts configPort of
          None \<Rightarrow> (routes, warnings)
        | Some (selected, source) \<Rightarrow>
            if \<not> IsEligible
                 \<lparr>ci_Service = cand_Service candidate, ci_Running = cs_Running c,
                  ci_EnabledLabel = None, ci_DisabledLabel = None,
                  ci_PublishedTCPPorts = [pp_HostPort selected]\<rparr>
                 \<lparr>ec_IgnoredServices = opt_IgnoredServices opts,
                  ec_IgnoredPorts = opt_IgnoredPorts opts\<rparr>
            then (routes, warnings)
            else
              (let (domains, domainWarnings) =
                     GenerateDomains (cand_Project candidate) (cand_Service candidate) effectivePrefs
                       \<lparr>ro_Suffix = opt_Suffix opts, ro_RootServices = opt_RootServices opts\<rparr>;
                   warnings = warnings @ domainWarnings;
                   scheme = (if pref_Scheme effectivePrefs \<noteq> [] then pref_Scheme effectivePrefs
                             else ''http'');
                   priority = (case pref_Priority effectivePrefs of None \<Rightarrow> 0 | Some n \<Rightarrow> n)
               in (routes @ map (\<lambda>domain.
                     \<lparr>route_Hostname = domain, route_Domains = domains,
                      route_ServedHostnames = domains,
                      route_Upstream = \<lparr>up_Host = ''127.0.0.1'', up_Port = pp_HostPort selected,
                        up_Scheme = scheme\<rparr>,
                      route_Winner = candidate, route_Losers = [], route_Priority = priority,
                      route_HTTPSRedirect = False, route_HTTPSOnly = False,
                      route_Provenance = zero_provenance\<lparr>prov_PortSource := source\<rparr>\<rparr>) domains,
                   warnings)))"

definition RebuildSnapshot ::
  "(string list \<Rightarrow> string list) \<Rightarrow> go_time \<Rightarrow> container_state list \<Rightarrow> reconciler
     \<Rightarrow> go_error option \<times> reconciler" where
  "RebuildSnapshot it now containers r =
     (let (routes, warnings) = fold (rebuild_step (rec_opts r)) containers ([], []);
          (active, conflicts) = ResolveConflicts it routes;
          (snap, b) = Build now active conflicts warnings (rec_builder r)
      in (None, r\<lparr>rec_builder := b, rec_snapshot := snap, rec_lastSync := snap_CreatedAt snap\<rparr>))"

definition SetRoutingPaused :: "bool \<Rightarrow> reconciler \<Rightarrow> reconciler" where
  "SetRoutingPaused paused r = r\<lparr>rec_routingPaused := paused\<rparr>"

definition IsRoutingPaused :: "reconciler \<Rightarrow> bool" where
  "IsRoutingPaused r = rec_routingPaused r"

definition Snapshot :: "reconciler \<Rightarrow> snapshot" where
  "Snapshot r = rec_snapshot r"

definition LastSync :: "reconciler \<Rightarrow> go_time" where
  "LastSync r = rec_lastSync r"

definition rebuild_events :: "string list" where
  "rebuild_events = [''start'', ''stop'', ''die'', ''destroy'', ''rename'', ''update'']"

definition HandleEvent ::
  "(string list \<Rightarrow> string list) \<Rightarrow> go_time \<Rightarrow> string \<Rightarrow> container_state list \<Rightarrow> reconciler
     \<Rightarrow> go_error option \<times> reconciler" where
  "HandleEvent it now event containers r =
     (if event \<in> set rebuild_events then RebuildSnapshot it now containers r
      else (Some (''unsupported event '' @ go_quote event), r))"

section \<open>What one container claims\<close>

text \<open>
  The claims and the warnings of one container do not depend on the others; the loop collects
  them. \<open>claims_of\<close> and \<open>warnings_of\<close> are the abstract description the loop implements.
\<close>

definition container_options :: "container_state \<Rightarrow> label_options" where
  "container_options c = fst (ApplyLabelFields zero_label_options (the_container c) [])"

definition container_candidate :: "container_state \<Rightarrow> candidate" where
  "container_candidate c = BuildCandidateBase (the_container c)"

definition container_prefs :: "reconciler_options \<Rightarrow> container_state \<Rightarrow> route_preferences" where
  "container_prefs opts c =
     fst (MergeOverrides
       (servicePreferences opts (cand_Project (container_candidate c))
          (cand_Service (container_candidate c)))
       (routePreferencesFromLabels (container_options c)))"

definition container_port ::
  "reconciler_options \<Rightarrow> container_state \<Rightarrow> (published_port \<times> string) option" where
  "container_port opts c =
     SelectPublishedPort (cs_Ports c) (container_options c)
       (case pref_Port (container_prefs opts c) of None \<Rightarrow> 0 | Some p \<Rightarrow> p)"

text \<open>The port a container is routed to, if it is routed at all.\<close>

definition routed_port ::
  "reconciler_options \<Rightarrow> container_state \<Rightarrow> (published_port \<times> string) option" where
  "routed_port opts c =
     (case container_port opts c of
        None \<Rightarrow> None
      | Some (p, src) \<Rightarrow>
          if cs_Running c \<and> cand_Service (container_candidate c) \<notin> set (opt_IgnoredServices opts) \<and>
             pp_HostPort p \<notin> set (opt_IgnoredPorts opts)
          then Some (p, src) else None)"

definition container_domains :: "reconciler_options \<Rightarrow> container_state \<Rightarrow> string list" where
  "container_domains opts c =
     fst (GenerateDomains (cand_Project (container_candidate c))
       (cand_Service (container_candidate c)) (container_prefs opts c)
       \<lparr>ro_Suffix = opt_Suffix opts, ro_RootServices = opt_RootServices opts\<rparr>)"

definition claim_of ::
  "reconciler_options \<Rightarrow> container_state \<Rightarrow> published_port \<Rightarrow> string \<Rightarrow> string \<Rightarrow> route" where
  "claim_of opts c p src domain =
     \<lparr>route_Hostname = domain, route_Domains = container_domains opts c,
      route_ServedHostnames = container_domains opts c,
      route_Upstream = \<lparr>up_Host = ''127.0.0.1'', up_Port = pp_HostPort p,
        up_Scheme = (if pref_Scheme (container_prefs opts c) \<noteq> []
                     then pref_Scheme (container_prefs opts c) else ''http'')\<rparr>,
      route_Winner = container_candidate c, route_Losers = [],
      route_Priority = (case pref_Priority (container_prefs opts c) of None \<Rightarrow> 0 | Some n \<Rightarrow> n),
      route_HTTPSRedirect = False, route_HTTPSOnly = False,
      route_Provenance = zero_provenance\<lparr>prov_PortSource := src\<rparr>\<rparr>"

definition claims_of :: "reconciler_options \<Rightarrow> container_state \<Rightarrow> route list" where
  "claims_of opts c =
     (case routed_port opts c of
        None \<Rightarrow> []
      | Some (p, src) \<Rightarrow> map (claim_of opts c p src) (container_domains opts c))"

definition warnings_of :: "reconciler_options \<Rightarrow> container_state \<Rightarrow> warning list" where
  "warnings_of opts c =
     map (\<lambda>(field, v). badLabelWarning (the_container c) field v) (malformed_labels (the_container c)) @
     (if routed_port opts c = None then []
      else snd (GenerateDomains (cand_Project (container_candidate c))
             (cand_Service (container_candidate c)) (container_prefs opts c)
             \<lparr>ro_Suffix = opt_Suffix opts, ro_RootServices = opt_RootServices opts\<rparr>))"

lemma IsEligible_no_labels:
  "IsEligible \<lparr>ci_Service = s, ci_Running = run, ci_EnabledLabel = None, ci_DisabledLabel = None,
      ci_PublishedTCPPorts = [p]\<rparr> \<lparr>ec_IgnoredServices = is, ec_IgnoredPorts = ip\<rparr> \<longleftrightarrow>
   run \<and> s \<notin> set is \<and> p \<notin> set ip"
  by (simp add: IsEligible_def)

lemma rebuild_step_eq:
  "rebuild_step opts c acc = (fst acc @ claims_of opts c, snd acc @ warnings_of opts c)"
proof -
  obtain routes ws where acc: "acc = (routes, ws)" by (cases acc)
  let ?bad = "map (\<lambda>(field, v). badLabelWarning (the_container c) field v)
      (malformed_labels (the_container c))"
  let ?cand = "container_candidate c" and ?prefs = "container_prefs opts c"
  have labels: "ApplyLabelFields zero_label_options (the_container c) ws =
      (container_options c, ws @ ?bad)"
    by (simp only: prod_eq_iff fst_conv snd_conv label_warnings container_options_def
        label_options_only [of _ _ ws])
  have merge: "MergeOverrides (servicePreferences opts (cand_Project ?cand) (cand_Service ?cand))
      (routePreferencesFromLabels (container_options c)) = (?prefs, [])"
    by (simp only: prod_eq_iff fst_conv snd_conv MergeOverrides_fields(8) container_prefs_def)
  have port: "SelectPublishedPort (cs_Ports c) (container_options c)
      (case pref_Port ?prefs of None \<Rightarrow> 0 | Some p \<Rightarrow> p) = container_port opts c"
    by (simp only: container_port_def)
  have "rebuild_step opts c (routes, ws) = (routes @ claims_of opts c, ws @ warnings_of opts c)"
    unfolding rebuild_step_def container_candidate_def [symmetric]
    by (simp only: prod.case Let_def labels merge port IsEligible_no_labels)
      (auto simp: claims_of_def warnings_of_def routed_port_def claim_of_def container_domains_def
        case_prod_unfold split: option.splits)
  then show ?thesis by (simp add: acc)
qed

definition all_claims :: "reconciler_options \<Rightarrow> container_state list \<Rightarrow> route list" where
  "all_claims opts cs = concat (map (claims_of opts) cs)"

lemma fold_rebuild_step:
  "fold (rebuild_step opts) cs acc =
     (fst acc @ all_claims opts cs, snd acc @ concat (map (warnings_of opts) cs))"
  by (induction cs arbitrary: acc) (simp_all add: rebuild_step_eq all_claims_def)

lemma RebuildSnapshot_eq:
  "RebuildSnapshot it now cs r =
     (let rc = ResolveConflicts it (all_claims (rec_opts r) cs);
          sb = Build now (fst rc) (snd rc) (concat (map (warnings_of (rec_opts r)) cs)) (rec_builder r)
      in (None, r\<lparr>rec_builder := snd sb, rec_snapshot := fst sb, rec_lastSync := now\<rparr>))"
  by (simp add: RebuildSnapshot_def fold_rebuild_step case_prod_unfold Let_def Build_def)


section \<open>What a snapshot holds\<close>

text \<open>The abstract snapshot: the best claim of each claimed name, and who lost against it.\<close>

definition best_claim :: "string \<Rightarrow> route list \<Rightarrow> route option" where
  "best_claim h claims = (case ranking h claims of [] \<Rightarrow> None | w # _ \<Rightarrow> Some w)"

definition contested :: "string \<Rightarrow> route list \<Rightarrow> conflict option" where
  "contested h claims =
     (case ranking h claims of w # s # rest \<Rightarrow> Some (conflict_of h w s rest) | _ \<Rightarrow> None)"

definition agrees_with :: "reconciler_options \<Rightarrow> container_state list \<Rightarrow> snapshot \<Rightarrow> bool" where
  "agrees_with opts cs snap \<longleftrightarrow>
     wf_gomap (snap_Routes snap) \<and>
     (\<forall>h. gm_get (snap_Routes snap) h = best_claim h (all_claims opts cs)) \<and>
     set (snap_Conflicts snap) = {c. \<exists>h. contested h (all_claims opts cs) = Some c} \<and>
     snap_Warnings snap = concat (map (warnings_of opts) cs)"

lemma conflict_of_hostname [simp]: "conf_Hostname (conflict_of h w s rest) = h"
  by (simp add: conflict_of_def)

lemma contested_iff:
  "contested h claims = Some c \<longleftrightarrow>
     (\<exists>w s rest. ranking h claims = w # s # rest \<and> c = conflict_of h w s rest)"
  by (auto simp: contested_def split: list.splits)

lemma best_claim_iff:
  "best_claim h claims = Some w \<longleftrightarrow> (\<exists>rest. ranking h claims = w # rest)"
  by (auto simp: best_claim_def split: list.splits)

lemma wf_Build: "wf_gomap (snap_Routes (fst (Build now rs cf ws b)))"
  by (simp add: Build_def Let_def wf_gomap_fold)

lemma rebuilt_snapshot_agrees:
  assumes "rearranges it"
  shows "agrees_with (rec_opts r) cs (rec_snapshot (snd (RebuildSnapshot it now cs r)))"
proof -
  let ?claims = "all_claims (rec_opts r) cs"
  let ?rc = "ResolveConflicts it ?claims"
  let ?snap = "rec_snapshot (snd (RebuildSnapshot it now cs r))"
  have routes: "snap_Routes ?snap = fold (\<lambda>r m. gm_put (route_Hostname r) r m) (fst ?rc) []"
    by (simp add: RebuildSnapshot_eq Build_def Let_def)
  have "gm_get (snap_Routes ?snap) h = Some w \<longleftrightarrow> best_claim h ?claims = Some w" for h w
    unfolding routes
    using gm_get_fold_put_distinct [OF active_hostnames_distinct [OF assms]]
    by (auto simp: active_iff [OF assms] best_claim_iff)
      (metis list.set_intros(1) ranking_hosts)+
  then have "\<forall>h. gm_get (snap_Routes ?snap) h = best_claim h ?claims"
    by (metis not_None_eq)
  moreover have "c \<in> set (snap_Conflicts ?snap) \<longleftrightarrow> (\<exists>h. contested h ?claims = Some c)" for c
    by (simp add: RebuildSnapshot_eq Build_def Let_def conflict_iff [OF assms] contested_iff)
  then have "set (snap_Conflicts ?snap) = {c. \<exists>h. contested h ?claims = Some c}"
    by blast
  moreover have "wf_gomap (snap_Routes ?snap)"
    by (simp add: RebuildSnapshot_eq Let_def wf_Build)
  moreover have "snap_Warnings ?snap = concat (map (warnings_of (rec_opts r)) cs)"
    by (simp add: RebuildSnapshot_eq Build_def Let_def)
  ultimately show ?thesis by (simp add: agrees_with_def)
qed

lemma all_claims_Nil [simp]: "all_claims opts [] = []"
  by (simp add: all_claims_def)

lemma ranking_no_claims [simp]: "ranking h [] = []"
  by (simp add: ranking_def claims_for_def)

lemma zero_snapshot_agrees: "agrees_with opts [] zero_snapshot"
  by (auto simp: agrees_with_def zero_snapshot_def best_claim_def contested_def)

section \<open>The reconciler as a state machine\<close>

text \<open>
  \<open>reaches opts cs r\<close>: a reconciler created with \<open>opts\<close> can get to state \<open>r\<close> by any
  sequence of its operations, and \<open>cs\<close> is the list of containers of the last synchronisation.
\<close>

inductive reaches :: "reconciler_options \<Rightarrow> container_state list \<Rightarrow> reconciler \<Rightarrow> bool"
  for opts where
  new: "reaches opts [] (NewReconciler opts)"
| rebuild: "reaches opts cs r \<Longrightarrow> rearranges it \<Longrightarrow>
     reaches opts cs' (snd (RebuildSnapshot it now cs' r))"
| event: "reaches opts cs r \<Longrightarrow> rearranges it \<Longrightarrow> ev \<in> set rebuild_events \<Longrightarrow>
     reaches opts cs' (snd (HandleEvent it now ev cs' r))"
| ignored_event: "reaches opts cs r \<Longrightarrow> ev \<notin> set rebuild_events \<Longrightarrow>
     reaches opts cs (snd (HandleEvent it now ev cs' r))"
| pause: "reaches opts cs r \<Longrightarrow> reaches opts cs (SetRoutingPaused b r)"

lemma RebuildSnapshot_opts [simp]:
  "rec_opts (snd (RebuildSnapshot it now cs r)) = rec_opts r"
  "rec_routingPaused (snd (RebuildSnapshot it now cs r)) = rec_routingPaused r"
  "rec_lastSync (snd (RebuildSnapshot it now cs r)) = now"
  "fst (RebuildSnapshot it now cs r) = None"
  by (simp_all add: RebuildSnapshot_eq Let_def)

lemma SetRoutingPaused_frame [simp]:
  "rec_opts (SetRoutingPaused b r) = rec_opts r"
  "rec_snapshot (SetRoutingPaused b r) = rec_snapshot r"
  "rec_lastSync (SetRoutingPaused b r) = rec_lastSync r"
  "rec_builder (SetRoutingPaused b r) = rec_builder r"
  "IsRoutingPaused (SetRoutingPaused b r) = b"
  by (simp_all add: SetRoutingPaused_def IsRoutingPaused_def)

lemma reaches_inv:
  "reaches opts cs r \<Longrightarrow> rec_opts r = opts \<and> agrees_with opts cs (rec_snapshot r)"
proof (induction rule: reaches.induct)
  case new
  then show ?case by (simp add: NewReconciler_def zero_snapshot_agrees)
next
  case (rebuild cs r it cs' now)
  then show ?case using rebuilt_snapshot_agrees by force
next
  case (event cs r it ev cs' now)
  then show ?case using rebuilt_snapshot_agrees by (force simp: HandleEvent_def)
qed (simp_all add: HandleEvent_def)

lemmas reaches_agrees = reaches_inv [THEN conjunct2]

lemma best_claim_Some:
  assumes "best_claim h claims = Some w"
  shows "w \<in> set claims" and "route_Hostname w = h"
    and "\<forall>w' \<in> set claims. route_Hostname w' = h \<longrightarrow> \<not> claim_before w' w"
proof -
  obtain rest where rk: "ranking h claims = w # rest" using assms by (auto simp: best_claim_iff)
  then have "w \<in> set (ranking h claims)" by simp
  then show "w \<in> set claims" and "route_Hostname w = h" by (simp_all add: ranking_hosts)
  show "\<forall>w' \<in> set claims. route_Hostname w' = h \<longrightarrow> \<not> claim_before w' w"
    using claim_order.head_least [of "claims_for h claims" w rest] rk
    by (auto simp: ranking_def claims_for_def)
qed

lemma best_claim_None:
  "best_claim h claims = None \<longleftrightarrow> h \<notin> route_Hostname ` set claims"
  by (simp add: best_claim_def ranking_Nil split: list.splits)
    (metis list.distinct(1) ranking_Nil)

lemma claim_route:
  assumes "w \<in> set (all_claims opts cs)"
  obtains c p src where "c \<in> set cs" and "routed_port opts c = Some (p, src)"
    and "w = claim_of opts c p src (route_Hostname w)"
    and "route_Hostname w \<in> set (container_domains opts c)"
proof -
  from assms obtain c where "c \<in> set cs" and w: "w \<in> set (claims_of opts c)"
    by (auto simp: all_claims_def)
  moreover from w obtain p src h where "routed_port opts c = Some (p, src)"
      "h \<in> set (container_domains opts c)" "w = claim_of opts c p src h"
    by (cases "routed_port opts c") (auto simp: claims_of_def)
  moreover from this have "route_Hostname w = h" by (simp add: claim_of_def)
  ultimately show ?thesis using that [of c p src] by simp
qed

lemma routed_port_Some:
  assumes "routed_port opts c = Some (p, src)"
  shows "cs_Running c" and "p \<in> set (cs_Ports c)" and "pp_Protocol p = ''tcp''"
    and "cand_Service (container_candidate c) \<notin> set (opt_IgnoredServices opts)"
    and "pp_HostPort p \<notin> set (opt_IgnoredPorts opts)"
  using assms
  by (auto simp: routed_port_def container_port_def split: option.splits if_splits
      dest: selected_port_published)


lemma claims_of_hostnames:
  "route_Hostname ` set (claims_of opts c) =
     (if routed_port opts c = None then {} else set (container_domains opts c))"
  by (cases "routed_port opts c") (auto simp: claims_of_def claim_of_def image_image)

section \<open>Two containers for the witnesses\<close>

definition plain_options :: reconciler_options where
  "plain_options = \<lparr>opt_Suffix = ''test'', opt_RootServices = [''app'', ''web''],
     opt_IgnoredServices = [''mysql''], opt_IgnoredPorts = [3306], opt_Overrides = Map.empty\<rparr>"

definition api_container :: container_state where
  "api_container = \<lparr>cs_ID = ''c1'', cs_Name = ''/acme-api-1'', cs_Running = True,
     cs_Labels = [''com.docker.compose.project'' \<mapsto> ''acme'',
       ''com.docker.compose.service'' \<mapsto> ''api''],
     cs_Ports = [\<lparr>pp_HostIP = ''0.0.0.0'', pp_HostPort = 8080, pp_Protocol = ''tcp''\<rparr>]\<rparr>"

definition rival_container :: container_state where
  "rival_container = \<lparr>cs_ID = ''c2'', cs_Name = ''/acme-rival-1'', cs_Running = True,
     cs_Labels = [''com.docker.compose.project'' \<mapsto> ''acme'',
       ''com.docker.compose.service'' \<mapsto> ''rival'', ''devproxy.domain'' \<mapsto> ''api.acme.test'',
       ''devproxy.priority'' \<mapsto> ''5''],
     cs_Ports = [\<lparr>pp_HostIP = ''0.0.0.0'', pp_HostPort = 9000, pp_Protocol = ''tcp''\<rparr>]\<rparr>"

definition synced :: "container_state list \<Rightarrow> reconciler" where
  "synced cs = snd (RebuildSnapshot (\<lambda>ks. ks) (At 1) cs (NewReconciler plain_options))"

lemma reaches_synced: "reaches plain_options cs (synced cs)"
  unfolding synced_def by (rule reaches.rebuild [OF reaches.new rearranges_id])

text \<open>The invariant of the routing data: what every route and every conflict of a snapshot satisfies.\<close>

definition wf_route :: "string \<Rightarrow> route \<Rightarrow> bool" where
  "wf_route h r \<longleftrightarrow> route_Hostname r = h \<and> h \<in> set (route_Domains r) \<and>
     route_ServedHostnames r = route_Domains r \<and> up_Host (route_Upstream r) = ''127.0.0.1'' \<and>
     up_Scheme (route_Upstream r) \<noteq> [] \<and> route_Losers r = []"

definition wf_conflict :: "(string \<times> route) list \<Rightarrow> conflict \<Rightarrow> bool" where
  "wf_conflict routes c \<longleftrightarrow> conf_Losers c \<noteq> [] \<and>
     map_option route_Winner (gm_get routes (conf_Hostname c)) = Some (conf_Winner c)"

definition wf_snapshot :: "snapshot \<Rightarrow> bool" where
  "wf_snapshot snap \<longleftrightarrow> wf_gomap (snap_Routes snap) \<and>
     (\<forall>(h, r) \<in> set (snap_Routes snap). wf_route h r) \<and>
     (\<forall>c \<in> set (snap_Conflicts snap). wf_conflict (snap_Routes snap) c)"

lemma wf_claim: "h \<in> set (container_domains opts c) \<Longrightarrow> wf_route h (claim_of opts c p src h)"
  by (simp add: wf_route_def claim_of_def)

lemma agrees_wf:
  assumes "agrees_with opts cs snap"
  shows "wf_snapshot snap"
  unfolding wf_snapshot_def
proof (intro conjI ballI; (clarify)?)
  show wf: "wf_gomap (snap_Routes snap)" using assms by (simp add: agrees_with_def)
  have get: "gm_get (snap_Routes snap) h = best_claim h (all_claims opts cs)" for h
    using assms by (simp add: agrees_with_def)
  show "wf_route h r" if "(h, r) \<in> set (snap_Routes snap)" for h r
  proof -
    have "best_claim h (all_claims opts cs) = Some r" using that wf get by (metis wf_gomap_def map_of_is_SomeI)
    from best_claim_Some(1,2) [OF this] show ?thesis by (metis claim_route wf_claim)
  qed
  show "wf_conflict (snap_Routes snap) c" if "c \<in> set (snap_Conflicts snap)" for c
    using that assms get
    by (auto simp: agrees_with_def contested_iff wf_conflict_def conflict_of_def best_claim_def)
qed

section \<open>Properties\<close>

text \<open>C2. In every state the reconciler can reach, the route stored under a host name has that
  host name, is a claim of one of the containers last synchronised, and no claim of those
  containers on the same name has a higher priority, or the same priority and a smaller
  container name.\<close>

theorem active_route_is_best_claim:
  assumes "reaches opts cs r"
    and "gm_get (snap_Routes (Snapshot r)) h = Some w"
  shows "route_Hostname w = h \<and> w \<in> set (all_claims opts cs) \<and>
    (\<forall>w' \<in> set (all_claims opts cs). route_Hostname w' = h \<longrightarrow>
       route_Priority w' < route_Priority w \<or>
       route_Priority w' = route_Priority w \<and>
         cand_ContainerName (route_Winner w) \<le> cand_ContainerName (route_Winner w'))"
proof -
  have "best_claim h (all_claims opts cs) = Some w"
    using reaches_agrees [OF assms(1)] assms(2) by (simp add: agrees_with_def Snapshot_def)
  from best_claim_Some [OF this] show ?thesis
    by (fastforce simp: claim_before_def not_less split: if_splits)
qed

lemma rival_wins:
  "map_option (\<lambda>w. (cand_ContainerName (route_Winner w), route_Priority w))
     (gm_get (snap_Routes (Snapshot (synced [api_container, rival_container]))) ''api.acme.test'') =
   Some (''acme-rival-1'', 5)"
  by code_simp

theorem active_route_is_best_claim_witness:
  "\<exists>w. gm_get (snap_Routes (Snapshot (synced [api_container, rival_container]))) ''api.acme.test'' =
       Some w \<and> route_Priority w = 5 \<and>
     (\<forall>w' \<in> set (all_claims plain_options [api_container, rival_container]).
        route_Hostname w' = ''api.acme.test'' \<longrightarrow> route_Priority w' \<le> 5)"
proof -
  obtain w where w: "gm_get (snap_Routes (Snapshot (synced [api_container, rival_container])))
      ''api.acme.test'' = Some w" "route_Priority w = 5"
    using rival_wins by auto
  from active_route_is_best_claim [OF reaches_synced w(1)] w show ?thesis by auto
qed

lemma routed_names:
  assumes "reaches opts cs r"
  shows "fst ` set (snap_Routes (Snapshot r)) =
    {h. \<exists>c \<in> set cs. routed_port opts c \<noteq> None \<and> h \<in> set (container_domains opts c)}"
proof -
  have agrees: "agrees_with opts cs (rec_snapshot r)" using assms by (rule reaches_agrees)
  have "fst ` set (snap_Routes (Snapshot r)) = dom (gm_get (snap_Routes (Snapshot r)))"
    by (simp add: dom_map_of_conv_image_fst)
  also have "\<dots> = {h. best_claim h (all_claims opts cs) \<noteq> None}"
    using agrees by (auto simp: agrees_with_def Snapshot_def)
  also have "\<dots> = route_Hostname ` set (all_claims opts cs)"
    by (auto simp: best_claim_None)
  also have "\<dots> = {h. \<exists>c \<in> set cs. routed_port opts c \<noteq> None \<and> h \<in> set (container_domains opts c)}"
    by (auto simp: all_claims_def image_UN claims_of_hostnames split: if_splits)
  finally show ?thesis .
qed

text \<open>C3. The names with a route are exactly the names that some routable container of the last
  synchronisation claims: a name is dropped only when no container claims it any more.\<close>

theorem routed_names_are_the_claimed_names:
  assumes "reaches opts cs r"
  shows "fst ` set (snap_Routes (Snapshot r)) =
    {h. \<exists>c \<in> set cs. routed_port opts c \<noteq> None \<and> h \<in> set (container_domains opts c)}"
  using assms by (rule routed_names)

theorem routed_names_are_the_claimed_names_witness:
  "fst ` set (snap_Routes (Snapshot (synced [api_container]))) =
    {h. \<exists>c \<in> set [api_container]. routed_port plain_options c \<noteq> None \<and>
        h \<in> set (container_domains plain_options c)} \<and>
   ''api.acme.test'' \<in> fst ` set (snap_Routes (Snapshot (synced [api_container])))"
proof -
  have "''api.acme.test'' \<in> set (map fst (snap_Routes (Snapshot (synced [api_container]))))"
    by code_simp
  with routed_names_are_the_claimed_names [OF reaches_synced] show ?thesis by simp
qed

text \<open>C4. Every route of a reachable snapshot leads to 127.0.0.1 at a TCP port that a running
  container of the last synchronisation publishes, and neither its port nor its service is on
  an ignore list; the scheme is the one the labels or the configuration ask for, or http.\<close>

theorem route_leads_to_published_port:
  assumes "reaches opts cs r"
    and "gm_get (snap_Routes (Snapshot r)) h = Some w"
  shows "\<exists>c \<in> set cs. \<exists>p \<in> set (cs_Ports c).
    cs_Running c \<and> pp_Protocol p = ''tcp'' \<and> route_Winner w = container_candidate c \<and>
    up_Host (route_Upstream w) = ''127.0.0.1'' \<and> up_Port (route_Upstream w) = pp_HostPort p \<and>
    up_Scheme (route_Upstream w) =
      (let s = pref_Scheme (container_prefs opts c) in if s \<noteq> [] then s else ''http'') \<and>
    pp_HostPort p \<notin> set (opt_IgnoredPorts opts) \<and>
    cand_Service (route_Winner w) \<notin> set (opt_IgnoredServices opts)"
proof -
  have "best_claim h (all_claims opts cs) = Some w"
    using reaches_agrees [OF assms(1)] assms(2) by (simp add: agrees_with_def Snapshot_def)
  then obtain c p src where c: "c \<in> set cs" and port: "routed_port opts c = Some (p, src)"
      and w: "w = claim_of opts c p src (route_Hostname w)"
    using claim_route best_claim_Some(1) by metis
  have "route_Winner w = container_candidate c" "up_Host (route_Upstream w) = ''127.0.0.1''"
      "up_Port (route_Upstream w) = pp_HostPort p" "up_Scheme (route_Upstream w) =
        (let s = pref_Scheme (container_prefs opts c) in if s \<noteq> [] then s else ''http'')"
    by (subst w; simp add: claim_of_def)+
  with c routed_port_Some [OF port] show ?thesis by auto
qed

theorem route_leads_to_published_port_witness:
  "\<exists>w. gm_get (snap_Routes (Snapshot (synced [api_container]))) ''api.acme.test'' = Some w \<and>
     up_Host (route_Upstream w) = ''127.0.0.1'' \<and> up_Port (route_Upstream w) = 8080"
proof -
  have "map_option (up_Port \<circ> route_Upstream)
      (gm_get (snap_Routes (Snapshot (synced [api_container]))) ''api.acme.test'') = Some 8080"
    by code_simp
  then obtain w where w: "gm_get (snap_Routes (Snapshot (synced [api_container]))) ''api.acme.test'' =
      Some w" and "up_Port (route_Upstream w) = 8080" by auto
  with route_leads_to_published_port [OF reaches_synced w] show ?thesis by auto
qed

lemma ranking_tie:
  assumes "ranking h claims = w # s # rest"
  shows "route_Priority w = route_Priority s \<longleftrightarrow> (\<exists>v \<in> set (s # rest). route_Priority v = route_Priority w)"
proof -
  have "claim_order.ordered (w # s # rest)"
    using claim_order.ordered_stable_sort [of "claims_for h claims"] assms by (simp add: ranking_def)
  then have "\<not> claim_before s w" "\<And>v. v \<in> set rest \<Longrightarrow> \<not> claim_before v s" by auto
  then have "route_Priority s \<le> route_Priority w" "\<And>v. v \<in> set rest \<Longrightarrow> route_Priority v \<le> route_Priority s"
    by (force simp: claim_before_def split: if_splits)+
  then show ?thesis by force
qed

lemma snapshot_conflict:
  assumes "reaches opts cs r"
  shows "c \<in> set (snap_Conflicts (Snapshot r)) \<longleftrightarrow>
    (\<exists>w s rest. ranking (conf_Hostname c) (all_claims opts cs) = w # s # rest \<and>
       c = conflict_of (conf_Hostname c) w s rest)"
  using reaches_agrees [OF assms]
  by (auto simp: agrees_with_def Snapshot_def contested_iff conflict_of_def)

lemma contested_twice:
  "2 \<le> length (claims_for h claims) \<longleftrightarrow> (\<exists>w s rest. ranking h claims = w # s # rest)"
  unfolding length_stable_sort [of claim_before "claims_for h claims", symmetric] ranking_def [symmetric]
  by (auto simp: numeral_2_eq_2 Suc_le_length_iff)

text \<open>C5. A conflict is recorded for a name exactly when at least two claims are made on it. Its winner is
  the best of these claims, its losers are the others, best first, and together they are all the
  claimants of the name, each as often as it claims. The tie flag says whether some loser has the
  winner's priority.\<close>

theorem conflicts_are_the_contested_names:
  assumes "reaches opts cs r"
  shows "((\<exists>c \<in> set (snap_Conflicts (Snapshot r)). conf_Hostname c = h) \<longleftrightarrow>
           2 \<le> length (claims_for h (all_claims opts cs))) \<and>
    (\<forall>c \<in> set (snap_Conflicts (Snapshot r)). \<exists>w losers.
       ranking (conf_Hostname c) (all_claims opts cs) = w # losers \<and> losers \<noteq> [] \<and>
       conf_Winner c = route_Winner w \<and> conf_Losers c = map route_Winner losers \<and>
       (conf_PriorityTie c \<longleftrightarrow> (\<exists>v \<in> set losers. route_Priority v = route_Priority w)) \<and>
       mset (conf_Winner c # conf_Losers c) =
         mset (map route_Winner (claims_for (conf_Hostname c) (all_claims opts cs))))"
proof (intro conjI ballI)
  let ?claims = "all_claims opts cs"
  show "(\<exists>c \<in> set (snap_Conflicts (Snapshot r)). conf_Hostname c = h) \<longleftrightarrow>
      2 \<le> length (claims_for h ?claims)"
    unfolding contested_twice Bex_def snapshot_conflict [OF assms] by (metis conflict_of_hostname)
  fix c assume "c \<in> set (snap_Conflicts (Snapshot r))"
  then obtain w s rest where rk: "ranking (conf_Hostname c) ?claims = w # s # rest"
      and c: "c = conflict_of (conf_Hostname c) w s rest"
    unfolding snapshot_conflict [OF assms] by blast
  have "conf_Winner c = route_Winner w" "conf_Losers c = map route_Winner (s # rest)"
      "conf_PriorityTie c \<longleftrightarrow> route_Priority w = route_Priority s"
    by (subst c, simp add: conflict_of_def)+
  moreover from this have "mset (conf_Winner c # conf_Losers c) = image_mset route_Winner (mset (ranking (conf_Hostname c) ?claims))"
    by (simp add: rk)
  ultimately show "\<exists>w losers. ranking (conf_Hostname c) ?claims = w # losers \<and> losers \<noteq> [] \<and>
       conf_Winner c = route_Winner w \<and> conf_Losers c = map route_Winner losers \<and>
       (conf_PriorityTie c \<longleftrightarrow> (\<exists>v \<in> set losers. route_Priority v = route_Priority w)) \<and>
       mset (conf_Winner c # conf_Losers c) = mset (map route_Winner (claims_for (conf_Hostname c) ?claims))"
    using rk ranking_tie [OF rk] by (auto simp: ranking_def)
qed

theorem conflicts_are_the_contested_names_witness:
  "\<exists>c \<in> set (snap_Conflicts (Snapshot (synced [api_container, rival_container]))).
     conf_Hostname c = ''api.acme.test'' \<and> \<not> conf_PriorityTie c \<and>
     cand_ContainerName (conf_Winner c) = ''acme-rival-1''"
proof -
  let ?claims = "all_claims plain_options [api_container, rival_container]"
  note property = conflicts_are_the_contested_names
    [OF reaches_synced [of "[api_container, rival_container]"], of "''api.acme.test''"]
  have "2 \<le> length (claims_for ''api.acme.test'' ?claims)" by code_simp
  then obtain c where c: "c \<in> set (snap_Conflicts (Snapshot (synced [api_container, rival_container])))"
      "conf_Hostname c = ''api.acme.test''" using property by blast
  then obtain w losers where rk: "ranking ''api.acme.test'' ?claims = w # losers"
      and win: "conf_Winner c = route_Winner w"
      and tie: "conf_PriorityTie c \<longleftrightarrow> (\<exists>v \<in> set losers. route_Priority v = route_Priority w)"
    using property by metis
  have "map (\<lambda>v. (cand_ContainerName (route_Winner v), route_Priority v)) (ranking ''api.acme.test'' ?claims) =
      [(''acme-rival-1'', 5), (''acme-api-1'', 0)]" by code_simp
  with rk win tie c show ?thesis by (intro bexI [of _ c]) auto
qed

text \<open>
  Two containers with the same name would be told apart by nothing but their place in Docker's
  list. Docker gives names out once, and then the winner depends on the set of containers only.
\<close>

lemma claims_told_apart:
  assumes names: "distinct (map (cand_ContainerName \<circ> container_candidate) cs)"
    and a: "a \<in> set (claims_for h (all_claims opts cs))"
    and b: "b \<in> set (claims_for h (all_claims opts cs))"
    and same: "claim_order.same a b"
  shows "a = b"
proof -
  have host: "route_Hostname a = h" "route_Hostname b = h"
    and mem: "a \<in> set (all_claims opts cs)" "b \<in> set (all_claims opts cs)"
    using a b by (auto simp: claims_for_def)
  obtain c p src where c: "c \<in> set cs" "routed_port opts c = Some (p, src)"
      "a = claim_of opts c p src (route_Hostname a)"
    using claim_route [OF mem(1)] by metis
  obtain d q src' where d: "d \<in> set cs" "routed_port opts d = Some (q, src')"
      "b = claim_of opts d q src' (route_Hostname b)"
    using claim_route [OF mem(2)] by metis
  have "cand_ContainerName (route_Winner a) = cand_ContainerName (route_Winner b)"
    using same by (auto simp: claim_order.same_def claim_before_def split: if_splits)
  moreover have "route_Winner a = container_candidate c" "route_Winner b = container_candidate d"
    by (subst c(3), simp add: claim_of_def) (subst d(3), simp add: claim_of_def)
  ultimately have "c = d" using names c(1) d(1) by (auto simp: distinct_map inj_on_def)
  with c d host show ?thesis by simp
qed

lemma mset_all_claims: "mset cs = mset cs' \<Longrightarrow> mset (all_claims opts cs) = mset (all_claims opts cs')"
proof -
  assume eq: "mset cs = mset cs'"
  have "mset (all_claims opts cs) = (\<Sum>c\<in>#mset cs. mset (claims_of opts c))" for cs
    by (simp add: all_claims_def mset_concat comp_def flip: sum_mset_sum_list)
  then show ?thesis by (metis eq)
qed

lemma ranking_order_irrelevant:
  assumes "mset cs = mset cs'"
    and "distinct (map (cand_ContainerName \<circ> container_candidate) cs)"
  shows "ranking h (all_claims opts cs) = ranking h (all_claims opts cs')"
  unfolding ranking_def
  by (rule claim_order.stable_sort_unique)
    (use mset_all_claims [OF assms(1)] claims_told_apart [OF assms(2)] in
      \<open>auto simp: claims_for_def\<close>)

text \<open>C6. The active routes and the conflicts do not depend on the order in which Docker lists
  the containers, nor on the order in which Go ranges over its maps, as long as no two containers
  have the same name: two synchronisations with the same containers in any order store the same
  route under every name and the same set of conflicts.\<close>

theorem snapshot_independent_of_orders:
  assumes "reaches opts cs r" and "reaches opts cs' r'"
    and "mset cs = mset cs'"
    and "distinct (map (cand_ContainerName \<circ> container_candidate) cs)"
  shows "gm_get (snap_Routes (Snapshot r)) = gm_get (snap_Routes (Snapshot r')) \<and>
    set (snap_Conflicts (Snapshot r)) = set (snap_Conflicts (Snapshot r'))"
  using reaches_agrees [OF assms(1)] reaches_agrees [OF assms(2)]
  by (simp add: agrees_with_def Snapshot_def fun_eq_iff best_claim_def contested_def
      ranking_order_irrelevant [OF assms(3,4)])

theorem snapshot_independent_of_orders_witness:
  "gm_get (snap_Routes (Snapshot (synced [api_container, rival_container]))) =
     gm_get (snap_Routes (Snapshot (synced [rival_container, api_container])))"
proof -
  have "distinct (map (cand_ContainerName \<circ> container_candidate) [api_container, rival_container])"
    by code_simp
  moreover have "mset [api_container, rival_container] = mset [rival_container, api_container]"
    by simp
  ultimately show ?thesis
    using snapshot_independent_of_orders [OF reaches_synced reaches_synced] by blast
qed

lemma has_suffix_of_suffix:
  "length t \<le> length s \<Longrightarrow> has_suffix (p @ s) t = has_suffix s t"
  by (auto simp: has_suffix_def)

lemma has_suffix_one_dot:
  assumes "has_suffix (p @ CHR ''.'' # s) t" and "CHR ''.'' \<notin> set (tl t)"
  shows "has_suffix (CHR ''.'' # s) t"
proof (cases "length t \<le> Suc (length s)")
  case True
  with assms(1) show ?thesis using has_suffix_of_suffix [of t "CHR ''.'' # s" p] by simp
next
  case False
  from assms(1) obtain q where "p @ CHR ''.'' # s = q @ t" by (auto simp: has_suffix_iff)
  then obtain u where "p = q @ u \<and> u @ CHR ''.'' # s = t \<or> p @ u = q \<and> CHR ''.'' # s = u @ t"
    unfolding append_eq_append_conv2 by blast
  moreover have "CHR ''.'' # s \<noteq> u @ t" using False by (metis length_Cons length_append le_add2)
  ultimately have t: "t = u @ CHR ''.'' # s" by blast
  with False have "u \<noteq> []" by auto
  with t have "CHR ''.'' \<in> set (tl t)" by simp
  with assms(2) show ?thesis by simp
qed

lemma public_suffix_decides:
  "isPublicDomain (p @ CHR ''.'' # s) = isPublicDomain (CHR ''.'' # s)"
proof -
  have "has_suffix (to_lower (p @ CHR ''.'' # s)) t = has_suffix (to_lower (CHR ''.'' # s)) t"
    if "t \<in> set publicSuffixes" for t
  proof -
    have low: "to_lower (p @ CHR ''.'' # s) = to_lower p @ CHR ''.'' # to_lower s"
      "to_lower (CHR ''.'' # s) = CHR ''.'' # to_lower s" by (simp_all add: to_lower_def lower_char_def)
    have "CHR ''.'' \<notin> set (tl t)" using that by (auto simp: publicSuffixes_def)
    then show ?thesis unfolding low
      using has_suffix_one_dot [of "to_lower p" "to_lower s" t] by (auto simp: has_suffix_iff)
  qed
  then have "list_ex (has_suffix (to_lower (p @ CHR ''.'' # s))) publicSuffixes =
      list_ex (has_suffix (to_lower (CHR ''.'' # s))) publicSuffixes"
    by (auto simp: list_ex_iff)
  moreover have "split_on CHR ''.'' (p @ CHR ''.'' # s) = split_on CHR ''.'' p @ split_on CHR ''.'' s"
    "split_on CHR ''.'' (CHR ''.'' # s) = [] # split_on CHR ''.'' s"
    by (simp_all add: split_on_append)
  ultimately show ?thesis by (simp add: isPublicDomain_def Let_def length_split_on)
qed

lemma generated_name_public:
  "isPublicDomain (generated_name project service prefs opts) \<longleftrightarrow> isPublicDomain (''.'' @ Routing.effective_suffix opts)"
  using public_suffix_decides [of project "Routing.effective_suffix opts"]
    public_suffix_decides [of "service @ ''.'' @ project" "Routing.effective_suffix opts"]
  by (simp add: generated_name_def)

text \<open>C7. A public name is routed only where the managed suffix itself is public, and then only as a name
  made from project and service: with any other suffix, such as the default \<open>test\<close>, no active
  route has a public name, whatever the labels and the configuration ask for.\<close>

theorem routed_names_not_public:
  assumes "reaches opts cs r"
    and "h \<in> fst ` set (snap_Routes (Snapshot r))" and "isPublicDomain h"
  shows "isPublicDomain (''.'' @ (if opt_Suffix opts = [] then ''test'' else opt_Suffix opts)) \<and>
    (\<exists>c \<in> set cs. pref_Domain (container_prefs opts c) = [] \<and>
       h = generated_name (cand_Project (container_candidate c))
             (cand_Service (container_candidate c)) (container_prefs opts c)
             \<lparr>ro_Suffix = opt_Suffix opts, ro_RootServices = opt_RootServices opts\<rparr>)"
proof -
  let ?ro = "\<lparr>ro_Suffix = opt_Suffix opts, ro_RootServices = opt_RootServices opts\<rparr>"
  obtain c where "c \<in> set cs" and "h \<in> set (container_domains opts c)"
    using routed_names [OF assms(1)] assms(2) by blast
  with assms(3) have c: "c \<in> set cs" "pref_Domain (container_prefs opts c) = []"
    "h = generated_name (cand_Project (container_candidate c)) (cand_Service (container_candidate c))
       (container_prefs opts c) ?ro"
    by (auto simp: container_domains_def GenerateDomains_domains split: if_splits)
  with assms(3) have "isPublicDomain (''.'' @ Routing.effective_suffix ?ro)" by (simp only: generated_name_public)
  with c show ?thesis by (auto simp: Routing.effective_suffix_def)
qed

definition public_container :: container_state where
  "public_container = api_container\<lparr>cs_Labels :=
     (cs_Labels api_container)(''devproxy.domain'' \<mapsto> ''shop.acme.com'')\<rparr>"

theorem routed_names_not_public_witness:
  "''shop.acme.com'' \<notin> fst ` set (snap_Routes (Snapshot (synced [public_container])))"
proof
  assume routed: "''shop.acme.com'' \<in> fst ` set (snap_Routes (Snapshot (synced [public_container])))"
  have public: "isPublicDomain ''shop.acme.com''" by code_simp
  have "\<not> isPublicDomain (''.'' @ (if opt_Suffix plain_options = [] then ''test'' else opt_Suffix plain_options))"
    by code_simp
  with routed_names_not_public [OF reaches_synced [of "[public_container]"] routed public] show False by blast
qed

subsection \<open>The enable label\<close>

text \<open>
  \<open>ApplyLabelFields\<close> reads the label \<open>devproxy.enable\<close>, \<open>MergeOverrides\<close> merges it with the
  configuration and \<open>IsEligible\<close> has a place for it, but \<open>RebuildSnapshot\<close> calls \<open>IsEligible\<close>
  without it. What follows shows that the label has no effect on the routes.
\<close>

definition with_enable_label :: "string option \<Rightarrow> container_state \<Rightarrow> container_state" where
  "with_enable_label v c = c\<lparr>cs_Labels := (cs_Labels c)(''devproxy.enable'' := v)\<rparr>"

lemma with_enable_frame [simp]:
  "cs_Ports (with_enable_label v c) = cs_Ports c" "cs_Running (with_enable_label v c) = cs_Running c"
  "k \<noteq> ''devproxy.enable'' \<Longrightarrow> cs_Labels (with_enable_label v c) k = cs_Labels c k"
  by (simp_all add: with_enable_label_def)

lemma candidate_with_enable:
  "container_candidate (with_enable_label v c) =
     (container_candidate c)\<lparr>cand_Labels := cs_Labels (with_enable_label v c)\<rparr>"
  by (simp add: container_candidate_def BuildCandidateBase_def the_container_def label_value_def
      Let_def with_enable_label_def case_prod_unfold)

lemma block_enable_commute:
  assumes "\<And>k. k \<noteq> ''devproxy.enable'' \<Longrightarrow> ctr_Labels c' k = ctr_Labels c k"
    and "fst s' = (fst s)\<lparr>lo_EnabledLabel := e\<rparr>"
  shows "fst (apply_domain_label c' s') = (fst (apply_domain_label c s))\<lparr>lo_EnabledLabel := e\<rparr>"
    "fst (apply_domains_label c' s') = (fst (apply_domains_label c s))\<lparr>lo_EnabledLabel := e\<rparr>"
    "fst (apply_root_label c' s') = (fst (apply_root_label c s))\<lparr>lo_EnabledLabel := e\<rparr>"
    "fst (apply_port_label c' s') = (fst (apply_port_label c s))\<lparr>lo_EnabledLabel := e\<rparr>"
    "fst (apply_scheme_label c' s') = (fst (apply_scheme_label c s))\<lparr>lo_EnabledLabel := e\<rparr>"
    "fst (apply_priority_label c' s') = (fst (apply_priority_label c s))\<lparr>lo_EnabledLabel := e\<rparr>"
  using assms(2)
  by (auto simp: label_block_defs label_value_def Let_def assms(1)
      split: option.splits prod.splits)

lemma options_with_enable:
  "\<exists>e. container_options (with_enable_label v c) = (container_options c)\<lparr>lo_EnabledLabel := e\<rparr>"
proof -
  let ?c = "the_container c" and ?c' = "the_container (with_enable_label v c)"
  have agree: "\<And>k. k \<noteq> ''devproxy.enable'' \<Longrightarrow> ctr_Labels ?c' k = ctr_Labels ?c k"
    by (simp add: the_container_def)
  have "\<exists>e. fst (apply_enable_label ?c' (zero_label_options, [])) =
      (fst (apply_enable_label ?c (zero_label_options, [])))\<lparr>lo_EnabledLabel := e\<rparr>"
    by (rule exI [of _ "lo_EnabledLabel (fst (apply_enable_label ?c' (zero_label_options, [])))"])
      (auto simp: apply_enable_label_def zero_label_options_def split: option.splits)
  then obtain e where e: "fst (apply_enable_label ?c' (zero_label_options, [])) =
      (fst (apply_enable_label ?c (zero_label_options, [])))\<lparr>lo_EnabledLabel := e\<rparr>" ..
  have "container_options (with_enable_label v c) = (container_options c)\<lparr>lo_EnabledLabel := e\<rparr>"
    unfolding container_options_def ApplyLabelFields_def Let_def
    by (intro block_enable_commute agree e)
  then show ?thesis ..
qed

lemma prefs_with_enable:
  "\<exists>e. container_prefs opts (with_enable_label v c) = (container_prefs opts c)\<lparr>pref_Enable := e\<rparr>"
proof -
  obtain e where e: "container_options (with_enable_label v c) =
      (container_options c)\<lparr>lo_EnabledLabel := e\<rparr>" using options_with_enable by blast
  have "routePreferencesFromLabels (container_options (with_enable_label v c)) =
      (routePreferencesFromLabels (container_options c))\<lparr>pref_Enable := e\<rparr>"
    by (simp add: e routePreferencesFromLabels_def zero_preferences_def Let_def split: option.splits)
  then have "container_prefs opts (with_enable_label v c) = (container_prefs opts c)
      \<lparr>pref_Enable := pref_Enable (container_prefs opts (with_enable_label v c))\<rparr>"
    by (simp add: container_prefs_def candidate_with_enable MergeOverrides_def Let_def)
  then show ?thesis ..
qed

lemma GenerateDomains_enable [simp]:
  "GenerateDomains p s (prefs\<lparr>pref_Enable := e\<rparr>) ro = GenerateDomains p s prefs ro"
  by (simp add: GenerateDomains_def Let_def cong: if_cong option.case_cong split del: if_split)

lemma SelectPublishedPort_enable [simp]:
  "SelectPublishedPort ports (lo\<lparr>lo_EnabledLabel := e\<rparr>) n = SelectPublishedPort ports lo n"
  by (simp add: SelectPublishedPort_def Let_def cong: list.case_cong option.case_cong split del: if_split)

text \<open>The label \<open>devproxy.enable\<close> has no effect: whatever it is set to, or removed, a
  container claims the same names with the same port, scheme and priority; only the copy of the
  labels kept with the claim changes. In particular \<open>devproxy.enable=false\<close> does not take a
  container out of the routes, and \<open>devproxy.enable=true\<close> does not bring an ignored service in.\<close>

theorem enable_label_has_no_effect:
  "claims_of opts (with_enable_label v c) =
     map (\<lambda>r. r\<lparr>route_Winner := (route_Winner r)\<lparr>cand_Labels := cs_Labels (with_enable_label v c)\<rparr>\<rparr>)
       (claims_of opts c)"
proof -
  obtain e where prefs: "container_prefs opts (with_enable_label v c) =
      (container_prefs opts c)\<lparr>pref_Enable := e\<rparr>" using prefs_with_enable by blast
  obtain e' where options: "container_options (with_enable_label v c) =
      (container_options c)\<lparr>lo_EnabledLabel := e'\<rparr>" using options_with_enable by blast
  have "routed_port opts (with_enable_label v c) = routed_port opts c"
    by (simp add: routed_port_def container_port_def prefs options candidate_with_enable
        cong: option.case_cong split: prod.splits option.splits)
  moreover have "container_domains opts (with_enable_label v c) = container_domains opts c"
    by (simp add: container_domains_def prefs candidate_with_enable)
  ultimately show ?thesis
    by (simp add: claims_of_def claim_of_def prefs candidate_with_enable case_prod_unfold
        split: option.splits)
qed

subsection \<open>A container against itself\<close>

lemma count_list_claims:
  assumes "c \<in> set cs"
  shows "count_list (map route_Winner (claims_for h (claims_of opts c))) x \<le>
    count_list (map route_Winner (claims_for h (all_claims opts cs))) x"
  using assms by (induction cs) (auto simp: all_claims_def claims_for_def)

lemma count_list_replicate: "count_list (replicate n x) x = n"
  by (induction n) simp_all

lemma own_claims:
  assumes "routed_port opts c \<noteq> None"
  shows "map route_Winner (claims_for h (claims_of opts c)) =
    replicate (count_list (container_domains opts c) h) (container_candidate c)"
proof -
  obtain p src where port: "routed_port opts c = Some (p, src)" using assms by auto
  have "map route_Winner (filter (\<lambda>r. route_Hostname r = h) (map (claim_of opts c p src) ds)) =
      replicate (count_list ds h) (container_candidate c)" for ds
    by (induction ds) (auto simp: claim_of_def)
  then show ?thesis by (simp add: claims_for_def claims_of_def port)
qed

text \<open>C9. A container that claims the same name twice (say, through a \<open>devproxy.domains\<close> label that repeats
  the generated name) is reported in a conflict about that name at least twice, so always among
  the losers. When no other container claims the name, it is also the winner: a conflict of the
  container with itself.\<close>

theorem repeated_name_conflicts_with_itself:
  assumes "reaches opts cs r" and "c \<in> set cs"
    and "routed_port opts c \<noteq> None"
    and "2 \<le> count_list (container_domains opts c) h"
  shows "\<exists>k \<in> set (snap_Conflicts (Snapshot r)). conf_Hostname k = h \<and>
    2 \<le> count_list (conf_Winner k # conf_Losers k) (container_candidate c) \<and>
    container_candidate c \<in> set (conf_Losers k) \<and>
    ((\<forall>c' \<in> set cs. c' = c \<or> routed_port opts c' = None \<or> h \<notin> set (container_domains opts c')) \<longrightarrow>
       conf_Winner k = container_candidate c)"
proof -
  let ?claims = "all_claims opts cs" and ?x = "container_candidate c"
  have "count_list (container_domains opts c) h \<le> count_list (map route_Winner (claims_for h ?claims)) ?x"
    using count_list_claims [OF assms(2), of h opts ?x] by (simp add: own_claims [OF assms(3)] count_list_replicate)
  then have two: "2 \<le> count_list (map route_Winner (claims_for h ?claims)) ?x" using assms(4) by simp
  then have "2 \<le> length (claims_for h ?claims)"
    using count_le_length [of "map route_Winner (claims_for h ?claims)" ?x] by simp
  then obtain w s rest where rk: "ranking h ?claims = w # s # rest" by (auto simp: contested_twice)
  let ?k = "conflict_of h w s rest"
  have k: "?k \<in> set (snap_Conflicts (Snapshot r))"
    using rk by (auto simp: snapshot_conflict [OF assms(1)])
  have "mset (claims_for h ?claims) = mset (w # s # rest)" by (metis mset_stable_sort ranking_def rk)
  then have "mset (map route_Winner (claims_for h ?claims)) = mset (conf_Winner ?k # conf_Losers ?k)"
    by (simp add: conflict_of_def)
  with two have count: "2 \<le> count_list (conf_Winner ?k # conf_Losers ?k) ?x" by (metis count_mset)
  then have "?x \<in> set (conf_Losers ?k)"
    by (auto simp: count_list_0_iff split: if_splits intro: ccontr)
  moreover have "conf_Winner ?k = ?x"
    if alone: "\<forall>c' \<in> set cs. c' = c \<or> routed_port opts c' = None \<or> h \<notin> set (container_domains opts c')"
  proof -
    have "w \<in> set ?claims" "route_Hostname w = h" using rk ranking_hosts by (metis list.set_intros(1))+
    then obtain c' p src where c': "c' \<in> set cs" "routed_port opts c' = Some (p, src)"
        "w = claim_of opts c' p src h" "h \<in> set (container_domains opts c')" by (metis claim_route)
    with alone have "c' = c" by auto
    with c' show ?thesis by (simp add: conflict_of_def claim_of_def)
  qed
  ultimately show ?thesis using k count by (intro bexI [of _ ?k]) simp_all
qed

definition repeating_container :: container_state where
  "repeating_container = api_container\<lparr>cs_Labels :=
     (cs_Labels api_container)(''devproxy.domains'' \<mapsto> ''www.acme.test, api.acme.test'')\<rparr>"

theorem repeated_name_conflicts_with_itself_witness:
  "\<exists>k \<in> set (snap_Conflicts (Snapshot (synced [repeating_container]))).
     conf_Hostname k = ''api.acme.test'' \<and> conf_Winner k = container_candidate repeating_container \<and>
     container_candidate repeating_container \<in> set (conf_Losers k)"
proof -
  have "map_option (\<lambda>_. ()) (routed_port plain_options repeating_container) = Some ()"
    by code_simp
  then have "routed_port plain_options repeating_container \<noteq> None" by auto
  moreover have "2 \<le> count_list (container_domains plain_options repeating_container) ''api.acme.test''"
    by code_simp
  ultimately show ?thesis
    using repeated_name_conflicts_with_itself [OF reaches_synced [of "[repeating_container]"], of repeating_container]
    by fastforce
qed
end

