(* ===== verification/Admin.thy ===== *)
theory Admin
  imports Reconciler
begin

text \<open>
  \<open>internal/admin\<close>: the views of the daemon's state that the command line, the menu bar and the
  dashboard show. They read a snapshot; the two that range over its routes take the iteration
  order \<open>it\<close>.
\<close>

section \<open>Status\<close>

record watcher_health =
  wh_Connected :: bool
  wh_LastDisconnect :: go_time
  wh_LastReconnectSync :: go_time

record dns_status =
  ds_Healthy :: bool
  ds_ManagedSuffix :: string

record listener_status =
  lst_Enabled :: bool
  lst_Bound :: bool
  lst_BindAddress :: string
  lst_LastError :: string

record startup_role_status =
  srs_Role :: string
  srs_Domain :: string
  srs_Label :: string
  srs_Installed :: bool
  srs_Running :: bool
  srs_Toggleable :: bool
  srs_StatusMessage :: string

record network_runtime_status =
  nrs_DNS :: dns_status
  nrs_HTTP :: listener_status
  nrs_HTTPS :: listener_status
  nrs_Paused :: bool
  nrs_CertificateReady :: bool

record status_view =
  sv_SnapshotVersion :: string
  sv_ActiveRoutes :: nat
  sv_Conflicts :: nat
  sv_Warnings :: nat
  sv_ConflictDetails :: "conflict list"
  sv_WarningDetails :: "warning list"
  sv_LastSync :: go_time
  sv_Watcher :: watcher_health
  sv_DNS :: dns_status
  sv_HTTP :: listener_status
  sv_HTTPS :: listener_status
  sv_Paused :: bool
  sv_CertificateReady :: bool
  sv_StartupRoles :: "startup_role_status list"

definition BuildStatus ::
  "snapshot \<Rightarrow> watcher_health \<Rightarrow> go_time \<Rightarrow> network_runtime_status \<Rightarrow> status_view" where
  "BuildStatus snap watcher lastSync runtime =
     \<lparr>sv_SnapshotVersion = snap_Version snap, sv_ActiveRoutes = length (snap_Routes snap),
      sv_Conflicts = length (snap_Conflicts snap), sv_Warnings = length (snap_Warnings snap),
      sv_ConflictDetails = snap_Conflicts snap, sv_WarningDetails = snap_Warnings snap,
      sv_LastSync = lastSync, sv_Watcher = watcher, sv_DNS = nrs_DNS runtime, sv_HTTP = nrs_HTTP runtime,
      sv_HTTPS = nrs_HTTPS runtime, sv_Paused = nrs_Paused runtime,
      sv_CertificateReady = nrs_CertificateReady runtime, sv_StartupRoles = []\<rparr>"

record admin_network_health =
  anh_DNS :: listener_status
  anh_HTTP :: listener_status
  anh_HTTPS :: listener_status
  anh_Paused :: bool
  anh_CertificateReady :: bool
  anh_ManagedSuffix :: string

definition NetworkRuntimeStatusFromHealth :: "admin_network_health \<Rightarrow> network_runtime_status" where
  "NetworkRuntimeStatusFromHealth h =
     \<lparr>nrs_DNS = \<lparr>ds_Healthy = lst_Bound (anh_DNS h), ds_ManagedSuffix = anh_ManagedSuffix h\<rparr>,
      nrs_HTTP = \<lparr>lst_Enabled = lst_Enabled (anh_HTTP h), lst_Bound = lst_Bound (anh_HTTP h),
        lst_BindAddress = lst_BindAddress (anh_HTTP h), lst_LastError = lst_LastError (anh_HTTP h)\<rparr>,
      nrs_HTTPS = \<lparr>lst_Enabled = lst_Enabled (anh_HTTPS h), lst_Bound = lst_Bound (anh_HTTPS h),
        lst_BindAddress = lst_BindAddress (anh_HTTPS h), lst_LastError = lst_LastError (anh_HTTPS h)\<rparr>,
      nrs_Paused = anh_Paused h, nrs_CertificateReady = anh_CertificateReady h\<rparr>"

section \<open>Doctor\<close>

record network_doctor_status =
  nds_DNSHealthy :: bool
  nds_HTTPBound :: bool
  nds_HTTPSBound :: bool
  nds_Paused :: bool
  nds_CertificateReady :: bool
  nds_ManagedSuffix :: string

record doctor_view =
  dv_ConflictCount :: nat
  dv_WarningCount :: nat
  dv_Warnings :: "warning list"
  dv_Conflicts :: "conflict list"
  dv_Network :: network_doctor_status

definition BuildDoctor :: "snapshot \<Rightarrow> network_doctor_status \<Rightarrow> doctor_view" where
  "BuildDoctor snap network =
     \<lparr>dv_ConflictCount = length (snap_Conflicts snap), dv_WarningCount = length (snap_Warnings snap),
      dv_Warnings = snap_Warnings snap, dv_Conflicts = snap_Conflicts snap, dv_Network = network\<rparr>"

section \<open>Session log\<close>

record log_event =
  le_Timestamp :: go_time
  le_Type :: string
  le_Message :: string
  le_Hostname :: string
  le_HandlingState :: string
  le_UpstreamScheme :: string
  le_UpstreamPort :: int

record session_issue =
  si_Timestamp :: go_time
  si_Role :: string
  si_Action :: string
  si_Message :: string

definition SessionIssueLimit :: nat where
  "SessionIssueLimit = 25"

definition BuildSessionEvents ::
  "(string list \<Rightarrow> string list) \<Rightarrow> go_time \<Rightarrow> snapshot \<Rightarrow> log_event list" where
  "BuildSessionEvents it now snap =
     map (\<lambda>w. \<lparr>le_Timestamp = now, le_Type = ''warning'', le_Message = warn_Message w, le_Hostname = [],
         le_HandlingState = [], le_UpstreamScheme = [], le_UpstreamPort = 0\<rparr>) (snap_Warnings snap) @
     map (\<lambda>c. \<lparr>le_Timestamp = now, le_Type = ''conflict'', le_Message = conf_Reason c,
         le_Hostname = conf_Hostname c, le_HandlingState = ''conflict'', le_UpstreamScheme = [],
         le_UpstreamPort = 0\<rparr>) (snap_Conflicts snap) @
     map (\<lambda>(host, r). \<lparr>le_Timestamp = now, le_Type = ''route'', le_Message = ''active route'',
         le_Hostname = host, le_HandlingState = ''proxy'', le_UpstreamScheme = up_Scheme (route_Upstream r),
         le_UpstreamPort = up_Port (route_Upstream r)\<rparr>) (range_map it (snap_Routes snap))"

text \<open>The loop of \<open>BuildSessionIssues\<close>: from index \<open>i - 1\<close> down, while fewer than \<open>limit\<close> are out.\<close>

fun newest_issues :: "session_issue list \<Rightarrow> nat \<Rightarrow> nat \<Rightarrow> session_issue list \<Rightarrow> session_issue list" where
  "newest_issues issues limit 0 out = out"
| "newest_issues issues limit (Suc i) out =
     (if length out < limit then newest_issues issues limit i (out @ [issues ! i]) else out)"

definition BuildSessionIssues :: "session_issue list \<Rightarrow> session_issue list" where
  "BuildSessionIssues issues =
     (if length issues = 0 then []
      else let limit = (if length issues < SessionIssueLimit then length issues else SessionIssueLimit)
        in newest_issues issues limit (length issues) [])"

section \<open>Routes\<close>

record route_view =
  rv_Hostname :: string
  rv_UpstreamScheme :: string
  rv_UpstreamHost :: string
  rv_UpstreamPort :: int
  rv_OpenURL :: string
  rv_PreferredScheme :: string
  rv_FallbackReason :: string
  rv_HTTPSReady :: bool
  rv_HandlingState :: string
  rv_Winner :: string
  rv_Losers :: "string list"
  rv_Conflict :: bool

definition conflicts_by_host :: "conflict list \<Rightarrow> (string \<rightharpoonup> conflict)" where
  "conflicts_by_host cs = fold (\<lambda>c m. m(conf_Hostname c \<mapsto> c)) cs Map.empty"

definition route_view_of :: "(string \<rightharpoonup> conflict) \<Rightarrow> bool \<Rightarrow> string \<times> route \<Rightarrow> route_view" where
  "route_view_of conflictsByHost httpsReady = (\<lambda>(host, r).
     let preferredScheme = (if \<not> httpsReady then ''http'' else ''https'');
         fallbackReason = (if \<not> httpsReady then ''https runtime is not ready'' else []);
         view = \<lparr>rv_Hostname = host, rv_UpstreamScheme = up_Scheme (route_Upstream r),
           rv_UpstreamHost = up_Host (route_Upstream r), rv_UpstreamPort = up_Port (route_Upstream r),
           rv_OpenURL = preferredScheme @ ''://'' @ host, rv_PreferredScheme = preferredScheme,
           rv_FallbackReason = fallbackReason, rv_HTTPSReady = httpsReady, rv_HandlingState = ''proxy'',
           rv_Winner = cand_ContainerName (route_Winner r), rv_Losers = [], rv_Conflict = False\<rparr>
     in case conflictsByHost host of
          None \<Rightarrow> view
        | Some c \<Rightarrow> view\<lparr>rv_Conflict := True, rv_Losers := map cand_ContainerName (conf_Losers c)\<rparr>)"

definition RoutesFromSnapshotWithRuntime ::
  "(string list \<Rightarrow> string list) \<Rightarrow> snapshot \<Rightarrow> bool \<Rightarrow> route_view list" where
  "RoutesFromSnapshotWithRuntime it snap httpsReady =
     map (route_view_of (conflicts_by_host (snap_Conflicts snap)) httpsReady) (range_map it (snap_Routes snap))"

definition RoutesFromSnapshot :: "(string list \<Rightarrow> string list) \<Rightarrow> snapshot \<Rightarrow> route_view list" where
  "RoutesFromSnapshot it snap = RoutesFromSnapshotWithRuntime it snap True"

section \<open>Lemmas\<close>

lemma newest_issues_eq:
  "i \<le> length issues \<Longrightarrow>
     newest_issues issues limit i out = out @ take (limit - length out) (rev (take i issues))"
proof (induction issues limit i out rule: newest_issues.induct)
  case (1 issues limit out)
  then show ?case by simp
next
  case (2 issues limit i out)
  then have i: "i < length issues" by simp
  then have rev: "rev (take (Suc i) issues) = issues ! i # rev (take i issues)"
    by (simp add: take_Suc_conv_app_nth)
  show ?case
  proof (cases "length out < limit")
    case True
    then have "limit - length out = Suc (limit - Suc (length out))" by simp
    with True 2 i rev show ?thesis by simp
  qed simp
qed

lemma BuildSessionIssues_eq: "BuildSessionIssues issues = take SessionIssueLimit (rev issues)"
  by (auto simp: BuildSessionIssues_def newest_issues_eq Let_def)

lemma conflicts_by_host_Some:
  "conflicts_by_host cs h = Some c \<Longrightarrow> c \<in> set cs \<and> conf_Hostname c = h"
proof -
  have "fold (\<lambda>c m. m(conf_Hostname c \<mapsto> c)) cs m h = Some c \<Longrightarrow>
      c \<in> set cs \<and> conf_Hostname c = h \<or> m h = Some c" for m
  proof (induction cs arbitrary: m)
    case (Cons a cs)
    from Cons.IH [OF Cons.prems [unfolded fold_simps]] show ?case by (auto split: if_splits)
  qed simp
  then show "conflicts_by_host cs h = Some c \<Longrightarrow> c \<in> set cs \<and> conf_Hostname c = h"
    by (force simp: conflicts_by_host_def)
qed

lemma conflicts_by_host_None:
  "conflicts_by_host cs h = None \<longleftrightarrow> (\<forall>c \<in> set cs. conf_Hostname c \<noteq> h)"
proof -
  have "fold (\<lambda>c m. m(conf_Hostname c \<mapsto> c)) cs m h = None \<longleftrightarrow>
      (\<forall>c \<in> set cs. conf_Hostname c \<noteq> h) \<and> m h = None" for m :: "string \<rightharpoonup> conflict"
    by (induction cs arbitrary: m) auto
  then show ?thesis by (simp add: conflicts_by_host_def)
qed

section \<open>Properties\<close>

text \<open>C34. In every state the reconciler reaches, the route list has one row for each active route, that
  is for each claimed name, and no other. A row shows the upstream and the container of the best
  claim and the address to open, and is marked as conflicting, with the other claimants in order, exactly when the name
  is contested.\<close>

theorem route_list_shows_conflicts:
  assumes "reaches opts cs r" and "rearranges it"
  shows "let views = RoutesFromSnapshotWithRuntime it (Snapshot r) ready in
    distinct (map rv_Hostname views) \<and>
    set (map rv_Hostname views) = fst ` set (snap_Routes (Snapshot r)) \<and>
    set (map rv_Hostname views) = route_Hostname ` set (all_claims opts cs) \<and>
    (\<forall>v \<in> set views.
      \<exists>w rest. ranking (rv_Hostname v) (all_claims opts cs) = w # rest \<and>
        rv_UpstreamHost v = up_Host (route_Upstream w) \<and> rv_UpstreamPort v = up_Port (route_Upstream w) \<and>
        rv_UpstreamScheme v = up_Scheme (route_Upstream w) \<and>
        rv_OpenURL v = (if ready then ''https://'' else ''http://'') @ rv_Hostname v \<and>
        rv_Winner v = cand_ContainerName (route_Winner w) \<and>
        rv_Losers v = map (cand_ContainerName \<circ> route_Winner) rest \<and>
        rv_Conflict v = (rest \<noteq> []))"
proof -
  let ?snap = "Snapshot r" and ?claims = "all_claims opts cs"
  let ?views = "RoutesFromSnapshotWithRuntime it ?snap ready"
  have agrees: "wf_gomap (snap_Routes ?snap)"
    "\<And>h. gm_get (snap_Routes ?snap) h = best_claim h ?claims"
    "set (snap_Conflicts ?snap) = {c. \<exists>h. contested h ?claims = Some c}"
    using reaches_agrees [OF assms(1)] by (simp_all add: agrees_with_def Snapshot_def)
  have names: "map rv_Hostname ?views = map fst (range_map it (snap_Routes ?snap))"
    by (simp add: RoutesFromSnapshotWithRuntime_def route_view_of_def Let_def case_prod_unfold
        split: option.split)
  then have hosts: "set (map rv_Hostname ?views) = fst ` set (snap_Routes ?snap)"
    by (simp only: set_map set_range_map [OF assms(2) agrees(1)])
  moreover have "fst ` set (snap_Routes ?snap) = route_Hostname ` set ?claims"
  proof -
    have "fst ` set (snap_Routes ?snap) = dom (gm_get (snap_Routes ?snap))" by (simp add: dom_map_of_conv_image_fst)
    also have "\<dots> = {h. best_claim h ?claims \<noteq> None}" by (simp add: agrees(2) dom_def)
    also have "\<dots> = route_Hostname ` set ?claims" by (auto simp: best_claim_None)
    finally show ?thesis .
  qed
  moreover have "\<exists>w rest. ranking (rv_Hostname v) ?claims = w # rest \<and>
        rv_UpstreamHost v = up_Host (route_Upstream w) \<and> rv_UpstreamPort v = up_Port (route_Upstream w) \<and>
        rv_UpstreamScheme v = up_Scheme (route_Upstream w) \<and>
        rv_OpenURL v = (if ready then ''https://'' else ''http://'') @ rv_Hostname v \<and>
        rv_Winner v = cand_ContainerName (route_Winner w) \<and>
        rv_Losers v = map (cand_ContainerName \<circ> route_Winner) rest \<and> rv_Conflict v = (rest \<noteq> [])"
    if v: "v \<in> set ?views" for v
  proof -
    from v obtain h w where "(h, w) \<in> set (snap_Routes ?snap)"
      and view: "v = route_view_of (conflicts_by_host (snap_Conflicts ?snap)) ready (h, w)"
      unfolding RoutesFromSnapshotWithRuntime_def by (auto simp: set_range_map [OF assms(2) agrees(1)])
    then have "gm_get (snap_Routes ?snap) h = Some w" using agrees(1) by (simp add: wf_gomap_def)
    then have "best_claim h ?claims = Some w" by (simp add: agrees(2))
    then obtain rest where rk: "ranking h ?claims = w # rest" by (auto simp: best_claim_iff)
    show ?thesis
    proof (cases rest)
      case Nil
      have "conf_Hostname c \<noteq> h" if "c \<in> set (snap_Conflicts ?snap)" for c
        using that rk Nil by (auto simp: agrees(3) contested_iff)
      then have "conflicts_by_host (snap_Conflicts ?snap) h = None" by (simp add: conflicts_by_host_None)
      with view rk Nil show ?thesis by (simp add: route_view_of_def Let_def)
    next
      case (Cons s rest')
      have in_snap: "conflict_of h w s rest' \<in> set (snap_Conflicts ?snap)"
        using rk Cons by (auto simp: agrees(3) contested_iff)
      then obtain c where c: "conflicts_by_host (snap_Conflicts ?snap) h = Some c"
        by (metis conflicts_by_host_None conflict_of_hostname option.exhaust)
      with conflicts_by_host_Some have "c \<in> set (snap_Conflicts ?snap)" "conf_Hostname c = h" by metis+
      then have "c = conflict_of h w s rest'"
        using rk Cons by (auto simp: agrees(3) contested_iff)
      with view rk Cons c show ?thesis by (simp add: route_view_of_def Let_def conflict_of_def comp_def)
    qed
  qed
  moreover have "distinct (map fst (range_map it (snap_Routes ?snap)))"
    by (rule range_map_distinct [OF assms(2) agrees(1)])
  ultimately show ?thesis using names unfolding Let_def by auto
qed

theorem route_list_shows_conflicts_witness:
  "map (\<lambda>v. (rv_Hostname v, rv_Conflict v)) (RoutesFromSnapshotWithRuntime rev
     (Snapshot (synced [api_container, rival_container])) True) = [(''api.acme.test'', True)] \<and>
   ''api.acme.test'' \<in> route_Hostname ` set (all_claims plain_options [api_container, rival_container])"
proof -
  let ?views = "RoutesFromSnapshotWithRuntime rev (Snapshot (synced [api_container, rival_container])) True"
  have "map (\<lambda>v. (rv_Hostname v, rv_Conflict v)) ?views = [(''api.acme.test'', True)]"
    and names: "map rv_Hostname ?views = [''api.acme.test'']" by code_simp+
  moreover have "''api.acme.test'' \<in> set (map rv_Hostname ?views)" unfolding names by simp
  moreover have "set (map rv_Hostname ?views) =
      route_Hostname ` set (all_claims plain_options [api_container, rival_container])"
    using route_list_shows_conflicts [OF reaches_synced rearranges_rev, of "[api_container, rival_container]" True]
    unfolding Let_def by blast
  ultimately show ?thesis by (simp only: simp_thms)
qed
end
