(* ===== verification/Dns.thy ===== *)
theory Dns
  imports Routing_Types "HOL-Library.Word"
begin

text \<open>
  \<open>internal/dns/server.go\<close>: the managed suffix, the answer the resolver gives, and the lookup
  of a host in the current snapshot, which the HTTP and HTTPS proxies share. The snapshot
  reader is a closure over the daemon's state: here a function of that state, of type
  \<open>'s\<close>. \<open>github.com/miekg/dns\<close> is a dependency: of its message only the parts the
  code touches are here, \<open>'h\<close> stands for the rest of the header, and its \<open>SetReply\<close> is a
  parameter. \<open>TypeA\<close> and \<open>ClassINET\<close> are the numbers RFC 1035 assigns.
  The locale \<open>hostname_resolver\<close> is what the proxies rely on.
\<close>

section \<open>The server\<close>

record 's dns_server =
  srv_managedSuffix :: string
  srv_readSnapshot :: "('s \<Rightarrow> snapshot) option"

record hostname_lookup =
  hl_Managed :: bool
  hl_ActiveRoute :: bool
  hl_Route :: "route option"

definition normalizeSuffix :: "string \<Rightarrow> string" where
  "normalizeSuffix suffix = trim_dots (to_lower (trim_space suffix))"

definition normalizeHost :: "string \<Rightarrow> string" where
  "normalizeHost host = trim_dots (to_lower (trim_space host))"

definition NewServer :: "string \<Rightarrow> ('s \<Rightarrow> snapshot) option \<Rightarrow> 's dns_server" where
  "NewServer managedSuffix readSnapshot =
     \<lparr>srv_managedSuffix = normalizeSuffix managedSuffix, srv_readSnapshot = readSnapshot\<rparr>"

definition IsManagedHost :: "'s dns_server \<Rightarrow> string \<Rightarrow> bool" where
  "IsManagedHost s host0 =
     (let host = normalizeHost host0 in
      if host = [] \<or> srv_managedSuffix s = [] then False
      else host = srv_managedSuffix s \<or> has_suffix host (''.'' @ srv_managedSuffix s))"

text \<open>The zero \<open>Route\<close> of a lookup that found nothing is \<open>None\<close>: it is read only when
  \<open>ActiveRoute\<close> is set.\<close>

definition LookupHostname :: "'s dns_server \<Rightarrow> 's \<Rightarrow> string \<Rightarrow> hostname_lookup" where
  "LookupHostname s st host =
     (let lookup = \<lparr>hl_Managed = IsManagedHost s host, hl_ActiveRoute = False, hl_Route = None\<rparr> in
      if \<not> hl_Managed lookup then lookup
      else case srv_readSnapshot s of
          None \<Rightarrow> lookup
        | Some read \<Rightarrow>
            (case gm_get (snap_Routes (read st)) (normalizeHost host) of
               None \<Rightarrow> lookup
             | Some r \<Rightarrow> lookup\<lparr>hl_ActiveRoute := True, hl_Route := Some r\<rparr>))"

section \<open>Answers\<close>

definition TypeA :: "16 word" where
  "TypeA = 1"

definition ClassINET :: "16 word" where
  "ClassINET = 1"

record question =
  q_Name :: string
  q_Qtype :: "16 word"
  q_Qclass :: "16 word"

record a_record =
  a_Name :: string
  a_Rrtype :: "16 word"
  a_Class :: "16 word"
  a_Ttl :: "32 word"
  a_A :: "8 word list"

record 'h dns_msg =
  msg_Header :: 'h
  msg_Authoritative :: bool
  msg_Question :: "question list"
  msg_Answer :: "a_record list"

definition BuildResponse ::
  "('h dns_msg option \<Rightarrow> 'h dns_msg) \<Rightarrow> 's dns_server \<Rightarrow> 'h dns_msg option \<Rightarrow> 'h dns_msg" where
  "BuildResponse set_reply s req =
     (let resp = set_reply req in
      case req of
        None \<Rightarrow> resp
      | Some m \<Rightarrow>
          (case msg_Question m of
             [] \<Rightarrow> resp
           | q # _ \<Rightarrow>
               if q_Qtype q \<noteq> TypeA then resp
               else
                 (let host = normalizeHost (q_Name q) in
                  if \<not> IsManagedHost s host then resp
                  else resp\<lparr>msg_Authoritative := True,
                         msg_Answer := msg_Answer resp @
                           [\<lparr>a_Name = q_Name q, a_Rrtype = TypeA, a_Class = ClassINET, a_Ttl = 30,
                             a_A = [127, 0, 0, 1]\<rparr>]\<rparr>)))"

section \<open>What a lookup promises\<close>

lemma normalizeHost_eq: "normalizeHost h = normalize h"
  by (simp add: normalizeHost_def normalize_def)

lemma normalizeSuffix_eq: "normalizeSuffix h = normalize h"
  by (simp add: normalizeSuffix_def normalize_def)

text \<open>Under a managed suffix: the suffix itself, or a name below it.\<close>

definition under_suffix :: "string \<Rightarrow> string \<Rightarrow> bool" where
  "under_suffix suffix h \<longleftrightarrow> h = suffix \<or> (\<exists>p. h = p @ ''.'' @ suffix)"

lemma under_suffix_code [code]: "under_suffix suffix h = (h = suffix \<or> has_suffix h (''.'' @ suffix))"
  by (simp add: under_suffix_def has_suffix_iff)

lemma IsManagedHost_iff:
  "IsManagedHost (NewServer suffix rd) h \<longleftrightarrow>
     normalize suffix \<noteq> [] \<and> under_suffix (normalize suffix) (normalize h)"
  by (auto simp: IsManagedHost_def NewServer_def Let_def normalizeHost_eq normalizeSuffix_eq
      under_suffix_code has_suffix_def)

lemma IsManagedHost_normalize:
  "plain (normalize h) \<Longrightarrow> IsManagedHost s (normalizeHost h) = IsManagedHost s h"
  by (simp add: IsManagedHost_def normalizeHost_eq normalize_idem)

lemma LookupHostname_cases:
  "LookupHostname s st h =
     (if IsManagedHost s h
      then \<lparr>hl_Managed = True,
            hl_ActiveRoute = (Option.bind (srv_readSnapshot s)
              (\<lambda>rd. gm_get (snap_Routes (rd st)) (normalizeHost h)) \<noteq> None),
            hl_Route = Option.bind (srv_readSnapshot s)
              (\<lambda>rd. gm_get (snap_Routes (rd st)) (normalizeHost h))\<rparr>
      else \<lparr>hl_Managed = False, hl_ActiveRoute = False, hl_Route = None\<rparr>)"
  by (simp add: LookupHostname_def Let_def split: option.split)

text \<open>
  The contract of a host name lookup, as its clients use it: \<open>routes\<close> is the table of active
  routes, \<open>managed\<close> the names devproxy is responsible for.
\<close>

locale hostname_resolver =
  fixes managed :: "string \<Rightarrow> bool"
    and routes :: "string \<Rightarrow> route option"
    and lookup :: "string \<Rightarrow> hostname_lookup"
  assumes lookup_managed: "hl_Managed (lookup h) = managed h"
    and lookup_active: "hl_ActiveRoute (lookup h) \<longleftrightarrow> managed h \<and> routes h \<noteq> None"
    and lookup_route: "hl_ActiveRoute (lookup h) \<Longrightarrow> hl_Route (lookup h) = routes h"
begin

lemma active_is_managed: "hl_ActiveRoute (lookup h) \<Longrightarrow> hl_Managed (lookup h)"
  by (simp add: lookup_active lookup_managed)

lemma unmanaged_inactive: "\<not> managed h \<Longrightarrow> \<not> hl_ActiveRoute (lookup h)"
  by (simp add: lookup_active)

lemma lookup_found: "managed h \<Longrightarrow> routes h = Some r \<Longrightarrow> hl_ActiveRoute (lookup h) \<and> hl_Route (lookup h) = Some r"
  by (metis lookup_active lookup_route option.distinct(1))

end

definition visible_route :: "'s dns_server \<Rightarrow> 's \<Rightarrow> string \<Rightarrow> route option" where
  "visible_route s st h =
     Option.bind (srv_readSnapshot s) (\<lambda>rd. gm_get (snap_Routes (rd st)) (normalizeHost h))"

interpretation resolver: hostname_resolver "IsManagedHost s" "visible_route s st" "LookupHostname s st"
  for s :: "'s dns_server" and st :: 's
  by unfold_locales (auto simp: LookupHostname_cases visible_route_def)

lemma visible_route_new [simp]:
  "visible_route (NewServer suffix (Some rd)) st h = gm_get (snap_Routes (rd st)) (normalize h)"
  by (simp add: visible_route_def NewServer_def normalizeHost_eq)

section \<open>Properties\<close>

text \<open>C10. Answering a query: the reply carries one more record than \<open>SetReply\<close> left, an A record of 127.0.0.1
  for the queried name with the authoritative bit set, exactly when the first question asks for
  an A record of a name at or under the managed suffix (compared without case, outer
  blanks and dots); every other message gets the bare reply. Whether a route is active for the name plays
  no part.\<close>

theorem answers_exactly_managed_names:
  assumes "normalize suffix \<noteq> []"
    and "msg_Question m = q # qs"
    and "plain (q_Name q)"
  shows "BuildResponse set_reply (NewServer suffix rd) (Some m) =
    (if q_Qtype q = TypeA \<and> under_suffix (normalize suffix) (normalize (q_Name q))
     then (set_reply (Some m))\<lparr>msg_Authoritative := True,
            msg_Answer := msg_Answer (set_reply (Some m)) @
              [\<lparr>a_Name = q_Name q, a_Rrtype = TypeA, a_Class = ClassINET, a_Ttl = 30,
                a_A = [127, 0, 0, 1]\<rparr>]\<rparr>
     else set_reply (Some m))"
  using assms IsManagedHost_iff [of suffix rd "q_Name q"]
    IsManagedHost_normalize [OF plain_normalize [OF assms(3)], of "NewServer suffix rd"]
  by (simp add: BuildResponse_def Let_def)

definition echo_reply :: "unit dns_msg option \<Rightarrow> unit dns_msg" where
  "echo_reply req = \<lparr>msg_Header = (), msg_Authoritative = False,
     msg_Question = (case req of None \<Rightarrow> [] | Some m \<Rightarrow> take 1 (msg_Question m)), msg_Answer = []\<rparr>"

definition a_query :: "string \<Rightarrow> unit dns_msg" where
  "a_query name = \<lparr>msg_Header = (), msg_Authoritative = False,
     msg_Question = [\<lparr>q_Name = name, q_Qtype = TypeA, q_Qclass = ClassINET\<rparr>], msg_Answer = []\<rparr>"

theorem answers_exactly_managed_names_witness:
  "map a_A (msg_Answer (BuildResponse echo_reply
     (NewServer ''.Test'' (None :: (unit \<Rightarrow> snapshot) option)) (Some (a_query ''API.acme.test.'')))) =
   [[127, 0, 0, 1]]"
proof -
  have "normalize ''.Test'' \<noteq> []" "plain ''API.acme.test.''"
    "under_suffix (normalize ''.Test'') (normalize ''API.acme.test.'')" by code_simp+
  then show ?thesis
    using answers_exactly_managed_names [of "''.Test''" "a_query ''API.acme.test.''"
        "\<lparr>q_Name = ''API.acme.test.'', q_Qtype = TypeA, q_Qclass = ClassINET\<rparr>" "[]" echo_reply
        "None :: (unit \<Rightarrow> snapshot) option"]
    by (simp add: a_query_def echo_reply_def)
qed

end
