(* ===== verification/Certs.thy ===== *)
theory Certs
  imports Routing_Types
begin

text \<open>
  \<open>internal/certs/store.go\<close> and \<open>internal/certs/mkcert.go\<close>: which certificate each project
  needs, and its issue by \<open>mkcert\<close>. Running the binary is the parameter \<open>run\<close>, an operation
  on an outside world of type \<open>'w\<close>. The locale \<open>name_cover\<close> is the meaning of a list of
  subject names, which the inventory here and the TLS listener of the proxy must share.
\<close>

section \<open>Names\<close>

definition normalizeHostname :: "string \<Rightarrow> string" where
  "normalizeHostname host = trim_dots (to_lower (trim_space host))"

definition certs_normalizeSuffix :: "string \<Rightarrow> string" where
  "certs_normalizeSuffix suffix = trim_prefix (to_lower (trim_space suffix)) ''.''"

definition isManagedHostname :: "string \<Rightarrow> string \<Rightarrow> bool" where
  "isManagedHostname hostname suffix =
     (let sfx = certs_normalizeSuffix suffix in hostname = sfx \<or> has_suffix hostname (''.'' @ sfx))"

definition projectRootForHostname :: "string \<Rightarrow> string \<Rightarrow> string option" where
  "projectRootForHostname hostname suffix =
     (let parts = split_on CHR ''.'' hostname in
      if length parts < 2 then None
      else let sfx = certs_normalizeSuffix suffix in
        if parts ! (length parts - 1) \<noteq> sfx then None
        else let project = parts ! (length parts - 2) in
          if project = [] then None else Some (project @ ''.'' @ sfx))"

definition wildcardMatches :: "string \<Rightarrow> string \<Rightarrow> bool" where
  "wildcardMatches host root =
     (if \<not> has_suffix host (''.'' @ root) then False
      else let hostLabels = split_on CHR ''.'' host; rootLabels = split_on CHR ''.'' root
        in length hostLabels = length rootLabels + 1)"

fun isCovered :: "string \<Rightarrow> string list \<Rightarrow> bool" where
  "isCovered host [] = False"
| "isCovered host (san0 # sans) =
     (let san = normalizeHostname san0 in
      if san = host then True
      else if has_prefix san ''*.'' \<and> wildcardMatches host (trim_prefix san ''*.'') then True
      else isCovered host sans)"

fun coversAll :: "string list \<Rightarrow> string list \<Rightarrow> bool" where
  "coversAll sans [] = True"
| "coversAll sans (host # hosts) = (if \<not> isCovered host sans then False else coversAll sans hosts)"

fun wildcardEligible :: "string \<Rightarrow> string list \<Rightarrow> bool" where
  "wildcardEligible projectRoot [] = True"
| "wildcardEligible projectRoot (host # hosts) =
     (if host = projectRoot then wildcardEligible projectRoot hosts
      else if length (split_on CHR ''.'' host) \<noteq> length (split_on CHR ''.'' projectRoot) + 1 then False
      else if \<not> has_suffix host (''.'' @ projectRoot) then False
      else wildcardEligible projectRoot hosts)"

definition add_san :: "string \<Rightarrow> string set \<times> string list \<Rightarrow> string set \<times> string list" where
  "add_san h = (\<lambda>(seen, out). if h \<in> seen then (seen, out) else (insert h seen, out @ [h]))"

definition requiredSANs :: "string \<Rightarrow> string list \<Rightarrow> string list" where
  "requiredSANs projectRoot hosts =
     (if wildcardEligible projectRoot hosts then [projectRoot, ''*.'' @ projectRoot]
      else let (seen, out) = fold add_san hosts ({projectRoot}, [projectRoot]) in sort_strings out)"

section \<open>The inventory\<close>

record stored_certificate =
  stored_ProjectRoot :: string
  stored_SANs :: "string list"
  stored_CertPath :: string
  stored_KeyPath :: string

record inventory_decision =
  dec_ProjectRoot :: string
  dec_Hostnames :: "string list"
  dec_RequiredSANs :: "string list"
  dec_ReuseExisting :: bool
  dec_Reason :: string

definition keys :: "(string list \<Rightarrow> string list) \<Rightarrow> unit gomap \<Rightarrow> string list" where
  "keys it m = sort_strings (map fst (range_map it m))"

text \<open>The hosts a route is served under, and one round of the loop over them.\<close>

definition served_hosts :: "route \<Rightarrow> string list" where
  "served_hosts r =
     (let hosts = route_ServedHostnames r in
      if hosts = [] \<and> route_Hostname r \<noteq> [] then [route_Hostname r] else hosts)"

definition add_served_host :: "string \<Rightarrow> string \<Rightarrow> unit gomap gomap \<Rightarrow> unit gomap gomap" where
  "add_served_host suffix host projectHosts =
     (let normalized = normalizeHostname host in
      if normalized = [] \<or> \<not> isManagedHostname normalized suffix then projectHosts
      else case projectRootForHostname normalized suffix of
          None \<Rightarrow> projectHosts
        | Some root \<Rightarrow>
            (let projectHosts =
                   (case gm_get projectHosts root of
                      None \<Rightarrow> gm_put root [] projectHosts | Some _ \<Rightarrow> projectHosts)
             in gm_put root (gm_put normalized () (the (gm_get projectHosts root))) projectHosts))"

definition decide ::
  "(string list \<Rightarrow> string list) \<Rightarrow> unit gomap gomap \<Rightarrow> (string \<rightharpoonup> stored_certificate) \<Rightarrow> string
     \<Rightarrow> inventory_decision" where
  "decide it projectHosts existing root =
     (let hosts = keys it (the (gm_get projectHosts root));
          sans = requiredSANs root hosts;
          decision = \<lparr>dec_ProjectRoot = root, dec_Hostnames = hosts, dec_RequiredSANs = sans,
            dec_ReuseExisting = False, dec_Reason = []\<rparr>
      in case existing root of
           None \<Rightarrow> decision\<lparr>dec_Reason := ''new project root requires issuance''\<rparr>
         | Some stored \<Rightarrow>
             (if coversAll (stored_SANs stored) hosts
              then decision\<lparr>dec_ReuseExisting := True,
                     dec_Reason := ''existing certificate covers active served hostnames''\<rparr>
              else decision\<lparr>dec_Reason :=
                     ''served hostname shape changed beyond current coverage''\<rparr>))"

definition project_hosts ::
  "(string list \<Rightarrow> string list) \<Rightarrow> snapshot \<Rightarrow> string \<Rightarrow> unit gomap gomap" where
  "project_hosts it snap suffix =
     fold (\<lambda>kr. fold (add_served_host suffix) (served_hosts (snd kr)))
       (range_map it (snap_Routes snap)) []"

definition BuildCertificateInventory ::
  "(string list \<Rightarrow> string list) \<Rightarrow> snapshot \<Rightarrow> string \<Rightarrow> (string \<rightharpoonup> stored_certificate)
     \<Rightarrow> inventory_decision list" where
  "BuildCertificateInventory it snap suffix existing =
     (let projectHosts = project_hosts it snap suffix;
          roots = sort_strings (map fst (range_map it projectHosts))
      in map (decide it projectHosts existing) roots)"

section \<open>Issuing\<close>

text \<open>What running the binary can report: its message, and whether it is \<open>exec.ErrNotFound\<close>.\<close>

record run_error =
  rerr_msg :: string
  rerr_not_found :: bool

type_synonym 'w runner = "string \<Rightarrow> string list \<Rightarrow> 'w \<Rightarrow> run_error option \<times> 'w"

record issued_certificate =
  issued_ProjectRoot :: string
  issued_SANs :: "string list"
  issued_CertPath :: string
  issued_KeyPath :: string

record 'w mkcert_issuer =
  mk_Binary :: string
  mk_Runner :: "'w runner option"

definition sanitizeFilename :: "string \<Rightarrow> string" where
  "sanitizeFilename host = replace_all (replace_all host CHR ''*'' ''wildcard'') CHR ''/'' ''-''"

text \<open>\<open>exec\<close> runs the command: its combined output and its error.\<close>

definition runCommand ::
  "(string \<Rightarrow> string list \<Rightarrow> 'w \<Rightarrow> (string \<times> run_error option) \<times> 'w) \<Rightarrow> 'w runner" where
  "runCommand exec binary args w =
     (case exec binary args w of
        ((output, None), w) \<Rightarrow> (None, w)
      | ((output, Some err), w) \<Rightarrow>
          if output = [] then (Some err, w)
          else (Some (err\<lparr>rerr_msg := rerr_msg err @ '': '' @ trim_space output\<rparr>), w))"

definition format_list :: "string list \<Rightarrow> string" where
  "format_list xs = ''['' @ join_with '' '' xs @ '']''"

definition Issue ::
  "'w runner \<Rightarrow> 'w mkcert_issuer \<Rightarrow> string \<Rightarrow> string list \<Rightarrow> 'w
     \<Rightarrow> (go_error + issued_certificate) \<times> 'w" where
  "Issue default_run i outputDir sans w =
     (if sans = [] then (Inl ''mkcert issuance failed: no SANs provided'', w)
      else
        let primary = normalizeHostname (hd sans) in
        if primary = [] then (Inl ''mkcert issuance failed: invalid primary SAN'', w)
        else
          let binary = (if mk_Binary i = [] then ''mkcert'' else mk_Binary i);
              run = (case mk_Runner i of None \<Rightarrow> default_run | Some r \<Rightarrow> r);
              certPath = filepath_join [outputDir, sanitizeFilename primary @ ''.pem''];
              keyPath = filepath_join [outputDir, sanitizeFilename primary @ ''-key.pem''];
              args = [''-cert-file'', certPath, ''-key-file'', keyPath] @ sans
          in case run binary args w of
               (Some err, w) \<Rightarrow>
                 (if rerr_not_found err
                  then (Inl (''mkcert not found: install mkcert before enabling HTTPS: '' @ rerr_msg err), w)
                  else (Inl (''mkcert issuance failed for '' @ format_list sans @ '': '' @ rerr_msg err), w))
             | (None, w) \<Rightarrow>
                 (Inr \<lparr>issued_ProjectRoot = primary, issued_SANs = sans, issued_CertPath = certPath,
                    issued_KeyPath = keyPath\<rparr>, w))"


section \<open>What a list of names covers\<close>

lemma normalizeHostname_eq: "normalizeHostname h = normalize h"
  by (simp add: normalizeHostname_def normalize_def)

text \<open>A host one label below \<open>root\<close>.\<close>

definition one_below :: "string \<Rightarrow> string \<Rightarrow> bool" where
  "one_below root h \<longleftrightarrow> (\<exists>l. h = l @ ''.'' @ root \<and> CHR ''.'' \<notin> set l)"

lemma count_list_zero_iff: "count_list xs x = 0 \<longleftrightarrow> x \<notin> set xs"
  by (induction xs) auto

lemma labels_one_below:
  "has_suffix h (''.'' @ root) \<and>
     length (split_on CHR ''.'' h) = length (split_on CHR ''.'' root) + 1 \<longleftrightarrow> one_below root h"
  by (auto simp: has_suffix_iff one_below_def length_split_on count_list_zero_iff)

lemma wildcardMatches_iff: "wildcardMatches h root \<longleftrightarrow> one_below root h"
  using labels_one_below [of h root] by (auto simp: wildcardMatches_def Let_def)

definition covers_name :: "string \<Rightarrow> string \<Rightarrow> bool" where
  "covers_name san h \<longleftrightarrow>
     normalize san = h \<or> (\<exists>root. normalize san = ''*.'' @ root \<and> one_below root h)"

lemma covers_name_code:
  "covers_name san h \<longleftrightarrow>
     normalize san = h \<or>
     has_prefix (normalize san) ''*.'' \<and> wildcardMatches h (trim_prefix (normalize san) ''*.'')"
  by (auto simp: covers_name_def wildcardMatches_iff has_prefix_iff str_simps trim_prefix_def)

text \<open>
  The contract between the inventory and whoever serves a certificate: a list of names covers
  a host if one of them is the host or a wildcard exactly one label above it.
\<close>

locale name_cover =
  fixes covered :: "string \<Rightarrow> string list \<Rightarrow> bool"
  assumes covered_iff: "covered h sans \<longleftrightarrow> (\<exists>san \<in> set sans. covers_name san h)"
begin

lemma covered_mono: "covered h sans \<Longrightarrow> set sans \<subseteq> set sans' \<Longrightarrow> covered h sans'"
  by (auto simp: covered_iff)

lemma covered_append: "covered h (sans @ sans') \<longleftrightarrow> covered h sans \<or> covered h sans'"
  by (auto simp: covered_iff)

lemma covered_exact: "canonical h \<Longrightarrow> h \<in> set sans \<Longrightarrow> covered h sans"
  by (auto simp: covered_iff covers_name_def canonical_def)

lemma covered_wildcard:
  "canonical (''*.'' @ root) \<Longrightarrow> ''*.'' @ root \<in> set sans \<Longrightarrow> one_below root h \<Longrightarrow> covered h sans"
  unfolding covered_iff covers_name_def canonical_def by metis

end

lemma isCovered_iff: "isCovered h sans \<longleftrightarrow> (\<exists>san \<in> set sans. covers_name san h)"
  by (induction sans) (auto simp: covers_name_code normalizeHostname_eq Let_def)

interpretation inventory: name_cover isCovered
  by unfold_locales (rule isCovered_iff)

lemma coversAll_iff: "coversAll sans hosts \<longleftrightarrow> (\<forall>h \<in> set hosts. isCovered h sans)"
  by (induction hosts) auto

section \<open>The required names\<close>

lemma wildcardEligible_iff:
  "wildcardEligible root hosts \<longleftrightarrow> (\<forall>h \<in> set hosts. h = root \<or> one_below root h)"
proof (induction hosts)
  case (Cons h hosts)
  then show ?case using labels_one_below [of h root] by auto
qed simp

lemma add_san_pair:
  "add_san h (seen, out) = (if h \<in> seen then (seen, out) else (insert h seen, out @ [h]))"
  by (simp add: add_san_def)

lemma fold_add_san:
  "set (snd (fold add_san hosts (seen, out))) = set out \<union> (set hosts - seen)"
  "set out \<subseteq> seen \<Longrightarrow> distinct out \<Longrightarrow> distinct (snd (fold add_san hosts (seen, out)))"
proof (induction hosts arbitrary: seen out)
  case Nil
  { case 1 show ?case by simp }
  { case 2 then show ?case by simp }
next
  case (Cons h hosts)
  { case 1 show ?case using Cons.IH(1) by (auto simp: add_san_pair) }
  { case 2
    show ?case
    proof (cases "h \<in> seen")
      case True
      then show ?thesis using Cons.IH(2) [OF 2] by (simp add: add_san_pair)
    next
      case False
      then have "set (out @ [h]) \<subseteq> insert h seen" "distinct (out @ [h])" using 2 by auto
      from Cons.IH(2) [OF this] False show ?thesis by (simp add: add_san_pair)
    qed }
qed

lemma requiredSANs_exact:
  assumes "\<not> wildcardEligible root hosts"
  shows "set (requiredSANs root hosts) = insert root (set hosts)"
    and "sorted (requiredSANs root hosts)" and "distinct (requiredSANs root hosts)"
proof -
  let ?out = "snd (fold add_san hosts ({root}, [root]))"
  have eq: "requiredSANs root hosts = sort_strings ?out"
    using assms by (simp add: requiredSANs_def case_prod_unfold)
  show "set (requiredSANs root hosts) = insert root (set hosts)"
    by (auto simp: eq fold_add_san)
  show "sorted (requiredSANs root hosts)" by (simp add: eq)
  show "distinct (requiredSANs root hosts)" by (simp add: eq fold_add_san(2))
qed

lemma canonical_wildcard:
  assumes "canonical root" and "plain root" and "root \<noteq> []"
  shows "canonical (''*.'' @ root)"
proof (rule canonical_plainI)
  show "plain (''*.'' @ root)" using assms(2) by (simp add: is_space_def)
  show "to_lower (''*.'' @ root) = ''*.'' @ root"
    using canonical_lower [OF assms(1)] by (simp add: to_lower_def lower_char_def)
  show "trim_dots (''*.'' @ root) = ''*.'' @ root"
    using normalize_ends [OF assms(1)] assms(3)
    by (simp add: trim_dots_def trim_by_id)
qed

context name_cover
begin

lemma requiredSANs_cover:
  assumes "canonical root" and "plain root" and "root \<noteq> []"
    and "\<forall>h \<in> set hosts. canonical h" and "h \<in> set hosts"
  shows "covered h (requiredSANs root hosts)"
proof (cases "wildcardEligible root hosts")
  case True
  then have sans: "requiredSANs root hosts = [root, ''*.'' @ root]" by (simp add: requiredSANs_def)
  from True assms(5) consider "h = root" | "one_below root h" by (auto simp: wildcardEligible_iff)
  then show ?thesis
  proof cases
    case 1
    then show ?thesis using covered_exact [OF assms(1)] by (simp add: sans)
  next
    case 2
    then show ?thesis
      using covered_wildcard [OF canonical_wildcard [OF assms(1-3)]] by (simp add: sans)
  qed
next
  case False
  then show ?thesis using covered_exact assms(4,5) by (simp add: requiredSANs_exact)
qed

end

section \<open>What the inventory decides\<close>

text \<open>
  The abstract inventory: \<open>served_names\<close> are the normalised names the snapshot serves, each
  belongs to at most one project, and every project with a name gets one decision.
\<close>

definition project_of :: "string \<Rightarrow> string \<Rightarrow> string option" where
  "project_of suffix h =
     (if h = [] \<or> \<not> isManagedHostname h suffix then None else projectRootForHostname h suffix)"

definition served_names :: "snapshot \<Rightarrow> string set" where
  "served_names snap =
     normalizeHostname ` (\<Union>r \<in> snd ` set (snap_Routes snap). set (served_hosts r))"

definition names_of_project :: "snapshot \<Rightarrow> string \<Rightarrow> string \<Rightarrow> string set" where
  "names_of_project snap suffix root = {h \<in> served_names snap. project_of suffix h = Some root}"

definition active_projects :: "snapshot \<Rightarrow> string \<Rightarrow> string set" where
  "active_projects snap suffix = Option.these (project_of suffix ` served_names snap)"

lemma active_projects_eq:
  "active_projects snap suffix = {root. \<exists>h \<in> served_names snap. project_of suffix h = Some root}"
  by (auto simp: active_projects_def in_these_eq image_iff eq_commute [of "Some _"])

definition required_decision ::
  "snapshot \<Rightarrow> string \<Rightarrow> (string \<rightharpoonup> stored_certificate) \<Rightarrow> string \<Rightarrow> inventory_decision" where
  "required_decision snap suffix existing root =
     (let hosts = sorted_list_of_set (names_of_project snap suffix root)
      in \<lparr>dec_ProjectRoot = root, dec_Hostnames = hosts, dec_RequiredSANs = requiredSANs root hosts,
          dec_ReuseExisting = (case existing root of
              None \<Rightarrow> False
            | Some stored \<Rightarrow> (\<forall>h \<in> set hosts. isCovered h (stored_SANs stored))),
          dec_Reason = (case existing root of
              None \<Rightarrow> ''new project root requires issuance''
            | Some stored \<Rightarrow>
                if \<forall>h \<in> set hosts. isCovered h (stored_SANs stored)
                then ''existing certificate covers active served hostnames''
                else ''served hostname shape changed beyond current coverage'')\<rparr>)"

definition host_set :: "unit gomap gomap \<Rightarrow> string \<Rightarrow> string set" where
  "host_set m root = (case gm_get m root of None \<Rightarrow> {} | Some u \<Rightarrow> fst ` set u)"

definition wf_hosts :: "unit gomap gomap \<Rightarrow> bool" where
  "wf_hosts m \<longleftrightarrow> wf_gomap m \<and>
     (\<forall>root u. gm_get m root = Some u \<longrightarrow> wf_gomap u \<and> u \<noteq> [])"

lemma gm_put_not_Nil [simp]: "gm_put k v m \<noteq> []"
  by (cases m) (auto split: if_splits)

lemma add_served_host_eq:
  "add_served_host suffix host m =
     (case project_of suffix (normalizeHostname host) of
        None \<Rightarrow> m
      | Some root \<Rightarrow>
          let m = (case gm_get m root of None \<Rightarrow> gm_put root [] m | Some _ \<Rightarrow> m)
          in gm_put root (gm_put (normalizeHostname host) () (the (gm_get m root))) m)"
  by (simp add: add_served_host_def project_of_def Let_def)

lemma host_set_add:
  "host_set (add_served_host suffix host m) root =
     (if project_of suffix (normalizeHostname host) = Some root
      then insert (normalizeHostname host) (host_set m root) else host_set m root)"
  by (auto simp: add_served_host_eq host_set_def Let_def split: option.splits)

lemma wf_hosts_add: "wf_hosts m \<Longrightarrow> wf_hosts (add_served_host suffix host m)"
  by (auto simp: add_served_host_eq wf_hosts_def Let_def split: option.splits)

lemma host_set_fold:
  "host_set (fold (add_served_host suffix) hosts m) root =
     host_set m root \<union> {h \<in> normalizeHostname ` set hosts. project_of suffix h = Some root}"
  by (induction hosts arbitrary: m) (auto simp: host_set_add)

lemma wf_hosts_fold: "wf_hosts m \<Longrightarrow> wf_hosts (fold (add_served_host suffix) hosts m)"
  by (induction hosts arbitrary: m) (auto simp: wf_hosts_add)

lemma host_set_project_hosts:
  assumes "rearranges it" and "wf_gomap (snap_Routes snap)"
  shows "host_set (project_hosts it snap suffix) root = names_of_project snap suffix root"
proof -
  have fold_routes: "host_set (fold (\<lambda>kr. fold (add_served_host suffix) (served_hosts (snd kr))) rs m) root =
      host_set m root \<union> {h \<in> normalizeHostname ` (\<Union>r \<in> snd ` set rs. set (served_hosts r)).
        project_of suffix h = Some root}" for rs :: "(string \<times> route) list" and m
  proof (induction rs arbitrary: m)
    case Nil
    then show ?case by simp
  next
    case (Cons r rs)
    show ?case by (simp only: fold_simps Cons.IH host_set_fold) auto
  qed
  have "host_set [] root = {}" by (simp add: host_set_def)
  with fold_routes show ?thesis
    by (simp add: project_hosts_def set_range_map [OF assms] names_of_project_def served_names_def)
qed

lemma wf_project_hosts: "wf_hosts (project_hosts it snap suffix)"
proof -
  have fold_routes: "wf_hosts m \<Longrightarrow>
      wf_hosts (fold (\<lambda>kr. fold (add_served_host suffix) (served_hosts (snd kr))) rs m)"
    for rs :: "(string \<times> route) list" and m
  proof (induction rs arbitrary: m)
    case (Cons r rs)
    then show ?case by (simp only: fold_simps wf_hosts_fold)
  qed simp
  have "wf_hosts []" by (simp add: wf_hosts_def)
  then show ?thesis unfolding project_hosts_def by (rule fold_routes)
qed

lemma sorted_keys:
  assumes "rearranges it" and "wf_gomap m"
  shows "sort_strings (map fst (range_map it m)) = sorted_list_of_set (fst ` set m)"
proof -
  have "distinct (map fst (range_map it m))" using assms by (rule range_map_distinct)
  moreover have "set (map fst (range_map it m)) = fst ` set m"
    by (simp add: range_map_keys [OF assms(1)] rearranges_set [OF assms(1)] gm_keys_def)
  ultimately show ?thesis
    by (metis sorted_list_of_set_sort_remdups distinct_remdups_id sort_strings_eq_sort)
qed

lemma keys_of_wf_hosts:
  assumes "wf_hosts m"
  shows "fst ` set m = {root. host_set m root \<noteq> {}}"
proof -
  have "root \<in> fst ` set m \<longleftrightarrow> gm_get m root \<noteq> None" for root
    by (simp add: map_of_eq_None_iff)
  then show ?thesis using assms by (auto simp: host_set_def wf_hosts_def split: option.splits)
qed

lemma decide_eq:
  assumes "rearranges it" and "wf_gomap (snap_Routes snap)"
    and "root \<in> active_projects snap suffix"
  shows "decide it (project_hosts it snap suffix) existing root =
     required_decision snap suffix existing root"
proof -
  let ?m = "project_hosts it snap suffix"
  have names: "host_set ?m root = names_of_project snap suffix root"
    by (rule host_set_project_hosts [OF assms(1,2)])
  with assms(3) have "host_set ?m root \<noteq> {}"
    by (auto simp: active_projects_eq names_of_project_def)
  then obtain u where u: "gm_get ?m root = Some u" "fst ` set u = host_set ?m root"
    by (auto simp: host_set_def split: option.splits)
  have "wf_gomap u" using wf_project_hosts u(1) by (auto simp: wf_hosts_def)
  from sorted_keys [OF assms(1) this]
  have "keys it u = sorted_list_of_set (names_of_project snap suffix root)"
    by (simp add: keys_def u(2) names)
  then show ?thesis
    by (simp add: decide_def required_decision_def u(1) Let_def coversAll_iff split: option.split)
qed

lemma BuildCertificateInventory_eq:
  assumes "rearranges it" and "wf_gomap (snap_Routes snap)"
  shows "BuildCertificateInventory it snap suffix existing =
     map (required_decision snap suffix existing) (sorted_list_of_set (active_projects snap suffix))"
proof -
  let ?m = "project_hosts it snap suffix"
  have keys: "fst ` set ?m = active_projects snap suffix"
    by (auto simp: keys_of_wf_hosts [OF wf_project_hosts] host_set_project_hosts [OF assms]
        active_projects_eq names_of_project_def)
  then have "finite (active_projects snap suffix)" by (metis finite_imageI finite_set)
  moreover have "sort_strings (map fst (range_map it ?m)) =
      sorted_list_of_set (active_projects snap suffix)"
    using sorted_keys [OF assms(1), of ?m] wf_project_hosts [of it snap suffix]
    by (simp add: wf_hosts_def keys)
  ultimately show ?thesis
    by (simp add: BuildCertificateInventory_def decide_eq [OF assms])
qed

section \<open>Projects\<close>

lemma finite_served_names [simp]: "finite (served_names snap)"
  by (simp add: served_names_def)

lemma finite_names_of_project [simp]: "finite (names_of_project snap suffix root)"
  by (simp add: names_of_project_def)

lemma finite_active_projects [simp]: "finite (active_projects snap suffix)"
proof -
  have "active_projects snap suffix \<subseteq> (\<lambda>h. the (project_of suffix h)) ` served_names snap"
    unfolding active_projects_eq by force
  then show ?thesis by (rule finite_subset) simp
qed

lemma two_last_labels:
  assumes "2 \<le> length (split_on CHR ''.'' h)"
  obtains ps a b where "split_on CHR ''.'' h = ps @ [a, b]"
    and "h = (if ps = [] then [] else join_with ''.'' ps @ ''.'') @ a @ ''.'' @ b"
    and "CHR ''.'' \<notin> set a" "CHR ''.'' \<notin> set b"
proof -
  let ?l = "split_on CHR ''.'' h"
  obtain ps ab where ps: "?l = ps @ ab" "length ab = 2"
    using assms by (metis append_take_drop_id length_drop diff_diff_cancel)
  then obtain a b where ab: "ab = [a, b]" by (auto simp: length_Suc_conv numeral_2_eq_2)
  have "join_with sep (qs @ [a, b]) =
      (if qs = [] then [] else join_with sep qs @ sep) @ a @ sep @ b" for sep qs
    by (induction sep qs rule: join_with.induct) auto
  then have "h = (if ps = [] then [] else join_with ''.'' ps @ ''.'') @ a @ ''.'' @ b"
    using join_split_on [of "CHR ''.''" h] ps(1) ab by metis
  moreover have "CHR ''.'' \<notin> set a" "CHR ''.'' \<notin> set b"
    using split_on_no_sep [of _ "CHR ''.''" h] ps(1) ab by auto
  ultimately show ?thesis using that ps(1) ab by blast
qed

text \<open>The project of a name is its last two labels, and the last one is the managed suffix.\<close>

lemma project_of_labels:
  assumes "project_of suffix h = Some root"
  obtains p a where "h = p @ root" and "root = a @ ''.'' @ certs_normalizeSuffix suffix"
    and "a \<noteq> []" and "CHR ''.'' \<notin> set a" and "CHR ''.'' \<notin> set (certs_normalizeSuffix suffix)"
proof -
  let ?l = "split_on CHR ''.'' h"
  have *: "projectRootForHostname h suffix = Some root"
    using assms by (simp add: project_of_def split: if_splits)
  then have "2 \<le> length ?l"
    by (simp add: projectRootForHostname_def Let_def split: if_splits)
  from two_last_labels [OF this] obtain ps a b where l: "?l = ps @ [a, b]"
    and h: "h = (if ps = [] then [] else join_with ''.'' ps @ ''.'') @ a @ ''.'' @ b"
    and dots: "CHR ''.'' \<notin> set a" "CHR ''.'' \<notin> set b" by metis
  have "b = certs_normalizeSuffix suffix" "a \<noteq> []" "root = a @ ''.'' @ b"
    using * by (auto simp: projectRootForHostname_def l Let_def nth_append split: if_splits)
  with h dots show ?thesis by (intro that) simp_all
qed

lemma canonical_suffix_part:
  assumes "canonical (p @ r)" and "plain (p @ r)" and "r \<noteq> []" and "hd r \<noteq> CHR ''.''"
  shows "canonical r"
proof (rule canonical_plainI)
  show "plain r" using assms(2) by (simp add: plain_def)
  have "to_lower (p @ r) = p @ r" using assms(1) by (rule canonical_lower)
  then show "to_lower r = r" by (simp add: to_lower_def)
  show "trim_dots r = r"
    using normalize_ends [OF assms(1)] assms(3,4) by (simp add: trim_dots_def trim_by_id)
qed

lemma project_canonical:
  assumes "project_of suffix h = Some root" and "canonical h" and "plain h"
  shows "canonical root \<and> plain root \<and> root \<noteq> []"
proof -
  from project_of_labels [OF assms(1)] obtain p a where *: "h = p @ root"
    "root = a @ ''.'' @ certs_normalizeSuffix suffix" "a \<noteq> []" "CHR ''.'' \<notin> set a" by metis
  then have "hd root \<noteq> CHR ''.''" by (cases a) auto
  with * assms(2,3) canonical_suffix_part [of p root] show ?thesis by (auto simp: plain_def)
qed

section \<open>Properties\<close>

text \<open>C14. The inventory has one decision per project that serves a managed name, sorted by
  project; it lists the project's names sorted, and it reuses a stored certificate exactly when
  that covers all of them. The result does not depend on the order in which Go ranges over the maps.\<close>

theorem inventory_decides_every_project:
  assumes "rearranges it" and "wf_gomap (snap_Routes snap)"
  shows "BuildCertificateInventory it snap suffix existing =
     map (required_decision snap suffix existing) (sorted_list_of_set (active_projects snap suffix))"
  using assms by (rule BuildCertificateInventory_eq)

definition served_route :: "string list \<Rightarrow> route" where
  "served_route hosts = \<lparr>route_Hostname = hd hosts, route_Domains = hosts, route_ServedHostnames = hosts,
     route_Upstream = \<lparr>up_Host = ''127.0.0.1'', up_Port = 8080, up_Scheme = ''http''\<rparr>,
     route_Winner = \<lparr>cand_ContainerID = [], cand_ContainerName = [], cand_Project = [],
       cand_Service = [], cand_Source = [], cand_PublishedPorts = [], cand_Labels = Map.empty,
       cand_Warnings = []\<rparr>,
     route_Losers = [], route_Priority = 0, route_HTTPSRedirect = False, route_HTTPSOnly = False,
     route_Provenance = zero_provenance\<rparr>"

definition serving :: "string list list \<Rightarrow> snapshot" where
  "serving hss = zero_snapshot\<lparr>snap_Routes := map (\<lambda>hs. (hd hs, served_route hs)) hss\<rparr>"

theorem inventory_decides_every_project_witness:
  "map dec_ProjectRoot (map (required_decision
       (serving [[''api.acme.test''], [''Web.shop.test'', ''x.y''], [''acme.test'']]) ''test'' Map.empty)
     (sorted_list_of_set (active_projects
       (serving [[''api.acme.test''], [''Web.shop.test'', ''x.y''], [''acme.test'']]) ''test''))) =
   [''acme.test'', ''shop.test'']"
proof -
  have "wf_gomap (snap_Routes (serving [[''api.acme.test''], [''Web.shop.test'', ''x.y''], [''acme.test'']]))"
    by (simp add: serving_def wf_gomap_def zero_snapshot_def)
  note inventory_decides_every_project [OF rearranges_rev this, of "''test''" Map.empty, symmetric]
  then show ?thesis by (simp only:) code_simp
qed

lemma required_names_cover:
  assumes "rearranges it" and "wf_gomap (snap_Routes snap)"
    and "\<forall>r \<in> snd ` set (snap_Routes snap). \<forall>h \<in> set (served_hosts r). plain h"
    and "d \<in> set (BuildCertificateInventory it snap suffix existing)"
  shows "dec_Hostnames d \<noteq> [] \<and> coversAll (dec_RequiredSANs d) (dec_Hostnames d) \<and>
     (dec_RequiredSANs d = [dec_ProjectRoot d, ''*.'' @ dec_ProjectRoot d] \<or>
      set (dec_RequiredSANs d) = insert (dec_ProjectRoot d) (set (dec_Hostnames d)))"
proof -
  from assms(4) obtain root where root: "root \<in> active_projects snap suffix"
    and d: "d = required_decision snap suffix existing root"
    by (auto simp: BuildCertificateInventory_eq [OF assms(1,2)])
  let ?hosts = "names_of_project snap suffix root"
  have sorted: "dec_Hostnames d = sorted_list_of_set ?hosts" "dec_ProjectRoot d = root"
    "dec_RequiredSANs d = requiredSANs root (sorted_list_of_set ?hosts)"
    by (simp_all add: d required_decision_def Let_def)
  have names: "canonical h \<and> plain h \<and> project_of suffix h = Some root" if "h \<in> ?hosts" for h
    using that assms(3)
    by (auto simp: names_of_project_def served_names_def normalizeHostname_eq
        intro!: canonical_normalize plain_normalize)
  from root obtain h where h: "h \<in> ?hosts" by (auto simp: active_projects_eq names_of_project_def)
  with project_canonical names have "canonical root \<and> plain root \<and> root \<noteq> []" by blast
  with names have "\<forall>h \<in> ?hosts. isCovered h (requiredSANs root (sorted_list_of_set ?hosts))"
    by (auto intro!: inventory.requiredSANs_cover)
  moreover have "sorted_list_of_set ?hosts \<noteq> []" using h by auto
  moreover have "requiredSANs root hs = [root, ''*.'' @ root] \<or>
      set (requiredSANs root hs) = insert root (set hs)" for hs
    using requiredSANs_exact(1) [of root hs] by (cases "wildcardEligible root hs")
      (simp_all add: requiredSANs_def)
  note this [of "sorted_list_of_set ?hosts"]
  ultimately show ?thesis by (simp add: coversAll_iff sorted)
qed

text \<open>Below a managed suffix of more than one label no project is ever found: the inventory is empty,
  so no certificate is issued whatever the snapshot serves.\<close>

theorem dotted_suffix_needs_no_certificate:
  assumes "rearranges it" and "wf_gomap (snap_Routes snap)"
    and "CHR ''.'' \<in> set (certs_normalizeSuffix suffix)"
  shows "BuildCertificateInventory it snap suffix existing = []"
proof -
  have "project_of suffix h \<noteq> Some root" for h root
    using assms(3) by (meson project_of_labels)
  then have "active_projects snap suffix = {}" by (simp add: active_projects_eq)
  then show ?thesis by (simp add: BuildCertificateInventory_eq [OF assms(1,2)])
qed

theorem dotted_suffix_needs_no_certificate_witness:
  "isManagedHostname ''api.acme.dev.local'' ''dev.local'' \<and>
   BuildCertificateInventory rev (serving [[''api.acme.dev.local'']]) ''dev.local'' Map.empty = []"
proof -
  have "wf_gomap (snap_Routes (serving [[''api.acme.dev.local'']]))"
    by (simp add: serving_def wf_gomap_def zero_snapshot_def)
  moreover have "CHR ''.'' \<in> set (certs_normalizeSuffix ''dev.local'')"
    "isManagedHostname ''api.acme.dev.local'' ''dev.local''" by code_simp+
  ultimately show ?thesis by (simp add: dotted_suffix_needs_no_certificate)
qed

end
