(* ===== verification/Proxy.thy ===== *)
theory Proxy
  imports Dns Certs
begin

text \<open>
  \<open>internal/proxy/http.go\<close> and \<open>internal/proxy/https.go\<close>: what the proxy does with a request,
  and which certificate the TLS listener presents. What a handler writes is a list of actions on
  its \<open>ResponseWriter\<close>; handing the request to \<open>httputil.NewSingleHostReverseProxy\<close> is the action
  \<open>ReverseProxy\<close>. The closures over the daemon's state are functions of it (type \<open>'s\<close>), \<open>'t\<close> is
  a transport. Parsing DER and loading key pairs (\<open>crypto/x509\<close>, \<open>crypto/tls\<close>, the file system)
  are the parameters \<open>parse\<close> and \<open>load\<close>.
\<close>

section \<open>HTTP\<close>

record url =
  url_Scheme :: string
  url_Host :: string

datatype 't round_tripper = DefaultTransport | Transport 't

datatype 't http_action =
    SetHeader string string
  | WriteHeader int
  | WriteText string
  | ReverseProxy url "'t round_tripper"

record ('s, 't) http_handler_config =
  hc_ManagedSuffix :: string
  hc_Snapshot :: "('s \<Rightarrow> snapshot) option"
  hc_RoutingPaused :: "('s \<Rightarrow> bool) option"
  hc_Transport :: "'t round_tripper option"

record ('s, 't) http_handler =
  hh_dnsLookup :: "'s dns_server"
  hh_readSnapshot :: "'s \<Rightarrow> snapshot"
  hh_routingPaused :: "'s \<Rightarrow> bool"
  hh_transport :: "'t round_tripper"

definition NewHTTPHandler :: "('s, 't) http_handler_config \<Rightarrow> ('s, 't) http_handler" where
  "NewHTTPHandler cfg =
     (let readSnapshot = (case hc_Snapshot cfg of None \<Rightarrow> (\<lambda>_. zero_snapshot) | Some f \<Rightarrow> f);
          routingPaused = (case hc_RoutingPaused cfg of None \<Rightarrow> (\<lambda>_. False) | Some f \<Rightarrow> f);
          transport = (case hc_Transport cfg of None \<Rightarrow> DefaultTransport | Some t \<Rightarrow> t)
      in \<lparr>hh_dnsLookup = NewServer (hc_ManagedSuffix cfg) (Some readSnapshot),
          hh_readSnapshot = readSnapshot, hh_routingPaused = routingPaused, hh_transport = transport\<rparr>)"

definition canonicalHost :: "string \<Rightarrow> string" where
  "canonicalHost hostPort =
     (let host = trim_space hostPort;
          host = (if CHR '':'' \<in> set host then takeWhile (\<lambda>c. c \<noteq> CHR '':'') host else host)
      in trim_dots (to_lower host))"

definition upstreamURL :: "upstream \<Rightarrow> url option" where
  "upstreamURL up =
     (let scheme = trim_space (up_Scheme up);
          scheme = (if scheme = [] then ''http'' else scheme);
          host = trim_space (up_Host up)
      in if host = [] \<or> up_Port up \<le> 0 then None
         else Some \<lparr>url_Scheme = scheme, url_Host = host @ '':'' @ itoa (up_Port up)\<rparr>)"

definition writeFriendlyNoRoute :: "string \<Rightarrow> 't http_action list" where
  "writeFriendlyNoRoute host =
     [SetHeader ''Content-Type'' ''text/plain; charset=utf-8'', WriteHeader 404,
      WriteText (''No route is active for '' @ host @ '' in devproxy.'')]"

definition writeFriendlyPaused :: "string \<Rightarrow> 't http_action list" where
  "writeFriendlyPaused host =
     [SetHeader ''Content-Type'' ''text/plain; charset=utf-8'', WriteHeader 503,
      WriteText (''Routing is paused for '' @ host @ '' in devproxy.'')]"

text \<open>\<open>http.NotFound\<close> of the standard library.\<close>

definition NotFound :: "'t http_action list" where
  "NotFound =
     [SetHeader ''Content-Type'' ''text/plain; charset=utf-8'',
      SetHeader ''X-Content-Type-Options'' ''nosniff'', WriteHeader 404,
      WriteText (''404 page not found'' @ [CHR 0x0A])]"

text \<open>The part of \<open>HandleHTTP\<close> after the lookup; a route without upstream (the zero \<open>Route\<close>)
  has no target.\<close>

definition serve_lookup ::
  "bool \<Rightarrow> 't round_tripper \<Rightarrow> string \<Rightarrow> hostname_lookup \<Rightarrow> bool \<times> 't http_action list" where
  "serve_lookup paused transport host lookup =
     (if \<not> hl_Managed lookup then (False, [])
      else if paused then (True, writeFriendlyPaused host)
      else if \<not> hl_ActiveRoute lookup then (True, writeFriendlyNoRoute host)
      else case Option.bind (hl_Route lookup) (upstreamURL \<circ> route_Upstream) of
          None \<Rightarrow> (True, writeFriendlyNoRoute host)
        | Some target \<Rightarrow> (True, [ReverseProxy target transport]))"

definition HandleHTTP :: "('s, 't) http_handler \<Rightarrow> 's \<Rightarrow> string \<Rightarrow> bool \<times> 't http_action list" where
  "HandleHTTP h st req_Host =
     (let host = canonicalHost req_Host;
          lookup = LookupHostname (hh_dnsLookup h) st host
      in serve_lookup (hh_routingPaused h st) (hh_transport h) host lookup)"

definition ServeHTTP :: "('s, 't) http_handler \<Rightarrow> 's \<Rightarrow> string \<Rightarrow> 't http_action list" where
  "ServeHTTP h st req_Host =
     (case HandleHTTP h st req_Host of
        (True, actions) \<Rightarrow> actions
      | (False, actions) \<Rightarrow> actions @ NotFound)"

section \<open>HTTPS\<close>

record x509_leaf =
  leaf_DNSNames :: "string list"

record 'k tls_certificate =
  tls_Certificate :: "string list"
  tls_Leaf :: "x509_leaf option"
  tls_PrivateKey :: 'k

record ('s, 't, 'k) https_listener_config =
  lc_ManagedSuffix :: string
  lc_Snapshot :: "('s \<Rightarrow> snapshot) option"
  lc_RoutingPaused :: "('s \<Rightarrow> bool) option"
  lc_Transport :: "'t round_tripper option"
  lc_Certificates :: "'k tls_certificate gomap"
  lc_Stored :: "stored_certificate list"

record ('s, 't, 'k) https_listener =
  tl_handler :: "('s, 't) http_handler"
  tl_dnsLookup :: "'s dns_server"
  tl_certificates :: "'k tls_certificate gomap"

definition proxy_normalizeHostname :: "string \<Rightarrow> string" where
  "proxy_normalizeHostname host = trim_dots (to_lower (trim_space host))"

definition proxy_wildcardMatches :: "string \<Rightarrow> string \<Rightarrow> bool" where
  "proxy_wildcardMatches host root =
     (if \<not> has_suffix host (''.'' @ root) then False
      else let hostLabels = split_on CHR ''.'' host; rootLabels = split_on CHR ''.'' root
        in length hostLabels = length rootLabels + 1)"

definition ensureParsedLeaf ::
  "(string \<Rightarrow> x509_leaf option) \<Rightarrow> 'k tls_certificate \<Rightarrow> 'k tls_certificate" where
  "ensureParsedLeaf parse cert =
     (if tls_Leaf cert \<noteq> None \<or> tls_Certificate cert = [] then cert
      else case parse (hd (tls_Certificate cert)) of
          None \<Rightarrow> cert
        | Some leaf \<Rightarrow> cert\<lparr>tls_Leaf := Some leaf\<rparr>)"

fun dns_names_cover :: "string \<Rightarrow> string list \<Rightarrow> bool" where
  "dns_names_cover host [] = False"
| "dns_names_cover host (san # sans) =
     (let n = proxy_normalizeHostname san in
      if n = host then True
      else if has_prefix n ''*.'' \<and> proxy_wildcardMatches host (trim_prefix n ''*.'') then True
      else dns_names_cover host sans)"

definition certificateCoversHost :: "'k tls_certificate option \<Rightarrow> string \<Rightarrow> bool" where
  "certificateCoversHost cert host =
     (case cert of
        None \<Rightarrow> False
      | Some c \<Rightarrow>
          (case tls_Leaf c of
             None \<Rightarrow> False
           | Some leaf \<Rightarrow> dns_names_cover host (leaf_DNSNames leaf)))"

fun load_stored ::
  "(string \<Rightarrow> x509_leaf option) \<Rightarrow> (string \<Rightarrow> string \<Rightarrow> go_error + 'k tls_certificate)
     \<Rightarrow> stored_certificate list \<Rightarrow> 'k tls_certificate gomap \<Rightarrow> go_error + 'k tls_certificate gomap" where
  "load_stored parse load [] inventory = Inr inventory"
| "load_stored parse load (s # stored) inventory =
     (if stored_ProjectRoot s = [] then load_stored parse load stored inventory
      else case load (stored_CertPath s) (stored_KeyPath s) of
          Inl err \<Rightarrow> Inl (''load certificate '' @ stored_ProjectRoot s @ '': '' @ err)
        | Inr loaded \<Rightarrow>
            load_stored parse load stored
              (gm_put (proxy_normalizeHostname (stored_ProjectRoot s)) (ensureParsedLeaf parse loaded)
                 inventory))"

definition buildCertificateMap ::
  "(string list \<Rightarrow> string list) \<Rightarrow> (string \<Rightarrow> x509_leaf option)
     \<Rightarrow> (string \<Rightarrow> string \<Rightarrow> go_error + 'k tls_certificate)
     \<Rightarrow> 'k tls_certificate gomap \<Rightarrow> stored_certificate list \<Rightarrow> go_error + 'k tls_certificate gomap" where
  "buildCertificateMap it parse load certificates stored =
     (let inventory = fold (\<lambda>(k, v) m. gm_put (proxy_normalizeHostname k) (ensureParsedLeaf parse v) m)
            (range_map it certificates) []
      in if length inventory > 0 \<or> length stored = 0 then Inr inventory
         else load_stored parse load stored inventory)"

definition NewHTTPSListener ::
  "(string list \<Rightarrow> string list) \<Rightarrow> (string \<Rightarrow> x509_leaf option)
     \<Rightarrow> (string \<Rightarrow> string \<Rightarrow> go_error + 'k tls_certificate)
     \<Rightarrow> ('s, 't, 'k) https_listener_config \<Rightarrow> go_error + ('s, 't, 'k) https_listener" where
  "NewHTTPSListener it parse load cfg =
     (let h = NewHTTPHandler \<lparr>hc_ManagedSuffix = lc_ManagedSuffix cfg, hc_Snapshot = lc_Snapshot cfg,
            hc_RoutingPaused = lc_RoutingPaused cfg, hc_Transport = lc_Transport cfg\<rparr>;
          lookup = NewServer (lc_ManagedSuffix cfg) (lc_Snapshot cfg)
      in case buildCertificateMap it parse load (lc_Certificates cfg) (lc_Stored cfg) of
           Inl err \<Rightarrow> Inl err
         | Inr inventory \<Rightarrow>
             Inr \<lparr>tl_handler = h, tl_dnsLookup = lookup, tl_certificates = inventory\<rparr>)"

definition ReplaceCertificates ::
  "(string list \<Rightarrow> string list) \<Rightarrow> (string \<Rightarrow> x509_leaf option)
     \<Rightarrow> (string \<Rightarrow> string \<Rightarrow> go_error + 'k tls_certificate)
     \<Rightarrow> 'k tls_certificate gomap \<Rightarrow> stored_certificate list \<Rightarrow> ('s, 't, 'k) https_listener
     \<Rightarrow> go_error option \<times> ('s, 't, 'k) https_listener" where
  "ReplaceCertificates it parse load certificates stored l =
     (case buildCertificateMap it parse load certificates stored of
        Inl err \<Rightarrow> (Some err, l)
      | Inr inventory \<Rightarrow> (None, l\<lparr>tl_certificates := inventory\<rparr>))"

definition HandleHTTPS :: "('s, 't, 'k) https_listener \<Rightarrow> 's \<Rightarrow> string \<Rightarrow> bool \<times> 't http_action list" where
  "HandleHTTPS l st req_Host = HandleHTTP (tl_handler l) st req_Host"

definition ServeHTTPS :: "('s, 't, 'k) https_listener \<Rightarrow> 's \<Rightarrow> string \<Rightarrow> 't http_action list" where
  "ServeHTTPS l st req_Host = ServeHTTP (tl_handler l) st req_Host"

text \<open>The test the loop of \<open>getCertificate\<close> makes on each entry.\<close>

definition entry_serves :: "string \<Rightarrow> string \<times> 'k tls_certificate \<Rightarrow> bool" where
  "entry_serves host = (\<lambda>(san, cert).
     san = host \<or>
     has_prefix san ''*.'' \<and> proxy_wildcardMatches host (trim_prefix san ''*.'') \<or>
     certificateCoversHost (Some cert) host)"

text \<open>\<open>server_name\<close> is \<open>hello.ServerName\<close>, \<open>None\<close> a nil hello.\<close>

definition getCertificate ::
  "(string list \<Rightarrow> string list) \<Rightarrow> ('s, 't, 'k) https_listener \<Rightarrow> 's \<Rightarrow> string option
     \<Rightarrow> go_error + 'k tls_certificate" where
  "getCertificate it l st server_name =
     (case server_name of
        None \<Rightarrow> Inl ''tls handshake missing client hello''
      | Some name \<Rightarrow>
          (let host = proxy_normalizeHostname name;
               lookup = LookupHostname (tl_dnsLookup l) st host
           in if \<not> hl_Managed lookup then Inl (''no managed route for '' @ host)
              else case gm_get (tl_certificates l) host of
                  Some cert \<Rightarrow> Inr cert
                | None \<Rightarrow>
                    (case find (entry_serves host) (range_map it (tl_certificates l)) of
                       Some (san, cert) \<Rightarrow> Inr cert
                     | None \<Rightarrow> Inl (''no certificate available for '' @ host))))"

section \<open>Lemmas\<close>

lemma proxy_normalizeHostname_eq: "proxy_normalizeHostname h = normalize h"
  by (simp add: proxy_normalizeHostname_def normalize_def)

lemma proxy_wildcardMatches_iff: "proxy_wildcardMatches h root \<longleftrightarrow> one_below root h"
  using wildcardMatches_iff [of h root] by (simp add: proxy_wildcardMatches_def wildcardMatches_def)

lemma dns_names_cover_iff: "dns_names_cover h sans \<longleftrightarrow> (\<exists>san \<in> set sans. covers_name san h)"
  by (induction sans)
    (auto simp: covers_name_code proxy_normalizeHostname_eq proxy_wildcardMatches_iff
      wildcardMatches_iff Let_def)

interpretation leaf: name_cover dns_names_cover
  by unfold_locales (rule dns_names_cover_iff)

lemma certificateCoversHost_simp [simp]:
  "certificateCoversHost (Some c) h \<longleftrightarrow>
     (\<exists>leaf. tls_Leaf c = Some leaf \<and> dns_names_cover h (leaf_DNSNames leaf))"
  by (simp add: certificateCoversHost_def split: option.split)

text \<open>What a request says about the host, before the port.\<close>

definition host_part :: "string \<Rightarrow> string" where
  "host_part req = takeWhile (\<lambda>c. c \<noteq> CHR '':'') req"

lemma plain_host_part: "plain req \<Longrightarrow> plain (host_part req)"
  by (auto simp: plain_def host_part_def dest: set_takeWhileD)

lemma canonicalHost_eq:
  assumes "plain req"
  shows "canonicalHost req = normalize (host_part req)"
proof -
  have "(if CHR '':'' \<in> set req then host_part req else req) = host_part req"
    by (auto simp: host_part_def intro!: takeWhile_eq_all_conv [THEN iffD2, symmetric])
  moreover have "trim_space (host_part req) = host_part req"
    by (rule trim_space_plain [OF plain_host_part [OF assms]])
  ultimately show ?thesis
    unfolding canonicalHost_def Let_def trim_space_plain [OF assms] normalize_def
    by (simp only: host_part_def)
qed

text \<open>Reading the outcome off the lookup's contract.\<close>

context hostname_resolver
begin

lemma serve_lookup_eq:
  "serve_lookup paused transport host (lookup h) =
     (if \<not> managed h then (False, [])
      else if paused then (True, writeFriendlyPaused host)
      else case Option.bind (routes h) (upstreamURL \<circ> route_Upstream) of
          None \<Rightarrow> (True, writeFriendlyNoRoute host)
        | Some target \<Rightarrow> (True, [ReverseProxy target transport]))"
  using lookup_active [of h] lookup_route [of h]
  by (cases "routes h") (auto simp: serve_lookup_def lookup_managed)

lemma forwards_only_active:
  "serve_lookup paused transport host (lookup h) = (True, [ReverseProxy target transport']) \<Longrightarrow>
   managed h \<and> \<not> paused \<and> (\<exists>r. routes h = Some r \<and> upstreamURL (route_Upstream r) = Some target)"
  by (auto simp: serve_lookup_eq writeFriendlyNoRoute_def writeFriendlyPaused_def bind_eq_Some_conv
      split: if_splits option.splits)

end

lemma managed_normalized:
  assumes "plain h"
  shows "IsManagedHost (NewServer suffix rd) (normalize h) = IsManagedHost (NewServer suffix rd) h"
  using IsManagedHost_normalize [OF plain_normalize [OF assms], of "NewServer suffix rd"]
  by (simp add: normalizeHost_eq)

lemma HandleHTTP_eq:
  assumes "plain req"
  shows "HandleHTTP (NewHTTPHandler \<lparr>hc_ManagedSuffix = suffix, hc_Snapshot = Some snap,
       hc_RoutingPaused = Some paused, hc_Transport = tr\<rparr>) st req =
    (let h = normalize (host_part req) in
     if normalize suffix = [] \<or> \<not> under_suffix (normalize suffix) h then (False, [])
     else if paused st then (True, writeFriendlyPaused h)
     else case Option.bind (gm_get (snap_Routes (snap st)) h) (upstreamURL \<circ> route_Upstream) of
         None \<Rightarrow> (True, writeFriendlyNoRoute h)
       | Some target \<Rightarrow> (True, [ReverseProxy target (case tr of None \<Rightarrow> DefaultTransport | Some t \<Rightarrow> t)]))"
proof -
  let ?h = "normalize (host_part req)"
  have norm: "normalize ?h = ?h"
    using normalize_idem [OF plain_normalize [OF plain_host_part [OF assms]]] .
  then show ?thesis
    by (simp add: HandleHTTP_def NewHTTPHandler_def Let_def canonicalHost_eq [OF assms]
        resolver.serve_lookup_eq IsManagedHost_iff)
qed

section \<open>Properties\<close>

text \<open>C11. What the proxy does with a request: a host outside the managed suffix is not handled (and
  gets the standard 404), a paused proxy answers 503 for every managed host, a managed host without an active
  route (or whose route has no usable upstream) gets the friendly 404, and everything else is
  forwarded to the route's upstream. The host is compared without port, case, and outer dots.\<close>

theorem request_outcome:
  assumes "plain req"
  shows "ServeHTTP (NewHTTPHandler \<lparr>hc_ManagedSuffix = suffix, hc_Snapshot = Some snap,
      hc_RoutingPaused = Some paused, hc_Transport = None\<rparr>) st req =
    (let h = normalize (host_part req) in
     if normalize suffix = [] \<or> \<not> under_suffix (normalize suffix) h then NotFound
     else if paused st then writeFriendlyPaused h
     else case gm_get (snap_Routes (snap st)) h of
         None \<Rightarrow> writeFriendlyNoRoute h
       | Some r \<Rightarrow>
           (case upstreamURL (route_Upstream r) of
              None \<Rightarrow> writeFriendlyNoRoute h
            | Some target \<Rightarrow> [ReverseProxy target DefaultTransport]))"
proof (cases "gm_get (snap_Routes (snap st)) (normalize (host_part req))")
  case None
  then show ?thesis unfolding ServeHTTP_def HandleHTTP_eq [OF assms] Let_def by simp
next
  case (Some r)
  then show ?thesis
    by (cases "upstreamURL (route_Upstream r)")
      (simp_all add: ServeHTTP_def HandleHTTP_eq [OF assms] Let_def)
qed

theorem request_outcome_witness:
  "ServeHTTP (NewHTTPHandler \<lparr>hc_ManagedSuffix = ''test'', hc_Snapshot = Some fst,
      hc_RoutingPaused = Some snd, hc_Transport = (None :: unit round_tripper option)\<rparr>)
     (serving [[''api.acme.test'']], False) ''API.Acme.test.:8443'' =
   [ReverseProxy \<lparr>url_Scheme = ''http'', url_Host = ''127.0.0.1:8080''\<rparr> DefaultTransport]"
proof -
  have "plain ''API.Acme.test.:8443''" by code_simp
  note outcome = request_outcome [OF this, of "''test''" fst snd
      "(serving [[''api.acme.test'']], False)"]
  have "normalize (host_part ''API.Acme.test.:8443'') = ''api.acme.test''"
    "normalize ''test'' = ''test''" "under_suffix ''test'' ''api.acme.test''"
    by code_simp+
  moreover have "upstreamURL (route_Upstream (served_route [''api.acme.test''])) =
      Some \<lparr>url_Scheme = ''http'', url_Host = ''127.0.0.1:8080''\<rparr>"
    by code_simp
  moreover have "snap_Routes (serving [[''api.acme.test'']]) =
      [(''api.acme.test'', served_route [''api.acme.test''])]"
    by (simp add: serving_def)
  ultimately show ?thesis
    by (simp only: outcome Let_def fst_conv snd_conv map_of.simps fun_upd_same option.case
        list.distinct simp_thms if_False)
qed

text \<open>A route stored under a name that is not in normal form (upper case, outer blanks or
  dots; an explicit \<open>devproxy.domain\<close> label is stored as written) is out of reach: every
  request is answered as if the route were not in the snapshot.\<close>

theorem uncanonical_routes_unreachable:
  assumes "plain req"
    and "\<not> canonical k"
  shows "ServeHTTP (NewHTTPHandler \<lparr>hc_ManagedSuffix = suffix,
       hc_Snapshot = Some (\<lambda>st. (snap st)\<lparr>snap_Routes := (k, r) # snap_Routes (snap st)\<rparr>),
       hc_RoutingPaused = Some paused, hc_Transport = None\<rparr>) st req =
     ServeHTTP (NewHTTPHandler \<lparr>hc_ManagedSuffix = suffix, hc_Snapshot = Some snap,
       hc_RoutingPaused = Some paused, hc_Transport = None\<rparr>) st req"
proof -
  have "canonical (normalize (host_part req))"
    by (rule canonical_normalize [OF plain_host_part [OF assms(1)]])
  with assms(2) have "normalize (host_part req) \<noteq> k" by auto
  then show ?thesis by (simp add: ServeHTTP_def HandleHTTP_eq [OF assms(1)] Let_def)
qed

theorem uncanonical_routes_unreachable_witness:
  "ServeHTTP (NewHTTPHandler \<lparr>hc_ManagedSuffix = ''test'',
      hc_Snapshot = Some (\<lambda>st. (zero_snapshot)\<lparr>snap_Routes :=
        (''API.acme.test'', served_route [''API.acme.test'']) # snap_Routes zero_snapshot\<rparr>),
      hc_RoutingPaused = Some (\<lambda>_. False), hc_Transport = (None :: unit round_tripper option)\<rparr>)
     () ''API.acme.test'' = writeFriendlyNoRoute ''api.acme.test''"
proof -
  have "plain ''API.acme.test''" "\<not> canonical ''API.acme.test''"
    "normalize (host_part ''API.acme.test'') = ''api.acme.test''"
    "normalize ''test'' \<noteq> []" "under_suffix (normalize ''test'') ''api.acme.test''"
    by code_simp+
  then show ?thesis
    by (simp only: uncanonical_routes_unreachable [of "''API.acme.test''" "''API.acme.test''"
          "''test''" _ "\<lambda>_. zero_snapshot" "\<lambda>_. False" "()"] simp_thms)
      (simp add: ServeHTTP_def HandleHTTP_eq Let_def zero_snapshot_def)
qed

section \<open>Certificates\<close>

text \<open>Where the two ways of reading the managed suffix agree.\<close>

lemma suffix_without_dots:
  assumes "CHR ''.'' \<notin> set (certs_normalizeSuffix suffix)"
  shows "normalize suffix = certs_normalizeSuffix suffix"
proof -
  let ?x = "to_lower (trim_space suffix)"
  let ?b = "certs_normalizeSuffix suffix"
  have trim: "trim_dots ?b = ?b"
    using assms unfolding trim_dots_def by (intro trim_by_none) auto
  have "?x = ?b \<or> ?x = CHR ''.'' # ?b"
    by (auto simp: certs_normalizeSuffix_def trim_prefix_def has_prefix_iff)
  then have "trim_dots ?x = trim_dots ?b"
    by (auto simp: trim_dots_def trim_by_def)
  with trim show ?thesis by (simp add: normalize_def)
qed

lemma project_names_managed:
  assumes "project_of suffix h = Some root" and "canonical h"
  shows "IsManagedHost (NewServer suffix rd) h"
proof -
  from project_of_labels [OF assms(1)] obtain p a where h: "h = p @ root"
    and root: "root = a @ ''.'' @ certs_normalizeSuffix suffix" and "a \<noteq> []"
    and dots: "CHR ''.'' \<notin> set (certs_normalizeSuffix suffix)" by metis
  have "certs_normalizeSuffix suffix \<noteq> []"
    using normalize_ends [OF assms(2)] h root \<open>a \<noteq> []\<close> by auto
  moreover have "under_suffix (certs_normalizeSuffix suffix) h"
    unfolding under_suffix_def h root by (rule disjI2, rule exI [of _ "p @ a"]) simp
  ultimately show ?thesis
    using assms(2) by (simp add: IsManagedHost_iff suffix_without_dots [OF dots] canonical_def)
qed

lemma getCertificate_eq:
  assumes "plain name"
  shows "getCertificate it l st (Some name) =
    (let host = normalize name in
     if \<not> IsManagedHost (tl_dnsLookup l) host then Inl (''no managed route for '' @ host)
     else case gm_get (tl_certificates l) host of
         Some cert \<Rightarrow> Inr cert
       | None \<Rightarrow>
           (case find (entry_serves host) (range_map it (tl_certificates l)) of
              Some (san, cert) \<Rightarrow> Inr cert
            | None \<Rightarrow> Inl (''no certificate available for '' @ host)))"
  by (simp add: getCertificate_def proxy_normalizeHostname_eq resolver.lookup_managed Let_def)

text \<open>An entry the listener may present for a host: stored under that name, under a wildcard
  one label above it, or with a leaf whose names cover it.\<close>

lemma entry_serves_iff:
  "entry_serves h (san, c) \<longleftrightarrow>
     san = h \<or> (\<exists>root. san = ''*.'' @ root \<and> one_below root h) \<or>
     (\<exists>leaf. tls_Leaf c = Some leaf \<and> dns_names_cover h (leaf_DNSNames leaf))"
  by (auto simp: entry_serves_def proxy_wildcardMatches_iff has_prefix_iff str_simps trim_prefix_def)

lemma presented_certificate:
  assumes "rearranges it" and "wf_gomap (tl_certificates l)" and "plain name"
    and "IsManagedHost (tl_dnsLookup l) (normalize name)"
    and "e \<in> set (tl_certificates l)" and "entry_serves (normalize name) e"
  shows "\<exists>san c. (san, c) \<in> set (tl_certificates l) \<and> entry_serves (normalize name) (san, c) \<and>
    getCertificate it l st (Some name) = Inr c"
proof (cases "gm_get (tl_certificates l) (normalize name)")
  case (Some c)
  then have "(normalize name, c) \<in> set (tl_certificates l)" by (rule map_of_SomeD)
  with Some assms(4) show ?thesis
    by (auto simp: getCertificate_eq [OF assms(3)] entry_serves_iff Let_def)
next
  case None
  have range: "set (range_map it (tl_certificates l)) = set (tl_certificates l)"
    by (rule set_range_map [OF assms(1,2)])
  with assms(5,6) have "find (entry_serves (normalize name)) (range_map it (tl_certificates l)) \<noteq> None"
    by (metis find_None_iff)
  then obtain san c where found:
    "find (entry_serves (normalize name)) (range_map it (tl_certificates l)) = Some (san, c)"
    by (metis not_None_eq surj_pair)
  with range have "(san, c) \<in> set (tl_certificates l)" "entry_serves (normalize name) (san, c)"
    by (auto dest: find_SomeD)
  with None found assms(4) show ?thesis
    by (auto simp: getCertificate_eq [OF assms(3)] Let_def)
qed

lemma presented_only_if_serving:
  assumes "rearranges it" and "wf_gomap (tl_certificates l)" and "plain name"
    and "getCertificate it l st (Some name) = Inr c"
  shows "IsManagedHost (tl_dnsLookup l) (normalize name) \<and>
    (\<exists>san. (san, c) \<in> set (tl_certificates l) \<and> entry_serves (normalize name) (san, c))"
proof -
  have range: "set (range_map it (tl_certificates l)) = set (tl_certificates l)"
    by (rule set_range_map [OF assms(1,2)])
  show ?thesis
    using assms(4)
    by (auto simp: getCertificate_eq [OF assms(3)] Let_def entry_serves_iff
        split: if_splits option.splits dest!: find_SomeD map_of_SomeD simp: range)
qed

text \<open>C12. The TLS listener presents a certificate exactly when the server name is managed and some
  stored certificate serves it, and then it presents one that does; the order in which Go
  ranges over the certificates can change which of them it is, never whether there is one.\<close>

theorem certificate_presented_iff:
  assumes "rearranges it"
    and "wf_gomap (tl_certificates l)"
    and "plain name"
  shows "((\<exists>c. getCertificate it l st (Some name) = Inr c) =
      (IsManagedHost (tl_dnsLookup l) (normalize name) \<and>
       (\<exists>e. e \<in> set (tl_certificates l) \<and> entry_serves (normalize name) e))) \<and>
    (\<forall>c. getCertificate it l st (Some name) = Inr c \<longrightarrow>
       (\<exists>san. (san, c) \<in> set (tl_certificates l) \<and> entry_serves (normalize name) (san, c)))"
  using presented_only_if_serving [OF assms] presented_certificate [OF assms] by blast

definition acme_listener :: "(unit, unit, unit) https_listener" where
  "acme_listener = \<lparr>tl_handler = NewHTTPHandler \<lparr>hc_ManagedSuffix = ''test'', hc_Snapshot = None,
       hc_RoutingPaused = None, hc_Transport = None\<rparr>,
     tl_dnsLookup = NewServer ''test'' None,
     tl_certificates = [(''acme.test'', \<lparr>tls_Certificate = [], tls_Leaf =
       Some \<lparr>leaf_DNSNames = [''acme.test'', ''*.acme.test'']\<rparr>, tls_PrivateKey = ()\<rparr>)]\<rparr>"

theorem certificate_presented_iff_witness:
  "(\<exists>c. getCertificate rev acme_listener () (Some ''API.acme.test'') = Inr c) \<and>
   \<not> (\<exists>c. getCertificate rev acme_listener () (Some ''a.b.acme.test'') = Inr c)"
proof -
  have wf: "wf_gomap (tl_certificates acme_listener)" by (simp add: acme_listener_def wf_gomap_def)
  have plain: "plain ''API.acme.test''" "plain ''a.b.acme.test''" by code_simp+
  have "IsManagedHost (tl_dnsLookup acme_listener) (normalize ''API.acme.test'')"
    "list_ex (entry_serves (normalize ''API.acme.test'')) (tl_certificates acme_listener)"
    "\<not> list_ex (entry_serves (normalize ''a.b.acme.test'')) (tl_certificates acme_listener)"
    by code_simp+
  then show ?thesis
    using certificate_presented_iff [OF rearranges_rev wf plain(1), of "()"]
      certificate_presented_iff [OF rearranges_rev wf plain(2), of "()"]
    by (auto simp: list_ex_iff)
qed

text \<open>C13. Where the listener holds a certificate whose leaf carries the names a decision of the inventory
  requires, every host name of that project is presented a certificate that serves it: the
  inventory and the listener agree on what a certificate covers.\<close>

theorem required_certificate_serves_every_name:
  assumes "rearranges it"
    and "wf_gomap (snap_Routes snap)"
    and "\<forall>r \<in> snd ` set (snap_Routes snap). \<forall>h \<in> set (served_hosts r). plain h"
    and "d \<in> set (BuildCertificateInventory it snap suffix existing)"
    and "h \<in> set (dec_Hostnames d)"
    and "tl_dnsLookup l = NewServer suffix rd"
    and "wf_gomap (tl_certificates l)"
    and "(k, cert) \<in> set (tl_certificates l)"
    and "tls_Leaf cert = Some leaf"
    and "set (dec_RequiredSANs d) \<subseteq> set (leaf_DNSNames leaf)"
    and "rearranges it'"
  shows "\<exists>san c. getCertificate it' l st (Some h) = Inr c \<and> (san, c) \<in> set (tl_certificates l) \<and>
    entry_serves h (san, c)"
proof -
  from assms(4) obtain root where d: "d = required_decision snap suffix existing root"
    by (auto simp: BuildCertificateInventory_eq [OF assms(1,2)])
  let ?hosts = "names_of_project snap suffix root"
  have dec: "dec_Hostnames d = sorted_list_of_set ?hosts"
    "dec_RequiredSANs d = requiredSANs root (sorted_list_of_set ?hosts)"
    by (simp_all add: d required_decision_def Let_def)
  have names: "canonical h \<and> plain h \<and> project_of suffix h = Some root" if "h \<in> ?hosts" for h
    using that assms(3)
    by (auto simp: names_of_project_def served_names_def normalizeHostname_eq
        intro!: canonical_normalize plain_normalize)
  have h: "h \<in> ?hosts" using assms(5) by (simp add: dec)
  have "canonical root \<and> plain root \<and> root \<noteq> []" using project_canonical names [OF h] by blast
  with names h have "dns_names_cover h (dec_RequiredSANs d)"
    unfolding dec by (intro leaf.requiredSANs_cover) auto
  then have "dns_names_cover h (leaf_DNSNames leaf)" using assms(10) by (rule leaf.covered_mono)
  with assms(9) have serves: "entry_serves h (k, cert)" by (simp add: entry_serves_iff)
  have norm: "normalize h = h" using names [OF h] by (simp add: canonical_def)
  have "IsManagedHost (tl_dnsLookup l) h"
    unfolding assms(6) using names [OF h] by (metis project_names_managed)
  with presented_certificate [OF assms(11,7), of h "(k, cert)" st] serves assms(8) names [OF h] norm
  have "\<exists>san c. (san, c) \<in> set (tl_certificates l) \<and> entry_serves h (san, c) \<and>
      getCertificate it' l st (Some h) = Inr c" by simp
  then show ?thesis by blast
qed

theorem required_certificate_serves_every_name_witness:
  "\<exists>san c. getCertificate rev acme_listener () (Some ''api.acme.test'') = Inr c \<and>
     (san, c) \<in> set (tl_certificates acme_listener) \<and> entry_serves ''api.acme.test'' (san, c)"
proof -
  let ?snap = "serving [[''api.acme.test'', ''web.acme.test'']]"
  let ?inv = "BuildCertificateInventory rev ?snap ''test'' Map.empty"
  have "map dec_RequiredSANs ?inv = [[''acme.test'', ''*.acme.test'']]"
    "map dec_Hostnames ?inv = [[''api.acme.test'', ''web.acme.test'']]" by code_simp+
  then obtain d where d: "d \<in> set ?inv" "dec_RequiredSANs d = [''acme.test'', ''*.acme.test'']"
    "''api.acme.test'' \<in> set (dec_Hostnames d)"
    by (cases ?inv) auto
  have wf: "wf_gomap (snap_Routes ?snap)" "wf_gomap (tl_certificates acme_listener)"
    by (simp_all add: serving_def wf_gomap_def zero_snapshot_def acme_listener_def)
  have plain: "\<forall>r \<in> snd ` set (snap_Routes ?snap). \<forall>h \<in> set (served_hosts r). plain h"
    by code_simp
  let ?leaf = "\<lparr>leaf_DNSNames = [''acme.test'', ''*.acme.test'']\<rparr>"
  have "(''acme.test'', \<lparr>tls_Certificate = [], tls_Leaf = Some ?leaf, tls_PrivateKey = ()\<rparr>)
      \<in> set (tl_certificates acme_listener)" by (simp add: acme_listener_def)
  from required_certificate_serves_every_name [OF rearranges_rev wf(1) plain d(1,3) _ wf(2) this,
      of None ?leaf rev "()"]
  show ?thesis by (simp add: acme_listener_def d(2))
qed

end
