(* ===== verification/Network.thy ===== *)
theory Network
  imports Proxy
begin

text \<open>
  \<open>internal/daemon/network.go\<close>: preparing the certificates of the active projects, and the
  lifecycle of the DNS, HTTP and HTTPS listeners. The snapshot and pause readers are functions of
  the daemon's state \<open>'s\<close>; issuing a certificate acts on an outside world \<open>'w\<close>. What the
  operating system answers when a listener is opened or shut down is an argument of \<open>Start\<close> and
  \<open>Close\<close>. The started HTTP servers hold pointers to the runtime's own handlers, so only whether
  they exist is state. The goroutines that serve the sockets are not modelled.
\<close>

section \<open>State\<close>

record listener_health =
  lh_Enabled :: bool
  lh_Bound :: bool
  lh_BindAddress :: string
  lh_LastError :: string

record network_health =
  nh_DNS :: listener_health
  nh_HTTP :: listener_health
  nh_HTTPS :: listener_health
  nh_Paused :: bool
  nh_CertificateReady :: bool
  nh_ManagedSuffix :: string

type_synonym 'w issuer = "string \<Rightarrow> string list \<Rightarrow> 'w \<Rightarrow> (go_error + issued_certificate) \<times> 'w"

text \<open>What the runtime finds around it: the order maps are ranged over, X.509 parsing, key pair
  loading, and running \<open>mkcert\<close>.\<close>

record ('w, 'k) net_env =
  env_it :: "string list \<Rightarrow> string list"
  env_parse :: "string \<Rightarrow> x509_leaf option"
  env_load :: "string \<Rightarrow> string \<Rightarrow> go_error + 'k tls_certificate"
  env_run :: "'w runner"

record ('s, 'w, 'k) network_config =
  nc_ManagedSuffix :: string
  nc_Snapshot :: "('s \<Rightarrow> snapshot) option"
  nc_RoutingPaused :: "('s \<Rightarrow> bool) option"
  nc_Certificates :: "'k tls_certificate gomap"
  nc_StoredCertificates :: "stored_certificate gomap"
  nc_CertificateOutputDir :: string
  nc_IssueCertificate :: "'w issuer option"
  nc_DNSAddress :: string
  nc_HTTPAddress :: string
  nc_HTTPSAddress :: string

record ('s, 't, 'w, 'k) network_runtime =
  nr_managedSuffix :: string
  nr_readSnapshot :: "'s \<Rightarrow> snapshot"
  nr_readPaused :: "'s \<Rightarrow> bool"
  nr_certificates :: "'k tls_certificate gomap"
  nr_storedCerts :: "stored_certificate gomap"
  nr_certOutputDir :: string
  nr_issueCert :: "'w issuer"
  nr_httpHandler :: "('s, 't) http_handler"
  nr_httpsHandler :: "('s, 't, 'k) https_listener"
  nr_health :: network_health
  nr_dnsServer :: "'s dns_server option"
  nr_dnsPacketConn :: "string option"
  nr_httpServer :: bool
  nr_httpsServer :: bool
  nr_httpListener :: "string option"
  nr_httpsListener :: "string option"

section \<open>Certificates\<close>

definition errorString :: "go_error option \<Rightarrow> string" where
  "errorString err = (case err of None \<Rightarrow> [] | Some e \<Rightarrow> e)"

text \<open>An empty map and a nil map read the same.\<close>

definition cloneTLSCertificates :: "'k tls_certificate gomap \<Rightarrow> 'k tls_certificate gomap" where
  "cloneTLSCertificates m = (if length m = 0 then [] else fold (\<lambda>(k, v). gm_put k v) m [])"

definition cloneStoredCertificates :: "stored_certificate gomap \<Rightarrow> stored_certificate gomap" where
  "cloneStoredCertificates m = (if length m = 0 then [] else fold (\<lambda>(k, v). gm_put k v) m [])"

definition indexStoredCertificates :: "stored_certificate list \<Rightarrow> stored_certificate gomap" where
  "indexStoredCertificates stored =
     (if length stored = 0 then []
      else fold (\<lambda>c m. if stored_ProjectRoot c = [] then m else gm_put (stored_ProjectRoot c) c m)
             stored [])"

definition certificateOutputDir :: "string \<Rightarrow> string" where
  "certificateOutputDir dir = (if dir = [] then ''.'' else dir)"

definition certificateIssuer :: "'w runner \<Rightarrow> 'w issuer option \<Rightarrow> 'w issuer" where
  "certificateIssuer run issue =
     (case issue of None \<Rightarrow> Issue run \<lparr>mk_Binary = [], mk_Runner = None\<rparr> | Some f \<Rightarrow> f)"

definition store_issued :: "inventory_decision \<Rightarrow> issued_certificate \<Rightarrow> stored_certificate" where
  "store_issued decision issued =
     \<lparr>stored_ProjectRoot = (if issued_ProjectRoot issued = [] then dec_ProjectRoot decision
         else issued_ProjectRoot issued),
      stored_SANs = issued_SANs issued, stored_CertPath = issued_CertPath issued,
      stored_KeyPath = issued_KeyPath issued\<rparr>"

definition zero_stored :: stored_certificate where
  "zero_stored = \<lparr>stored_ProjectRoot = [], stored_SANs = [], stored_CertPath = [], stored_KeyPath = []\<rparr>"

text \<open>The loop of \<open>prepareStoredCertificates\<close> over the decisions: \<open>(prepared, certErrors)\<close>.\<close>

fun prepare_all ::
  "'w issuer \<Rightarrow> string \<Rightarrow> stored_certificate gomap \<Rightarrow> inventory_decision list
     \<Rightarrow> stored_certificate list \<times> string list \<Rightarrow> 'w \<Rightarrow> (stored_certificate list \<times> string list) \<times> 'w" where
  "prepare_all issue outputDir existing [] acc w = (acc, w)"
| "prepare_all issue outputDir existing (d # ds) (prepared, errs) w =
     (if dec_ReuseExisting d
      then prepare_all issue outputDir existing ds
             (prepared @ [case gm_get existing (dec_ProjectRoot d) of None \<Rightarrow> zero_stored | Some s \<Rightarrow> s], errs) w
      else case issue outputDir (dec_RequiredSANs d) w of
          (Inl err, w) \<Rightarrow>
            prepare_all issue outputDir existing ds
              (prepared, errs @ [dec_ProjectRoot d @ '': '' @ err]) w
        | (Inr issued, w) \<Rightarrow>
            prepare_all issue outputDir existing ds (prepared @ [store_issued d issued], errs) w)"

definition prepareStoredCertificates ::
  "('w, 'k) net_env \<Rightarrow> snapshot \<Rightarrow> ('s, 'w, 'k) network_config \<Rightarrow> 'w
     \<Rightarrow> (stored_certificate list \<times> go_error option) \<times> 'w" where
  "prepareStoredCertificates env snap cfg w =
     (let issue = certificateIssuer (env_run env) (nc_IssueCertificate cfg);
          existing = nc_StoredCertificates cfg;
          outputDir = (if nc_CertificateOutputDir cfg = [] then ''.'' else nc_CertificateOutputDir cfg);
          decisions = BuildCertificateInventory (env_it env) snap (nc_ManagedSuffix cfg) (gm_get existing);
          ((prepared, certErrors), w) = prepare_all issue outputDir existing decisions ([], []) w
      in (if length certErrors > 0
          then ((prepared, Some (''certificate issuance skipped for '' @ itoa (int (length certErrors)) @
                  '' project(s): '' @ hd certErrors)), w)
          else ((prepared, None), w)))"

section \<open>Lifecycle\<close>

definition fresh_listener :: "string \<Rightarrow> listener_health" where
  "fresh_listener addr = \<lparr>lh_Enabled = True, lh_Bound = False, lh_BindAddress = addr, lh_LastError = []\<rparr>"

definition NewNetworkRuntime ::
  "('w, 'k) net_env \<Rightarrow> ('s, 'w, 'k) network_config \<Rightarrow> 's \<Rightarrow> 'w
     \<Rightarrow> (go_error + ('s, 't, 'w, 'k) network_runtime) \<times> 'w" where
  "NewNetworkRuntime env cfg st w =
     (let snap = (case nc_Snapshot cfg of None \<Rightarrow> (\<lambda>_. zero_snapshot) | Some f \<Rightarrow> f) in
      case prepareStoredCertificates env (snap st) cfg w of
        ((_, Some err), w) \<Rightarrow> (Inl err, w)
      | ((prepared, None), w) \<Rightarrow>
          (let httpHandler = NewHTTPHandler \<lparr>hc_ManagedSuffix = nc_ManagedSuffix cfg,
                 hc_Snapshot = Some snap, hc_RoutingPaused = nc_RoutingPaused cfg, hc_Transport = None\<rparr>
           in case NewHTTPSListener (env_it env) (env_parse env) (env_load env)
                  \<lparr>lc_ManagedSuffix = nc_ManagedSuffix cfg, lc_Snapshot = Some snap,
                   lc_RoutingPaused = nc_RoutingPaused cfg, lc_Transport = None,
                   lc_Certificates = nc_Certificates cfg, lc_Stored = prepared\<rparr> of
                Inl err \<Rightarrow> (Inl err, w)
              | Inr httpsHandler \<Rightarrow>
                  (let paused = (case nc_RoutingPaused cfg of None \<Rightarrow> (\<lambda>_. False) | Some f \<Rightarrow> f);
                       httpAddress = (if nc_HTTPAddress cfg = [] then ''127.0.0.1:80''
                                      else nc_HTTPAddress cfg);
                       httpsAddress = (if nc_HTTPSAddress cfg = [] then ''127.0.0.1:443''
                                       else nc_HTTPSAddress cfg);
                       dnsAddress = (if nc_DNSAddress cfg = [] then ''127.0.0.1:53535''
                                     else nc_DNSAddress cfg)
                   in (Inr \<lparr>nr_managedSuffix = nc_ManagedSuffix cfg, nr_readSnapshot = snap,
                         nr_readPaused = paused,
                         nr_certificates = cloneTLSCertificates (nc_Certificates cfg),
                         nr_storedCerts = indexStoredCertificates prepared,
                         nr_certOutputDir = certificateOutputDir (nc_CertificateOutputDir cfg),
                         nr_issueCert = certificateIssuer (env_run env) (nc_IssueCertificate cfg),
                         nr_httpHandler = httpHandler, nr_httpsHandler = httpsHandler,
                         nr_health = \<lparr>nh_DNS = fresh_listener dnsAddress,
                           nh_HTTP = fresh_listener httpAddress, nh_HTTPS = fresh_listener httpsAddress,
                           nh_Paused = False,
                           nh_CertificateReady = (length (nc_Certificates cfg) > 0 \<or> length prepared > 0),
                           nh_ManagedSuffix = nc_ManagedSuffix cfg\<rparr>,
                         nr_dnsServer = None, nr_dnsPacketConn = None, nr_httpServer = False,
                         nr_httpsServer = False, nr_httpListener = None, nr_httpsListener = None\<rparr>, w))))"

definition SetCertificateReady ::
  "bool \<Rightarrow> ('s, 't, 'w, 'k) network_runtime \<Rightarrow> ('s, 't, 'w, 'k) network_runtime" where
  "SetCertificateReady ready n = n\<lparr>nr_health := (nr_health n)\<lparr>nh_CertificateReady := ready\<rparr>\<rparr>"

definition RefreshCertificates ::
  "('w, 'k) net_env \<Rightarrow> 's \<Rightarrow> 'w \<Rightarrow> ('s, 't, 'w, 'k) network_runtime
     \<Rightarrow> (go_error option \<times> ('s, 't, 'w, 'k) network_runtime) \<times> 'w" where
  "RefreshCertificates env st w n =
     (case prepareStoredCertificates env (nr_readSnapshot n st)
         \<lparr>nc_ManagedSuffix = nr_managedSuffix n, nc_Snapshot = (None :: ('s \<Rightarrow> snapshot) option),
          nc_RoutingPaused = None, nc_Certificates = nr_certificates n,
          nc_StoredCertificates = cloneStoredCertificates (nr_storedCerts n),
          nc_CertificateOutputDir = nr_certOutputDir n, nc_IssueCertificate = Some (nr_issueCert n),
          nc_DNSAddress = [], nc_HTTPAddress = [], nc_HTTPSAddress = []\<rparr> w of
        ((_, Some err), w) \<Rightarrow> ((Some err, SetCertificateReady False n), w)
      | ((prepared, None), w) \<Rightarrow>
          (case ReplaceCertificates (env_it env) (env_parse env) (env_load env)
              (nr_certificates n) prepared (nr_httpsHandler n) of
             (Some err, h) \<Rightarrow> ((Some err, SetCertificateReady False (n\<lparr>nr_httpsHandler := h\<rparr>)), w)
           | (None, h) \<Rightarrow>
               ((None, n\<lparr>nr_httpsHandler := h, nr_storedCerts := indexStoredCertificates prepared,
                   nr_health := (nr_health n)\<lparr>nh_CertificateReady :=
                     (length (nr_certificates n) > 0 \<or> length prepared > 0)\<rparr>\<rparr>), w)))"

definition SetDNSBindResult ::
  "string \<Rightarrow> go_error option \<Rightarrow> ('s, 't, 'w, 'k) network_runtime \<Rightarrow> ('s, 't, 'w, 'k) network_runtime" where
  "SetDNSBindResult addr err n = n\<lparr>nr_health := (nr_health n)\<lparr>nh_DNS := (nh_DNS (nr_health n))
     \<lparr>lh_BindAddress := addr, lh_Bound := (err = None), lh_LastError := errorString err\<rparr>\<rparr>\<rparr>"

definition SetHTTPBindResult ::
  "string \<Rightarrow> go_error option \<Rightarrow> ('s, 't, 'w, 'k) network_runtime \<Rightarrow> ('s, 't, 'w, 'k) network_runtime" where
  "SetHTTPBindResult addr err n = n\<lparr>nr_health := (nr_health n)\<lparr>nh_HTTP := (nh_HTTP (nr_health n))
     \<lparr>lh_BindAddress := addr, lh_Bound := (err = None), lh_LastError := errorString err\<rparr>\<rparr>\<rparr>"

definition SetHTTPSBindResult ::
  "string \<Rightarrow> go_error option \<Rightarrow> ('s, 't, 'w, 'k) network_runtime \<Rightarrow> ('s, 't, 'w, 'k) network_runtime" where
  "SetHTTPSBindResult addr err n = n\<lparr>nr_health := (nr_health n)\<lparr>nh_HTTPS := (nh_HTTPS (nr_health n))
     \<lparr>lh_BindAddress := addr, lh_Bound := (err = None), lh_LastError := errorString err\<rparr>\<rparr>\<rparr>"

text \<open>What opening a listener does to its health: \<open>Bound\<close>, \<open>LastError\<close>, and the bound address.\<close>

definition bind_outcome :: "go_error + string \<Rightarrow> listener_health \<Rightarrow> listener_health" where
  "bind_outcome result h =
     (case result of
        Inl err \<Rightarrow> h\<lparr>lh_Bound := False, lh_LastError := errorString (Some err)\<rparr>
      | Inr addr \<Rightarrow> h\<lparr>lh_Bound := True, lh_LastError := errorString None, lh_BindAddress := addr\<rparr>)"

text \<open>\<open>listen\<close> answers for the address asked: an error, or the address bound.\<close>

record os_net =
  os_ListenPacket :: "string \<Rightarrow> go_error + string"
  os_Listen :: "string \<Rightarrow> go_error + string"
  os_ListenTLS :: "string \<Rightarrow> go_error + string"

definition start_http ::
  "os_net \<Rightarrow> ('s, 't, 'w, 'k) network_runtime \<Rightarrow> ('s, 't, 'w, 'k) network_runtime" where
  "start_http os n =
     (let result = os_Listen os (lh_BindAddress (nh_HTTP (nr_health n)));
          n = n\<lparr>nr_health := (nr_health n)\<lparr>nh_HTTP := bind_outcome result (nh_HTTP (nr_health n))\<rparr>\<rparr>
      in case result of
           Inl err \<Rightarrow> n
         | Inr addr \<Rightarrow> n\<lparr>nr_httpListener := Some addr, nr_httpServer := True\<rparr>)"

definition start_https ::
  "os_net \<Rightarrow> ('s, 't, 'w, 'k) network_runtime \<Rightarrow> ('s, 't, 'w, 'k) network_runtime" where
  "start_https os n =
     (let result = os_ListenTLS os (lh_BindAddress (nh_HTTPS (nr_health n)));
          n = n\<lparr>nr_health := (nr_health n)\<lparr>nh_HTTPS := bind_outcome result (nh_HTTPS (nr_health n))\<rparr>\<rparr>
      in case result of
           Inl err \<Rightarrow> n
         | Inr addr \<Rightarrow> n\<lparr>nr_httpsListener := Some addr, nr_httpsServer := True\<rparr>)"

definition Start ::
  "os_net \<Rightarrow> ('s, 't, 'w, 'k) network_runtime \<Rightarrow> go_error option \<times> ('s, 't, 'w, 'k) network_runtime" where
  "Start os n =
     (if nr_dnsServer n \<noteq> None \<or> nr_httpServer n \<or> nr_httpsServer n
      then (Some ''network runtime already started'', n)
      else
        (let result = os_ListenPacket os (lh_BindAddress (nh_DNS (nr_health n)));
             n = n\<lparr>nr_health := (nr_health n)\<lparr>nh_DNS := bind_outcome result (nh_DNS (nr_health n))\<rparr>\<rparr>
         in case result of
              Inl err \<Rightarrow> (Some err, n)
            | Inr addr \<Rightarrow>
                (let n = n\<lparr>nr_dnsPacketConn := Some addr,
                       nr_dnsServer := Some (NewServer (nr_managedSuffix n) (Some (nr_readSnapshot n)))\<rparr>
                 in (None, start_https os (start_http os n)))))"

text \<open>How shutting a server down can fail; \<open>http.ErrServerClosed\<close> is no failure.\<close>

datatype shutdown_error = ErrServerClosed | ShutdownFailed go_error

definition errors_Join :: "go_error list \<Rightarrow> go_error option" where
  "errors_Join errs = (if errs = [] then None else Some (join_with [CHR 0x0A] errs))"

definition unbind :: "listener_health \<Rightarrow> listener_health" where
  "unbind h = h\<lparr>lh_Bound := False, lh_LastError := []\<rparr>"

definition stopDNSServerLocked ::
  "go_error option \<Rightarrow> ('s, 't, 'w, 'k) network_runtime
     \<Rightarrow> go_error option \<times> ('s, 't, 'w, 'k) network_runtime" where
  "stopDNSServerLocked shutdown n =
     (if nr_dnsServer n = None
      then (None, n\<lparr>nr_health := (nr_health n)\<lparr>nh_DNS := unbind (nh_DNS (nr_health n))\<rparr>\<rparr>)
      else
        (let err = (if shutdown = Some ''dns: server not started'' then None else shutdown)
         in (err, n\<lparr>nr_dnsServer := None, nr_dnsPacketConn := None,
               nr_health := (nr_health n)\<lparr>nh_DNS := unbind (nh_DNS (nr_health n))\<rparr>\<rparr>)))"

definition shutdown_failures :: "shutdown_error option \<Rightarrow> go_error list" where
  "shutdown_failures e = (case e of Some (ShutdownFailed msg) \<Rightarrow> [msg] | _ \<Rightarrow> [])"

definition Close ::
  "go_error option \<Rightarrow> shutdown_error option \<Rightarrow> shutdown_error option
     \<Rightarrow> ('s, 't, 'w, 'k) network_runtime \<Rightarrow> go_error option \<times> ('s, 't, 'w, 'k) network_runtime" where
  "Close dns_shutdown http_shutdown https_shutdown n =
     (let (dns_err, n) = stopDNSServerLocked dns_shutdown n;
          errs = (case dns_err of None \<Rightarrow> [] | Some e \<Rightarrow> [e]);
          (errs, n) =
            (if nr_httpServer n
             then (errs @ shutdown_failures http_shutdown,
                   n\<lparr>nr_httpServer := False, nr_httpListener := None,
                     nr_health := (nr_health n)\<lparr>nh_HTTP := unbind (nh_HTTP (nr_health n))\<rparr>\<rparr>)
             else (errs, n));
          (errs, n) =
            (if nr_httpsServer n
             then (errs @ shutdown_failures https_shutdown,
                   n\<lparr>nr_httpsServer := False, nr_httpsListener := None,
                     nr_health := (nr_health n)\<lparr>nh_HTTPS := unbind (nh_HTTPS (nr_health n))\<rparr>\<rparr>)
             else (errs, n))
      in (errors_Join errs, n))"

definition Health :: "'s \<Rightarrow> ('s, 't, 'w, 'k) network_runtime \<Rightarrow> network_health" where
  "Health st n = (nr_health n)\<lparr>nh_Paused := nr_readPaused n st, nh_ManagedSuffix := nr_managedSuffix n\<rparr>"

section \<open>Reporting a bind result\<close>

text \<open>
  The three slots of the health record are updated by the same code three times. What a slot's
  reporter promises is a contract; its consequences are proved once.
\<close>

locale listener_slot =
  fixes slot :: "('s, 't, 'w, 'k) network_runtime \<Rightarrow> listener_health"
    and report :: "string \<Rightarrow> go_error option \<Rightarrow> ('s, 't, 'w, 'k) network_runtime
      \<Rightarrow> ('s, 't, 'w, 'k) network_runtime"
  assumes slot_report: "slot (report addr err n) =
      (slot n)\<lparr>lh_BindAddress := addr, lh_Bound := (err = None), lh_LastError := errorString err\<rparr>"
    and report_twice: "report addr err (report addr' err' n) = report addr err n"
begin

lemma reported_bound: "lh_Bound (slot (report addr err n)) \<Longrightarrow> lh_LastError (slot (report addr err n)) = []"
  by (simp add: slot_report errorString_def)

lemma reported_failure: "lh_LastError (slot (report addr err n)) \<noteq> [] \<Longrightarrow> \<not> lh_Bound (slot (report addr err n))"
  by (auto simp: slot_report errorString_def split: option.splits)

lemma report_recovers:
  "slot (report addr None (report addr' err n)) = (slot n)\<lparr>lh_BindAddress := addr, lh_Bound := True,
     lh_LastError := []\<rparr>"
  by (simp add: report_twice slot_report errorString_def)

end

interpretation dns_slot: listener_slot "nh_DNS \<circ> nr_health" SetDNSBindResult
  by unfold_locales (simp_all add: SetDNSBindResult_def)

interpretation http_slot: listener_slot "nh_HTTP \<circ> nr_health" SetHTTPBindResult
  by unfold_locales (simp_all add: SetHTTPBindResult_def)

interpretation https_slot: listener_slot "nh_HTTPS \<circ> nr_health" SetHTTPSBindResult
  by unfold_locales (simp_all add: SetHTTPSBindResult_def)

section \<open>The lifecycle as a state machine\<close>

text \<open>\<open>runs env n\<close>: a runtime gets to state \<open>n\<close> by any sequence of the operations the program calls, whatever the
  operating system and \<open>mkcert\<close> answer. (Nothing calls the setters \<open>SetDNSBindResult\<close>,
  \<open>SetHTTPBindResult\<close> and \<open>SetHTTPSBindResult\<close>.)\<close>

inductive runs :: "('w, 'k) net_env \<Rightarrow> ('s, 't, 'w, 'k) network_runtime \<Rightarrow> bool" for env where
  new: "NewNetworkRuntime env cfg st w = (Inr n, w') \<Longrightarrow> runs env n"
| start: "runs env n \<Longrightarrow> runs env (snd (Start os n))"
| close: "runs env n \<Longrightarrow> runs env (snd (Close e1 e2 e3 n))"
| refresh: "runs env n \<Longrightarrow> runs env (snd (fst (RefreshCertificates env st w n)))"
| set_ready: "runs env n \<Longrightarrow> runs env (SetCertificateReady b n)"

definition slot_inv :: "bool \<Rightarrow> string option \<Rightarrow> listener_health \<Rightarrow> bool" where
  "slot_inv server listener h \<longleftrightarrow>
     (server \<longleftrightarrow> lh_Bound h) \<and> (server \<longleftrightarrow> listener \<noteq> None) \<and> (lh_Bound h \<longrightarrow> lh_LastError h = []) \<and>
     lh_Enabled h"

definition net_inv :: "('s, 't, 'w, 'k) network_runtime \<Rightarrow> bool" where
  "net_inv n \<longleftrightarrow>
     slot_inv (nr_dnsServer n \<noteq> None) (nr_dnsPacketConn n) (nh_DNS (nr_health n)) \<and>
     slot_inv (nr_httpServer n) (nr_httpListener n) (nh_HTTP (nr_health n)) \<and>
     slot_inv (nr_httpsServer n) (nr_httpsListener n) (nh_HTTPS (nr_health n)) \<and>
     (nr_httpServer n \<or> nr_httpsServer n \<longrightarrow> nr_dnsServer n \<noteq> None)"

lemma slot_inv_bind [simp]:
  "slot_inv server listener h \<Longrightarrow> \<not> server \<Longrightarrow>
     slot_inv False listener (bind_outcome (Inl err) h)"
  "lh_Enabled h \<Longrightarrow> slot_inv True (Some addr) (bind_outcome (Inr addr) h)"
  by (auto simp: slot_inv_def bind_outcome_def errorString_def)

lemma slot_inv_unbind [simp]: "lh_Enabled h \<Longrightarrow> slot_inv False None (unbind h)"
  by (auto simp: slot_inv_def unbind_def)

lemma slot_inv_enabled: "slot_inv server listener h \<Longrightarrow> lh_Enabled h"
  by (simp add: slot_inv_def)

lemma slot_inv_fresh [simp]: "slot_inv False None (fresh_listener addr)"
  by (simp add: slot_inv_def fresh_listener_def)

lemma net_inv_new: "NewNetworkRuntime env cfg st w = (Inr n, w') \<Longrightarrow> net_inv n"
  by (auto simp: NewNetworkRuntime_def Let_def net_inv_def split: prod.splits option.splits sum.splits)

lemma net_inv_start_http:
  assumes "net_inv n" and "nr_dnsServer n \<noteq> None" and "\<not> nr_httpServer n"
  shows "net_inv (start_http os n)"
  using assms slot_inv_enabled
  by (auto simp: net_inv_def start_http_def Let_def split: sum.split)

lemma net_inv_start_https:
  assumes "net_inv n" and "nr_dnsServer n \<noteq> None" and "\<not> nr_httpsServer n"
  shows "net_inv (start_https os n)"
  using assms slot_inv_enabled
  by (auto simp: net_inv_def start_https_def Let_def split: sum.split)

lemma start_http_frame [simp]:
  "nr_dnsServer (start_http os n) = nr_dnsServer n"
  "nr_httpsServer (start_http os n) = nr_httpsServer n"
  "nh_DNS (nr_health (start_http os n)) = nh_DNS (nr_health n)"
  "nh_HTTPS (nr_health (start_http os n)) = nh_HTTPS (nr_health n)"
  by (simp_all add: start_http_def Let_def split: sum.split)

lemma start_https_frame [simp]:
  "nr_dnsServer (start_https os n) = nr_dnsServer n"
  "nr_httpServer (start_https os n) = nr_httpServer n"
  "nh_DNS (nr_health (start_https os n)) = nh_DNS (nr_health n)"
  "nh_HTTP (nr_health (start_https os n)) = nh_HTTP (nr_health n)"
  by (simp_all add: start_https_def Let_def split: sum.split)

lemma net_inv_Start: "net_inv n \<Longrightarrow> net_inv (snd (Start os n))"
proof (cases "nr_dnsServer n \<noteq> None \<or> nr_httpServer n \<or> nr_httpsServer n")
  case True
  then show "net_inv n \<Longrightarrow> ?thesis" by (simp add: Start_def)
next
  case False
  assume inv: "net_inv n"
  show ?thesis
  proof (cases "os_ListenPacket os (lh_BindAddress (nh_DNS (nr_health n)))")
    case (Inl err)
    with False inv show ?thesis by (auto simp: Start_def net_inv_def)
  next
    case (Inr addr)
    let ?n = "n\<lparr>nr_health := (nr_health n)\<lparr>nh_DNS := bind_outcome (Inr addr) (nh_DNS (nr_health n))\<rparr>,
        nr_dnsPacketConn := Some addr,
        nr_dnsServer := Some (NewServer (nr_managedSuffix n) (Some (nr_readSnapshot n)))\<rparr>"
    have "net_inv ?n" using inv False slot_inv_enabled by (auto simp: net_inv_def)
    then have "net_inv (start_https os (start_http os ?n))"
      using False by (simp add: net_inv_start_http net_inv_start_https)
    with False Inr show ?thesis by (simp add: Start_def Let_def)
  qed
qed

lemma net_inv_Close: "net_inv n \<Longrightarrow> net_inv (snd (Close e1 e2 e3 n))"
  using slot_inv_enabled
  by (auto simp: Close_def stopDNSServerLocked_def Let_def net_inv_def slot_inv_def unbind_def)

lemma net_inv_set_ready [simp]: "net_inv (SetCertificateReady b n) = net_inv n"
  by (simp add: net_inv_def SetCertificateReady_def)

lemma net_inv_Refresh: "net_inv n \<Longrightarrow> net_inv (snd (fst (RefreshCertificates env st w n)))"
  by (simp add: RefreshCertificates_def split: prod.split option.split)
    (simp add: net_inv_def)

lemma runs_net_inv: "runs env n \<Longrightarrow> net_inv n"
  by (induction rule: runs.induct)
    (auto intro: net_inv_new net_inv_Start net_inv_Close net_inv_Refresh)

section \<open>The servers behind the listeners\<close>

text \<open>
  \<open>Start\<close> runs each server in a goroutine of its own (\<open>serveListener\<close>, \<open>serveDNSServer\<close>). Next to the
  runtime, \<open>servers\<close> says which of these goroutines are in \<open>Serve\<close>. A DNS server whose shutdown failed may
  go on without the runtime knowing it: \<open>sg_stray\<close>.
\<close>

record ('s, 't, 'w, 'k) servers =
  sg_runtime :: "('s, 't, 'w, 'k) network_runtime"
  sg_dns :: bool
  sg_http :: bool
  sg_https :: bool
  sg_stray :: bool

text \<open>\<open>Start\<close> with its three \<open>go\<close> statements, each right after the server it runs has been stored.\<close>

definition start_serving ::
  "os_net \<Rightarrow> ('s, 't, 'w, 'k) servers \<Rightarrow> go_error option \<times> ('s, 't, 'w, 'k) servers" where
  "start_serving os v =
     (case Start os (sg_runtime v) of
        (err, n) \<Rightarrow>
          (err, v\<lparr>sg_runtime := n,
             sg_dns := (sg_dns v \<or> nr_dnsServer (sg_runtime v) = None \<and> nr_dnsServer n \<noteq> None),
             sg_http := (sg_http v \<or> \<not> nr_httpServer (sg_runtime v) \<and> nr_httpServer n),
             sg_https := (sg_https v \<or> \<not> nr_httpsServer (sg_runtime v) \<and> nr_httpsServer n)\<rparr>))"

text \<open>\<open>Close\<close>: \<open>Shutdown\<close> ends a server; a DNS server that was not listening yet refuses, and is forgotten.\<close>

definition close_serving ::
  "go_error option \<Rightarrow> shutdown_error option \<Rightarrow> shutdown_error option
     \<Rightarrow> ('s, 't, 'w, 'k) servers \<Rightarrow> go_error option \<times> ('s, 't, 'w, 'k) servers" where
  "close_serving e1 e2 e3 v =
     (case Close e1 e2 e3 (sg_runtime v) of
        (err, n) \<Rightarrow>
          (err, v\<lparr>sg_runtime := n, sg_dns := False, sg_http := False, sg_https := False,
             sg_stray := (sg_stray v \<or> sg_dns v \<and> e1 \<noteq> None)\<rparr>))"

text \<open>
  The states they reach. \<open>dns_ends\<close>, \<open>http_ends\<close> and \<open>https_ends\<close>: the call of \<open>Serve\<close> returns
  by itself, and the goroutine drops its error. The setters \<open>SetDNSBindResult\<close>, \<open>SetHTTPBindResult\<close> and
  \<open>SetHTTPSBindResult\<close> have no caller in the program and are no step.
\<close>

inductive serves :: "('w, 'k) net_env \<Rightarrow> ('s, 't, 'w, 'k) servers \<Rightarrow> bool" for env where
  new: "NewNetworkRuntime env cfg st w = (Inr n, w') \<Longrightarrow>
     serves env \<lparr>sg_runtime = n, sg_dns = False, sg_http = False, sg_https = False, sg_stray = False\<rparr>"
| start: "serves env v \<Longrightarrow> serves env (snd (start_serving os v))"
| close: "serves env v \<Longrightarrow> serves env (snd (close_serving e1 e2 e3 v))"
| refresh: "serves env v \<Longrightarrow>
     serves env (v\<lparr>sg_runtime := snd (fst (RefreshCertificates env st w (sg_runtime v)))\<rparr>)"
| set_ready: "serves env v \<Longrightarrow> serves env (v\<lparr>sg_runtime := SetCertificateReady b (sg_runtime v)\<rparr>)"
| dns_ends: "serves env v \<Longrightarrow> serves env (v\<lparr>sg_dns := False\<rparr>)"
| http_ends: "serves env v \<Longrightarrow> serves env (v\<lparr>sg_http := False\<rparr>)"
| https_ends: "serves env v \<Longrightarrow> serves env (v\<lparr>sg_https := False\<rparr>)"

definition serving_inv :: "('s, 't, 'w, 'k) servers \<Rightarrow> bool" where
  "serving_inv v \<longleftrightarrow>
     (sg_dns v \<longrightarrow> nr_dnsServer (sg_runtime v) \<noteq> None) \<and> (sg_http v \<longrightarrow> nr_httpServer (sg_runtime v)) \<and>
     (sg_https v \<longrightarrow> nr_httpsServer (sg_runtime v))"

lemma Refresh_keeps_servers [simp]:
  "nr_dnsServer (snd (fst (RefreshCertificates env st w n))) = nr_dnsServer n"
  "nr_httpServer (snd (fst (RefreshCertificates env st w n))) = nr_httpServer n"
  "nr_httpsServer (snd (fst (RefreshCertificates env st w n))) = nr_httpsServer n"
  by (simp_all add: RefreshCertificates_def SetCertificateReady_def split: prod.split option.split)

lemma set_ready_servers [simp]:
  "nr_dnsServer (SetCertificateReady b n) = nr_dnsServer n" "nr_httpServer (SetCertificateReady b n) = nr_httpServer n"
  "nr_httpsServer (SetCertificateReady b n) = nr_httpsServer n"
  by (simp_all add: SetCertificateReady_def)

text \<open>\<open>Start\<close> stops no server.\<close>

lemma Start_keeps_servers:
  "nr_dnsServer n \<noteq> None \<Longrightarrow> nr_dnsServer (snd (Start os n)) \<noteq> None"
  "nr_httpServer n \<Longrightarrow> nr_httpServer (snd (Start os n))"
  "nr_httpsServer n \<Longrightarrow> nr_httpsServer (snd (Start os n))"
  by (simp_all add: Start_def)

lemma serves_inv: "serves env v \<Longrightarrow> runs env (sg_runtime v) \<and> serving_inv v"
proof (induction rule: serves.induct)
  case (start v os)
  then show ?case
    using Start_keeps_servers [of "sg_runtime v" os]
    by (auto simp: serving_inv_def start_serving_def case_prod_unfold intro: runs.start)
next
  case (close v e1 e2 e3)
  then show ?case by (auto simp: serving_inv_def close_serving_def case_prod_unfold intro: runs.close)
qed (auto simp: serving_inv_def intro: runs.intros)

lemma bound_iff_server:
  assumes "runs env n"
  shows "lh_Bound (nh_DNS (Health st n)) \<longleftrightarrow> nr_dnsServer n \<noteq> None"
    "lh_Bound (nh_HTTP (Health st n)) \<longleftrightarrow> nr_httpServer n" "lh_Bound (nh_HTTPS (Health st n)) \<longleftrightarrow> nr_httpsServer n"
  using runs_net_inv [OF assms] by (simp_all add: net_inv_def slot_inv_def Health_def)

lemma Start_serves_dns: "fst (Start os n) = None \<Longrightarrow> nr_dnsServer (snd (Start os n)) \<noteq> None"
  by (auto simp: Start_def Let_def split: if_splits sum.splits)

section \<open>Properties\<close>

definition acme_env :: "(nat, unit) net_env" where
  "acme_env = \<lparr>env_it = rev, env_parse = (\<lambda>_. None),
     env_load = (\<lambda>_ _. Inr \<lparr>tls_Certificate = [], tls_Leaf = None, tls_PrivateKey = ()\<rparr>),
     env_run = (\<lambda>_ _ w. (None, w + 1))\<rparr>"

definition acme_config :: "string list list \<Rightarrow> (unit, nat, unit) network_config" where
  "acme_config hosts = \<lparr>nc_ManagedSuffix = ''test'', nc_Snapshot = Some (\<lambda>_. serving hosts),
     nc_RoutingPaused = None, nc_Certificates = [], nc_StoredCertificates = [],
     nc_CertificateOutputDir = ''/tmp'', nc_IssueCertificate = None, nc_DNSAddress = [],
     nc_HTTPAddress = [], nc_HTTPSAddress = []\<rparr>"

definition acme_runtime :: "(unit, unit, nat, unit) network_runtime" where
  "acme_runtime = projr (fst (NewNetworkRuntime acme_env (acme_config [[''api.acme.test'']]) () 0))"

definition port_80_taken :: os_net where
  "port_80_taken = \<lparr>os_ListenPacket = Inr,
     os_Listen = (\<lambda>addr. if addr = ''127.0.0.1:80'' then Inl ''address already in use'' else Inr addr),
     os_ListenTLS = Inr\<rparr>"

lemma acme_runtime_new:
  "NewNetworkRuntime acme_env (acme_config [[''api.acme.test'']]) () 0 =
     (Inr acme_runtime, snd (NewNetworkRuntime acme_env (acme_config [[''api.acme.test'']]) () 0 ::
       (go_error + (unit, unit, nat, unit) network_runtime) \<times> nat))"
proof -
  have "\<not> isl (fst (NewNetworkRuntime acme_env (acme_config [[''api.acme.test'']]) () 0 ::
      (go_error + (unit, unit, nat, unit) network_runtime) \<times> nat))" by code_simp
  then show ?thesis by (simp add: acme_runtime_def prod_eq_iff)
qed

lemma runs_acme: "runs acme_env acme_runtime"
  by (rule runs.new [OF acme_runtime_new])

lemma serves_acme:
  "serves acme_env \<lparr>sg_runtime = acme_runtime, sg_dns = False, sg_http = False, sg_https = False, sg_stray = False\<rparr>"
  by (rule serves.new [OF acme_runtime_new])



text \<open>C18. Starting and stopping: a runtime that is stopped can be started, the start fails only if the DNS
  socket cannot be opened (HTTP and HTTPS failures are only reported), a running one refuses to start
  and is left alone, and after \<open>Close\<close> nothing runs and the runtime can be started again.\<close>

theorem start_and_close:
  assumes "runs env n"
  shows "(nr_dnsServer n \<noteq> None \<longrightarrow> Start os n = (Some ''network runtime already started'', n)) \<and>
    (nr_dnsServer n = None \<longrightarrow>
       (case os_ListenPacket os (lh_BindAddress (nh_DNS (nr_health n))) of
          Inl err \<Rightarrow> fst (Start os n) = Some err \<and> nr_dnsServer (snd (Start os n)) = None
        | Inr addr \<Rightarrow> fst (Start os n) = None \<and> nr_dnsServer (snd (Start os n)) \<noteq> None \<and>
            nr_httpServer (snd (Start os n)) =
              (\<not> isl (os_Listen os (lh_BindAddress (nh_HTTP (nr_health n))))) \<and>
            nr_httpsServer (snd (Start os n)) =
              (\<not> isl (os_ListenTLS os (lh_BindAddress (nh_HTTPS (nr_health n))))))) \<and>
    nr_dnsServer (snd (Close e1 e2 e3 n)) = None \<and> \<not> nr_httpServer (snd (Close e1 e2 e3 n)) \<and>
    \<not> nr_httpsServer (snd (Close e1 e2 e3 n))"
proof -
  have inv: "net_inv n" using assms by (rule runs_net_inv)
  then have alone: "nr_dnsServer n = None \<Longrightarrow> \<not> nr_httpServer n \<and> \<not> nr_httpsServer n"
    by (auto simp: net_inv_def)
  have http: "nr_httpServer (start_http os m) =
      (nr_httpServer m \<or> \<not> isl (os_Listen os (lh_BindAddress (nh_HTTP (nr_health m)))))" for m
    by (simp add: start_http_def Let_def split: sum.split)
  have https: "nr_httpsServer (start_https os m) =
      (nr_httpsServer m \<or> \<not> isl (os_ListenTLS os (lh_BindAddress (nh_HTTPS (nr_health m)))))" for m
    by (simp add: start_https_def Let_def split: sum.split)
  have "nr_dnsServer n \<noteq> None \<longrightarrow> Start os n = (Some ''network runtime already started'', n)"
    by (simp add: Start_def)
  moreover have "nr_dnsServer (snd (Close e1 e2 e3 n)) = None" "\<not> nr_httpServer (snd (Close e1 e2 e3 n))"
    "\<not> nr_httpsServer (snd (Close e1 e2 e3 n))"
    by (simp_all add: Close_def stopDNSServerLocked_def Let_def)
  ultimately show ?thesis
    using alone by (auto simp: Start_def Let_def http https split: sum.split)
qed

theorem start_and_close_witness:
  "fst (Start port_80_taken (snd (Close None None None (snd (Start port_80_taken acme_runtime))))) = None \<and>
   fst (Start port_80_taken (snd (Start port_80_taken acme_runtime))) =
     Some ''network runtime already started''"
proof -
  let ?n = "snd (Start port_80_taken acme_runtime)"
  have started: "runs acme_env ?n" by (rule runs.start [OF runs_acme])
  have stopped: "runs acme_env (snd (Close None None None ?n))" by (rule runs.close [OF started])
  have "map_option (\<lambda>_. ()) (nr_dnsServer ?n) = Some ()" by code_simp
  then have "nr_dnsServer ?n \<noteq> None" by auto
  moreover have "nr_dnsServer (snd (Close None None None ?n)) = None"
    using start_and_close [OF started] by blast
  ultimately show ?thesis
    using start_and_close [OF started, of port_80_taken] start_and_close [OF stopped, of port_80_taken]
    by (simp add: port_80_taken_def)
qed

lemma prepare_all_length:
  "length (fst (fst (prepare_all issue dir existing ds acc w))) +
     length (snd (fst (prepare_all issue dir existing ds acc w))) =
   length ds + length (fst acc) + length (snd acc)"
  by (induction issue dir existing ds acc w rule: prepare_all.induct) (auto split: prod.split sum.split)

lemma prepared_length:
  assumes "prepareStoredCertificates env snap cfg w = ((prepared, None), w')"
  shows "length prepared = length (BuildCertificateInventory (env_it env) snap (nc_ManagedSuffix cfg)
    (gm_get (nc_StoredCertificates cfg)))"
  using assms
    prepare_all_length [of "certificateIssuer (env_run env) (nc_IssueCertificate cfg)"
      "if nc_CertificateOutputDir cfg = [] then ''.'' else nc_CertificateOutputDir cfg"
      "nc_StoredCertificates cfg"
      "BuildCertificateInventory (env_it env) snap (nc_ManagedSuffix cfg)
        (gm_get (nc_StoredCertificates cfg))" "([], [])" w]
  by (auto simp: prepareStoredCertificates_def Let_def split: prod.splits if_splits)

text \<open>C16. A failed certificate refresh leaves the listener with the certificates it had and only clears
  the ready flag; a successful one replaces them by what the inventory of the current snapshot
  asks for, and reports readiness exactly when there is a certificate.\<close>

theorem refresh_is_all_or_nothing:
  "case fst (RefreshCertificates env st w n) of
     (Some err, n') \<Rightarrow> n' = SetCertificateReady False n
   | (None, n') \<Rightarrow> \<exists>prepared inventory.
       buildCertificateMap (env_it env) (env_parse env) (env_load env) (nr_certificates n) prepared =
         Inr inventory \<and>
       tl_certificates (nr_httpsHandler n') = inventory \<and>
       nr_storedCerts n' = indexStoredCertificates prepared \<and>
       length prepared = length (BuildCertificateInventory (env_it env) (nr_readSnapshot n st)
         (nr_managedSuffix n) (gm_get (cloneStoredCertificates (nr_storedCerts n)))) \<and>
       nh_CertificateReady (nr_health n') = (length (nr_certificates n) > 0 \<or> length prepared > 0)"
proof -
  let ?cfg = "\<lparr>nc_ManagedSuffix = nr_managedSuffix n, nc_Snapshot = (None :: ('a \<Rightarrow> snapshot) option),
      nc_RoutingPaused = None, nc_Certificates = nr_certificates n,
      nc_StoredCertificates = cloneStoredCertificates (nr_storedCerts n),
      nc_CertificateOutputDir = nr_certOutputDir n, nc_IssueCertificate = Some (nr_issueCert n),
      nc_DNSAddress = [], nc_HTTPAddress = [], nc_HTTPSAddress = []\<rparr>"
  obtain prepared err w' where
    prep: "prepareStoredCertificates env (nr_readSnapshot n st) ?cfg w = ((prepared, err), w')"
    by (metis prod.exhaust)
  show ?thesis
  proof (cases err)
    case (Some e)
    with prep show ?thesis by (simp add: RefreshCertificates_def)
  next
    case None
    note len = prepared_length [OF prep [unfolded None]]
    show ?thesis
      using prep None len
      by (auto simp: RefreshCertificates_def ReplaceCertificates_def SetCertificateReady_def
          split: sum.split)
  qed
qed

section \<open>Are issued certificates reused?\<close>

text \<open>What \<open>mkcert\<close> leaves in the store for a decision.\<close>

definition mkcert_stored :: "string \<Rightarrow> inventory_decision \<Rightarrow> stored_certificate" where
  "mkcert_stored dir d =
     (let primary = normalizeHostname (hd (dec_RequiredSANs d))
      in \<lparr>stored_ProjectRoot = primary, stored_SANs = dec_RequiredSANs d,
          stored_CertPath = filepath_join [dir, sanitizeFilename primary @ ''.pem''],
          stored_KeyPath = filepath_join [dir, sanitizeFilename primary @ ''-key.pem'']\<rparr>)"

lemma Issue_stored:
  assumes "Issue run mk dir (dec_RequiredSANs d) w = (Inr issued, w')"
  shows "store_issued d issued = mkcert_stored dir d"
  using assms
  by (auto simp: Issue_def store_issued_def mkcert_stored_def Let_def
      split: if_splits prod.splits option.splits)

lemma prepare_all_errors: "set (snd acc) \<subseteq> set (snd (fst (prepare_all issue dir existing ds acc w)))"
  by (induction issue dir existing ds acc w rule: prepare_all.induct)
    (auto split: prod.split sum.split)

lemma prepare_all_mkcert:
  assumes "snd (fst (prepare_all (Issue run mk) dir existing ds acc w)) = []"
    and "\<forall>d \<in> set ds. \<not> dec_ReuseExisting d"
  shows "fst (fst (prepare_all (Issue run mk) dir existing ds acc w)) = fst acc @ map (mkcert_stored dir) ds"
  using assms
proof (induction ds arbitrary: acc w)
  case Nil
  then show ?case by (cases acc) simp
next
  case (Cons d ds)
  obtain prepared errs where acc: "acc = (prepared, errs)" by (cases acc)
  obtain r w' where issue: "Issue run mk dir (dec_RequiredSANs d) w = (r, w')" by force
  show ?case
  proof (cases r)
    case (Inl err)
    with issue Cons.prems acc
      prepare_all_errors [of "(prepared, errs @ [dec_ProjectRoot d @ '': '' @ err])" "Issue run mk" dir
        existing ds w']
    show ?thesis by simp
  next
    case (Inr issued)
    with issue Cons.prems Cons.IH [of "(prepared, errs @ [])" w'] acc
      Cons.IH [of "(prepared @ [store_issued d issued], errs)" w']
    show ?thesis by (simp add: Issue_stored)
  qed
qed

lemma not_reused_without_store:
  "dec_ReuseExisting (required_decision snap suffix Map.empty root) = False"
  by (simp add: required_decision_def Let_def)

lemma prepared_by_mkcert:
  assumes "rearranges (env_it env)" and "wf_gomap (snap_Routes snap)"
    and "prepareStoredCertificates env snap cfg w = ((prepared, None), w')"
    and "nc_IssueCertificate cfg = None" and "nc_StoredCertificates cfg = []"
  shows "\<exists>dir. prepared = map (mkcert_stored dir)
    (BuildCertificateInventory (env_it env) snap (nc_ManagedSuffix cfg) Map.empty)"
proof -
  let ?dir = "if nc_CertificateOutputDir cfg = [] then ''.'' else nc_CertificateOutputDir cfg"
  let ?ds = "BuildCertificateInventory (env_it env) snap (nc_ManagedSuffix cfg) (gm_get [])"
  let ?issue = "Issue (env_run env) \<lparr>mk_Binary = [], mk_Runner = None\<rparr>"
  have "\<forall>d \<in> set ?ds. \<not> dec_ReuseExisting d"
    by (simp add: BuildCertificateInventory_eq [OF assms(1,2)] not_reused_without_store)
  moreover have "snd (fst (prepare_all ?issue ?dir [] ?ds ([], []) w)) = []"
    "prepared = fst (fst (prepare_all ?issue ?dir [] ?ds ([], []) w))"
    using assms(3-5)
    by (auto simp: prepareStoredCertificates_def certificateIssuer_def Let_def
        split: prod.splits if_splits)
  ultimately have "prepared = map (mkcert_stored ?dir) ?ds"
    using prepare_all_mkcert [of "env_run env" "\<lparr>mk_Binary = [], mk_Runner = None\<rparr>" ?dir "[]" ?ds
        "([], [])" w] by simp
  then show ?thesis by auto
qed

lemma indexStored_filter:
  "indexStoredCertificates stored =
     fold (\<lambda>c m. gm_put (stored_ProjectRoot c) c m) (filter (\<lambda>c. stored_ProjectRoot c \<noteq> []) stored) []"
proof -
  have "fold (\<lambda>c m. if stored_ProjectRoot c = [] then m else gm_put (stored_ProjectRoot c) c m) stored m =
      fold (\<lambda>c m. gm_put (stored_ProjectRoot c) c m) (filter (\<lambda>c. stored_ProjectRoot c \<noteq> []) stored) m"
    for m
    by (induction stored arbitrary: m) auto
  then show ?thesis by (simp add: indexStoredCertificates_def)
qed

text \<open>The name a project's certificate is stored under belongs to that project.\<close>

lemma project_of_root:
  assumes "project_of suffix h = Some root" and "canonical h"
  shows "project_of suffix root = Some root"
proof -
  let ?sfx = "certs_normalizeSuffix suffix"
  from project_of_labels [OF assms(1)] obtain a where root: "root = a @ ''.'' @ ?sfx"
    and "a \<noteq> []" and dots: "CHR ''.'' \<notin> set a" "CHR ''.'' \<notin> set ?sfx" by metis
  have "split_on CHR ''.'' (a @ CHR ''.'' # ?sfx) = [a, ?sfx]"
    by (simp only: split_on_append split_on_none [OF dots(1)] split_on_none [OF dots(2)]) simp
  then show ?thesis
    using \<open>a \<noteq> []\<close>
    by (simp add: root project_of_def projectRootForHostname_def isManagedHostname_def Let_def
        has_suffix_def)
qed

lemma hd_requiredSANs:
  "requiredSANs root hosts \<noteq> [] \<and> hd (requiredSANs root hosts) \<in> insert root (set hosts)"
proof (cases "wildcardEligible root hosts")
  case True
  then show ?thesis by (simp add: requiredSANs_def)
next
  case False
  then have "set (requiredSANs root hosts) = insert root (set hosts)" by (rule requiredSANs_exact)
  moreover from this have "requiredSANs root hosts \<noteq> []" by auto
  ultimately show ?thesis using hd_in_set by blast
qed

text \<open>The map a refresh leaves, after \<open>mkcert\<close> issued everything.\<close>

lemma indexed_mkcert:
  assumes "rearranges it" and "wf_gomap (snap_Routes snap)"
    and plain: "\<forall>r \<in> snd ` set (snap_Routes snap). \<forall>h \<in> set (served_hosts r). plain h"
    and "root \<in> active_projects snap suffix"
    and "d = required_decision snap suffix Map.empty root"
  shows "gm_get (indexStoredCertificates (map (mkcert_stored dir)
      (BuildCertificateInventory it snap suffix Map.empty))) root =
    (if hd (dec_RequiredSANs d) = root then Some (mkcert_stored dir d) else None)"
proof -
  let ?dec = "required_decision snap suffix Map.empty"
  let ?roots = "sorted_list_of_set (active_projects snap suffix)"
  let ?stored = "\<lambda>root. mkcert_stored dir (?dec root)"
  let ?key = "\<lambda>root. stored_ProjectRoot (?stored root)"
  have name: "canonical h \<and> plain h" if "h \<in> names_of_project snap suffix q" for h q
    using that plain
    by (auto simp: names_of_project_def served_names_def normalizeHostname_eq
        intro!: canonical_normalize plain_normalize)
  have active: "canonical q \<and> q \<noteq> [] \<and> project_of suffix q = Some q" if "q \<in> active_projects snap suffix" for q
  proof -
    from that obtain h where h: "h \<in> names_of_project snap suffix q"
      by (auto simp: active_projects_eq names_of_project_def)
    then have "project_of suffix h = Some q" by (simp add: names_of_project_def)
    with name [OF h] show ?thesis using project_canonical project_of_root by blast
  qed
  have key: "?key q = hd (dec_RequiredSANs (?dec q)) \<and> ?key q \<noteq> [] \<and> project_of suffix (?key q) = Some q"
    if "q \<in> active_projects snap suffix" for q
  proof -
    let ?h = "hd (dec_RequiredSANs (?dec q))"
    have "?h \<in> insert q (names_of_project snap suffix q)"
      using hd_requiredSANs [of q "sorted_list_of_set (names_of_project snap suffix q)"]
      by (simp add: required_decision_def Let_def)
    then have "canonical ?h \<and> project_of suffix ?h = Some q"
      using active [OF that] name [of ?h q] by (auto simp: names_of_project_def)
    moreover from this have "?h \<noteq> []" by (auto simp: project_of_def)
    ultimately show ?thesis
      by (simp add: mkcert_stored_def Let_def normalizeHostname_eq canonical_def)
  qed
  have entries: "filter (\<lambda>c. stored_ProjectRoot c \<noteq> []) (map ?stored ?roots) = map ?stored ?roots"
  proof (rule filter_True, rule ballI)
    fix c assume "c \<in> set (map ?stored ?roots)"
    then obtain q where "q \<in> active_projects snap suffix" and c: "c = ?stored q" by auto
    from key [OF this(1)] show "stored_ProjectRoot c \<noteq> []" unfolding c by blast
  qed
  have "inj_on ?key (active_projects snap suffix)"
    using key by (intro inj_onI) (metis option.inject)
  then have "distinct (map stored_ProjectRoot (map ?stored ?roots))"
    by (simp add: distinct_map comp_def)
  then have lookup: "gm_get (indexStoredCertificates (map ?stored ?roots)) root = Some s \<longleftrightarrow>
      s \<in> set (map ?stored ?roots) \<and> stored_ProjectRoot s = root" for s
    unfolding indexStored_filter entries by (rule gm_get_fold_put_distinct)
  have own: "s = ?stored root \<and> ?key root = root"
    if "s \<in> set (map ?stored ?roots)" and "stored_ProjectRoot s = root" for s
  proof -
    from that obtain q where q: "q \<in> active_projects snap suffix" "s = ?stored q" "?key q = root" by auto
    with key [OF q(1)] active [OF assms(4)] have "q = root" by (metis option.inject)
    with q show ?thesis by simp
  qed
  have table: "map (mkcert_stored dir) (BuildCertificateInventory it snap suffix Map.empty) =
      map ?stored ?roots"
    by (simp add: BuildCertificateInventory_eq [OF assms(1,2)] comp_def)
  show ?thesis
  proof (cases "hd (dec_RequiredSANs d) = root")
    case True
    then have "?key root = root" using key [OF assms(4)] assms(5) by simp
    then have "gm_get (indexStoredCertificates (map ?stored ?roots)) root = Some (?stored root)"
      using assms(4) by (simp add: lookup)
    with True show ?thesis unfolding table assms(5) by simp
  next
    case False
    then have "?key root \<noteq> root" using key [OF assms(4)] assms(5) by simp
    then have "gm_get (indexStoredCertificates (map ?stored ?roots)) root = None"
      using lookup own by (metis not_None_eq)
    with False show ?thesis unfolding table by simp
  qed
qed

text \<open>C15. After \<open>mkcert\<close> issued every certificate the inventory asked for, the next refresh of
  the same snapshot reuses a project's certificate exactly when the project's own name comes
  first among the required names. It always does when one wildcard is enough; when a name lies deeper and sorts
  before the project's, the certificate is filed under that name and issued again at every refresh.\<close>

theorem issued_certificate_reused_iff:
  assumes "rearranges (env_it env)"
    and "wf_gomap (snap_Routes snap)"
    and "\<forall>r \<in> snd ` set (snap_Routes snap). \<forall>h \<in> set (served_hosts r). plain h"
    and "nc_IssueCertificate cfg = None" and "nc_StoredCertificates cfg = []"
    and "prepareStoredCertificates env snap cfg w = ((prepared, None), w')"
    and "d \<in> set (BuildCertificateInventory (env_it env) snap (nc_ManagedSuffix cfg)
           (gm_get (indexStoredCertificates prepared)))"
  shows "(dec_ReuseExisting d \<longleftrightarrow> hd (dec_RequiredSANs d) = dec_ProjectRoot d) \<and>
    (wildcardEligible (dec_ProjectRoot d) (dec_Hostnames d) \<longrightarrow> dec_ReuseExisting d)"
proof -
  let ?sfx = "nc_ManagedSuffix cfg"
  let ?stored = "gm_get (indexStoredCertificates prepared)"
  from assms(7) obtain root where root: "root \<in> active_projects snap ?sfx"
    and d: "d = required_decision snap ?sfx ?stored root"
    by (auto simp: BuildCertificateInventory_eq [OF assms(1,2)])
  let ?first = "required_decision snap ?sfx Map.empty root"
  have same: "dec_RequiredSANs d = dec_RequiredSANs ?first" "dec_Hostnames d = dec_Hostnames ?first"
    "dec_ProjectRoot d = root"
    by (simp_all add: d required_decision_def Let_def)
  obtain dir where "prepared = map (mkcert_stored dir)
      (BuildCertificateInventory (env_it env) snap ?sfx Map.empty)"
    using prepared_by_mkcert [OF assms(1,2,6,4,5)] by blast
  then have stored: "?stored root = (if hd (dec_RequiredSANs d) = root
      then Some (mkcert_stored dir ?first) else None)"
    using indexed_mkcert [OF assms(1,2,3) root refl, of dir] same by simp
  have "?first \<in> set (BuildCertificateInventory (env_it env) snap ?sfx Map.empty)"
    using root by (simp add: BuildCertificateInventory_eq [OF assms(1,2)])
  then have "coversAll (dec_RequiredSANs ?first) (dec_Hostnames ?first)"
    by (rule required_names_cover [OF assms(1,2,3), THEN conjunct2, THEN conjunct1])
  then have covers: "\<forall>h \<in> set (dec_Hostnames d). isCovered h (stored_SANs (mkcert_stored dir ?first))"
    by (simp add: coversAll_iff same mkcert_stored_def Let_def)
  have "dec_ReuseExisting d \<longleftrightarrow> hd (dec_RequiredSANs d) = root"
    using stored covers same by (simp add: d required_decision_def Let_def)
  moreover have "wildcardEligible root (dec_Hostnames d) \<longrightarrow> hd (dec_RequiredSANs d) = root"
    by (simp add: d required_decision_def Let_def requiredSANs_def)
  ultimately show ?thesis by (simp add: same)
qed

definition deep_snapshot :: snapshot where
  "deep_snapshot = serving [[''a.b.acme.test'', ''api.acme.test'']]"

theorem issued_certificate_reused_iff_witness:
  "\<exists>d. d \<in> set (BuildCertificateInventory rev deep_snapshot ''test''
      (gm_get (indexStoredCertificates (fst (fst (prepareStoredCertificates acme_env deep_snapshot
         (acme_config []) 0)))))) \<and>
     dec_ProjectRoot d = ''acme.test'' \<and> \<not> dec_ReuseExisting d"
proof -
  let ?prep = "prepareStoredCertificates acme_env deep_snapshot (acme_config []) 0"
  let ?inv = "BuildCertificateInventory rev deep_snapshot ''test''
      (gm_get (indexStoredCertificates (fst (fst ?prep))))"
  have "snd (fst ?prep) = None" by code_simp
  then have prep: "?prep = ((fst (fst ?prep), None), snd ?prep)" by (simp add: prod_eq_iff)
  have "map (\<lambda>d. (dec_ProjectRoot d, hd (dec_RequiredSANs d))) ?inv = [(''acme.test'', ''a.b.acme.test'')]"
    by code_simp
  then obtain d where d: "d \<in> set ?inv" "dec_ProjectRoot d = ''acme.test''"
    "hd (dec_RequiredSANs d) = ''a.b.acme.test''"
    by (cases ?inv) auto
  have "rearranges (env_it acme_env)" "wf_gomap (snap_Routes deep_snapshot)"
    "nc_IssueCertificate (acme_config []) = None" "nc_StoredCertificates (acme_config []) = []"
    "env_it acme_env = rev" "nc_ManagedSuffix (acme_config []) = ''test''"
    by (simp_all add: acme_env_def acme_config_def deep_snapshot_def serving_def wf_gomap_def
        zero_snapshot_def)
  moreover have "\<forall>r \<in> snd ` set (snap_Routes deep_snapshot). \<forall>h \<in> set (served_hosts r). plain h"
    by code_simp
  ultimately have "dec_ReuseExisting d \<longleftrightarrow> hd (dec_RequiredSANs d) = dec_ProjectRoot d"
    using issued_certificate_reused_iff [OF _ _ _ _ _ prep, of d] d(1) by simp
  with d show ?thesis by auto
qed

end
