(* ===== verification/System.thy ===== *)
theory System
  imports Prelude "HOL-Library.Word"
begin

unbundle bit_operations_syntax

text \<open>
  The operating system as the installer uses it (\<open>os\<close>, \<open>os/exec\<close>, \<open>time\<close> of the standard library):
  files with contents, mode and owner, made directories, a clock in milliseconds, and the state
  \<open>'x\<close> of everything else (the service manager, the trust store). \<open>os_env\<close> says what may go
  wrong (\<open>os_fault\<close>: the error an operation on a path meets, if any) and what a command answers.
  Every operation takes the system state and returns the new one.
\<close>

datatype file_op = OpStat | OpRead | OpWrite | OpRemove | OpMkdirAll | OpRemoveAll | OpChown | OpCreate
  | OpCopy | OpClose | OpRename | OpChmod | OpWalk

record file_node =
  file_contents :: string
  file_perm :: "32 word"
  file_uid :: int
  file_gid :: int

record 'x sys =
  sys_files :: "string \<rightharpoonup> file_node"
  sys_dirs :: "string set"
  sys_now :: nat
  sys_world :: 'x

text \<open>An error of \<open>os\<close>: \<open>os.IsNotExist\<close> tells \<open>NotExist\<close> from the others.\<close>

datatype os_error = NotExist string | OSError go_error

fun os_error_msg :: "os_error \<Rightarrow> go_error" where
  "os_error_msg (NotExist path) = path @ '': no such file or directory''"
| "os_error_msg (OSError msg) = msg"

fun is_not_exist :: "os_error \<Rightarrow> bool" where
  "is_not_exist (NotExist _) = True"
| "is_not_exist (OSError _) = False"

text \<open>\<open>os_exec\<close> answers a command: its output, its error, the time it took, and what it did.
  \<open>os_walk\<close> lists what \<open>filepath.Walk\<close> visits at and below a path.\<close>

record 'x os_env =
  os_fault :: "file_op \<Rightarrow> string \<Rightarrow> 'x sys \<Rightarrow> go_error option"
  os_exec :: "string \<Rightarrow> string list \<Rightarrow> 'x sys \<Rightarrow> (string \<times> go_error option) \<times> nat \<times> 'x"
  os_getuid :: int
  os_geteuid :: int
  os_darwin :: bool
  os_executable :: "go_error + string"
  os_walk :: "string \<Rightarrow> 'x sys \<Rightarrow> string list"

section \<open>Files\<close>

definition os_stat :: "'x os_env \<Rightarrow> string \<Rightarrow> 'x sys \<Rightarrow> os_error + file_node option" where
  "os_stat env path s =
     (case os_fault env OpStat path s of
        Some e \<Rightarrow> Inl (OSError e)
      | None \<Rightarrow>
          (case sys_files s path of
             Some f \<Rightarrow> Inr (Some f)
           | None \<Rightarrow> if path \<in> sys_dirs s then Inr None else Inl (NotExist path)))"

definition os_read :: "'x os_env \<Rightarrow> string \<Rightarrow> 'x sys \<Rightarrow> os_error + string" where
  "os_read env path s =
     (case os_fault env OpRead path s of
        Some e \<Rightarrow> Inl (OSError e)
      | None \<Rightarrow>
          (case sys_files s path of Some f \<Rightarrow> Inr (file_contents f) | None \<Rightarrow> Inl (NotExist path)))"

text \<open>\<open>os.WriteFile\<close> keeps the mode and owner of a file that is there.\<close>

definition os_write :: "'x os_env \<Rightarrow> string \<Rightarrow> string \<Rightarrow> 32 word \<Rightarrow> 'x sys \<Rightarrow> go_error option \<times> 'x sys" where
  "os_write env path contents perm s =
     (case os_fault env OpWrite path s of
        Some e \<Rightarrow> (Some e, s)
      | None \<Rightarrow>
          (None, s\<lparr>sys_files := (sys_files s)(path \<mapsto>
             (case sys_files s path of
                Some f \<Rightarrow> f\<lparr>file_contents := contents\<rparr>
              | None \<Rightarrow> \<lparr>file_contents = contents, file_perm = perm, file_uid = os_geteuid env,
                  file_gid = 0\<rparr>))\<rparr>))"

definition os_remove :: "'x os_env \<Rightarrow> string \<Rightarrow> 'x sys \<Rightarrow> os_error option \<times> 'x sys" where
  "os_remove env path s =
     (case os_fault env OpRemove path s of
        Some e \<Rightarrow> (Some (OSError e), s)
      | None \<Rightarrow>
          (case sys_files s path of
             None \<Rightarrow> (Some (NotExist path), s)
           | Some f \<Rightarrow> (None, s\<lparr>sys_files := (sys_files s)(path := None)\<rparr>)))"

definition os_mkdir_all :: "'x os_env \<Rightarrow> string \<Rightarrow> 'x sys \<Rightarrow> go_error option \<times> 'x sys" where
  "os_mkdir_all env path s =
     (case os_fault env OpMkdirAll path s of
        Some e \<Rightarrow> (Some e, s)
      | None \<Rightarrow> (None, s\<lparr>sys_dirs := insert path (sys_dirs s)\<rparr>))"

text \<open>At or below a path.\<close>

definition path_below :: "string \<Rightarrow> string \<Rightarrow> bool" where
  "path_below root path \<longleftrightarrow> path = root \<or> has_prefix path (root @ ''/'')"

definition os_remove_all :: "'x os_env \<Rightarrow> string \<Rightarrow> 'x sys \<Rightarrow> go_error option \<times> 'x sys" where
  "os_remove_all env path s =
     (case os_fault env OpRemoveAll path s of
        Some e \<Rightarrow> (Some e, s)
      | None \<Rightarrow>
          (None, s\<lparr>sys_files := (\<lambda>p. if path_below path p then None else sys_files s p),
             sys_dirs := {p \<in> sys_dirs s. \<not> path_below path p}\<rparr>))"

text \<open>\<open>os.OpenFile\<close> to create and truncate, \<open>io.Copy\<close> into the open file, \<open>Close\<close>, \<open>os.Rename\<close>,
  \<open>os.Chmod\<close> and \<open>os.Chown\<close>. A copy that fails leaves the file cut short.\<close>

definition os_create :: "'x os_env \<Rightarrow> string \<Rightarrow> 32 word \<Rightarrow> 'x sys \<Rightarrow> go_error option \<times> 'x sys" where
  "os_create env path perm s =
     (case os_fault env OpCreate path s of
        Some e \<Rightarrow> (Some e, s)
      | None \<Rightarrow>
          (None, s\<lparr>sys_files := (sys_files s)(path \<mapsto>
             (case sys_files s path of
                Some f \<Rightarrow> f\<lparr>file_contents := []\<rparr>
              | None \<Rightarrow> \<lparr>file_contents = [], file_perm = perm, file_uid = os_geteuid env, file_gid = 0\<rparr>))\<rparr>))"

definition os_copy :: "'x os_env \<Rightarrow> string \<Rightarrow> string \<Rightarrow> 'x sys \<Rightarrow> go_error option \<times> 'x sys" where
  "os_copy env path contents s =
     (case os_fault env OpCopy path s of
        Some e \<Rightarrow> (Some e, s)
      | None \<Rightarrow>
          (None, s\<lparr>sys_files := (sys_files s)(path :=
             map_option (\<lambda>f. f\<lparr>file_contents := contents\<rparr>) (sys_files s path))\<rparr>))"

definition os_close :: "'x os_env \<Rightarrow> string \<Rightarrow> 'x sys \<Rightarrow> go_error option \<times> 'x sys" where
  "os_close env path s = (os_fault env OpClose path s, s)"

definition os_rename :: "'x os_env \<Rightarrow> string \<Rightarrow> string \<Rightarrow> 'x sys \<Rightarrow> go_error option \<times> 'x sys" where
  "os_rename env old new s =
     (case os_fault env OpRename new s of
        Some e \<Rightarrow> (Some e, s)
      | None \<Rightarrow> (None, s\<lparr>sys_files := (sys_files s)(old := None, new := sys_files s old)\<rparr>))"

text \<open>The type bits of \<open>os.FileMode\<close> (\<open>os.ModeType\<close>): zero for a regular file.\<close>

definition mode_type :: "32 word" where
  "mode_type = 0x8F280000"

definition os_chmod :: "'x os_env \<Rightarrow> string \<Rightarrow> 32 word \<Rightarrow> 'x sys \<Rightarrow> go_error option \<times> 'x sys" where
  "os_chmod env path perm s =
     (case os_fault env OpChmod path s of
        Some e \<Rightarrow> (Some e, s)
      | None \<Rightarrow>
          (None, s\<lparr>sys_files := (sys_files s)(path :=
             map_option (\<lambda>f. f\<lparr>file_perm := (file_perm f AND mode_type) OR perm\<rparr>) (sys_files s path))\<rparr>))"

definition os_chown :: "'x os_env \<Rightarrow> string \<Rightarrow> int \<Rightarrow> int \<Rightarrow> 'x sys \<Rightarrow> go_error option \<times> 'x sys" where
  "os_chown env path uid gid s =
     (case os_fault env OpChown path s of
        Some e \<Rightarrow> (Some e, s)
      | None \<Rightarrow>
          (None, s\<lparr>sys_files := (sys_files s)(path :=
             map_option (\<lambda>f. f\<lparr>file_uid := uid, file_gid := gid\<rparr>) (sys_files s path))\<rparr>))"

section \<open>Commands\<close>

definition os_run :: "'x os_env \<Rightarrow> string \<Rightarrow> string list \<Rightarrow> 'x sys \<Rightarrow> (string \<times> go_error option) \<times> 'x sys" where
  "os_run env command args s =
     (case os_exec env command args s of
        (answer, elapsed, ext) \<Rightarrow> (answer, s\<lparr>sys_now := sys_now s + elapsed, sys_world := ext\<rparr>))"

section \<open>Sequences of fallible steps\<close>

text \<open>\<open>if err := act(); err != nil { return wrap(err) }; rest\<close>.\<close>

definition or_return ::
  "('w \<Rightarrow> go_error option \<times> 'w) \<Rightarrow> (go_error \<Rightarrow> go_error) \<Rightarrow> ('w \<Rightarrow> go_error option \<times> 'w)
     \<Rightarrow> 'w \<Rightarrow> go_error option \<times> 'w" where
  "or_return act wrap rest w =
     (case act w of (Some e, w) \<Rightarrow> (Some (wrap e), w) | (None, w) \<Rightarrow> rest w)"

definition wrapped :: "string \<Rightarrow> go_error \<Rightarrow> go_error" where
  "wrapped prefix e = prefix @ '': '' @ e"

lemma or_return_None [simp]:
  "fst (or_return act wrap rest w) = None \<longleftrightarrow>
     fst (act w) = None \<and> fst (rest (snd (act w))) = None"
  by (simp add: or_return_def split: prod.split option.split)

lemma or_return_ok: "fst (act w) = None \<Longrightarrow> or_return act wrap rest w = rest (snd (act w))"
  by (cases "act w") (simp add: or_return_def)

lemma or_return_failed: "fst (act w) = Some e \<Longrightarrow> or_return act wrap rest w = (Some (wrap e), snd (act w))"
  by (cases "act w") (simp add: or_return_def)

lemma os_write_ok:
  "fst (os_write env path c perm s) = None \<longleftrightarrow> os_fault env OpWrite path s = None"
  by (simp add: os_write_def split: option.split)

lemma os_write_contents:
  "os_fault env OpWrite path s = None \<Longrightarrow>
     map_option file_contents (sys_files (snd (os_write env path c perm s)) p) =
       (if p = path then Some c else map_option file_contents (sys_files s p))"
  by (simp add: os_write_def split: option.split)

lemma os_mkdir_all_files [simp]: "sys_files (snd (os_mkdir_all env p s)) = sys_files s"
  by (simp add: os_mkdir_all_def split: option.split)

end
