(* ===== verification/Resolver.thy ===== *)
theory Resolver
  imports System
begin

text \<open>
  \<open>internal/install/paths.go\<close> and \<open>internal/install/resolver.go\<close>: the directories of an
  installation, and the macOS resolver file that sends the managed suffix to devproxy's DNS
  server. A resolver file that was there before is kept as a backup and put back on removal. Mode
  0644 is 0x1A4.
\<close>

section \<open>Paths\<close>

record install_paths =
  ip_ConfigDir :: string
  ip_StateDir :: string
  ip_LogDir :: string
  ip_ResolverDir :: string
  ip_LaunchDaemons :: string
  ip_UserLibraryDir :: string

text \<open>\<open>home\<close>: the home directory of the current user, if the lookup succeeds.\<close>

definition DefaultPaths :: "string option \<Rightarrow> install_paths" where
  "DefaultPaths home =
     (let userLibraryDir =
            (case home of
               None \<Rightarrow> ''/Library''
             | Some h \<Rightarrow> if h = [] then ''/Library'' else filepath_join [h, ''Library''])
      in \<lparr>ip_ConfigDir = ''/usr/local/etc/devproxy'', ip_StateDir = ''/var/lib/devproxy'',
          ip_LogDir = ''/var/log/devproxy'', ip_ResolverDir = ''/etc/resolver'',
          ip_LaunchDaemons = ''/Library/LaunchDaemons'', ip_UserLibraryDir = userLibraryDir\<rparr>)"

fun make_dirs :: "'x os_env \<Rightarrow> string list \<Rightarrow> 'x sys \<Rightarrow> go_error option \<times> 'x sys" where
  "make_dirs env [] s = (None, s)"
| "make_dirs env (dir # dirs) s =
     or_return (os_mkdir_all env dir) (wrapped (''create install path '' @ go_quote dir))
       (make_dirs env dirs) s"

definition EnsurePaths :: "'x os_env \<Rightarrow> install_paths \<Rightarrow> 'x sys \<Rightarrow> go_error option \<times> 'x sys" where
  "EnsurePaths env paths =
     make_dirs env [ip_ConfigDir paths, ip_StateDir paths, ip_LogDir paths, ip_ResolverDir paths]"

section \<open>The resolver file\<close>

record resolver_config =
  rc_Suffix :: string
  rc_ResolverDir :: string
  rc_StateDir :: string

definition normalizeResolverConfig :: "resolver_config \<Rightarrow> go_error + (string \<times> string)" where
  "normalizeResolverConfig cfg =
     (let suffix = trim_space (trim_prefix (rc_Suffix cfg) ''.'') in
      if suffix = [] then Inl ''resolver suffix is required''
      else Inr (suffix, if rc_ResolverDir cfg = [] then ''/etc/resolver'' else rc_ResolverDir cfg))"

definition managedResolverContents :: "string \<Rightarrow> string" where
  "managedResolverContents suffix =
     ''domain '' @ suffix @ [CHR 0x0A] @ ''nameserver 127.0.0.1'' @ [CHR 0x0A] @ ''port 53535'' @ [CHR 0x0A]"

definition resolverBackupPath :: "resolver_config \<Rightarrow> string \<Rightarrow> string" where
  "resolverBackupPath cfg suffix =
     (let stateDir = trim_space (rc_StateDir cfg) in
      if stateDir = [] then [] else filepath_join [stateDir, ''resolver-backups'', suffix])"

definition writeResolverBackup ::
  "'x os_env \<Rightarrow> resolver_config \<Rightarrow> string \<Rightarrow> 'x sys \<Rightarrow> go_error option \<times> 'x sys" where
  "writeResolverBackup env cfg contents s =
     (let suffix = trim_space (trim_prefix (rc_Suffix cfg) ''.'');
          backupPath = resolverBackupPath cfg suffix
      in if backupPath = [] then (None, s)
         else case os_stat env backupPath s of
             Inr _ \<Rightarrow> (None, s)
           | Inl err \<Rightarrow>
               if \<not> is_not_exist err
               then (Some (''stat resolver backup '' @ go_quote backupPath @ '': '' @ os_error_msg err), s)
               else
                 or_return (os_mkdir_all env (filepath_dir backupPath))
                   (wrapped (''create resolver backup directory '' @ go_quote (filepath_dir backupPath)))
                   (or_return (os_write env backupPath contents 0x1A4)
                     (wrapped (''write resolver backup '' @ go_quote backupPath))
                     (Pair None)) s)"

definition WriteResolver :: "'x os_env \<Rightarrow> resolver_config \<Rightarrow> 'x sys \<Rightarrow> go_error option \<times> 'x sys" where
  "WriteResolver env cfg s =
     (case normalizeResolverConfig cfg of
        Inl err \<Rightarrow> (Some err, s)
      | Inr (suffix, resolverDir) \<Rightarrow>
          (let contents = managedResolverContents suffix;
               resolverPath = filepath_join [resolverDir, suffix];
               write = or_return (os_write env resolverPath contents 0x1A4)
                 (wrapped (''write resolver file '' @ go_quote resolverPath)) (Pair None)
           in case os_read env resolverPath s of
                Inl err \<Rightarrow>
                  (if \<not> is_not_exist err
                   then (Some (''read resolver file '' @ go_quote resolverPath @ '': '' @ os_error_msg err), s)
                   else write s)
              | Inr existing \<Rightarrow>
                  (if existing \<noteq> contents
                   then or_return (writeResolverBackup env cfg existing) (\<lambda>e. e) write s
                   else write s)))"

definition RemoveResolver :: "'x os_env \<Rightarrow> resolver_config \<Rightarrow> 'x sys \<Rightarrow> go_error option \<times> 'x sys" where
  "RemoveResolver env cfg s =
     (case normalizeResolverConfig cfg of
        Inl err \<Rightarrow> (Some err, s)
      | Inr (suffix, resolverDir) \<Rightarrow>
          (let resolverPath = filepath_join [resolverDir, suffix];
               backupPath = resolverBackupPath cfg suffix;
               remove_file = (\<lambda>s. case os_remove env resolverPath s of
                   (Some err, s) \<Rightarrow>
                     (if is_not_exist err then (None, s)
                      else (Some (''remove resolver file '' @ go_quote resolverPath @ '': '' @
                              os_error_msg err), s))
                 | (None, s) \<Rightarrow> (None, s))
           in if backupPath = [] then remove_file s
              else case os_read env backupPath s of
                  Inr backup \<Rightarrow>
                    or_return (os_write env resolverPath backup 0x1A4)
                      (wrapped (''restore resolver file '' @ go_quote resolverPath))
                      (\<lambda>s. case os_remove env backupPath s of
                         (Some err, s) \<Rightarrow>
                           (if is_not_exist err then (None, s)
                            else (Some (''remove resolver backup '' @ go_quote backupPath @ '': '' @
                                    os_error_msg err), s))
                       | (None, s) \<Rightarrow> (None, s)) s
                | Inl err \<Rightarrow>
                    (if is_not_exist err then remove_file s
                     else (Some (''read resolver backup '' @ go_quote backupPath @ '': '' @
                             os_error_msg err), s))))"

section \<open>Installing and removing\<close>

definition contents_of :: "'x sys \<Rightarrow> string \<Rightarrow> string option" where
  "contents_of s path = map_option file_contents (sys_files s path)"

definition faultless :: "'x os_env \<Rightarrow> bool" where
  "faultless env \<longleftrightarrow> (\<forall>op path s. os_fault env op path s = None)"

lemma os_read_faultless:
  "faultless env \<Longrightarrow> os_read env path s =
     (case contents_of s path of None \<Rightarrow> Inl (NotExist path) | Some c \<Rightarrow> Inr c)"
  by (simp add: os_read_def faultless_def contents_of_def split: option.split)

lemma os_write_faultless:
  "faultless env \<Longrightarrow> fst (os_write env path c perm s) = None"
  "faultless env \<Longrightarrow> contents_of (snd (os_write env path c perm s)) = (contents_of s)(path \<mapsto> c)"
  "sys_dirs (snd (os_write env path c perm s)) = sys_dirs s"
  by (auto simp: os_write_def faultless_def contents_of_def fun_eq_iff split: option.split)

lemma os_remove_faultless:
  "faultless env \<Longrightarrow> fst (os_remove env path s) =
     (if contents_of s path = None then Some (NotExist path) else None)"
  "faultless env \<Longrightarrow> contents_of (snd (os_remove env path s)) = (contents_of s)(path := None)"
  by (auto simp: os_remove_def faultless_def contents_of_def fun_eq_iff split: option.split)

lemma os_mkdir_faultless:
  "faultless env \<Longrightarrow> fst (os_mkdir_all env path s) = None"
  "contents_of (snd (os_mkdir_all env path s)) = contents_of s"
  by (auto simp: os_mkdir_all_def faultless_def contents_of_def fun_eq_iff split: option.split)

lemma os_stat_faultless:
  "faultless env \<Longrightarrow> os_stat env path s =
     (case sys_files s path of Some f \<Rightarrow> Inr (Some f)
      | None \<Rightarrow> if path \<in> sys_dirs s then Inr None else Inl (NotExist path))"
  by (simp add: os_stat_def faultless_def)

lemmas faultless_simps = os_read_faultless os_write_faultless os_remove_faultless os_mkdir_faultless
  os_stat_faultless

lemma writeResolverBackup_faultless:
  assumes "faultless env"
    and "normalizeResolverConfig cfg = Inr (suffix, dir)" and "resolverBackupPath cfg suffix = backup"
    and "backup \<noteq> []" and "contents_of s backup = None" and "backup \<notin> sys_dirs s"
  shows "fst (writeResolverBackup env cfg c s) = None \<and>
    contents_of (snd (writeResolverBackup env cfg c s)) = (contents_of s)(backup \<mapsto> c)"
proof -
  have "trim_space (trim_prefix (rc_Suffix cfg) ''.'') = suffix"
    using assms(2) by (auto simp: normalizeResolverConfig_def Let_def split: if_splits)
  moreover have "sys_files s backup = None" using assms(5) by (simp add: contents_of_def)
  ultimately show ?thesis
    using assms by (simp add: writeResolverBackup_def Let_def faultless_simps or_return_ok)
qed

lemma WriteResolver_faultless:
  assumes "faultless env"
    and "normalizeResolverConfig cfg = Inr (suffix, dir)" and "resolverBackupPath cfg suffix = backup"
    and "backup \<noteq> []" and "contents_of s backup = None" and "backup \<notin> sys_dirs s"
    and "path = filepath_join [dir, suffix]" and "path \<noteq> backup"
  shows "fst (WriteResolver env cfg s) = None \<and>
    contents_of (snd (WriteResolver env cfg s)) =
      (let old = contents_of s path in
       (if old = None \<or> old = Some (managedResolverContents suffix) then contents_of s
        else (contents_of s)(backup := old))(path \<mapsto> managedResolverContents suffix))"
proof (cases "contents_of s path")
  case None
  with assms show ?thesis
    by (simp add: WriteResolver_def Let_def faultless_simps or_return_ok)
next
  case (Some old)
  with assms writeResolverBackup_faultless [OF assms(1-6), of old] show ?thesis
    by (simp add: WriteResolver_def Let_def faultless_simps or_return_ok)
qed

lemma remove_tolerant:
  assumes "faultless env"
  shows "case os_remove env path s of
      (Some err, s') \<Rightarrow> is_not_exist err \<and> contents_of s' = (contents_of s)(path := None)
    | (None, s') \<Rightarrow> contents_of s' = (contents_of s)(path := None)"
  using os_remove_faultless [OF assms, of path s]
  by (cases "os_remove env path s") (auto split: if_splits option.split)

lemma RemoveResolver_faultless:
  assumes "faultless env"
    and "normalizeResolverConfig cfg = Inr (suffix, dir)" and "resolverBackupPath cfg suffix = backup"
    and "backup \<noteq> []" and "path = filepath_join [dir, suffix]"
  shows "fst (RemoveResolver env cfg s) = None \<and>
    contents_of (snd (RemoveResolver env cfg s)) =
      (case contents_of s backup of
         Some old \<Rightarrow> (contents_of s)(path \<mapsto> old, backup := None)
       | None \<Rightarrow> (contents_of s)(path := None))"
proof (cases "contents_of s backup")
  case None
  with assms remove_tolerant [OF assms(1), where path = path and s = s] show ?thesis
    by (auto simp: RemoveResolver_def Let_def faultless_simps split: prod.splits option.splits)
next
  case (Some old)
  let ?s = "snd (os_write env path old 0x1A4 s)"
  from Some assms remove_tolerant [OF assms(1), where path = backup and s = ?s] show ?thesis
    by (auto simp: RemoveResolver_def Let_def faultless_simps or_return_ok split: prod.splits option.splits)
qed

section \<open>Properties\<close>

text \<open>C35. Installing and then removing the resolver puts everything back: while installed, the
  resolver file has devproxy's contents; afterwards a foreign file that was there before has
  its old contents again, the backup is gone, and no other file has changed. (A file that already had
  devproxy's contents is taken as devproxy's own and removed.)\<close>

theorem resolver_round_trip:
  assumes "faultless env"
    and "normalizeResolverConfig cfg = Inr (suffix, dir)"
    and "resolverBackupPath cfg suffix = backup" and "backup \<noteq> []"
    and "filepath_join [dir, suffix] = path" and "path \<noteq> backup"
    and "contents_of s backup = None" and "backup \<notin> sys_dirs s"
    and "WriteResolver env cfg s = (e1, s1)" and "RemoveResolver env cfg s1 = (e2, s2)"
  shows "e1 = None \<and> e2 = None \<and> contents_of s1 path = Some (managedResolverContents suffix) \<and>
    contents_of s2 =
      (if contents_of s path = Some (managedResolverContents suffix) then (contents_of s)(path := None)
       else contents_of s)"
proof -
  let ?managed = "Some (managedResolverContents suffix)"
  let ?old = "contents_of s path"
  have wrote: "e1 = None" "contents_of s1 =
      (if ?old = None \<or> ?old = ?managed then contents_of s
       else (contents_of s)(backup := ?old))(path := ?managed)"
    using WriteResolver_faultless [OF assms(1,2,3,4,7,8) assms(5) [symmetric] assms(6)] assms(9)
    by (simp_all add: Let_def)
  have removed: "e2 = None" "contents_of s2 =
      (case contents_of s1 backup of
         Some old \<Rightarrow> (contents_of s1)(path \<mapsto> old, backup := None)
       | None \<Rightarrow> (contents_of s1)(path := None))"
    using RemoveResolver_faultless [OF assms(1-4) assms(5) [symmetric], of s1] assms(10) by simp_all
  have neq: "path \<noteq> backup" "backup \<noteq> path" using assms(6) by auto
  show ?thesis
  proof (cases "?old = None \<or> ?old = ?managed")
    case True
    with wrote neq assms(7) have "contents_of s1 backup = None" by simp
    with True wrote removed show ?thesis by (auto simp: fun_eq_iff)
  next
    case False
    then obtain old where old: "?old = Some old" by auto
    with False wrote neq have "contents_of s1 backup = Some old" by simp
    with False old wrote removed assms(7) show ?thesis by (auto simp: fun_eq_iff)
  qed
qed

definition calm_env :: "unit os_env" where
  "calm_env = \<lparr>os_fault = (\<lambda>_ _ _. None), os_exec = (\<lambda>_ _ s. (([], None), 0, sys_world s)),
     os_getuid = 501, os_geteuid = 0, os_darwin = True,
     os_executable = Inr ''/tmp/devproxy'', os_walk = (\<lambda>path _. [path])\<rparr>"

definition foreign_resolver :: "unit sys" where
  "foreign_resolver = \<lparr>sys_files = [''/etc/resolver/test'' \<mapsto> \<lparr>file_contents = ''nameserver 10.0.0.1'',
       file_perm = 0x1A4, file_uid = 0, file_gid = 0\<rparr>],
     sys_dirs = {''/etc/resolver''}, sys_now = 0, sys_world = ()\<rparr>"

definition test_resolver :: resolver_config where
  "test_resolver = \<lparr>rc_Suffix = ''.test'', rc_ResolverDir = [], rc_StateDir = ''/var/lib/devproxy''\<rparr>"

theorem resolver_round_trip_witness:
  "contents_of (snd (WriteResolver calm_env test_resolver foreign_resolver)) ''/etc/resolver/test'' =
     Some (managedResolverContents ''test'') \<and>
   contents_of (snd (RemoveResolver calm_env test_resolver
     (snd (WriteResolver calm_env test_resolver foreign_resolver)))) ''/etc/resolver/test'' =
     Some ''nameserver 10.0.0.1''"
proof -
  have "normalizeResolverConfig test_resolver = Inr (''test'', ''/etc/resolver'')"
    "resolverBackupPath test_resolver ''test'' = ''/var/lib/devproxy/resolver-backups/test''"
    "filepath_join [''/etc/resolver'', ''test''] = ''/etc/resolver/test''"
    by code_simp+
  moreover have "faultless calm_env" by (simp add: faultless_def calm_env_def)
  moreover have "contents_of foreign_resolver ''/var/lib/devproxy/resolver-backups/test'' = None"
    "''/var/lib/devproxy/resolver-backups/test'' \<notin> sys_dirs foreign_resolver"
    "contents_of foreign_resolver ''/etc/resolver/test'' = Some ''nameserver 10.0.0.1''"
    "managedResolverContents ''test'' \<noteq> ''nameserver 10.0.0.1''"
    by (simp_all add: contents_of_def foreign_resolver_def managedResolverContents_def)
  ultimately show ?thesis
    using resolver_round_trip [of calm_env test_resolver "''test''" "''/etc/resolver''" _
        "''/etc/resolver/test''" foreign_resolver, OF _ _ _ _ _ _ _ _ prod.collapse [symmetric]
        prod.collapse [symmetric]]
    by simp
qed

end
