(* ===== verification/Launchd.thy ===== *)
theory Launchd
  imports Resolver
begin

text \<open>
  \<open>internal/install/launchd.go\<close> and \<open>internal/install/gui_user_*.go\<close>: the launchd services
  of the daemon and the menu bar, their property lists, and starting and stopping them with
  \<open>launchctl\<close>. What a command answers is the parameter \<open>os_exec\<close> of the environment; time passes
  with the commands and with each sleep of the polling loop.
\<close>

section \<open>The desktop user\<close>

text \<open>\<open>gui_console\<close>: the owner of \<open>/dev/console\<close> (\<open>None\<close>: stat data of another kind).
  \<open>gui_lookup\<close>: home directory and primary group of a user id.\<close>

record gui_env =
  gui_console :: "go_error + int option"
  gui_lookup :: "int \<Rightarrow> go_error + (string \<times> string)"

definition ResolveGUIUserOwnership_darwin :: "gui_env \<Rightarrow> go_error + (int \<times> int \<times> string)" where
  "ResolveGUIUserOwnership_darwin g =
     (case gui_console g of
        Inl err \<Rightarrow> Inl (''determine active desktop user from /dev/console: '' @ err)
      | Inr None \<Rightarrow> Inl ''determine active desktop user from /dev/console: unsupported stat data''
      | Inr (Some uid) \<Rightarrow>
          if uid \<le> 0
          then Inl ''no active GUI user session found; log into macOS desktop and re-run install --with-menubar as sudo''
          else case gui_lookup g uid of
              Inl err \<Rightarrow> Inl (''lookup GUI user uid '' @ itoa uid @ '': '' @ err)
            | Inr (home, gid_text) \<Rightarrow>
                if home = []
                then Inl (''GUI user uid '' @ itoa uid @
                       '' has no home directory; cannot install menubar LaunchAgent'')
                else case atoi gid_text of
                    None \<Rightarrow> Inl (''GUI user uid '' @ itoa uid @ '' has invalid primary gid '' @
                       go_quote gid_text @ ''; cannot install menubar LaunchAgent'')
                  | Some gid \<Rightarrow>
                      if gid \<le> 0
                      then Inl (''GUI user uid '' @ itoa uid @ '' has invalid primary gid '' @
                         go_quote gid_text @ ''; cannot install menubar LaunchAgent'')
                      else Inr (uid, gid, home))"

definition ResolveGUIUserOwnership_stub :: "go_error + (int \<times> int \<times> string)" where
  "ResolveGUIUserOwnership_stub = Inl ''menubar installation is only supported on macOS''"

text \<open>Which of the two is compiled in depends on the platform.\<close>

definition ResolveGUIUserOwnership :: "'x os_env \<Rightarrow> gui_env \<Rightarrow> go_error + (int \<times> int \<times> string)" where
  "ResolveGUIUserOwnership env g =
     (if os_darwin env then ResolveGUIUserOwnership_darwin g else ResolveGUIUserOwnership_stub)"

definition ResolveGUIUser :: "'x os_env \<Rightarrow> gui_env \<Rightarrow> go_error + (int \<times> string)" where
  "ResolveGUIUser env g =
     (case ResolveGUIUserOwnership env g of
        Inl err \<Rightarrow> Inl err
      | Inr (uid, _, home) \<Rightarrow> Inr (uid, home))"

section \<open>Services\<close>

datatype launchd_domain = DomainSystem | DomainAgent

fun domain_string :: "launchd_domain \<Rightarrow> string" where
  "domain_string DomainSystem = ''system''"
| "domain_string DomainAgent = ''gui''"

record launchd_service =
  ls_Label :: string
  ls_Domain :: launchd_domain
  ls_AgentUID :: int
  ls_PlistPath :: string
  ls_Program :: string
  ls_Arguments :: "string list"
  ls_Env :: "string \<rightharpoonup> string"
  ls_StdoutLog :: string
  ls_StderrLog :: string

record startup_role =
  sr_Role :: string
  sr_Domain :: string
  sr_Label :: string
  sr_Installed :: bool
  sr_Running :: bool
  sr_Toggleable :: bool
  sr_StatusMessage :: string

definition launchdDefaultPath :: string where
  "launchdDefaultPath = ''/opt/homebrew/bin:/usr/local/bin:/usr/bin:/bin:/usr/sbin:/sbin''"

definition daemonProgramPath :: string where
  "daemonProgramPath = ''/usr/local/bin/devproxy''"

definition DaemonServiceConfig :: "install_paths \<Rightarrow> string \<Rightarrow> launchd_service" where
  "DaemonServiceConfig paths guiHome =
     (let cfg = \<lparr>ls_Label = ''com.devproxy.daemon'', ls_Domain = DomainSystem, ls_AgentUID = 0,
            ls_PlistPath = filepath_join [ip_LaunchDaemons paths, ''com.devproxy.daemon.plist''],
            ls_Program = daemonProgramPath, ls_Arguments = [''daemon''], ls_Env = Map.empty,
            ls_StdoutLog = filepath_join [ip_LogDir paths, ''daemon.stdout.log''],
            ls_StderrLog = filepath_join [ip_LogDir paths, ''daemon.stderr.log'']\<rparr>
      in if guiHome \<noteq> []
         then cfg\<lparr>ls_Env := [''HOME'' \<mapsto> guiHome,
                ''CAROOT'' \<mapsto> filepath_join [guiHome, ''Library'', ''Application Support'', ''mkcert'']]\<rparr>
         else cfg)"

definition MenubarBundlePath :: "install_paths \<Rightarrow> string" where
  "MenubarBundlePath paths = filepath_join [ip_UserLibraryDir paths, ''Application Support'',
     ''DevProxy'', ''DevProxy Menubar.app'']"

definition MenubarBundleExecutablePath :: "install_paths \<Rightarrow> string" where
  "MenubarBundleExecutablePath paths =
     filepath_join [MenubarBundlePath paths, ''Contents'', ''MacOS'', ''devproxy-menubar'']"

definition MenubarServiceConfig :: "install_paths \<Rightarrow> int \<Rightarrow> launchd_service" where
  "MenubarServiceConfig paths agentUID =
     \<lparr>ls_Label = ''com.devproxy.menubar'', ls_Domain = DomainAgent, ls_AgentUID = agentUID,
      ls_PlistPath = filepath_join [ip_UserLibraryDir paths, ''LaunchAgents'', ''com.devproxy.menubar.plist''],
      ls_Program = MenubarBundleExecutablePath paths, ls_Arguments = [''menubar''], ls_Env = Map.empty,
      ls_StdoutLog = filepath_join [ip_UserLibraryDir paths, ''Logs'', ''DevProxy'', ''menubar.stdout.log''],
      ls_StderrLog = filepath_join [ip_UserLibraryDir paths, ''Logs'', ''DevProxy'', ''menubar.stderr.log'']\<rparr>"

definition domainTarget :: "'x os_env \<Rightarrow> launchd_service \<Rightarrow> string" where
  "domainTarget env cfg =
     (if ls_Domain cfg = DomainSystem then ''system''
      else if ls_Domain cfg = DomainAgent
      then ''gui/'' @ itoa (if ls_AgentUID cfg \<le> 0 then os_getuid env else ls_AgentUID cfg)
      else domain_string (ls_Domain cfg))"

definition service_target :: "'x os_env \<Rightarrow> launchd_service \<Rightarrow> string" where
  "service_target env cfg = domainTarget env cfg @ ''/'' @ ls_Label cfg"

subsection \<open>The property list\<close>

definition nl :: string where
  "nl = [CHR 0x0A]"

definition dq :: string where
  "dq = [CHR 0x22]"

definition plist_entry :: "string \<Rightarrow> string \<Rightarrow> string \<Rightarrow> string" where
  "plist_entry indent key v =
     nl @ indent @ ''<key>'' @ key @ ''</key>'' @ nl @ indent @ ''<string>'' @ v @ ''</string>''"

definition env_text :: "launchd_service \<Rightarrow> string \<Rightarrow> string" where
  "env_text cfg key = trim_space (case ls_Env cfg key of None \<Rightarrow> [] | Some v \<Rightarrow> v)"

definition plistFor :: "launchd_service \<Rightarrow> string" where
  "plistFor cfg =
     (let args = concat (map (\<lambda>arg. nl @ ''        <string>'' @ arg @ ''</string>'') (ls_Arguments cfg));
          agent = (ls_Domain cfg = DomainAgent);
          sessionType = (if agent then nl @ ''    <key>LimitLoadToSessionType</key>'' @ nl @ ''    <array>'' @
              nl @ ''        <string>Aqua</string>'' @ nl @ ''    </array>'' else []);
          processType = (if agent then plist_entry ''    '' ''ProcessType'' ''Interactive'' else []);
          stdoutLog = (if ls_StdoutLog cfg \<noteq> []
              then plist_entry ''    '' ''StandardOutPath'' (ls_StdoutLog cfg) else []);
          stderrLog = (if ls_StderrLog cfg \<noteq> []
              then plist_entry ''    '' ''StandardErrorPath'' (ls_StderrLog cfg) else []);
          envEntries = plist_entry ''        '' ''PATH'' launchdDefaultPath;
          home = env_text cfg ''HOME'';
          envEntries = (if home \<noteq> [] then envEntries @ plist_entry ''        '' ''HOME'' home else envEntries);
          caroot = env_text cfg ''CAROOT'';
          envEntries = (if caroot \<noteq> [] then envEntries @ plist_entry ''        '' ''CAROOT'' caroot
              else envEntries)
      in ''<?xml version='' @ dq @ ''1.0'' @ dq @ '' encoding='' @ dq @ ''UTF-8'' @ dq @ ''?>'' @ nl @
         ''<!DOCTYPE plist PUBLIC '' @ dq @ ''-//Apple//DTD PLIST 1.0//EN'' @ dq @ '' '' @ dq @
         ''http://www.apple.com/DTDs/PropertyList-1.0.dtd'' @ dq @ ''>'' @ nl @
         ''<plist version='' @ dq @ ''1.0'' @ dq @ ''>'' @ nl @ ''<dict>'' @ nl @
         ''    <key>Label</key>'' @ nl @ ''    <string>'' @ ls_Label cfg @ ''</string>'' @ nl @
         ''    <key>ProgramArguments</key>'' @ nl @ ''    <array>'' @ nl @
         ''        <string>'' @ ls_Program cfg @ ''</string>'' @ args @ nl @ ''    </array>'' @ nl @
         ''    <key>RunAtLoad</key>'' @ nl @ ''    <true/>'' @ nl @
         ''    <key>KeepAlive</key>'' @ nl @ ''    <true/>'' @ sessionType @ processType @ nl @
         ''    <key>EnvironmentVariables</key>'' @ nl @ ''    <dict>'' @ nl @ envEntries @ nl @
         ''    </dict>'' @ stdoutLog @ stderrLog @ nl @ ''</dict>'' @ nl @ ''</plist>'' @ nl)"

section \<open>Running commands\<close>

definition install_runCommand ::
  "'x os_env \<Rightarrow> string \<Rightarrow> string list \<Rightarrow> 'x sys \<Rightarrow> (string \<times> go_error option) \<times> 'x sys" where
  "install_runCommand env command args s =
     (case os_run env command args s of
        ((output, err), s) \<Rightarrow>
          (let trimmed = trim_space output in
           case err of
             None \<Rightarrow> ((trimmed, None), s)
           | Some e \<Rightarrow> ((trimmed, Some (command @ '' '' @ join_with '' '' args @ '' failed: '' @ e @ '': '' @
                trimmed)), s)))"

definition runLaunchctl :: "'x os_env \<Rightarrow> string list \<Rightarrow> 'x sys \<Rightarrow> go_error option \<times> 'x sys" where
  "runLaunchctl env args s =
     (case install_runCommand env ''launchctl'' args s of ((_, err), s) \<Rightarrow> (err, s))"

definition isKnownLaunchdMissingState :: "string \<Rightarrow> bool" where
  "isKnownLaunchdMissingState message =
     (let msg = to_lower message in
      contains_sub msg ''could not find service'' \<or> contains_sub msg ''service already unloaded'' \<or>
      contains_sub msg ''no such process'' \<or> contains_sub msg ''no such file'')"

definition isBootoutExitFiveIOError :: "string \<Rightarrow> bool" where
  "isBootoutExitFiveIOError message =
     (let msg = to_lower message in
      contains_sub msg ''boot-out failed: 5'' \<and> contains_sub msg ''input/output error'')"

definition launchctlPrintIndicatesRunning :: "string \<Rightarrow> bool" where
  "launchctlPrintIndicatesRunning printOutput = contains_sub (to_lower printOutput) ''state = running''"

definition serviceAlreadyMissing :: "'x os_env \<Rightarrow> launchd_service \<Rightarrow> 'x sys \<Rightarrow> bool \<times> 'x sys" where
  "serviceAlreadyMissing env cfg s =
     (case runLaunchctl env [''print'', service_target env cfg] s of
        (None, s) \<Rightarrow> (False, s)
      | (Some err, s) \<Rightarrow> (isKnownLaunchdMissingState err, s))"

definition stopServiceBestEffort ::
  "'x os_env \<Rightarrow> launchd_service \<Rightarrow> 'x sys \<Rightarrow> go_error option \<times> 'x sys" where
  "stopServiceBestEffort env cfg s =
     (case runLaunchctl env [''bootout'', domainTarget env cfg, ls_PlistPath cfg] s of
        (None, s) \<Rightarrow> (None, s)
      | (Some err, s) \<Rightarrow>
          if isKnownLaunchdMissingState err then (None, s)
          else if \<not> isBootoutExitFiveIOError err then (Some err, s)
          else case serviceAlreadyMissing env cfg s of
              (True, s) \<Rightarrow> (None, s)
            | (False, s) \<Rightarrow> (Some err, s))"

definition StopService :: "'x os_env \<Rightarrow> launchd_service \<Rightarrow> 'x sys \<Rightarrow> go_error option \<times> 'x sys" where
  "StopService env cfg s =
     (case runLaunchctl env [''bootout'', domainTarget env cfg, ls_PlistPath cfg] s of
        (None, s) \<Rightarrow> (None, s)
      | (Some err, s) \<Rightarrow>
          if isKnownLaunchdMissingState err then (None, s)
          else if \<not> isBootoutExitFiveIOError err then (Some err, s)
          else case serviceAlreadyMissing env cfg s of
              (True, s) \<Rightarrow> (None, s)
            | (False, s) \<Rightarrow> (Some err, s))"

section \<open>Installing a service\<close>

definition InstallService :: "'x os_env \<Rightarrow> launchd_service \<Rightarrow> 'x sys \<Rightarrow> go_error option \<times> 'x sys" where
  "InstallService env cfg =
     or_return (os_mkdir_all env (filepath_dir (ls_PlistPath cfg)))
       (wrapped ''create launchd plist directory'')
    (or_return (\<lambda>s. if ls_StdoutLog cfg \<noteq> [] then os_mkdir_all env (filepath_dir (ls_StdoutLog cfg)) s
                     else (None, s))
       (wrapped ''create launchd stdout log directory'')
    (or_return (\<lambda>s. if ls_StderrLog cfg \<noteq> [] then os_mkdir_all env (filepath_dir (ls_StderrLog cfg)) s
                     else (None, s))
       (wrapped ''create launchd stderr log directory'')
    (or_return (os_write env (ls_PlistPath cfg) (plistFor cfg) 0x1A4)
       (wrapped (''write launchd plist '' @ go_quote (ls_PlistPath cfg)))
    (Pair None))))"

definition UninstallService :: "'x os_env \<Rightarrow> launchd_service \<Rightarrow> 'x sys \<Rightarrow> go_error option \<times> 'x sys" where
  "UninstallService env cfg s =
     (case os_remove env (ls_PlistPath cfg) s of
        (None, s) \<Rightarrow> (None, s)
      | (Some err, s) \<Rightarrow>
          if is_not_exist err then (None, s)
          else (Some (''remove launchd plist '' @ go_quote (ls_PlistPath cfg) @ '': '' @ os_error_msg err), s))"

section \<open>Starting a service\<close>

text \<open>The file a \<open>stat\<close> describes; a made directory belongs to root and has mode 0755.\<close>

definition stat_info :: "file_node option \<Rightarrow> file_node" where
  "stat_info info =
     (case info of Some f \<Rightarrow> f
      | None \<Rightarrow> \<lparr>file_contents = [], file_perm = 0x1ED, file_uid = 0, file_gid = 0\<rparr>)"

text \<open>The \<open>%#o\<close> verb.\<close>

fun octal_digits :: "nat \<Rightarrow> string" where
  "octal_digits n = (if n < 8 then [digit_char n] else octal_digits (n div 8) @ [digit_char (n mod 8)])"

declare octal_digits.simps [simp del]

definition format_octal :: "32 word \<Rightarrow> string" where
  "format_octal w = (if w = 0 then ''0'' else ''0'' @ octal_digits (unat w))"

definition preflight :: string where
  "preflight = ''launchd preflight failed: ''"

definition validateSystemDaemonPlistPerms :: "'x os_env \<Rightarrow> string \<Rightarrow> 'x sys \<Rightarrow> go_error option" where
  "validateSystemDaemonPlistPerms env path s =
     (case os_stat env path s of
        Inl err \<Rightarrow> Some (preflight @ ''cannot stat daemon plist '' @ go_quote path @ '': '' @ os_error_msg err)
      | Inr info \<Rightarrow>
          (let f = stat_info info in
           if os_darwin env \<and> (file_uid f \<noteq> 0 \<or> file_gid f \<noteq> 0)
           then Some (preflight @ ''daemon plist '' @ go_quote path @
             '' must be owned by root:wheel (uid 0 gid 0), found uid '' @ itoa (file_uid f) @ '' gid '' @
             itoa (file_gid f) @ ''; run sudo chown root:wheel '' @ go_quote path)
           else if file_perm f AND 0x12 \<noteq> 0
           then Some (preflight @ ''daemon plist '' @ go_quote path @ '' permissions are '' @
             format_octal (file_perm f AND 0x1FF) @
             ''; group/other write bits must be disabled (recommended 0644)'')
           else None))"

definition validate_program :: "'x os_env \<Rightarrow> launchd_service \<Rightarrow> 'x sys \<Rightarrow> go_error option" where
  "validate_program env cfg s =
     (if ls_Program cfg = [] then Some (preflight @ ''program path is empty in service config'')
      else case os_stat env (ls_Program cfg) s of
          Inl err \<Rightarrow>
            (if is_not_exist err
             then Some (preflight @ ''program '' @ go_quote (ls_Program cfg) @
                    '' does not exist; reinstall devproxy binary'')
             else Some (preflight @ ''cannot stat program '' @ go_quote (ls_Program cfg) @ '': '' @
                    os_error_msg err))
        | Inr info \<Rightarrow>
            (if file_perm (stat_info info) AND 0x49 = 0
             then Some (preflight @ ''program '' @ go_quote (ls_Program cfg) @
                    '' is not executable; run chmod 755 '' @ go_quote (ls_Program cfg))
             else if ls_Domain cfg = DomainSystem
             then validateSystemDaemonPlistPerms env (ls_PlistPath cfg) s
             else None))"

definition validateLaunchdPreflight ::
  "'x os_env \<Rightarrow> launchd_service \<Rightarrow> 'x sys \<Rightarrow> go_error option \<times> 'x sys" where
  "validateLaunchdPreflight env cfg s =
     (case os_stat env (ls_PlistPath cfg) s of
        Inl err \<Rightarrow>
          (if is_not_exist err
           then (Some (preflight @ ''plist '' @ go_quote (ls_PlistPath cfg) @
                   '' does not exist; reinstall and retry''), s)
           else (Some (preflight @ ''cannot stat plist '' @ go_quote (ls_PlistPath cfg) @ '': '' @
                   os_error_msg err), s))
      | Inr _ \<Rightarrow>
          (case install_runCommand env ''plutil'' [''-lint'', ls_PlistPath cfg] s of
             ((_, Some err), s) \<Rightarrow>
               (Some (preflight @ ''plist validation failed for '' @ go_quote (ls_PlistPath cfg) @ '': '' @ err), s)
           | ((_, None), s) \<Rightarrow> (validate_program env cfg s, s)))"

definition bootstrapDiagnosticError ::
  "'x os_env \<Rightarrow> launchd_service \<Rightarrow> go_error \<Rightarrow> 'x sys \<Rightarrow> go_error \<times> 'x sys" where
  "bootstrapDiagnosticError env cfg bootstrapErr s =
     (let target = service_target env cfg;
          hints = [''Verify plist ownership/perms (root:wheel, mode 0644) and binary permissions (0755)'',
            ''Validate plist with: plutil -lint '' @ go_quote (ls_PlistPath cfg),
            ''Confirm program path exists: '' @ go_quote (ls_Program cfg)];
          text = ''launchd bootstrap failed for '' @ target @ '' using '' @ go_quote (ls_PlistPath cfg) @
            '': '' @ bootstrapErr @ nl @ ''Likely causes:'' @ nl @ ''- '' @ join_with (nl @ ''- '') hints
      in case install_runCommand env ''launchctl'' [''print'', target] s of
           ((_, Some printErr), s) \<Rightarrow> (text @ nl @ ''launchctl print diagnostics: '' @ printErr, s)
         | ((printOutput, None), s) \<Rightarrow> (text @ nl @ ''launchctl print diagnostics:'' @ nl @ printOutput, s))"

text \<open>
  The polling loop of \<open>waitForServiceRunning\<close>: whether the service was seen running, and the last
  answer. It ends because every round sleeps 200 ms and commands take no negative time.
\<close>

lemma sys_now_install_runCommand:
  "install_runCommand env c args s = (r, s') \<Longrightarrow> sys_now s \<le> sys_now s'"
  by (auto simp: install_runCommand_def os_run_def Let_def split: prod.splits option.splits)

function poll_running ::
  "'x os_env \<Rightarrow> launchd_service \<Rightarrow> nat \<Rightarrow> 'x sys \<Rightarrow> (bool \<times> string \<times> go_error option) \<times> 'x sys" where
  "poll_running env cfg deadline s =
     (case install_runCommand env ''launchctl'' [''print'', service_target env cfg] s of
        ((printOutput, err), s) \<Rightarrow>
          if err = None \<and> launchctlPrintIndicatesRunning printOutput then ((True, printOutput, err), s)
          else if sys_now s > deadline then ((False, printOutput, err), s)
          else poll_running env cfg deadline (s\<lparr>sys_now := sys_now s + 200\<rparr>))"
  by auto
termination
  by (relation "measure (\<lambda>(env, cfg, deadline, s). deadline + 1 - sys_now s)")
    (auto dest!: sys_now_install_runCommand [OF sym])

declare poll_running.simps [simp del]

definition waitForServiceRunning ::
  "'x os_env \<Rightarrow> launchd_service \<Rightarrow> nat \<Rightarrow> string \<Rightarrow> 'x sys \<Rightarrow> go_error option \<times> 'x sys" where
  "waitForServiceRunning env cfg timeout shown s =
     (case poll_running env cfg (sys_now s + timeout) s of
        ((True, _, _), s) \<Rightarrow> (None, s)
      | ((False, lastOutput, lastErr), s) \<Rightarrow>
          (let detail = (case lastErr of Some e \<Rightarrow> e | None \<Rightarrow> lastOutput);
               msg = ''launchd service '' @ service_target env cfg @
                 '' failed to reach running state within '' @ shown;
               msg = (if trim_space detail \<noteq> [] then msg @ '': '' @ detail else msg);
               msg = (if ls_StderrLog cfg \<noteq> [] then msg @ ''; inspect stderr log: '' @ ls_StderrLog cfg
                      else msg)
           in (Some msg, s)))"

definition StartService :: "'x os_env \<Rightarrow> launchd_service \<Rightarrow> 'x sys \<Rightarrow> go_error option \<times> 'x sys" where
  "StartService env cfg =
     or_return (validateLaunchdPreflight env cfg) (\<lambda>e. e)
    (or_return (stopServiceBestEffort env cfg) (\<lambda>e. e)
    (\<lambda>s. case runLaunchctl env [''bootstrap'', domainTarget env cfg, ls_PlistPath cfg] s of
        (Some err, s) \<Rightarrow> (case bootstrapDiagnosticError env cfg err s of (msg, s) \<Rightarrow> (Some msg, s))
      | (None, s) \<Rightarrow>
          or_return (runLaunchctl env [''kickstart'', ''-k'', service_target env cfg])
            (wrapped (''launchd service bootstrapped but kickstart failed for '' @ service_target env cfg))
          (or_return (\<lambda>s. waitForServiceRunning env cfg 2000 ''2s'' s) (\<lambda>e. e)
          (Pair None)) s))"

section \<open>Startup status\<close>

definition activeMenubarServiceConfig ::
  "'x os_env \<Rightarrow> gui_env \<Rightarrow> install_paths \<Rightarrow> go_error + launchd_service" where
  "activeMenubarServiceConfig env g paths =
     (case ResolveGUIUser env g of
        Inl err \<Rightarrow> Inl err
      | Inr (uid, homeDir) \<Rightarrow>
          Inr (MenubarServiceConfig (paths\<lparr>ip_UserLibraryDir := filepath_join [homeDir, ''Library'']\<rparr>) uid))"

definition fileExists :: "'x os_env \<Rightarrow> string \<Rightarrow> 'x sys \<Rightarrow> bool" where
  "fileExists env path s = (case os_stat env path s of Inl _ \<Rightarrow> False | Inr _ \<Rightarrow> True)"

definition serviceRunning :: "'x os_env \<Rightarrow> launchd_service \<Rightarrow> 'x sys \<Rightarrow> bool \<times> 'x sys" where
  "serviceRunning env cfg s =
     (case install_runCommand env ''launchctl'' [''print'', service_target env cfg] s of
        ((_, Some err), s) \<Rightarrow> (False, s)
      | ((printOutput, None), s) \<Rightarrow> (launchctlPrintIndicatesRunning printOutput, s))"

definition daemonStatusMessage :: "bool \<Rightarrow> bool \<Rightarrow> string" where
  "daemonStatusMessage installed running =
     (if \<not> installed then ''Daemon launchd service is not installed''
      else if running then ''Managed by system launchd''
      else ''Installed but not currently running'')"

definition menubarStatusMessage :: "bool \<Rightarrow> bool \<Rightarrow> string" where
  "menubarStatusMessage installed running =
     (if \<not> installed then ''Does not start at login''
      else if running then ''Starts at login''
      else ''Installed for login but not currently running'')"

definition StartupStatuses ::
  "'x os_env \<Rightarrow> gui_env \<Rightarrow> install_paths \<Rightarrow> 'x sys \<Rightarrow> startup_role list \<times> 'x sys" where
  "StartupStatuses env g paths s =
     (let daemonCfg = DaemonServiceConfig paths [];
          menubar = activeMenubarServiceConfig env g paths;
          daemonInstalled = fileExists env (ls_PlistPath daemonCfg) s;
          menubarInstalled = (case menubar of Inl _ \<Rightarrow> False | Inr cfg \<Rightarrow> fileExists env (ls_PlistPath cfg) s);
          (daemonRunning, s) = serviceRunning env daemonCfg s;
          (menubarRunning, s) = (case menubar of Inl _ \<Rightarrow> (False, s) | Inr cfg \<Rightarrow> serviceRunning env cfg s);
          (menubarStatus, menubarDomain) =
            (case menubar of
               Inl err \<Rightarrow> (err, domain_string DomainAgent)
             | Inr cfg \<Rightarrow> (menubarStatusMessage menubarInstalled menubarRunning, domainTarget env cfg))
      in ([\<lparr>sr_Role = ''daemon'', sr_Domain = domainTarget env daemonCfg, sr_Label = ls_Label daemonCfg,
            sr_Installed = daemonInstalled, sr_Running = daemonRunning, sr_Toggleable = False,
            sr_StatusMessage = daemonStatusMessage daemonInstalled daemonRunning\<rparr>,
           \<lparr>sr_Role = ''menubar'', sr_Domain = menubarDomain, sr_Label = ''com.devproxy.menubar'',
            sr_Installed = menubarInstalled, sr_Running = menubarRunning, sr_Toggleable = True,
            sr_StatusMessage = menubarStatus\<rparr>], s))"

definition SetMenubarStartupEnabled ::
  "'x os_env \<Rightarrow> gui_env \<Rightarrow> install_paths \<Rightarrow> bool \<Rightarrow> 'x sys \<Rightarrow> go_error option \<times> 'x sys" where
  "SetMenubarStartupEnabled env g paths enabled s =
     (case activeMenubarServiceConfig env g paths of
        Inl err \<Rightarrow> (Some err, s)
      | Inr cfg \<Rightarrow>
          if enabled
          then or_return (InstallService env cfg) (\<lambda>e. e) (or_return (StartService env cfg) (\<lambda>e. e) (Pair None)) s
          else or_return (StopService env cfg) (\<lambda>e. e) (or_return (UninstallService env cfg) (\<lambda>e. e) (Pair None)) s)"

section \<open>What a successful start has checked\<close>

definition seen_running :: "'x os_env \<Rightarrow> launchd_service \<Rightarrow> 'x sys \<Rightarrow> bool" where
  "seen_running env cfg s' \<longleftrightarrow>
     (\<exists>s out. install_runCommand env ''launchctl'' [''print'', service_target env cfg] s = ((out, None), s') \<and>
        launchctlPrintIndicatesRunning out)"

lemma poll_running_True:
  "poll_running env cfg deadline s = ((True, out, err), s') \<Longrightarrow> seen_running env cfg s'"
proof (induction env cfg deadline s rule: poll_running.induct)
  case (1 env cfg deadline s)
  obtain o1 e1 s1 where
    print: "install_runCommand env ''launchctl'' [''print'', service_target env cfg] s = ((o1, e1), s1)"
    by (metis prod.exhaust)
  show ?case
  proof (cases "e1 = None \<and> launchctlPrintIndicatesRunning o1")
    case True
    with print 1(2) have "s1 = s'" by (simp add: poll_running.simps [of env cfg deadline s])
    with True print show ?thesis by (auto simp: seen_running_def)
  next
    case False
    with print 1(2) have "\<not> sys_now s1 > deadline"
      "poll_running env cfg deadline (s1\<lparr>sys_now := sys_now s1 + 200\<rparr>) = ((True, out, err), s')"
      by (auto simp: poll_running.simps [of env cfg deadline s] split: if_splits)
    with 1(1) [OF print [symmetric] refl False] show ?thesis by simp
  qed
qed

lemma waitForServiceRunning_ok:
  "waitForServiceRunning env cfg timeout shown s = (None, s') \<Longrightarrow> seen_running env cfg s'"
  by (auto simp: waitForServiceRunning_def Let_def dest: poll_running_True split: prod.splits bool.splits)

lemma or_return_cases:
  assumes "or_return act wrap rest w = (None, w')"
  obtains w1 where "act w = (None, w1)" and "rest w1 = (None, w')"
  using assms by (cases "act w") (auto simp: or_return_def split: option.splits)

lemma install_runCommand_files [simp]:
  "install_runCommand env c args s = (r, s') \<Longrightarrow> sys_files s' = sys_files s \<and> sys_dirs s' = sys_dirs s"
  by (auto simp: install_runCommand_def os_run_def Let_def split: prod.splits option.splits)

lemma validateLaunchdPreflight_ok:
  assumes "validateLaunchdPreflight env cfg s = (None, s1)"
  shows "ls_Program cfg \<noteq> [] \<and>
    (\<exists>info. os_stat env (ls_Program cfg) s1 = Inr info \<and> file_perm (stat_info info) AND 0x49 \<noteq> 0) \<and>
    (ls_Domain cfg = DomainSystem \<longrightarrow>
      (\<exists>info. os_stat env (ls_PlistPath cfg) s1 = Inr info \<and> file_perm (stat_info info) AND 0x12 = 0 \<and>
        (os_darwin env \<longrightarrow> file_uid (stat_info info) = 0 \<and> file_gid (stat_info info) = 0)))"
  using assms
  by (auto simp: validateLaunchdPreflight_def validate_program_def validateSystemDaemonPlistPerms_def Let_def
      split: sum.splits prod.splits option.splits if_splits)

lemma StartService_ok:
  assumes "StartService env cfg s = (None, s')"
  obtains s1 where "validateLaunchdPreflight env cfg s = (None, s1)" and "seen_running env cfg s'"
proof -
  from assms obtain s1 where pre: "validateLaunchdPreflight env cfg s = (None, s1)"
    and rest: "or_return (stopServiceBestEffort env cfg) (\<lambda>e. e)
      (\<lambda>s. case runLaunchctl env [''bootstrap'', domainTarget env cfg, ls_PlistPath cfg] s of
        (Some err, s) \<Rightarrow> (case bootstrapDiagnosticError env cfg err s of (msg, s) \<Rightarrow> (Some msg, s))
      | (None, s) \<Rightarrow>
          or_return (runLaunchctl env [''kickstart'', ''-k'', service_target env cfg])
            (wrapped (''launchd service bootstrapped but kickstart failed for '' @ service_target env cfg))
          (or_return (\<lambda>s. waitForServiceRunning env cfg 2000 ''2s'' s) (\<lambda>e. e)
          (Pair None)) s) s1 = (None, s')"
    unfolding StartService_def by (rule or_return_cases)
  from rest obtain s2 where "(case runLaunchctl env [''bootstrap'', domainTarget env cfg, ls_PlistPath cfg] s2 of
        (Some err, s) \<Rightarrow> (case bootstrapDiagnosticError env cfg err s of (msg, s) \<Rightarrow> (Some msg, s))
      | (None, s) \<Rightarrow>
          or_return (runLaunchctl env [''kickstart'', ''-k'', service_target env cfg])
            (wrapped (''launchd service bootstrapped but kickstart failed for '' @ service_target env cfg))
          (or_return (\<lambda>s. waitForServiceRunning env cfg 2000 ''2s'' s) (\<lambda>e. e)
          (Pair None)) s) = (None, s')"
    by (rule or_return_cases)
  then have "seen_running env cfg s'"
    by (auto elim!: or_return_cases dest: waitForServiceRunning_ok split: prod.splits option.splits)
  with pre show ?thesis by (rule that)
qed

text \<open>How long the polling takes, when no command takes longer than \<open>t\<close>.\<close>

definition commands_within :: "'x os_env \<Rightarrow> nat \<Rightarrow> bool" where
  "commands_within env t \<longleftrightarrow> (\<forall>command args s. fst (snd (os_exec env command args s)) \<le> t)"

lemma runCommand_within:
  assumes "commands_within env t" and "install_runCommand env command args s = (r, s')"
  shows "sys_now s' \<le> sys_now s + t"
proof -
  have "sys_now (snd (install_runCommand env command args s)) = sys_now s + fst (snd (os_exec env command args s))"
    by (simp add: install_runCommand_def os_run_def Let_def case_prod_unfold split: option.split)
  with assms show ?thesis by (simp add: commands_within_def)
qed

lemma poll_running_time:
  assumes "commands_within env t"
  shows "poll_running env cfg deadline s = ((seen, out, err), s') \<Longrightarrow> sys_now s \<le> deadline + 200 \<Longrightarrow>
    sys_now s' \<le> deadline + 200 + t \<and> (\<not> seen \<longrightarrow> deadline < sys_now s')"
  using assms
proof (induction env cfg deadline s rule: poll_running.induct)
  case (1 env cfg deadline s)
  obtain o1 e1 s1 where
    print: "install_runCommand env ''launchctl'' [''print'', service_target env cfg] s = ((o1, e1), s1)"
    by (metis prod.exhaust)
  have within: "sys_now s1 \<le> deadline + 200 + t" using runCommand_within [OF 1(4) print] 1(3) by simp
  show ?case
  proof (cases "(e1 = None \<and> launchctlPrintIndicatesRunning o1) \<or> sys_now s1 > deadline")
    case True
    with print within 1(2) show ?thesis by (auto simp: poll_running.simps [of env cfg deadline s] split: if_splits)
  next
    case False
    with print 1(2) have "poll_running env cfg deadline (s1\<lparr>sys_now := sys_now s1 + 200\<rparr>) = ((seen, out, err), s')"
      by (auto simp: poll_running.simps [of env cfg deadline s])
    with 1(1) [OF print [symmetric] refl] 1(4) False show ?thesis by auto
  qed
qed

lemma waitForServiceRunning_time:
  assumes "commands_within env t" and "waitForServiceRunning env cfg timeout shown s = (r, s')"
  shows "sys_now s' \<le> sys_now s + timeout + 200 + t"
    and "r = None \<or> sys_now s + timeout < sys_now s'"
proof -
  obtain seen out err where "poll_running env cfg (sys_now s + timeout) s = ((seen, out, err), s')"
    and r: "r = None \<longleftrightarrow> seen"
    using assms(2) by (auto simp: waitForServiceRunning_def Let_def split: prod.splits bool.splits)
  from poll_running_time [OF assms(1) this(1)] r
  show "sys_now s' \<le> sys_now s + timeout + 200 + t" "r = None \<or> sys_now s + timeout < sys_now s'" by auto
qed

section \<open>Properties\<close>

text \<open>C36. When starting a service succeeds, \<open>launchctl print\<close> has last reported it running, its program is
  executable, and for the system daemon the property list could not be written by anyone but its
  owner, who is root on macOS.\<close>

theorem started_service_runs_and_is_protected:
  assumes "StartService env cfg s = (None, s')"
  shows "seen_running env cfg s' \<and>
    (\<exists>s1. validateLaunchdPreflight env cfg s = (None, s1) \<and>
      (\<exists>info. os_stat env (ls_Program cfg) s1 = Inr info \<and> file_perm (stat_info info) AND 0x49 \<noteq> 0) \<and>
      (ls_Domain cfg = DomainSystem \<longrightarrow>
        (\<exists>info. os_stat env (ls_PlistPath cfg) s1 = Inr info \<and> file_perm (stat_info info) AND 0x12 = 0 \<and>
          (os_darwin env \<longrightarrow> file_uid (stat_info info) = 0 \<and> file_gid (stat_info info) = 0))))"
  using assms by (rule StartService_ok) (use validateLaunchdPreflight_ok in blast)

text \<open>A machine whose \<open>launchctl\<close> keeps one flag: has the daemon been bootstrapped.\<close>

definition launchd_env :: "bool os_env" where
  "launchd_env = \<lparr>os_fault = (\<lambda>_ _ _. None),
     os_exec = (\<lambda>command args s.
       if command = ''launchctl'' \<and> hd args = ''bootstrap'' then (([], None), 5, True)
       else if command = ''launchctl'' \<and> hd args = ''bootout''
       then ((if sys_world s then ([], None) else (''Boot-out failed: 3: No such process'', Some ''exit status 3'')),
             5, False)
       else if command = ''launchctl'' \<and> hd args = ''print'' \<and> sys_world s
       then ((''state = running'', None), 5, True)
       else (([], None), 5, sys_world s)),
     os_getuid = 0, os_geteuid = 0, os_darwin = True,
     os_executable = Inr ''/tmp/devproxy'', os_walk = (\<lambda>path _. [path])\<rparr>"

definition daemon_paths :: install_paths where
  "daemon_paths = DefaultPaths (Some ''/Users/dev'')"

definition installed_machine :: "bool sys" where
  "installed_machine = snd (InstallService launchd_env (DaemonServiceConfig daemon_paths [])
     \<lparr>sys_files = [daemonProgramPath \<mapsto> \<lparr>file_contents = [], file_perm = 0x1ED, file_uid = 0, file_gid = 0\<rparr>],
      sys_dirs = {}, sys_now = 0, sys_world = False\<rparr>)"

theorem started_service_runs_and_is_protected_witness:
  "seen_running launchd_env (DaemonServiceConfig daemon_paths [])
     (snd (StartService launchd_env (DaemonServiceConfig daemon_paths []) installed_machine))"
proof -
  have "fst (StartService launchd_env (DaemonServiceConfig daemon_paths []) installed_machine) = None"
    by code_simp
  then have "StartService launchd_env (DaemonServiceConfig daemon_paths []) installed_machine =
      (None, snd (StartService launchd_env (DaemonServiceConfig daemon_paths []) installed_machine))"
    by (simp add: prod_eq_iff)
  then show ?thesis using started_service_runs_and_is_protected by blast
qed

text \<open>C37. Waiting for a service always comes to an end, and in bounded time: when no command takes longer than
  \<open>t\<close> milliseconds, \<open>waitForServiceRunning\<close> returns at most \<open>timeout + 200 + t\<close> milliseconds after it was
  called. When it returns no error, \<open>launchctl print\<close> has just reported the service running; it gives up
  only after the whole timeout has passed.\<close>

theorem waiting_ends_in_time:
  assumes "commands_within env t" and "waitForServiceRunning env cfg timeout shown s = (r, s')"
  shows "sys_now s' \<le> sys_now s + timeout + 200 + t \<and>
    (case r of None \<Rightarrow> seen_running env cfg s' | Some _ \<Rightarrow> sys_now s + timeout < sys_now s')"
  using waitForServiceRunning_time [OF assms] waitForServiceRunning_ok [of env cfg timeout shown s s'] assms(2)
  by (auto split: option.splits)

lemma launchd_env_within: "commands_within launchd_env 5"
  by (simp add: commands_within_def launchd_env_def)

theorem waiting_ends_in_time_witness:
  "sys_now (snd (waitForServiceRunning launchd_env (DaemonServiceConfig daemon_paths []) 2000 ''2s'' installed_machine))
     \<le> sys_now installed_machine + 2205 \<and>
   sys_now installed_machine + 2000
     < sys_now (snd (waitForServiceRunning launchd_env (DaemonServiceConfig daemon_paths []) 2000 ''2s'' installed_machine))"
proof -
  obtain r s' where wait: "waitForServiceRunning launchd_env (DaemonServiceConfig daemon_paths []) 2000 ''2s''
      installed_machine = (r, s')" by (rule prod.exhaust)
  have "fst (waitForServiceRunning launchd_env (DaemonServiceConfig daemon_paths []) 2000 ''2s'' installed_machine) \<noteq> None"
    by code_simp
  then obtain err where "r = Some err" using wait by auto
  with waiting_ends_in_time [OF launchd_env_within wait] wait show ?thesis by simp
qed

end
