(* ===== verification/Installer.thy ===== *)
theory Installer
  imports Launchd
begin

text \<open>
  \<open>internal/install/install.go\<close> and \<open>internal/install/uninstall.go\<close>: staging the binary, the menu bar
  bundle, and the sequences of steps that install and remove devproxy. The steps are
  dependencies that can be replaced, as in the code: \<open>NewInstaller\<close> and \<open>NewUninstaller\<close> fill
  the missing ones with the operations of this and the previous theories. \<open>progress\<close> is an
  effect on the same world. Opening and closing the source file of a copy is not modelled.
\<close>

section \<open>Staging files\<close>

text \<open>The source is opened before the destination is truncated and read after it: a file copied onto itself
  is read empty.\<close>

definition read_after_truncate :: "string \<Rightarrow> string \<Rightarrow> string \<Rightarrow> string" where
  "read_after_truncate sourcePath tempPath contents = (if sourcePath = tempPath then [] else contents)"

definition finish_copy ::
  "'x os_env \<Rightarrow> string \<Rightarrow> string \<Rightarrow> string \<Rightarrow> (go_error \<Rightarrow> go_error) \<Rightarrow> (go_error \<Rightarrow> go_error)
     \<Rightarrow> (go_error \<Rightarrow> go_error) \<Rightarrow> (go_error \<Rightarrow> go_error) \<Rightarrow> 32 word \<Rightarrow> 'x sys \<Rightarrow> go_error option \<times> 'x sys" where
  "finish_copy env tempPath targetPath contents copy_err close_err rename_err chmod_err mode s =
     (case os_copy env tempPath contents s of
        (Some e, s) \<Rightarrow> (Some (copy_err e), snd (os_remove env tempPath s))
      | (None, s) \<Rightarrow>
          (case os_close env tempPath s of
             (Some e, s) \<Rightarrow> (Some (close_err e), snd (os_remove env tempPath s))
           | (None, s) \<Rightarrow>
               (case os_rename env tempPath targetPath s of
                  (Some e, s) \<Rightarrow> (Some (rename_err e), snd (os_remove env tempPath s))
                | (None, s) \<Rightarrow> or_return (os_chmod env targetPath mode) chmod_err (Pair None) s)))"

definition stageCurrentExecutable :: "'x os_env \<Rightarrow> string \<Rightarrow> 'x sys \<Rightarrow> go_error option \<times> 'x sys" where
  "stageCurrentExecutable env targetPath s =
     (case os_executable env of
        Inl err \<Rightarrow> (Some (''detect current executable path: '' @ err), s)
      | Inr currentPath \<Rightarrow>
          (case os_read env currentPath s of
             Inl err \<Rightarrow> (Some (''open current executable '' @ go_quote currentPath @ '': '' @ os_error_msg err), s)
           | Inr contents \<Rightarrow>
               (let tempPath = targetPath @ ''.tmp'' in
                or_return (os_mkdir_all env (filepath_dir targetPath))
                  (wrapped (''create daemon binary directory '' @ go_quote (filepath_dir targetPath)))
                (or_return (os_create env tempPath 0x1ED)
                  (wrapped (''create staged executable '' @ go_quote tempPath))
                (finish_copy env tempPath targetPath (read_after_truncate currentPath tempPath contents)
                  (wrapped (''copy executable to '' @ go_quote tempPath))
                  (wrapped (''finalize staged executable '' @ go_quote tempPath))
                  (wrapped (''activate staged executable '' @ go_quote targetPath))
                  (wrapped (''set executable permissions on '' @ go_quote targetPath)) 0x1ED)) s)))"

definition copyFile :: "'x os_env \<Rightarrow> string \<Rightarrow> string \<Rightarrow> 32 word \<Rightarrow> 'x sys \<Rightarrow> go_error option \<times> 'x sys" where
  "copyFile env sourcePath targetPath mode s =
     (case os_read env sourcePath s of
        Inl err \<Rightarrow> (Some (''open source file '' @ go_quote sourcePath @ '': '' @ os_error_msg err), s)
      | Inr contents \<Rightarrow>
          (let tempPath = targetPath @ ''.tmp'' in
           or_return (os_create env tempPath mode) (wrapped (''create target file '' @ go_quote tempPath))
           (finish_copy env tempPath targetPath (read_after_truncate sourcePath tempPath contents)
              (wrapped (''copy '' @ go_quote sourcePath @ '' to '' @ go_quote tempPath))
              (wrapped (''finalize copied file '' @ go_quote tempPath))
              (wrapped (''activate copied file '' @ go_quote targetPath))
              (wrapped (''set permissions on '' @ go_quote targetPath)) mode) s))"

definition tab :: string where
  "tab = [CHR 0x09]"

definition bundle_entry :: "string \<Rightarrow> string \<Rightarrow> string" where
  "bundle_entry key v =
     tab @ ''<key>'' @ key @ ''</key>'' @ nl @ tab @ ''<string>'' @ v @ ''</string>'' @ nl"

definition bundle_info_plist :: "string \<Rightarrow> string" where
  "bundle_info_plist executablePath =
     ''<?xml version='' @ dq @ ''1.0'' @ dq @ '' encoding='' @ dq @ ''UTF-8'' @ dq @ ''?>'' @ nl @
     ''<!DOCTYPE plist PUBLIC '' @ dq @ ''-//Apple//DTD PLIST 1.0//EN'' @ dq @ '' '' @ dq @
     ''http://www.apple.com/DTDs/PropertyList-1.0.dtd'' @ dq @ ''>'' @ nl @
     ''<plist version='' @ dq @ ''1.0'' @ dq @ ''>'' @ nl @ ''<dict>'' @ nl @
     bundle_entry ''CFBundleDisplayName'' ''DevProxy Menubar'' @
     bundle_entry ''CFBundleExecutable'' (filepath_base executablePath) @
     bundle_entry ''CFBundleIdentifier'' ''com.devproxy.menubar.app'' @
     bundle_entry ''CFBundleName'' ''DevProxy Menubar'' @
     bundle_entry ''CFBundlePackageType'' ''APPL'' @
     bundle_entry ''CFBundleShortVersionString'' ''1.0'' @
     bundle_entry ''CFBundleVersion'' ''1'' @
     tab @ ''<key>LSUIElement</key>'' @ nl @ tab @ ''<true/>'' @ nl @
     ''</dict>'' @ nl @ ''</plist>'' @ nl"

fun make_bundle_dirs :: "'x os_env \<Rightarrow> string list \<Rightarrow> 'x sys \<Rightarrow> go_error option \<times> 'x sys" where
  "make_bundle_dirs env [] s = (None, s)"
| "make_bundle_dirs env (dir # dirs) s =
     or_return (os_mkdir_all env dir) (wrapped (''create menubar bundle directory '' @ go_quote dir))
       (make_bundle_dirs env dirs) s"

definition prepareMenubarBundle ::
  "'x os_env \<Rightarrow> string \<Rightarrow> install_paths \<Rightarrow> 'x sys \<Rightarrow> go_error option \<times> 'x sys" where
  "prepareMenubarBundle env sourceBinaryPath paths =
     (let contentsDir = filepath_join [MenubarBundlePath paths, ''Contents''];
          macOSDir = filepath_join [contentsDir, ''MacOS''];
          resourcesDir = filepath_join [contentsDir, ''Resources''];
          executablePath = MenubarBundleExecutablePath paths;
          infoPlistPath = filepath_join [contentsDir, ''Info.plist'']
      in or_return (make_bundle_dirs env [macOSDir, resourcesDir]) (\<lambda>e. e)
        (or_return (copyFile env sourceBinaryPath executablePath 0x1ED)
          (wrapped (''stage menubar bundle executable '' @ go_quote executablePath))
        (or_return (os_write env infoPlistPath (bundle_info_plist executablePath) 0x1A4)
          (wrapped (''write menubar bundle Info.plist '' @ go_quote infoPlistPath))
        (Pair None))))"

fun chown_all :: "'x os_env \<Rightarrow> int \<Rightarrow> int \<Rightarrow> string list \<Rightarrow> 'x sys \<Rightarrow> go_error option \<times> 'x sys" where
  "chown_all env uid gid [] s = (None, s)"
| "chown_all env uid gid (path # paths) s =
     (case os_fault env OpWalk path s of
        Some e \<Rightarrow> (Some e, s)
      | None \<Rightarrow>
          or_return (os_chown env path uid gid)
            (wrapped (''chown '' @ go_quote path @ '' to uid='' @ itoa uid @ '' gid='' @ itoa gid))
            (chown_all env uid gid paths) s)"

definition chownRecursive ::
  "'x os_env \<Rightarrow> string \<Rightarrow> int \<Rightarrow> int \<Rightarrow> 'x sys \<Rightarrow> go_error option \<times> 'x sys" where
  "chownRecursive env root uid gid s =
     (if root = [] then (None, s)
      else case os_stat env root s of
          Inl err \<Rightarrow> (Some (''stat '' @ go_quote root @ '' before chown: '' @ os_error_msg err), s)
        | Inr _ \<Rightarrow> chown_all env uid gid (os_walk env root s) s)"

fun own_paths :: "'x os_env \<Rightarrow> int \<Rightarrow> int \<Rightarrow> string list \<Rightarrow> 'x sys \<Rightarrow> go_error option \<times> 'x sys" where
  "own_paths env uid gid [] s = (None, s)"
| "own_paths env uid gid (path # paths) s =
     (if path = [] then own_paths env uid gid paths s
      else or_return (chownRecursive env path uid gid) (\<lambda>e. e) (own_paths env uid gid paths) s)"

definition ensureMenubarOwnership ::
  "'x os_env \<Rightarrow> install_paths \<Rightarrow> launchd_service \<Rightarrow> int \<Rightarrow> int \<Rightarrow> 'x sys \<Rightarrow> go_error option \<times> 'x sys" where
  "ensureMenubarOwnership env paths cfg uid gid =
     or_return (own_paths env uid gid [MenubarBundlePath paths, filepath_dir (ls_StdoutLog cfg)]) (\<lambda>e. e)
     (\<lambda>s. if ls_PlistPath cfg \<noteq> []
          then or_return (os_chown env (ls_PlistPath cfg) uid gid)
            (wrapped (''chown menubar plist '' @ go_quote (ls_PlistPath cfg) @ '' to uid='' @ itoa uid @
               '' gid='' @ itoa gid)) (Pair None) s
          else (None, s))"

section \<open>Trust store\<close>

text \<open>\<open>look_path\<close>: does \<open>exec.LookPath("mkcert")\<close> fail, and how.\<close>

definition runMKCertInstall :: "'x os_env \<Rightarrow> 'x sys \<Rightarrow> go_error option \<times> 'x sys" where
  "runMKCertInstall env s =
     (case os_run env ''mkcert'' [''-install''] s of
        ((output, None), s) \<Rightarrow> (None, s)
      | ((output, Some err), s) \<Rightarrow>
          (if output = [] then (Some err, s) else (Some (err @ '': '' @ trim_space output), s)))"

definition ensureMKCertInstalled ::
  "go_error option \<Rightarrow> ('w \<Rightarrow> go_error option \<times> 'w) \<Rightarrow> 'w \<Rightarrow> go_error option \<times> 'w" where
  "ensureMKCertInstalled look_path install_run w =
     (case look_path of
        Some err \<Rightarrow> (Some (''mkcert not found: install mkcert before enabling HTTPS: '' @ err), w)
      | None \<Rightarrow> or_return install_run (wrapped ''mkcert trust store install failed'') (Pair None) w)"

section \<open>Installing\<close>

record 'w install_options =
  io_Suffix :: string
  io_WithMenubar :: bool
  io_Paths :: install_paths
  io_Progress :: "(string \<Rightarrow> 'w \<Rightarrow> 'w) option"

text \<open>\<open>Dependencies\<close> with every function set; the constructor's argument may leave any out.\<close>

record 'w install_deps =
  dep_CurrentEUID :: int
  dep_EnsurePaths :: "install_paths \<Rightarrow> 'w \<Rightarrow> go_error option \<times> 'w"
  dep_PrepareDaemonBinary :: "string \<Rightarrow> 'w \<Rightarrow> go_error option \<times> 'w"
  dep_PrepareMenubarBundle :: "string \<Rightarrow> install_paths \<Rightarrow> 'w \<Rightarrow> go_error option \<times> 'w"
  dep_WriteResolver :: "resolver_config \<Rightarrow> 'w \<Rightarrow> go_error option \<times> 'w"
  dep_BootstrapCertificates :: "'w \<Rightarrow> go_error option \<times> 'w"
  dep_InstallDaemonService :: "launchd_service \<Rightarrow> 'w \<Rightarrow> go_error option \<times> 'w"
  dep_StartDaemonService :: "launchd_service \<Rightarrow> 'w \<Rightarrow> go_error option \<times> 'w"
  dep_InstallMenubarService :: "launchd_service \<Rightarrow> 'w \<Rightarrow> go_error option \<times> 'w"
  dep_StartMenubarService :: "launchd_service \<Rightarrow> 'w \<Rightarrow> go_error option \<times> 'w"
  dep_ResolveGUIUser :: "go_error + (int \<times> string)"
  dep_ResolveGUIUserOwnership :: "go_error + (int \<times> int \<times> string)"
  dep_EnsureMenubarOwnership ::
    "install_paths \<Rightarrow> launchd_service \<Rightarrow> int \<Rightarrow> int \<Rightarrow> 'w \<Rightarrow> go_error option \<times> 'w"

record 'w install_overrides =
  ov_CurrentEUID :: "int option"
  ov_EnsurePaths :: "(install_paths \<Rightarrow> 'w \<Rightarrow> go_error option \<times> 'w) option"
  ov_PrepareDaemonBinary :: "(string \<Rightarrow> 'w \<Rightarrow> go_error option \<times> 'w) option"
  ov_PrepareMenubarBundle :: "(string \<Rightarrow> install_paths \<Rightarrow> 'w \<Rightarrow> go_error option \<times> 'w) option"
  ov_WriteResolver :: "(resolver_config \<Rightarrow> 'w \<Rightarrow> go_error option \<times> 'w) option"
  ov_BootstrapCertificates :: "('w \<Rightarrow> go_error option \<times> 'w) option"
  ov_InstallDaemonService :: "(launchd_service \<Rightarrow> 'w \<Rightarrow> go_error option \<times> 'w) option"
  ov_StartDaemonService :: "(launchd_service \<Rightarrow> 'w \<Rightarrow> go_error option \<times> 'w) option"
  ov_InstallMenubarService :: "(launchd_service \<Rightarrow> 'w \<Rightarrow> go_error option \<times> 'w) option"
  ov_StartMenubarService :: "(launchd_service \<Rightarrow> 'w \<Rightarrow> go_error option \<times> 'w) option"
  ov_ResolveGUIUser :: "(go_error + (int \<times> string)) option"
  ov_ResolveGUIUserOwnership :: "(go_error + (int \<times> int \<times> string)) option"
  ov_EnsureMenubarOwnership ::
    "(install_paths \<Rightarrow> launchd_service \<Rightarrow> int \<Rightarrow> int \<Rightarrow> 'w \<Rightarrow> go_error option \<times> 'w) option"

definition or_default :: "'a option \<Rightarrow> 'a \<Rightarrow> 'a" where
  "or_default x d = (case x of None \<Rightarrow> d | Some v \<Rightarrow> v)"

definition NewInstaller ::
  "'x os_env \<Rightarrow> gui_env \<Rightarrow> go_error option \<Rightarrow> 'x sys install_overrides \<Rightarrow> 'x sys install_deps" where
  "NewInstaller env g look_path ov =
     \<lparr>dep_CurrentEUID = or_default (ov_CurrentEUID ov) (os_geteuid env),
      dep_EnsurePaths = or_default (ov_EnsurePaths ov) (EnsurePaths env),
      dep_PrepareDaemonBinary = or_default (ov_PrepareDaemonBinary ov) (stageCurrentExecutable env),
      dep_PrepareMenubarBundle = or_default (ov_PrepareMenubarBundle ov) (prepareMenubarBundle env),
      dep_WriteResolver = or_default (ov_WriteResolver ov) (WriteResolver env),
      dep_BootstrapCertificates = or_default (ov_BootstrapCertificates ov)
        (ensureMKCertInstalled look_path (runMKCertInstall env)),
      dep_InstallDaemonService = or_default (ov_InstallDaemonService ov) (InstallService env),
      dep_StartDaemonService = or_default (ov_StartDaemonService ov) (StartService env),
      dep_InstallMenubarService = or_default (ov_InstallMenubarService ov) (InstallService env),
      dep_StartMenubarService = or_default (ov_StartMenubarService ov) (StartService env),
      dep_ResolveGUIUser = or_default (ov_ResolveGUIUser ov) (ResolveGUIUser env g),
      dep_ResolveGUIUserOwnership = or_default (ov_ResolveGUIUserOwnership ov) (ResolveGUIUserOwnership env g),
      dep_EnsureMenubarOwnership = or_default (ov_EnsureMenubarOwnership ov) (ensureMenubarOwnership env)\<rparr>"

text \<open>\<open>progress(msg)\<close>, then the rest.\<close>

definition announce :: "('w \<Rightarrow> 'w) \<Rightarrow> ('w \<Rightarrow> go_error option \<times> 'w) \<Rightarrow> 'w \<Rightarrow> go_error option \<times> 'w" where
  "announce tell rest w = rest (tell w)"

text \<open>The part of \<open>Install\<close> for the menu bar.\<close>

definition install_menubar ::
  "'w install_deps \<Rightarrow> (string \<Rightarrow> 'w \<Rightarrow> 'w) \<Rightarrow> install_paths \<Rightarrow> 'w \<Rightarrow> go_error option \<times> 'w" where
  "install_menubar d progress paths =
     announce (progress ''Resolving active GUI user'')
     (\<lambda>w. case dep_ResolveGUIUserOwnership d of
        Inl err \<Rightarrow> (Some (''resolve GUI user for menubar service: '' @ err), w)
      | Inr (guiUID, guiGID, guiHome) \<Rightarrow>
          (let menubarPaths = paths\<lparr>ip_UserLibraryDir := filepath_join [guiHome, ''Library'']\<rparr>;
               menubarCfg = MenubarServiceConfig menubarPaths guiUID
           in announce (progress ''Preparing menubar app bundle'')
             (or_return (dep_PrepareMenubarBundle d daemonProgramPath menubarPaths)
               (wrapped ''prepare menubar app bundle'')
             (announce (progress ''Installing menubar service'')
             (or_return (dep_InstallMenubarService d menubarCfg) (wrapped ''install menubar service'')
             (announce (progress ''Fixing menubar file ownership'')
             (or_return (dep_EnsureMenubarOwnership d menubarPaths menubarCfg guiUID guiGID)
               (wrapped ''fix menubar file ownership'')
             (announce (progress ''Starting menubar service'')
             (or_return (dep_StartMenubarService d menubarCfg) (wrapped ''start menubar service'')
             (Pair None)))))))) w))"

definition install_root_error :: go_error where
  "install_root_error = ''devproxy install requires root privileges; rerun with sudo (needs access to /usr/local/etc/devproxy, /var/lib/devproxy, /var/log/devproxy, /etc/resolver, and /Library/LaunchDaemons)''"

definition Install ::
  "string option \<Rightarrow> 'w install_deps \<Rightarrow> 'w install_options \<Rightarrow> 'w \<Rightarrow> go_error option \<times> 'w" where
  "Install home d opts w =
     (if dep_CurrentEUID d \<noteq> 0 then (Some install_root_error, w)
      else
        (let progress = or_default (io_Progress opts) (\<lambda>_ w. w);
             paths = (if ip_ConfigDir (io_Paths opts) = [] then DefaultPaths home else io_Paths opts);
             guiHome = (case dep_ResolveGUIUser d of Inl _ \<Rightarrow> [] | Inr (_, h) \<Rightarrow> h);
             daemonCfg = DaemonServiceConfig paths guiHome
         in announce (progress ''Ensuring install paths'')
           (or_return (dep_EnsurePaths d paths) (wrapped ''ensure install paths'')
           (announce (progress ''Writing resolver configuration'')
           (or_return (dep_WriteResolver d \<lparr>rc_Suffix = io_Suffix opts, rc_ResolverDir = ip_ResolverDir paths,
                rc_StateDir = ip_StateDir paths\<rparr>) (wrapped ''install managed resolver'')
           (announce (progress ''Bootstrapping TLS prerequisites'')
           (or_return (dep_BootstrapCertificates d) (wrapped ''bootstrap certificates'')
           (announce (progress ''Staging devproxy binary'')
           (or_return (dep_PrepareDaemonBinary d daemonProgramPath)
             (wrapped (''stage daemon executable at '' @ go_quote daemonProgramPath))
           (announce (progress ''Installing daemon service'')
           (or_return (dep_InstallDaemonService d daemonCfg) (wrapped ''install daemon service'')
           (announce (progress ''Starting daemon service'')
           (or_return (dep_StartDaemonService d daemonCfg) (wrapped ''start daemon service'')
           (\<lambda>w. if io_WithMenubar opts then install_menubar d progress paths w
                else (None, w))))))))))))) w))"

section \<open>Uninstalling\<close>

record cleanup_scope =
  clean_Config :: bool
  clean_State :: bool
  clean_Logs :: bool
  clean_Certificates :: bool

record 'w uninstall_options =
  uo_Suffix :: string
  uo_WithMenubar :: bool
  uo_Paths :: install_paths
  uo_Cleanup :: cleanup_scope
  uo_Progress :: "(string \<Rightarrow> 'w \<Rightarrow> 'w) option"

record 'w uninstall_deps =
  ud_CurrentEUID :: int
  ud_ResolveGUIUser :: "go_error + (int \<times> string)"
  ud_StopDaemonService :: "launchd_service \<Rightarrow> 'w \<Rightarrow> go_error option \<times> 'w"
  ud_UninstallDaemonService :: "launchd_service \<Rightarrow> 'w \<Rightarrow> go_error option \<times> 'w"
  ud_StopMenubarService :: "launchd_service \<Rightarrow> 'w \<Rightarrow> go_error option \<times> 'w"
  ud_UninstallMenubarService :: "launchd_service \<Rightarrow> 'w \<Rightarrow> go_error option \<times> 'w"
  ud_RemoveResolver :: "resolver_config \<Rightarrow> 'w \<Rightarrow> go_error option \<times> 'w"
  ud_RemoveConfig :: "install_paths \<Rightarrow> 'w \<Rightarrow> go_error option \<times> 'w"
  ud_RemoveState :: "install_paths \<Rightarrow> 'w \<Rightarrow> go_error option \<times> 'w"
  ud_RemoveLogs :: "install_paths \<Rightarrow> 'w \<Rightarrow> go_error option \<times> 'w"
  ud_RemoveCertificates :: "install_paths \<Rightarrow> 'w \<Rightarrow> go_error option \<times> 'w"

record 'w uninstall_overrides =
  uv_CurrentEUID :: "int option"
  uv_ResolveGUIUser :: "(go_error + (int \<times> string)) option"
  uv_StopDaemonService :: "(launchd_service \<Rightarrow> 'w \<Rightarrow> go_error option \<times> 'w) option"
  uv_UninstallDaemonService :: "(launchd_service \<Rightarrow> 'w \<Rightarrow> go_error option \<times> 'w) option"
  uv_StopMenubarService :: "(launchd_service \<Rightarrow> 'w \<Rightarrow> go_error option \<times> 'w) option"
  uv_UninstallMenubarService :: "(launchd_service \<Rightarrow> 'w \<Rightarrow> go_error option \<times> 'w) option"
  uv_RemoveResolver :: "(resolver_config \<Rightarrow> 'w \<Rightarrow> go_error option \<times> 'w) option"
  uv_RemoveConfig :: "(install_paths \<Rightarrow> 'w \<Rightarrow> go_error option \<times> 'w) option"
  uv_RemoveState :: "(install_paths \<Rightarrow> 'w \<Rightarrow> go_error option \<times> 'w) option"
  uv_RemoveLogs :: "(install_paths \<Rightarrow> 'w \<Rightarrow> go_error option \<times> 'w) option"
  uv_RemoveCertificates :: "(install_paths \<Rightarrow> 'w \<Rightarrow> go_error option \<times> 'w) option"

definition removeConfig :: "'x os_env \<Rightarrow> install_paths \<Rightarrow> 'x sys \<Rightarrow> go_error option \<times> 'x sys" where
  "removeConfig env paths = os_remove_all env (ip_ConfigDir paths)"

definition removeState :: "'x os_env \<Rightarrow> install_paths \<Rightarrow> 'x sys \<Rightarrow> go_error option \<times> 'x sys" where
  "removeState env paths = os_remove_all env (ip_StateDir paths)"

definition removeLogs :: "'x os_env \<Rightarrow> install_paths \<Rightarrow> 'x sys \<Rightarrow> go_error option \<times> 'x sys" where
  "removeLogs env paths = os_remove_all env (ip_LogDir paths)"

definition removeCertificates :: "'x os_env \<Rightarrow> install_paths \<Rightarrow> 'x sys \<Rightarrow> go_error option \<times> 'x sys" where
  "removeCertificates env paths = os_remove_all env (filepath_join [ip_StateDir paths, ''certs''])"

definition NewUninstaller ::
  "'x os_env \<Rightarrow> gui_env \<Rightarrow> 'x sys uninstall_overrides \<Rightarrow> 'x sys uninstall_deps" where
  "NewUninstaller env g uv =
     \<lparr>ud_CurrentEUID = or_default (uv_CurrentEUID uv) (os_geteuid env),
      ud_ResolveGUIUser = or_default (uv_ResolveGUIUser uv) (ResolveGUIUser env g),
      ud_StopDaemonService = or_default (uv_StopDaemonService uv) (StopService env),
      ud_UninstallDaemonService = or_default (uv_UninstallDaemonService uv) (UninstallService env),
      ud_StopMenubarService = or_default (uv_StopMenubarService uv) (StopService env),
      ud_UninstallMenubarService = or_default (uv_UninstallMenubarService uv) (UninstallService env),
      ud_RemoveResolver = or_default (uv_RemoveResolver uv) (RemoveResolver env),
      ud_RemoveConfig = or_default (uv_RemoveConfig uv) (removeConfig env),
      ud_RemoveState = or_default (uv_RemoveState uv) (removeState env),
      ud_RemoveLogs = or_default (uv_RemoveLogs uv) (removeLogs env),
      ud_RemoveCertificates = or_default (uv_RemoveCertificates uv) (removeCertificates env)\<rparr>"

definition isAlreadyRemovedServiceState :: "go_error option \<Rightarrow> bool" where
  "isAlreadyRemovedServiceState err =
     (case err of
        None \<Rightarrow> False
      | Some msg \<Rightarrow> isKnownLaunchdMissingState msg \<or> isBootoutExitFiveIOError msg)"

text \<open>An action whose error does not count when the service was gone already.\<close>

definition tolerating_removed ::
  "('w \<Rightarrow> go_error option \<times> 'w) \<Rightarrow> 'w \<Rightarrow> go_error option \<times> 'w" where
  "tolerating_removed act w =
     (case act w of (err, w) \<Rightarrow> (if isAlreadyRemovedServiceState err then None else err, w))"

text \<open>An action whose error counts only if \<open>required\<close>.\<close>

definition best_effort ::
  "bool \<Rightarrow> ('w \<Rightarrow> go_error option \<times> 'w) \<Rightarrow> 'w \<Rightarrow> go_error option \<times> 'w" where
  "best_effort required act w = (case act w of (err, w) \<Rightarrow> (if required then err else None, w))"

definition uninstall_menubar ::
  "'x os_env \<Rightarrow> 'x sys uninstall_deps \<Rightarrow> (string \<Rightarrow> 'x sys \<Rightarrow> 'x sys) \<Rightarrow> bool \<Rightarrow> install_paths \<Rightarrow> 'x sys
     \<Rightarrow> go_error option \<times> 'x sys" where
  "uninstall_menubar env u progress required paths s =
     (case ud_ResolveGUIUser u of
        Inl err \<Rightarrow> (if required then (Some (''resolve GUI user for menubar uninstall: '' @ err), s) else (None, s))
      | Inr (guiUID, guiHome) \<Rightarrow>
          (let menubarPaths = paths\<lparr>ip_UserLibraryDir := filepath_join [guiHome, ''Library'']\<rparr>;
               menubarCfg = MenubarServiceConfig menubarPaths guiUID
           in announce (progress ''Stopping menubar service'')
             (or_return (best_effort required (tolerating_removed (ud_StopMenubarService u menubarCfg)))
               (wrapped ''stop menubar service'')
             (announce (progress ''Removing menubar service'')
             (or_return (best_effort required (tolerating_removed (ud_UninstallMenubarService u menubarCfg)))
               (wrapped ''uninstall menubar service'')
             (announce (progress ''Removing menubar app bundle'')
             (or_return (best_effort required (os_remove_all env (MenubarBundlePath menubarPaths)))
               (wrapped ''remove menubar app bundle'')
             (Pair None)))))) s))"

text \<open>One optional cleanup: announced and done if selected.\<close>

definition cleanup_step ::
  "bool \<Rightarrow> ('w \<Rightarrow> 'w) \<Rightarrow> string \<Rightarrow> ('w \<Rightarrow> go_error option \<times> 'w) \<Rightarrow> ('w \<Rightarrow> go_error option \<times> 'w)
     \<Rightarrow> 'w \<Rightarrow> go_error option \<times> 'w" where
  "cleanup_step selected tell what act rest =
     (if selected then announce tell (or_return act (wrapped what) rest) else rest)"

definition uninstall_root_error :: go_error where
  "uninstall_root_error = ''devproxy uninstall requires root privileges; rerun with sudo''"

definition Uninstall ::
  "'x os_env \<Rightarrow> string option \<Rightarrow> 'x sys uninstall_deps \<Rightarrow> 'x sys uninstall_options \<Rightarrow> 'x sys
     \<Rightarrow> go_error option \<times> 'x sys" where
  "Uninstall env home u opts s =
     (if ud_CurrentEUID u \<noteq> 0 then (Some uninstall_root_error, s)
      else
        (let progress = or_default (uo_Progress opts) (\<lambda>_ s. s);
             paths = (if ip_ConfigDir (uo_Paths opts) = [] then DefaultPaths home else uo_Paths opts);
             daemonCfg = DaemonServiceConfig paths [];
             scope = uo_Cleanup opts
         in announce (progress ''Stopping daemon service'')
           (or_return (tolerating_removed (ud_StopDaemonService u daemonCfg)) (wrapped ''stop daemon service'')
           (announce (progress ''Removing daemon service'')
           (or_return (tolerating_removed (ud_UninstallDaemonService u daemonCfg))
             (wrapped ''uninstall daemon service'')
           (or_return (uninstall_menubar env u progress (uo_WithMenubar opts) paths) (\<lambda>e. e)
           (announce (progress ''Removing resolver configuration'')
           (or_return (ud_RemoveResolver u \<lparr>rc_Suffix = uo_Suffix opts, rc_ResolverDir = ip_ResolverDir paths,
               rc_StateDir = ip_StateDir paths\<rparr>) (wrapped ''remove resolver'')
           (cleanup_step (clean_Config scope) (progress ''Removing config'') ''remove config'' (ud_RemoveConfig u paths)
           (cleanup_step (clean_State scope) (progress ''Removing state'') ''remove state'' (ud_RemoveState u paths)
           (cleanup_step (clean_Logs scope) (progress ''Removing logs'') ''remove logs'' (ud_RemoveLogs u paths)
           (cleanup_step (clean_Certificates scope) (progress ''Removing certificates'') ''remove certificates''
             (ud_RemoveCertificates u paths)
           (Pair None))))))))))) s))"

section \<open>Installation as a plan\<close>

text \<open>The abstract installer: a list of announced, named steps, run until the first one fails.\<close>

type_synonym 'w plan_step = "('w \<Rightarrow> 'w) \<times> string \<times> ('w \<Rightarrow> go_error option \<times> 'w)"

fun run_plan :: "'w plan_step list \<Rightarrow> 'w \<Rightarrow> go_error option \<times> 'w" where
  "run_plan [] w = (None, w)"
| "run_plan ((tell, what, act) # steps) w = or_return act (wrapped what) (run_plan steps) (tell w)"

lemma run_plan_failed:
  "run_plan steps w = (Some e, w') \<Longrightarrow>
   \<exists>before tell what act rest w1 e0. steps = before @ (tell, what, act) # rest \<and>
     run_plan before w = (None, w1) \<and> act (tell w1) = (Some e0, w') \<and> e = wrapped what e0"
proof (induction steps arbitrary: w)
  case Nil
  then show ?case by simp
next
  case (Cons step steps)
  obtain tell what act where step: "step = (tell, what, act)" by (cases step)
  obtain r w1 where act: "act (tell w) = (r, w1)" by force
  show ?case
  proof (cases r)
    case (Some e0)
    with Cons.prems step act have "e = wrapped what e0 \<and> w' = w1" by (simp add: or_return_def)
    with Some act step show ?thesis
      by (intro exI [of _ "[]"] exI [of _ tell] exI [of _ what] exI [of _ act] exI [of _ steps]
          exI [of _ w] exI [of _ e0]) simp
  next
    case None
    with Cons.prems step act have "run_plan steps w1 = (Some e, w')" by (simp add: or_return_def)
    from Cons.IH [OF this] obtain before tell' what' act' rest w2 e0 where
      *: "steps = before @ (tell', what', act') # rest" "run_plan before w1 = (None, w2)"
      "act' (tell' w2) = (Some e0, w')" "e = wrapped what' e0" by blast
    have "run_plan (step # before) w = (None, w2)" using step act None *(2) by (simp add: or_return_def)
    with *(1,3,4) show ?thesis
      by (intro exI [of _ "step # before"] exI [of _ tell'] exI [of _ what'] exI [of _ act']
          exI [of _ rest] exI [of _ w2] exI [of _ e0]) simp
  qed
qed

lemma run_plan_append:
  "run_plan (ps @ qs) w = (case run_plan ps w of (Some e, w) \<Rightarrow> (Some e, w) | (None, w) \<Rightarrow> run_plan qs w)"
proof (induction ps arbitrary: w)
  case Nil
  then show ?case by simp
next
  case (Cons step ps)
  obtain tell what act where step: "step = (tell, what, act)" by (cases step)
  obtain r w1 where "act (tell w) = (r, w1)" by force
  with step Cons.IH [of w1] show ?case by (cases r) (simp_all add: or_return_def)
qed

definition menubar_plan ::
  "'w install_deps \<Rightarrow> (string \<Rightarrow> 'w \<Rightarrow> 'w) \<Rightarrow> install_paths \<Rightarrow> 'w plan_step list" where
  "menubar_plan d progress paths =
     (progress ''Resolving active GUI user'', ''resolve GUI user for menubar service'',
       \<lambda>w. (case dep_ResolveGUIUserOwnership d of Inl err \<Rightarrow> Some err | Inr _ \<Rightarrow> None, w)) #
     (case dep_ResolveGUIUserOwnership d of
        Inl _ \<Rightarrow> []
      | Inr (guiUID, guiGID, guiHome) \<Rightarrow>
          (let menubarPaths = paths\<lparr>ip_UserLibraryDir := filepath_join [guiHome, ''Library'']\<rparr>;
               menubarCfg = MenubarServiceConfig menubarPaths guiUID
           in [(progress ''Preparing menubar app bundle'', ''prepare menubar app bundle'',
                  dep_PrepareMenubarBundle d daemonProgramPath menubarPaths),
               (progress ''Installing menubar service'', ''install menubar service'',
                  dep_InstallMenubarService d menubarCfg),
               (progress ''Fixing menubar file ownership'', ''fix menubar file ownership'',
                  dep_EnsureMenubarOwnership d menubarPaths menubarCfg guiUID guiGID),
               (progress ''Starting menubar service'', ''start menubar service'',
                  dep_StartMenubarService d menubarCfg)]))"

definition install_plan ::
  "string option \<Rightarrow> 'w install_deps \<Rightarrow> 'w install_options \<Rightarrow> 'w plan_step list" where
  "install_plan home d opts =
     (let progress = or_default (io_Progress opts) (\<lambda>_ w. w);
          paths = (if ip_ConfigDir (io_Paths opts) = [] then DefaultPaths home else io_Paths opts);
          guiHome = (case dep_ResolveGUIUser d of Inl _ \<Rightarrow> [] | Inr (_, h) \<Rightarrow> h);
          daemonCfg = DaemonServiceConfig paths guiHome
      in [(progress ''Ensuring install paths'', ''ensure install paths'', dep_EnsurePaths d paths),
          (progress ''Writing resolver configuration'', ''install managed resolver'',
             dep_WriteResolver d \<lparr>rc_Suffix = io_Suffix opts, rc_ResolverDir = ip_ResolverDir paths,
               rc_StateDir = ip_StateDir paths\<rparr>),
          (progress ''Bootstrapping TLS prerequisites'', ''bootstrap certificates'', dep_BootstrapCertificates d),
          (progress ''Staging devproxy binary'', ''stage daemon executable at '' @ go_quote daemonProgramPath,
             dep_PrepareDaemonBinary d daemonProgramPath),
          (progress ''Installing daemon service'', ''install daemon service'', dep_InstallDaemonService d daemonCfg),
          (progress ''Starting daemon service'', ''start daemon service'', dep_StartDaemonService d daemonCfg)] @
         (if io_WithMenubar opts then menubar_plan d progress paths else []))"

lemma install_menubar_plan: "install_menubar d progress paths w = run_plan (menubar_plan d progress paths) w"
proof (cases "dep_ResolveGUIUserOwnership d")
  case (Inl err)
  then show ?thesis by (simp add: install_menubar_def menubar_plan_def announce_def or_return_def wrapped_def)
next
  case (Inr r)
  obtain uid gid home where "r = (uid, gid, home)" by (cases r)
  with Inr show ?thesis
    by (simp add: install_menubar_def menubar_plan_def announce_def or_return_def Let_def
        split: prod.splits option.splits)
qed

lemma run_plan_steps:
  "run_plan [] = Pair None"
  "run_plan ((tell, what, act) # steps) = announce tell (or_return act (wrapped what) (run_plan steps))"
  by (simp_all add: fun_eq_iff announce_def)

lemma Install_plan:
  assumes "dep_CurrentEUID d = 0"
  shows "Install home d opts w = run_plan (install_plan home d opts) w"
proof -
  have menubar: "(\<lambda>w. if io_WithMenubar opts then install_menubar d progress paths w else (None, w)) =
      run_plan (if io_WithMenubar opts then menubar_plan d progress paths else [])" for progress paths
    by (simp add: fun_eq_iff install_menubar_plan)
  from assms show ?thesis
    by (simp only: Install_def install_plan_def Let_def menubar append_Cons append_Nil run_plan_steps
        if_False simp_thms)
qed

section \<open>Properties\<close>

text \<open>C38. Installing without root privileges changes nothing. With them, the steps are run in
  the order of the plan, each announced first; at the first one that fails, installation stops
  with that step's error under that step's name, and no later step is tried. Success means every step of the
  plan succeeded.\<close>

theorem install_stops_at_first_failure:
  "(dep_CurrentEUID d \<noteq> 0 \<longrightarrow> Install home d opts w = (Some install_root_error, w)) \<and>
   (dep_CurrentEUID d = 0 \<longrightarrow>
     (case Install home d opts w of
        (None, w') \<Rightarrow> run_plan (install_plan home d opts) w = (None, w')
      | (Some e, w') \<Rightarrow> (\<exists>before tell what act rest w1 e0.
          install_plan home d opts = before @ (tell, what, act) # rest \<and>
          run_plan before w = (None, w1) \<and> act (tell w1) = (Some e0, w') \<and> e = what @ '': '' @ e0)))"
proof (cases "dep_CurrentEUID d = 0")
  case False
  then show ?thesis by (simp add: Install_def)
next
  case True
  obtain r w' where run: "run_plan (install_plan home d opts) w = (r, w')" by force
  show ?thesis
  proof (cases r)
    case None
    with True run show ?thesis by (simp add: Install_plan)
  next
    case (Some e)
    with True run run_plan_failed [of "install_plan home d opts" w e w'] show ?thesis
      by (simp add: Install_plan wrapped_def)
  qed
qed

definition logging_deps :: "string \<Rightarrow> string list install_deps" where
  "logging_deps failing =
     (let log = (\<lambda>name (w :: string list). if name = failing then (Some ''boom'', w) else (None, w @ [name]))
      in \<lparr>dep_CurrentEUID = 0, dep_EnsurePaths = (\<lambda>_. log ''paths''),
          dep_PrepareDaemonBinary = (\<lambda>_. log ''binary''), dep_PrepareMenubarBundle = (\<lambda>_ _. log ''bundle''),
          dep_WriteResolver = (\<lambda>_. log ''resolver''), dep_BootstrapCertificates = log ''certs'',
          dep_InstallDaemonService = (\<lambda>_. log ''install daemon''), dep_StartDaemonService = (\<lambda>_. log ''start daemon''),
          dep_InstallMenubarService = (\<lambda>_. log ''install menubar''),
          dep_StartMenubarService = (\<lambda>_. log ''start menubar''), dep_ResolveGUIUser = Inl ''none'',
          dep_ResolveGUIUserOwnership = Inl ''none'', dep_EnsureMenubarOwnership = (\<lambda>_ _ _ _. log ''own'')\<rparr>)"

definition menubar_options :: "string list install_options" where
  "menubar_options = \<lparr>io_Suffix = ''test'', io_WithMenubar = True, io_Paths = daemon_paths, io_Progress = None\<rparr>"

theorem install_stops_at_first_failure_witness:
  "Install None (logging_deps ''certs'') menubar_options [] = (Some ''bootstrap certificates: boom'', [''paths'', ''resolver'']) \<and>
   (\<exists>before tell what act rest w1 e0.
      install_plan None (logging_deps ''certs'') menubar_options = before @ (tell, what, act) # rest \<and>
      run_plan before [] = (None, w1) \<and> act (tell w1) = (Some e0, [''paths'', ''resolver'']))"
proof -
  have run: "Install None (logging_deps ''certs'') menubar_options [] =
      (Some ''bootstrap certificates: boom'', [''paths'', ''resolver''])"
    by code_simp
  moreover have "dep_CurrentEUID (logging_deps ''certs'') = 0" by (simp add: logging_deps_def)
  ultimately show ?thesis
    using install_stops_at_first_failure [of "logging_deps ''certs''" None menubar_options "[]"] by force
qed

section \<open>Staging is atomic\<close>

lemma os_create_contents:
  "os_create env p perm s = (r, s') \<Longrightarrow>
     contents_of s' = (if r = None then (contents_of s)(p \<mapsto> []) else contents_of s)"
  by (auto simp: os_create_def contents_of_def fun_eq_iff split: option.splits)

lemma os_copy_contents:
  "os_copy env p c s = (r, s') \<Longrightarrow>
     contents_of s' = (if r = None then (contents_of s)(p := map_option (\<lambda>_. c) (contents_of s p))
       else contents_of s)"
  by (auto simp: os_copy_def contents_of_def fun_eq_iff option.map_comp comp_def split: option.splits)

lemma os_rename_contents:
  "os_rename env old new s = (r, s') \<Longrightarrow>
     contents_of s' = (if r = None then (contents_of s)(old := None, new := contents_of s old)
       else contents_of s)"
  by (auto simp: os_rename_def contents_of_def fun_eq_iff split: option.splits)

lemma os_chmod_contents: "contents_of (snd (os_chmod env p m s)) = contents_of s"
  by (auto simp: os_chmod_def contents_of_def fun_eq_iff option.map_comp comp_def split: option.splits)

lemma os_remove_other: "q \<noteq> p \<Longrightarrow> contents_of (snd (os_remove env p s)) q = contents_of s q"
  by (auto simp: os_remove_def contents_of_def split: option.splits)

lemma finish_copy_contents:
  assumes "finish_copy env temp target c e1 e2 e3 e4 mode s = (r, s')"
    and "contents_of s temp \<noteq> None" and "temp \<noteq> target"
  shows "(contents_of s' target = contents_of s target \<or> contents_of s' target = Some c) \<and>
    (r = None \<longrightarrow> contents_of s' target = Some c) \<and>
    (\<forall>q. q \<noteq> target \<longrightarrow> q \<noteq> temp \<longrightarrow> contents_of s' q = contents_of s q)"
proof -
  obtain r1 s1 where copy: "os_copy env temp c s = (r1, s1)" by force
  obtain r3 s3 where rename: "os_rename env temp target s1 = (r3, s3)" by force
  have keep: "contents_of (snd (os_remove env temp t)) target = contents_of t target" for t
    using os_remove_other [of target temp] assms(3) by auto
  note facts = os_copy_contents [OF copy] os_rename_contents [OF rename] keep os_remove_other [of _ temp env]
    os_chmod_contents [of env target mode s3]
  show ?thesis
  proof (cases "r1 = None \<and> os_fault env OpClose temp s1 = None \<and> r3 = None")
    case True
    then have "finish_copy env temp target c e1 e2 e3 e4 mode s =
        or_return (os_chmod env target mode) e4 (Pair None) s3"
      using copy rename by (simp add: finish_copy_def os_close_def)
    moreover obtain r4 s4 where "os_chmod env target mode s3 = (r4, s4)" by force
    moreover from this facts(5) have "contents_of s4 = contents_of s3" by simp
    ultimately show ?thesis
      using assms facts(1,2) True by (cases r4) (auto simp: or_return_def)
  next
    case False
    then have "r \<noteq> None \<and> (\<exists>t. contents_of t = contents_of s1 \<and> s' = snd (os_remove env temp t))"
      using assms(1) copy rename facts(2)
      by (auto simp: finish_copy_def os_close_def split: option.splits)
    with facts(1,3,4) assms(3) show ?thesis by auto
  qed
qed

text \<open>C39. Staging the daemon binary is all or nothing: whatever fails, the program at the target path has
  either its old contents or the complete new ones, it has the new ones when staging succeeds,
  and no other file but the temporary one is touched. The new contents are those of the running
  binary, except when that binary is the temporary file itself, which is truncated before it is
  read: then an empty program is staged.\<close>

theorem staging_is_atomic:
  assumes "os_executable env = Inr current" and "os_read env current s = Inr binary"
    and "stageCurrentExecutable env target s = (r, s')"
    and new: "new = (if current = target @ ''.tmp'' then [] else binary)"
  shows "(contents_of s' target = contents_of s target \<or> contents_of s' target = Some new) \<and>
    (r = None \<longrightarrow> contents_of s' target = Some new) \<and>
    (\<forall>q. q \<noteq> target \<longrightarrow> q \<noteq> target @ ''.tmp'' \<longrightarrow> contents_of s' q = contents_of s q)"
proof -
  let ?temp = "target @ ''.tmp''"
  obtain r1 s1 where mkdir: "os_mkdir_all env (filepath_dir target) s = (r1, s1)" by force
  then have s1: "contents_of s1 = contents_of s"
    using os_mkdir_faultless(2) [of env "filepath_dir target" s] by simp
  obtain r2 s2 where create: "os_create env ?temp 0x1ED s1 = (r2, s2)" by force
  note s2 = os_create_contents [OF create]
  show ?thesis
  proof (cases "r1 = None \<and> r2 = None")
    case False
    then have "r \<noteq> None \<and> (s' = s1 \<or> s' = s2 \<and> r2 \<noteq> None)"
      using assms mkdir create
      by (cases r1; cases r2) (auto simp: stageCurrentExecutable_def Let_def or_return_def)
    with s1 s2 show ?thesis by auto
  next
    case True
    then obtain e1 e2 e3 e4 where
      finish: "finish_copy env ?temp target new e1 e2 e3 e4 0x1ED s2 = (r, s')"
      using assms mkdir create by (auto simp: stageCurrentExecutable_def read_after_truncate_def Let_def or_return_def)
    have "contents_of s2 ?temp \<noteq> None" using s2 True by simp
    from finish_copy_contents [OF finish this] s1 s2 True show ?thesis by auto
  qed
qed

definition full_disk_env :: "unit os_env" where
  "full_disk_env = calm_env\<lparr>os_fault := (\<lambda>op path s. if op = OpCopy then Some ''no space left on device'' else None)\<rparr>"

definition old_machine :: "unit sys" where
  "old_machine = \<lparr>sys_files =
       [daemonProgramPath \<mapsto> \<lparr>file_contents = ''old'', file_perm = 0x1ED, file_uid = 0, file_gid = 0\<rparr>,
        ''/tmp/devproxy'' \<mapsto> \<lparr>file_contents = ''new'', file_perm = 0x1ED, file_uid = 0, file_gid = 0\<rparr>],
     sys_dirs = {}, sys_now = 0, sys_world = ()\<rparr>"

theorem staging_is_atomic_witness:
  "contents_of (snd (stageCurrentExecutable full_disk_env daemonProgramPath old_machine)) ''/tmp/devproxy'' =
     Some ''new'' \<and>
   contents_of (snd (stageCurrentExecutable calm_env daemonProgramPath old_machine)) daemonProgramPath =
     Some ''new''"
proof -
  have exe: "os_executable full_disk_env = Inr ''/tmp/devproxy''" "os_executable calm_env = Inr ''/tmp/devproxy''"
    by (simp_all add: full_disk_env_def calm_env_def)
  have "os_read full_disk_env ''/tmp/devproxy'' old_machine = Inr ''new''"
    "os_read calm_env ''/tmp/devproxy'' old_machine = Inr ''new''"
    "fst (stageCurrentExecutable calm_env daemonProgramPath old_machine) = None"
    "''/tmp/devproxy'' \<noteq> daemonProgramPath" "''/tmp/devproxy'' \<noteq> daemonProgramPath @ ''.tmp''"
    "contents_of old_machine ''/tmp/devproxy'' = Some ''new''"
    by code_simp+
  then show ?thesis
    using staging_is_atomic [OF exe(1) _ prod.collapse [symmetric] refl, of old_machine]
      staging_is_atomic [OF exe(2) _ prod.collapse [symmetric] refl, of old_machine]
    by auto
qed

section \<open>Uninstalling everything\<close>

lemma tolerating_removed_None:
  "fst (act w) = None \<or> isAlreadyRemovedServiceState (fst (act w)) \<Longrightarrow>
     tolerating_removed act w = (None, snd (act w))"
  by (cases "act w") (auto simp: tolerating_removed_def)

lemma best_effort_not_required [simp]: "best_effort False act w = (None, snd (act w))"
  by (cases "act w") (simp add: best_effort_def)

lemma tolerating_removed_snd [simp]: "snd (tolerating_removed act w) = snd (act w)"
  by (cases "act w") (simp add: tolerating_removed_def)

lemma or_return_SomeE:
  assumes "or_return act wrap rest w = (Some e, w')"
  obtains e0 where "act w = (Some e0, w')" and "e = wrap e0"
  | w1 where "act w = (None, w1)" and "rest w1 = (Some e, w')"
  using assms by (cases "act w") (auto simp: or_return_def split: option.splits)

lemma uninstall_menubar_optional: "fst (uninstall_menubar env u progress False paths s) = None"
  by (auto simp: uninstall_menubar_def announce_def or_return_def Let_def split: sum.split)

lemma cleanup_step_SomeE:
  assumes "cleanup_step selected tell what act rest w = (Some e, w')"
  obtains e0 where "e = wrapped what e0" | w1 where "rest w1 = (Some e, w')"
  using assms
  by (auto simp: cleanup_step_def announce_def elim!: or_return_SomeE split: if_splits)

text \<open>The parts an error of \<open>Uninstall\<close> can name, other than the menu bar.\<close>

definition required_removals :: "string list" where
  "required_removals = [''stop daemon service'', ''uninstall daemon service'', ''remove resolver'',
     ''remove config'', ''remove state'', ''remove logs'', ''remove certificates'']"

definition names_required_removal :: "go_error \<Rightarrow> bool" where
  "names_required_removal e \<longleftrightarrow> list_ex (\<lambda>what. has_prefix e (what @ '': '')) required_removals"

lemma names_required_removalI: "what \<in> set required_removals \<Longrightarrow> names_required_removal (wrapped what e0)"
  by (auto simp: names_required_removal_def wrapped_def list_ex_iff has_prefix_iff)

text \<open>C40. Uninstalling as root without \<open>--with-menubar\<close> never fails because of the menu bar, whoever is
  or is not logged in and whatever its service answers: an error can only come from the daemon
  service, the resolver or a selected cleanup, and says which.\<close>

theorem menubar_removal_is_best_effort:
  assumes "\<not> uo_WithMenubar opts" and "ud_CurrentEUID u = 0"
    and "Uninstall env home u opts s = (Some e, s')"
  shows "names_required_removal e"
proof -
  have menubar: "uninstall_menubar env u progress False paths s \<noteq> (Some e0, s1)" for progress paths s e0 s1
    using uninstall_menubar_optional [of env u progress paths s] by auto
  have names: "names_required_removal (wrapped ''stop daemon service'' e0)"
    "names_required_removal (wrapped ''uninstall daemon service'' e0)"
    "names_required_removal (wrapped ''remove resolver'' e0)"
    "names_required_removal (wrapped ''remove config'' e0)"
    "names_required_removal (wrapped ''remove state'' e0)"
    "names_required_removal (wrapped ''remove logs'' e0)"
    "names_required_removal (wrapped ''remove certificates'' e0)" for e0
    by (simp_all add: names_required_removalI required_removals_def)
  show ?thesis
    using assms(3) unfolding Uninstall_def Let_def announce_def
    by (simp only: assms(1,2) simp_thms if_False)
      (auto elim!: or_return_SomeE cleanup_step_SomeE simp: names menubar)
qed

definition stuck_deps :: "unit sys uninstall_deps" where
  "stuck_deps = (NewUninstaller calm_env \<lparr>gui_console = Inr (Some 501), gui_lookup = (\<lambda>_. Inr (''/Users/dev'', ''20''))\<rparr>
     \<lparr>uv_CurrentEUID = None, uv_ResolveGUIUser = None,
      uv_StopDaemonService = None, uv_UninstallDaemonService = None,
      uv_StopMenubarService = Some (\<lambda>_ s. (Some ''launchctl is stuck'', s)), uv_UninstallMenubarService = None,
      uv_RemoveResolver = Some (\<lambda>_ s. (Some ''disk is read-only'', s)), uv_RemoveConfig = None,
      uv_RemoveState = None, uv_RemoveLogs = None, uv_RemoveCertificates = None\<rparr>)"

definition plain_uninstall :: "unit sys uninstall_options" where
  "plain_uninstall = \<lparr>uo_Suffix = ''test'', uo_WithMenubar = False, uo_Paths = daemon_paths,
     uo_Cleanup = \<lparr>clean_Config = False, clean_State = False, clean_Logs = False, clean_Certificates = False\<rparr>,
     uo_Progress = None\<rparr>"

theorem menubar_removal_is_best_effort_witness:
  "fst (Uninstall calm_env None stuck_deps plain_uninstall old_machine) =
     Some ''remove resolver: disk is read-only'' \<and>
   names_required_removal ''remove resolver: disk is read-only''"
proof -
  have run: "fst (Uninstall calm_env None stuck_deps plain_uninstall old_machine) =
      Some ''remove resolver: disk is read-only''"
    by code_simp
  moreover have "\<not> uo_WithMenubar plain_uninstall" by (simp add: plain_uninstall_def)
  moreover have "ud_CurrentEUID stuck_deps = 0" by code_simp
  ultimately show ?thesis
    using menubar_removal_is_best_effort [of plain_uninstall stuck_deps calm_env None old_machine]
    by (metis prod.collapse)
qed

end
