(* ===== verification/App.thy ===== *)
theory App
  imports Admin Network Installer
begin

text \<open>
  \<open>internal/daemon/events.go\<close> and \<open>internal/daemon/app.go\<close>: the daemon. Its state is the reconciler,
  the watcher's health, the network runtime once started, and the log of issues; the world
  \<open>'w\<close> holds Docker and \<open>mkcert\<close>. Docker, the prerequisites and the certificate issuer are the
  functions of the configuration, acting on that world, as in the code. The three loops of the
  event watcher are one step relation at the end, interleaved with the requests of the admin API.
  The dashboard goroutine and the sockets of the admin server are not modelled: only whether
  they were started, and the errors their start may return (arguments of \<open>Start\<close>).
\<close>

section \<open>The watcher\<close>

record daemon_watcher_health =
  dwh_Connected :: bool
  dwh_LastDisconnect :: go_time
  dwh_LastReconnectSync :: go_time

definition NewWatcher :: daemon_watcher_health where
  "NewWatcher = \<lparr>dwh_Connected = True, dwh_LastDisconnect = ZeroTime, dwh_LastReconnectSync = ZeroTime\<rparr>"

definition OnDisconnect :: "go_time \<Rightarrow> daemon_watcher_health \<Rightarrow> daemon_watcher_health" where
  "OnDisconnect now h = h\<lparr>dwh_Connected := False, dwh_LastDisconnect := now\<rparr>"

text \<open>The watcher points to the daemon's reconciler: both are passed.\<close>

definition OnReconnect ::
  "(string list \<Rightarrow> string list) \<Rightarrow> go_time \<Rightarrow> container_state list
     \<Rightarrow> reconciler \<times> daemon_watcher_health \<Rightarrow> go_error option \<times> reconciler \<times> daemon_watcher_health" where
  "OnReconnect it now containers = (\<lambda>(r, h).
     case RebuildSnapshot it now containers r of
       (Some err, r) \<Rightarrow> (Some err, r, h)
     | (None, r) \<Rightarrow> (None, r, h\<lparr>dwh_Connected := True, dwh_LastReconnectSync := now\<rparr>))"

definition watcher_HandleEvent ::
  "(string list \<Rightarrow> string list) \<Rightarrow> go_time \<Rightarrow> string \<Rightarrow> container_state list
     \<Rightarrow> reconciler \<times> daemon_watcher_health \<Rightarrow> go_error option \<times> reconciler \<times> daemon_watcher_health" where
  "watcher_HandleEvent it now event containers = (\<lambda>(r, h).
     case HandleEvent it now event containers r of (err, r) \<Rightarrow> (err, r, h))"

definition supportedDockerEvents :: "string list" where
  "supportedDockerEvents = [''start'', ''stop'', ''die'', ''destroy'', ''rename'', ''update'']"

definition isSupportedDockerEvent :: "string \<Rightarrow> bool" where
  "isSupportedDockerEvent action \<longleftrightarrow> action \<in> set supportedDockerEvents"

section \<open>The daemon's state\<close>

type_synonym 'w effect = "'w \<Rightarrow> go_error option \<times> 'w"

record 'w app_config =
  ac_AdminSocketPath :: string
  ac_DashboardAddress :: string
  ac_DNSAddress :: string
  ac_HTTPAddress :: string
  ac_HTTPSAddress :: string
  ac_Config :: config
  ac_DockerPing :: "'w effect option"
  ac_DockerScan :: "('w \<Rightarrow> (go_error + container_state list) \<times> 'w) option"
  ac_DockerEvents :: bool
  ac_EnsureMKCert :: "'w effect option"
  ac_IssueCertificate :: "'w issuer option"
  ac_BuildNetworkRuntime :: "'w effect option"

record ('w, 'k) app =
  app_cfg :: "'w app_config"
  app_reconciler :: reconciler
  app_watcher :: daemon_watcher_health
  app_network :: "(reconciler, unit, 'w, 'k) network_runtime option"
  app_server :: bool
  app_dashboard :: bool
  app_dashCancel :: bool
  app_issues :: "session_issue list"

text \<open>Map order and certificates as for the network runtime, and the clock.\<close>

record ('w, 'k) app_env =
  ae_net :: "('w, 'k) net_env"
  ae_now :: "'w \<Rightarrow> go_time"

definition app_options :: "config \<Rightarrow> reconciler_options" where
  "app_options cfg = \<lparr>opt_Suffix = cfg_DomainSuffix cfg, opt_RootServices = cfg_RootServices cfg,
     opt_IgnoredServices = cfg_IgnoredServices cfg, opt_IgnoredPorts = cfg_IgnoredPorts cfg,
     opt_Overrides = cfg_Overrides cfg\<rparr>"

definition DefaultListenAddress :: string where
  "DefaultListenAddress = ''127.0.0.1:45831''"

definition NewApp :: "('w, 'k) app_env \<Rightarrow> 'w app_config \<Rightarrow> 'w \<Rightarrow> ('w, 'k) app" where
  "NewApp env cfg w =
     (let r = snd (RebuildSnapshot (env_it (ae_net env)) (ae_now env w) []
            (NewReconciler (app_options (ac_Config cfg))));
          cfg = (if ac_AdminSocketPath cfg = []
                 then cfg\<lparr>ac_AdminSocketPath := ''/tmp/devproxy/admin.sock''\<rparr> else cfg);
          cfg = (if ac_DashboardAddress cfg = []
                 then cfg\<lparr>ac_DashboardAddress := DefaultListenAddress\<rparr> else cfg);
          cfg = (if ac_HTTPAddress cfg = [] then cfg\<lparr>ac_HTTPAddress := ''127.0.0.1:80''\<rparr> else cfg);
          cfg = (if ac_HTTPSAddress cfg = [] then cfg\<lparr>ac_HTTPSAddress := ''127.0.0.1:443''\<rparr> else cfg);
          cfg = (if sc_ManagedSuffix (cfg_Serving (ac_Config cfg)) = []
                 then cfg\<lparr>ac_Config := (ac_Config cfg)\<lparr>cfg_Serving := (cfg_Serving (ac_Config cfg))
                        \<lparr>sc_ManagedSuffix := cfg_DomainSuffix (ac_Config cfg)\<rparr>\<rparr>\<rparr>
                 else cfg)
      in \<lparr>app_cfg = cfg, app_reconciler = r, app_watcher = NewWatcher, app_network = None,
          app_server = False, app_dashboard = False, app_dashCancel = False, app_issues = []\<rparr>)"

section \<open>Issues\<close>

definition recordIssue ::
  "go_time \<Rightarrow> string \<Rightarrow> string \<Rightarrow> string \<Rightarrow> ('w, 'k) app \<Rightarrow> ('w, 'k) app" where
  "recordIssue now role action message a =
     (let issues = app_issues a @ [\<lparr>si_Timestamp = now, si_Role = role, si_Action = action, si_Message = message\<rparr>]
      in a\<lparr>app_issues := (if length issues > SessionIssueLimit
            then drop (length issues - SessionIssueLimit) issues else issues)\<rparr>)"

definition recordWatcherIssue :: "go_time \<Rightarrow> string \<Rightarrow> go_error \<Rightarrow> ('w, 'k) app \<Rightarrow> ('w, 'k) app" where
  "recordWatcherIssue now action err a =
     recordIssue now ''docker'' action err (a\<lparr>app_watcher := OnDisconnect now (app_watcher a)\<rparr>)"

definition listener_issue :: "go_time \<Rightarrow> string \<Rightarrow> listener_health \<Rightarrow> ('w, 'k) app \<Rightarrow> ('w, 'k) app" where
  "listener_issue now role h a =
     (if lh_LastError h = [] then a else recordIssue now role ''bind'' (lh_LastError h) a)"

definition recordNetworkListenerIssues ::
  "go_time \<Rightarrow> network_health \<Rightarrow> ('w, 'k) app \<Rightarrow> ('w, 'k) app" where
  "recordNetworkListenerIssues now h a =
     listener_issue now ''https'' (nh_HTTPS h)
       (listener_issue now ''http'' (nh_HTTP h) (listener_issue now ''dns'' (nh_DNS h) a))"

section \<open>Synchronising with Docker\<close>

definition app_reconnect ::
  "('w, 'k) app_env \<Rightarrow> container_state list \<Rightarrow> 'w \<Rightarrow> ('w, 'k) app \<Rightarrow> go_error option \<times> ('w, 'k) app" where
  "app_reconnect env containers w a =
     (case OnReconnect (env_it (ae_net env)) (ae_now env w) containers (app_reconciler a, app_watcher a) of
        (err, r, h) \<Rightarrow> (err, a\<lparr>app_reconciler := r, app_watcher := h\<rparr>))"

definition refreshFromDocker ::
  "('w, 'k) app_env \<Rightarrow> ('w, 'k) app \<Rightarrow> 'w \<Rightarrow> (go_error option \<times> ('w, 'k) app) \<times> 'w" where
  "refreshFromDocker env a w =
     (case ac_DockerScan (app_cfg a) of
        None \<Rightarrow> (app_reconnect env [] w a, w)
      | Some scan \<Rightarrow>
          (case scan w of
             (Inl err, w) \<Rightarrow>
               ((Some (''docker container sync failed: '' @ err),
                 recordIssue (ae_now env w) ''docker'' ''scan'' err
                   (a\<lparr>app_watcher := OnDisconnect (ae_now env w) (app_watcher a)\<rparr>)), w)
           | (Inr containers, w) \<Rightarrow> (app_reconnect env containers w a, w)))"

definition syncNetworkCertificates ::
  "('w, 'k) app_env \<Rightarrow> ('w, 'k) app \<Rightarrow> 'w \<Rightarrow> ('w, 'k) app \<times> 'w" where
  "syncNetworkCertificates env a w =
     (case app_network a of
        None \<Rightarrow> (a, w)
      | Some n \<Rightarrow>
          (case RefreshCertificates (ae_net env) (app_reconciler a) w n of
             ((None, n), w) \<Rightarrow> (a\<lparr>app_network := Some n\<rparr>, w)
           | ((Some err, n), w) \<Rightarrow>
               (recordIssue (ae_now env w) ''https'' ''certificate-refresh'' err
                  (a\<lparr>app_network := Some n\<rparr>), w)))"

definition Refresh ::
  "('w, 'k) app_env \<Rightarrow> ('w, 'k) app \<Rightarrow> 'w \<Rightarrow> (go_error option \<times> ('w, 'k) app) \<times> 'w" where
  "Refresh env a w =
     (case refreshFromDocker env a w of
        ((Some err, a), w) \<Rightarrow> ((Some err, a), w)
      | ((None, a), w) \<Rightarrow> (case syncNetworkCertificates env a w of (a, w) \<Rightarrow> ((None, a), w)))"

definition setRoutingPaused :: "bool \<Rightarrow> ('w, 'k) app \<Rightarrow> go_error option \<times> ('w, 'k) app" where
  "setRoutingPaused paused a = (None, a\<lparr>app_reconciler := SetRoutingPaused paused (app_reconciler a)\<rparr>)"

text \<open>\<open>scan\<close> is the configuration's \<open>DockerScan\<close>, which is set whenever events are watched.\<close>

definition handleDockerEvent ::
  "('w, 'k) app_env \<Rightarrow> ('w \<Rightarrow> (go_error + container_state list) \<times> 'w) \<Rightarrow> string \<Rightarrow> ('w, 'k) app \<Rightarrow> 'w
     \<Rightarrow> ('w, 'k) app \<times> 'w" where
  "handleDockerEvent env scan action a w =
     (if \<not> isSupportedDockerEvent action then (a, w)
      else case scan w of
          (Inl err, w) \<Rightarrow>
            (recordWatcherIssue (ae_now env w) ''event-sync''
               (''sync '' @ action @ '' event: '' @ err) a, w)
        | (Inr containers, w) \<Rightarrow>
            if \<not> dwh_Connected (app_watcher a)
            then (case app_reconnect env containers w a of
                (Some err, a) \<Rightarrow> (recordWatcherIssue (ae_now env w) ''event-resync'' err a, w)
              | (None, a) \<Rightarrow> syncNetworkCertificates env a w)
            else (case watcher_HandleEvent (env_it (ae_net env)) (ae_now env w) action containers
                    (app_reconciler a, app_watcher a) of
                (err, r, h) \<Rightarrow>
                  (let a = a\<lparr>app_reconciler := r, app_watcher := h\<rparr> in
                   case err of
                     Some e \<Rightarrow> (recordIssue (ae_now env w) ''docker'' ''event-ignore'' e a, w)
                   | None \<Rightarrow> syncNetworkCertificates env a w)))"

definition resyncWatcher ::
  "('w, 'k) app_env \<Rightarrow> ('w \<Rightarrow> (go_error + container_state list) \<times> 'w) \<Rightarrow> ('w, 'k) app \<Rightarrow> 'w
     \<Rightarrow> (go_error option \<times> ('w, 'k) app) \<times> 'w" where
  "resyncWatcher env scan a w =
     (case scan w of
        (Inl err, w) \<Rightarrow> ((Some err, recordWatcherIssue (ae_now env w) ''reconnect-sync'' err a), w)
      | (Inr containers, w) \<Rightarrow>
          (case app_reconnect env containers w a of
             (Some err, a) \<Rightarrow> ((Some err, recordWatcherIssue (ae_now env w) ''reconnect-sync'' err a), w)
           | (None, a) \<Rightarrow> (case syncNetworkCertificates env a w of (a, w) \<Rightarrow> ((None, a), w))))"

section \<open>Starting and stopping\<close>

text \<open>What the sockets answer: the network listeners, and creating and starting the admin server.\<close>

record start_answers =
  sa_net :: os_net
  sa_NewServer :: "go_error option"
  sa_ServerStart :: "go_error option"
  sa_dns_shutdown :: "go_error option"
  sa_http_shutdown :: "shutdown_error option"
  sa_https_shutdown :: "shutdown_error option"

definition optional_effect :: "'w effect option \<Rightarrow> 'w effect" where
  "optional_effect f = (case f of None \<Rightarrow> Pair None | Some act \<Rightarrow> act)"

definition start_preflight ::
  "('w, 'k) app_env \<Rightarrow> ('w, 'k) app \<Rightarrow> 'w \<Rightarrow> (go_error option \<times> ('w, 'k) app) \<times> 'w" where
  "start_preflight env a w =
     (let (ping_err, w) = optional_effect (ac_DockerPing (app_cfg a)) w;
          a = (case ping_err of
                 None \<Rightarrow> a
               | Some err \<Rightarrow> recordWatcherIssue (ae_now env w) ''ping''
                   (''docker reachability check failed: '' @ err) a);
          ((refresh_err, a), w) = refreshFromDocker env a w
      in if refresh_err \<noteq> None \<and> ac_DockerScan (app_cfg a) = None then ((refresh_err, a), w)
         else
           (let (mkcert_err, w) = optional_effect (ac_EnsureMKCert (app_cfg a)) w in
            case mkcert_err of
              Some err \<Rightarrow> ((Some (''mkcert prerequisites failed: '' @ err), a), w)
            | None \<Rightarrow>
                (let (build_err, w) = optional_effect (ac_BuildNetworkRuntime (app_cfg a)) w;
                     a = (case build_err of
                            None \<Rightarrow> a
                          | Some err \<Rightarrow> recordIssue (ae_now env w) ''network'' ''startup-validation''
                              (''listener bind validation failed: '' @ err) a)
                 in ((None, a), w))))"

definition app_network_config :: "('w, 'k) app \<Rightarrow> (reconciler, 'w, 'k) network_config" where
  "app_network_config a = \<lparr>nc_ManagedSuffix = sc_ManagedSuffix (cfg_Serving (ac_Config (app_cfg a))),
     nc_Snapshot = Some Snapshot, nc_RoutingPaused = Some IsRoutingPaused, nc_Certificates = [],
     nc_StoredCertificates = [], nc_CertificateOutputDir = filepath_dir (ac_AdminSocketPath (app_cfg a)),
     nc_IssueCertificate = ac_IssueCertificate (app_cfg a), nc_DNSAddress = ac_DNSAddress (app_cfg a),
     nc_HTTPAddress = ac_HTTPAddress (app_cfg a), nc_HTTPSAddress = ac_HTTPSAddress (app_cfg a)\<rparr>"

definition start_servers ::
  "('w, 'k) app_env \<Rightarrow> start_answers \<Rightarrow> (reconciler, unit, 'w, 'k) network_runtime \<Rightarrow> ('w, 'k) app \<Rightarrow> 'w
     \<Rightarrow> go_error option \<times> ('w, 'k) app" where
  "start_servers env ans n a w =
     (let a = recordNetworkListenerIssues (ae_now env w) (Health (app_reconciler a) n)
            (a\<lparr>app_network := Some n\<rparr>);
          closed = a\<lparr>app_network := Some (snd (Close (sa_dns_shutdown ans) (sa_http_shutdown ans)
            (sa_https_shutdown ans) n))\<rparr>
      in case sa_NewServer ans of
           Some err \<Rightarrow> (Some err, closed)
         | None \<Rightarrow>
             (case sa_ServerStart ans of
                Some err \<Rightarrow> (Some (''start admin socket server: '' @ err), closed)
              | None \<Rightarrow> (None, a\<lparr>app_server := True, app_dashboard := True, app_dashCancel := True\<rparr>)))"

definition app_Start ::
  "('w, 'k) app_env \<Rightarrow> start_answers \<Rightarrow> ('w, 'k) app \<Rightarrow> 'w \<Rightarrow> (go_error option \<times> ('w, 'k) app) \<times> 'w" where
  "app_Start env ans a w =
     (case start_preflight env a w of
        ((Some err, a), w) \<Rightarrow> ((Some err, a), w)
      | ((None, a), w) \<Rightarrow>
          (case NewNetworkRuntime (ae_net env) (app_network_config a) (app_reconciler a) w of
             (Inl err, w) \<Rightarrow> ((Some (''build network runtime: '' @ err), a), w)
           | (Inr n, w) \<Rightarrow>
               (case Start (sa_net ans) n of
                  (Some err, n) \<Rightarrow> ((Some (''listener bind startup failed: '' @ err), a), w)
                | (None, n) \<Rightarrow> (start_servers env ans n a w, w))))"

text \<open>Closing the admin server cannot fail the daemon: its error is dropped.\<close>

definition app_Close ::
  "start_answers \<Rightarrow> ('w, 'k) app \<Rightarrow> go_error option \<times> ('w, 'k) app" where
  "app_Close ans a =
     (case app_network a of
        None \<Rightarrow> (None, a)
      | Some n \<Rightarrow>
          (case Close (sa_dns_shutdown ans) (sa_http_shutdown ans) (sa_https_shutdown ans) n of
             (err, n) \<Rightarrow> (err, a\<lparr>app_network := Some n\<rparr>)))"

section \<open>Startup services\<close>

definition role_status :: "startup_role \<Rightarrow> startup_role_status" where
  "role_status item = \<lparr>srs_Role = sr_Role item, srs_Domain = sr_Domain item, srs_Label = sr_Label item,
     srs_Installed = sr_Installed item, srs_Running = sr_Running item, srs_Toggleable = sr_Toggleable item,
     srs_StatusMessage = sr_StatusMessage item\<rparr>"

definition startupStatus ::
  "'x os_env \<Rightarrow> gui_env \<Rightarrow> string option \<Rightarrow> 'x sys \<Rightarrow> startup_role_status list \<times> 'x sys" where
  "startupStatus os g home s =
     (case StartupStatuses os g (DefaultPaths home) s of (items, s) \<Rightarrow> (map role_status items, s))"

definition zero_role_status :: startup_role_status where
  "zero_role_status = \<lparr>srs_Role = [], srs_Domain = [], srs_Label = [], srs_Installed = False,
     srs_Running = False, srs_Toggleable = False, srs_StatusMessage = []\<rparr>"

definition setStartupEnabled ::
  "'x os_env \<Rightarrow> gui_env \<Rightarrow> string option \<Rightarrow> go_time \<Rightarrow> string \<Rightarrow> bool \<Rightarrow> ('w, 'k) app \<Rightarrow> 'x sys
     \<Rightarrow> (startup_role_status \<times> go_error option) \<times> ('w, 'k) app \<times> 'x sys" where
  "setStartupEnabled os g home now role enabled a s =
     (if role \<noteq> ''daemon'' \<and> role \<noteq> ''menubar''
      then ((zero_role_status, Some (''unsupported startup role '' @ go_quote role)), a, s)
      else if role = ''daemon''
      then (let msg = ''daemon startup is managed by system launchd and cannot be toggled from UI'' in
        ((\<lparr>srs_Role = ''daemon'', srs_Domain = ''system'', srs_Label = ''com.devproxy.daemon'',
           srs_Installed = True, srs_Running = True, srs_Toggleable = False, srs_StatusMessage = msg\<rparr>,
          Some msg), recordIssue now ''daemon'' ''startup-toggle'' msg a, s))
      else case SetMenubarStartupEnabled os g (DefaultPaths home) enabled s of
          (Some err, s) \<Rightarrow> ((zero_role_status, Some err), recordIssue now role ''startup-toggle'' err a, s)
        | (None, s) \<Rightarrow>
            (case StartupStatuses os g (DefaultPaths home) s of
               (items, s) \<Rightarrow>
                 (case find (\<lambda>st. sr_Role st = role) items of
                    Some st \<Rightarrow> ((role_status st, None), a, s)
                  | None \<Rightarrow> ((zero_role_status\<lparr>srs_Role := role\<rparr>, None), a, s))))"

section \<open>The state the admin API reports\<close>

record state_snapshot =
  st_Snapshot :: snapshot
  st_Status :: status_view
  st_Doctor :: doctor_view
  st_Logs :: "log_event list"
  st_Issues :: "session_issue list"

definition zero_listener :: listener_health where
  "zero_listener = \<lparr>lh_Enabled = False, lh_Bound = False, lh_BindAddress = [], lh_LastError = []\<rparr>"

definition listener_view :: "listener_health \<Rightarrow> listener_status" where
  "listener_view h = \<lparr>lst_Enabled = lh_Enabled h, lst_Bound = lh_Bound h, lst_BindAddress = lh_BindAddress h,
     lst_LastError = lh_LastError h\<rparr>"

definition app_health :: "('w, 'k) app \<Rightarrow> network_health" where
  "app_health a =
     (case app_network a of
        Some n \<Rightarrow> Health (app_reconciler a) n
      | None \<Rightarrow> \<lparr>nh_DNS = zero_listener, nh_HTTP = zero_listener, nh_HTTPS = zero_listener,
          nh_Paused = False, nh_CertificateReady = False,
          nh_ManagedSuffix = sc_ManagedSuffix (cfg_Serving (ac_Config (app_cfg a)))\<rparr>)"

definition stateSnapshot ::
  "(string list \<Rightarrow> string list) \<Rightarrow> go_time \<Rightarrow> startup_role_status list \<Rightarrow> ('w, 'k) app \<Rightarrow> state_snapshot" where
  "stateSnapshot it now startupRoles a =
     (let snap = Snapshot (app_reconciler a);
          h = app_health a;
          watcher = app_watcher a;
          status = BuildStatus snap
            \<lparr>wh_Connected = dwh_Connected watcher, wh_LastDisconnect = dwh_LastDisconnect watcher,
             wh_LastReconnectSync = dwh_LastReconnectSync watcher\<rparr>
            (LastSync (app_reconciler a))
            (NetworkRuntimeStatusFromHealth \<lparr>anh_DNS = listener_view (nh_DNS h),
               anh_HTTP = listener_view (nh_HTTP h), anh_HTTPS = listener_view (nh_HTTPS h),
               anh_Paused = nh_Paused h, anh_CertificateReady = nh_CertificateReady h,
               anh_ManagedSuffix = nh_ManagedSuffix h\<rparr>);
          doctor = BuildDoctor snap \<lparr>nds_DNSHealthy = lh_Bound (nh_DNS h), nds_HTTPBound = lh_Bound (nh_HTTP h),
            nds_HTTPSBound = lh_Bound (nh_HTTPS h), nds_Paused = nh_Paused h,
            nds_CertificateReady = nh_CertificateReady h, nds_ManagedSuffix = nh_ManagedSuffix h\<rparr>;
          logs = BuildSessionEvents it now snap
      in \<lparr>st_Snapshot = snap, st_Status = status\<lparr>sv_StartupRoles := startupRoles\<rparr>, st_Doctor = doctor,
          st_Logs = logs, st_Issues = app_issues a\<rparr>)"

section \<open>Watching events\<close>

text \<open>
  \<open>watchDockerEvents\<close> goes through these phases. \<open>watch_connect\<close> is one round of its loop up to
  the consuming of events, given what connecting answered and whether the context is cancelled;
  \<open>watch_end\<close> is what follows when \<open>consumeDockerEvents\<close> returns.
\<close>

datatype watch_phase = Connecting | Streaming | Stopped

definition watch_connect ::
  "('w, 'k) app_env \<Rightarrow> ('w \<Rightarrow> (go_error + container_state list) \<times> 'w) \<Rightarrow> go_error option \<Rightarrow> bool
     \<Rightarrow> ('w, 'k) app \<Rightarrow> 'w \<Rightarrow> watch_phase \<times> ('w, 'k) app \<times> 'w" where
  "watch_connect env scan connect_err cancelled a w =
     (case connect_err of
        Some err \<Rightarrow>
          (if cancelled then (Stopped, a, w)
           else (Connecting, recordWatcherIssue (ae_now env w) ''events-connect'' err a, w))
      | None \<Rightarrow>
          (if \<not> dwh_Connected (app_watcher a)
           then (case resyncWatcher env scan a w of
               ((Some err, a), w) \<Rightarrow> (if cancelled then Stopped else Connecting, a, w)
             | ((None, a), w) \<Rightarrow> (Streaming, a, w))
           else (Streaming, a, w)))"

definition watch_end ::
  "('w, 'k) app_env \<Rightarrow> go_error option \<Rightarrow> bool \<Rightarrow> ('w, 'k) app \<Rightarrow> 'w \<Rightarrow> watch_phase \<times> ('w, 'k) app \<times> 'w" where
  "watch_end env consume_err cancelled a w =
     (case consume_err of
        None \<Rightarrow> (Stopped, a, w)
      | Some err \<Rightarrow>
          (if cancelled then (Stopped, a, w)
           else (Connecting, recordWatcherIssue (ae_now env w) ''events-stream'' err a, w)))"

text \<open>What \<open>consumeDockerEvents\<close> receives, and when it returns: \<open>Inl\<close> the result, \<open>Inr\<close> an
  event to handle.\<close>

datatype stream_item = ContextDone | ErrorItem "go_error option" | ErrorsClosed | EventItem string | EventsClosed

fun consume_item :: "stream_item \<Rightarrow> go_error option + string" where
  "consume_item ContextDone = Inl None"
| "consume_item (ErrorItem (Some err)) = Inl (Some err)"
| "consume_item (ErrorItem None) = Inl (Some ''docker event stream closed'')"
| "consume_item ErrorsClosed = Inl (Some ''docker event stream closed'')"
| "consume_item EventsClosed = Inl (Some ''docker event stream closed'')"
| "consume_item (EventItem action) = Inr action"

definition watch_item ::
  "('w, 'k) app_env \<Rightarrow> ('w \<Rightarrow> (go_error + container_state list) \<times> 'w) \<Rightarrow> stream_item \<Rightarrow> bool
     \<Rightarrow> ('w, 'k) app \<Rightarrow> 'w \<Rightarrow> watch_phase \<times> ('w, 'k) app \<times> 'w" where
  "watch_item env scan item cancelled a w =
     (case consume_item item of
        Inl result \<Rightarrow> watch_end env result cancelled a w
      | Inr action \<Rightarrow> (case handleDockerEvent env scan action a w of (a, w) \<Rightarrow> (Streaming, a, w)))"

end
