(* ===== verification/Daemon.thy ===== *)
theory Daemon
  imports App
begin

text \<open>
  The daemon as one state machine: starting, the admin API's requests, the event watcher and
  closing, interleaved in any order, whatever Docker, \<open>mkcert\<close> and the sockets answer. Each
  operation is atomic here; the code protects the reconciler, the network runtime and the issue
  log by a mutex each, not the sequence of calls one operation makes. The invariants say that the
  reconciler is in a state it can reach by its own operations from the scans the daemon made, that
  the network runtime is, and that both listeners read the daemon's reconciler.
\<close>

section \<open>The step relation\<close>

text \<open>What a scan leaves as the last list of containers known.\<close>

definition synced_after ::
  "go_error + container_state list \<Rightarrow> container_state list \<Rightarrow> container_state list" where
  "synced_after answer cs = (case answer of Inl _ \<Rightarrow> cs | Inr cs' \<Rightarrow> cs')"

definition refresh_after :: "'w app_config \<Rightarrow> 'w \<Rightarrow> container_state list \<Rightarrow> container_state list" where
  "refresh_after cfg w cs =
     (case ac_DockerScan cfg of None \<Rightarrow> [] | Some scan \<Rightarrow> synced_after (fst (scan w)) cs)"

definition watcher_starts :: "'w app_config \<Rightarrow> watch_phase" where
  "watcher_starts cfg = (if ac_DockerEvents cfg \<and> ac_DockerScan cfg \<noteq> None then Connecting else Stopped)"

text \<open>
  \<open>daemon_runs env cfg cs phase a\<close>: the daemon created with \<open>cfg\<close> can get to state \<open>a\<close>, its
  watcher being in \<open>phase\<close>, and \<open>cs\<close> is what the last successful scan found. The outside world
  may be any world at every step.
\<close>

inductive daemon_runs ::
  "('w, 'k) app_env \<Rightarrow> 'w app_config \<Rightarrow> container_state list \<Rightarrow> watch_phase \<Rightarrow> ('w, 'k) app \<Rightarrow> bool"
  for env cfg where
  new: "daemon_runs env cfg [] Stopped (NewApp env cfg w)"
| start: "daemon_runs env cfg cs Stopped a \<Longrightarrow> app_network a = None \<Longrightarrow>
     app_Start env ans a w = ((err, a'), w') \<Longrightarrow>
     daemon_runs env cfg (refresh_after (app_cfg a) (snd (optional_effect (ac_DockerPing (app_cfg a)) w)) cs)
       (if err = None then watcher_starts (app_cfg a) else Stopped) a'"
| refresh: "daemon_runs env cfg cs phase a \<Longrightarrow> Refresh env a w = ((err, a'), w') \<Longrightarrow>
     daemon_runs env cfg (refresh_after (app_cfg a) w cs) phase a'"
| pause: "daemon_runs env cfg cs phase a \<Longrightarrow> daemon_runs env cfg cs phase (snd (setRoutingPaused b a))"
| toggle: "daemon_runs env cfg cs phase a \<Longrightarrow>
     setStartupEnabled os g home now role enabled a (s :: 'w sys) = (res, a', s') \<Longrightarrow> daemon_runs env cfg cs phase a'"
| connect: "daemon_runs env cfg cs Connecting a \<Longrightarrow> ac_DockerScan (app_cfg a) = Some scan \<Longrightarrow>
     watch_connect env scan err cancelled a w = (phase, a', w') \<Longrightarrow>
     daemon_runs env cfg (if err = None \<and> \<not> dwh_Connected (app_watcher a)
       then synced_after (fst (scan w)) cs else cs) phase a'"
| receive: "daemon_runs env cfg cs Streaming a \<Longrightarrow> ac_DockerScan (app_cfg a) = Some scan \<Longrightarrow>
     watch_item env scan item cancelled a w = (phase, a', w') \<Longrightarrow>
     daemon_runs env cfg (case consume_item item of
         Inr action \<Rightarrow> if isSupportedDockerEvent action then synced_after (fst (scan w)) cs else cs
       | Inl _ \<Rightarrow> cs) phase a'"
| cancelled: "daemon_runs env cfg cs Connecting a \<Longrightarrow> daemon_runs env cfg cs Stopped a"
| dashboard_failed: "daemon_runs env cfg cs phase a \<Longrightarrow>
     daemon_runs env cfg cs phase (recordIssue now ''dashboard'' ''start'' err a)"
| close: "daemon_runs env cfg cs phase a \<Longrightarrow> daemon_runs env cfg cs phase (snd (app_Close ans a))"

section \<open>What each operation leaves alone\<close>

lemma recordIssue_frame [simp]:
  "app_cfg (recordIssue now role action msg a) = app_cfg a"
  "app_reconciler (recordIssue now role action msg a) = app_reconciler a"
  "app_watcher (recordIssue now role action msg a) = app_watcher a"
  "app_network (recordIssue now role action msg a) = app_network a"
  "app_server (recordIssue now role action msg a) = app_server a"
  "app_dashboard (recordIssue now role action msg a) = app_dashboard a"
  by (simp_all add: recordIssue_def Let_def)

lemma recordIssue_issues:
  "app_issues (recordIssue now role action msg a) =
     (let issues = app_issues a @ [\<lparr>si_Timestamp = now, si_Role = role, si_Action = action, si_Message = msg\<rparr>]
      in drop (length issues - SessionIssueLimit) issues)"
  by (simp add: recordIssue_def Let_def)

lemma recordIssue_bound [simp]:
  "length (app_issues (recordIssue now role action msg a)) \<le> SessionIssueLimit"
  by (simp add: recordIssue_issues Let_def)

lemma recordWatcherIssue_frame [simp]:
  "app_cfg (recordWatcherIssue now action err a) = app_cfg a"
  "app_reconciler (recordWatcherIssue now action err a) = app_reconciler a"
  "app_network (recordWatcherIssue now action err a) = app_network a"
  "app_server (recordWatcherIssue now action err a) = app_server a"
  "app_dashboard (recordWatcherIssue now action err a) = app_dashboard a"
  "dwh_Connected (app_watcher (recordWatcherIssue now action err a)) = False"
  "length (app_issues (recordWatcherIssue now action err a)) \<le> SessionIssueLimit"
  by (simp_all add: recordWatcherIssue_def OnDisconnect_def)

lemma listener_issue_frame [simp]:
  "app_cfg (listener_issue now role h a) = app_cfg a"
  "app_reconciler (listener_issue now role h a) = app_reconciler a"
  "app_watcher (listener_issue now role h a) = app_watcher a"
  "app_network (listener_issue now role h a) = app_network a"
  "length (app_issues a) \<le> SessionIssueLimit \<Longrightarrow>
     length (app_issues (listener_issue now role h a)) \<le> SessionIssueLimit"
  by (simp_all add: listener_issue_def)

lemma app_reconnect_eq:
  "app_reconnect env cs w a =
     (None, a\<lparr>app_reconciler := snd (RebuildSnapshot (env_it (ae_net env)) (ae_now env w) cs (app_reconciler a)),
        app_watcher := (app_watcher a)\<lparr>dwh_Connected := True, dwh_LastReconnectSync := ae_now env w\<rparr>\<rparr>)"
  by (simp add: app_reconnect_def OnReconnect_def RebuildSnapshot_eq Let_def)

text \<open>The effects of a synchronisation, of a certificate refresh, and of a failure on the state.\<close>

definition rebuilt :: "('w, 'k) app_env \<Rightarrow> container_state list \<Rightarrow> go_time \<Rightarrow> ('w, 'k) app \<Rightarrow> reconciler" where
  "rebuilt env cs now a = snd (RebuildSnapshot (env_it (ae_net env)) now cs (app_reconciler a))"

lemma refreshFromDocker_cases:
  assumes "refreshFromDocker env a w = ((err, a'), w')"
  obtains (failed) scan e where "ac_DockerScan (app_cfg a) = Some scan" and "scan w = (Inl e, w')"
      and "err = Some (''docker container sync failed: '' @ e)"
      and "a' = recordIssue (ae_now env w') ''docker'' ''scan'' e
        (a\<lparr>app_watcher := OnDisconnect (ae_now env w') (app_watcher a)\<rparr>)"
    | (synced) cs where "err = None"
      and "(ac_DockerScan (app_cfg a) = None \<and> cs = [] \<and> w' = w) \<or>
        (\<exists>scan. ac_DockerScan (app_cfg a) = Some scan \<and> scan w = (Inr cs, w'))"
      and "a' = a\<lparr>app_reconciler := rebuilt env cs (ae_now env w') a,
        app_watcher := (app_watcher a)\<lparr>dwh_Connected := True, dwh_LastReconnectSync := ae_now env w'\<rparr>\<rparr>"
proof (cases "ac_DockerScan (app_cfg a)")
  case None
  with assms show ?thesis
    by (intro synced [of "[]"]) (auto simp: refreshFromDocker_def app_reconnect_eq rebuilt_def)
next
  case (Some scan)
  obtain answer w'' where scan: "scan w = (answer, w'')" by (metis prod.exhaust)
  show ?thesis
  proof (cases answer)
    case (Inl e)
    with assms Some scan show ?thesis
      by (intro failed [of scan e]) (auto simp: refreshFromDocker_def)
  next
    case (Inr cs)
    with assms Some scan show ?thesis
      by (intro synced [of cs]) (auto simp: refreshFromDocker_def app_reconnect_eq rebuilt_def)
  qed
qed

lemma sync_frame:
  "app_cfg (fst (syncNetworkCertificates env a w)) = app_cfg a"
  "app_reconciler (fst (syncNetworkCertificates env a w)) = app_reconciler a"
  "app_watcher (fst (syncNetworkCertificates env a w)) = app_watcher a"
  "app_server (fst (syncNetworkCertificates env a w)) = app_server a"
  by (simp_all add: syncNetworkCertificates_def split: option.split prod.split)


lemma sync_network:
  "app_network (fst (syncNetworkCertificates env a w)) =
     map_option (\<lambda>n. snd (fst (RefreshCertificates (ae_net env) (app_reconciler a) w n))) (app_network a)"
  by (simp add: syncNetworkCertificates_def split: option.split prod.split)

lemma sync_issues:
  "length (app_issues a) \<le> SessionIssueLimit \<Longrightarrow>
     length (app_issues (fst (syncNetworkCertificates env a w))) \<le> SessionIssueLimit"
  by (simp add: syncNetworkCertificates_def split: option.split prod.split)


section \<open>The invariants\<close>

definition effective_suffix :: "'w app_config \<Rightarrow> string" where
  "effective_suffix cfg =
     (let s = sc_ManagedSuffix (cfg_Serving (ac_Config cfg)) in if s = [] then cfg_DomainSuffix (ac_Config cfg) else s)"

text \<open>Both proxies and the DNS server read the daemon's reconciler.\<close>

definition daemon_handler :: "string \<Rightarrow> (reconciler, 't) http_handler" where
  "daemon_handler suffix = NewHTTPHandler \<lparr>hc_ManagedSuffix = suffix, hc_Snapshot = Some Snapshot,
     hc_RoutingPaused = Some IsRoutingPaused, hc_Transport = None\<rparr>"

definition wired :: "string \<Rightarrow> (reconciler, 't, 'w, 'k) network_runtime \<Rightarrow> bool" where
  "wired suffix n \<longleftrightarrow>
     nr_managedSuffix n = suffix \<and> nr_readSnapshot n = Snapshot \<and> nr_readPaused n = IsRoutingPaused \<and>
     nr_httpHandler n = daemon_handler suffix \<and> tl_handler (nr_httpsHandler n) = daemon_handler suffix \<and>
     tl_dnsLookup (nr_httpsHandler n) = NewServer suffix (Some Snapshot) \<and>
     (nr_dnsServer n = None \<or> nr_dnsServer n = Some (NewServer suffix (Some Snapshot)))"

lemma wired_new:
  assumes "NewNetworkRuntime env (app_network_config a) st w = (Inr n, w')"
  shows "wired (sc_ManagedSuffix (cfg_Serving (ac_Config (app_cfg a)))) n"
  using assms
  by (auto simp: NewNetworkRuntime_def app_network_config_def wired_def daemon_handler_def
      NewHTTPSListener_def Let_def split: prod.splits option.splits sum.splits)

lemma wired_Start: "wired suffix n \<Longrightarrow> wired suffix (snd (Start os n))"
  by (simp add: Start_def start_http_def start_https_def wired_def Let_def split: sum.split)

lemma wired_Close: "wired suffix n \<Longrightarrow> wired suffix (snd (Close e1 e2 e3 n))"
  by (simp add: Close_def stopDNSServerLocked_def wired_def Let_def)

lemma wired_Refresh: "wired suffix n \<Longrightarrow> wired suffix (snd (fst (RefreshCertificates env st w n)))"
  by (simp add: RefreshCertificates_def ReplaceCertificates_def wired_def SetCertificateReady_def
      split: prod.split option.split sum.split)

definition network_ok :: "('w, 'k) app_env \<Rightarrow> 'w app_config \<Rightarrow> ('w, 'k) app \<Rightarrow> bool" where
  "network_ok env cfg a \<longleftrightarrow> (\<forall>n. app_network a = Some n \<longrightarrow> runs (ae_net env) n \<and> wired (effective_suffix cfg) n)"

definition daemon_inv ::
  "('w, 'k) app_env \<Rightarrow> 'w app_config \<Rightarrow> container_state list \<Rightarrow> ('w, 'k) app \<Rightarrow> bool" where
  "daemon_inv env cfg cs a \<longleftrightarrow>
     reaches (app_options (ac_Config cfg)) cs (app_reconciler a) \<and> network_ok env cfg a \<and>
     length (app_issues a) \<le> SessionIssueLimit \<and>
     ac_DockerScan (app_cfg a) = ac_DockerScan cfg \<and> ac_DockerPing (app_cfg a) = ac_DockerPing cfg \<and>
     sc_ManagedSuffix (cfg_Serving (ac_Config (app_cfg a))) = effective_suffix cfg"

lemma daemon_inv_recordIssue:
  "daemon_inv env cfg cs a \<Longrightarrow> daemon_inv env cfg cs (recordIssue now role action msg a)"
  by (simp add: daemon_inv_def network_ok_def)

lemma daemon_inv_watcher: "daemon_inv env cfg cs (app_watcher_update f a) = daemon_inv env cfg cs a"
  by (simp add: daemon_inv_def network_ok_def)

lemma daemon_inv_recordWatcherIssue:
  "daemon_inv env cfg cs a \<Longrightarrow> daemon_inv env cfg cs (recordWatcherIssue now action err a)"
  by (simp add: recordWatcherIssue_def daemon_inv_recordIssue daemon_inv_watcher)

lemma daemon_inv_listener_issue:
  "daemon_inv env cfg cs a \<Longrightarrow> daemon_inv env cfg cs (listener_issue now role h a)"
  by (simp add: listener_issue_def daemon_inv_recordIssue)

lemma daemon_inv_rebuild:
  "daemon_inv env cfg cs a \<Longrightarrow> rearranges (env_it (ae_net env)) \<Longrightarrow>
     daemon_inv env cfg cs' (a\<lparr>app_reconciler :=
       snd (RebuildSnapshot (env_it (ae_net env)) now cs' (app_reconciler a))\<rparr>)"
  by (auto simp: daemon_inv_def network_ok_def intro: reaches.rebuild)

lemma daemon_inv_reconnect:
  assumes "daemon_inv env cfg cs a" and "rearranges (env_it (ae_net env))"
  shows "daemon_inv env cfg cs' (snd (app_reconnect env cs' w a))"
  unfolding app_reconnect_eq snd_conv
  using daemon_inv_rebuild [OF assms, of cs' "ae_now env w"] by (simp add: daemon_inv_watcher)

lemma daemon_inv_sync:
  assumes "daemon_inv env cfg cs a"
  shows "daemon_inv env cfg cs (fst (syncNetworkCertificates env a w))"
  using assms
  by (auto simp: daemon_inv_def network_ok_def sync_frame sync_network sync_issues
      intro: runs.refresh wired_Refresh)

lemma daemon_inv_refreshFromDocker:
  assumes "daemon_inv env cfg cs a" and "rearranges (env_it (ae_net env))"
  shows "daemon_inv env cfg (refresh_after (app_cfg a) w cs) (snd (fst (refreshFromDocker env a w)))"
  using assms
  by (simp add: refreshFromDocker_def refresh_after_def synced_after_def daemon_inv_recordIssue
      daemon_inv_watcher daemon_inv_reconnect split: option.split prod.split sum.split)


lemma daemon_inv_NewApp:
  assumes "rearranges (env_it (ae_net env))"
  shows "daemon_inv env cfg [] (NewApp env cfg w)"
  using reaches.rebuild [OF reaches.new assms]
  by (simp add: daemon_inv_def network_ok_def NewApp_def effective_suffix_def Let_def)

lemma refreshFromDocker_network:
  "app_network (snd (fst (refreshFromDocker env a w))) = app_network a"
  "app_cfg (snd (fst (refreshFromDocker env a w))) = app_cfg a"
  "app_server (snd (fst (refreshFromDocker env a w))) = app_server a"
  by (simp_all add: refreshFromDocker_def app_reconnect_eq split: option.split prod.split sum.split)

lemma daemon_inv_preflight:
  assumes "daemon_inv env cfg cs a" and "rearranges (env_it (ae_net env))"
    and "start_preflight env a w = ((err, a'), w')"
  shows "daemon_inv env cfg
      (refresh_after (app_cfg a) (snd (optional_effect (ac_DockerPing (app_cfg a)) w)) cs) a'"
    "app_network a' = app_network a" "app_server a' = app_server a"
proof -
  obtain ping_err w1 where ping: "optional_effect (ac_DockerPing (app_cfg a)) w = (ping_err, w1)"
    by force
  define b where "b = (case ping_err of None \<Rightarrow> a
    | Some err \<Rightarrow> recordWatcherIssue (ae_now env w1) ''ping''
        (''docker reachability check failed: '' @ err) a)"
  have b: "daemon_inv env cfg cs b" "app_network b = app_network a" "app_cfg b = app_cfg a"
    "app_server b = app_server a"
    using assms(1) by (simp_all add: b_def daemon_inv_recordWatcherIssue split: option.split)
  obtain re c w2 where scan: "refreshFromDocker env b w1 = ((re, c), w2)" by (metis prod.exhaust)
  have c: "daemon_inv env cfg (refresh_after (app_cfg a) w1 cs) c" "app_network c = app_network a"
    "app_server c = app_server a" "app_cfg c = app_cfg a"
    using daemon_inv_refreshFromDocker [OF b(1) assms(2), of w1] refreshFromDocker_network [of env b w1] b scan
    by simp_all
  have "a' = c \<or> (\<exists>now msg. a' = recordIssue now ''network'' ''startup-validation'' msg c)"
    using assms(3)
    by (simp add: start_preflight_def ping scan Let_def flip: b_def)
      (auto split: if_splits prod.splits option.splits)
  with c ping show "daemon_inv env cfg
      (refresh_after (app_cfg a) (snd (optional_effect (ac_DockerPing (app_cfg a)) w)) cs) a'"
    "app_network a' = app_network a" "app_server a' = app_server a"
    by (auto simp: daemon_inv_recordIssue)
qed


lemma daemon_inv_network:
  "daemon_inv env cfg cs a \<Longrightarrow> runs (ae_net env) n \<Longrightarrow> wired (effective_suffix cfg) n \<Longrightarrow>
     daemon_inv env cfg cs (a\<lparr>app_network := Some n\<rparr>)"
  by (simp add: daemon_inv_def network_ok_def)

lemma daemon_inv_started:
  "daemon_inv env cfg cs a \<Longrightarrow>
     daemon_inv env cfg cs (a\<lparr>app_server := True, app_dashboard := True, app_dashCancel := True\<rparr>)"
  by (simp add: daemon_inv_def network_ok_def)

lemma recordNetworkListenerIssues_frame [simp]:
  "app_network (recordNetworkListenerIssues now h a) = app_network a"
  "app_cfg (recordNetworkListenerIssues now h a) = app_cfg a"
  "app_reconciler (recordNetworkListenerIssues now h a) = app_reconciler a"
  by (simp_all add: recordNetworkListenerIssues_def)

lemma listener_issue_server [simp]: "app_server (listener_issue now role h a) = app_server a"
  by (simp add: listener_issue_def)

text \<open>The two ways the last part of \<open>Start\<close> ends.\<close>

lemma start_servers_cases:
  assumes "start_servers env ans n a w = (err, a')"
  defines "b \<equiv> recordNetworkListenerIssues (ae_now env w) (Health (app_reconciler a) n)
      (a\<lparr>app_network := Some n\<rparr>)"
  shows "(err = None \<and> a' = b\<lparr>app_server := True, app_dashboard := True, app_dashCancel := True\<rparr>) \<or>
    (err \<noteq> None \<and> a' = b\<lparr>app_network := Some (snd (Close (sa_dns_shutdown ans) (sa_http_shutdown ans)
        (sa_https_shutdown ans) n))\<rparr>)"
  using assms(1)
  by (simp add: start_servers_def Let_def flip: b_def) (auto split: option.splits)

lemma daemon_inv_start_servers:
  assumes "daemon_inv env cfg cs a" and "runs (ae_net env) n" and "wired (effective_suffix cfg) n"
    and "start_servers env ans n a w = (err, a')"
  shows "daemon_inv env cfg cs a'"
proof -
  let ?b = "recordNetworkListenerIssues (ae_now env w) (Health (app_reconciler a) n)
      (a\<lparr>app_network := Some n\<rparr>)"
  have "daemon_inv env cfg cs ?b"
    using daemon_inv_network [OF assms(1-3)]
    by (simp add: recordNetworkListenerIssues_def daemon_inv_listener_issue)
  with start_servers_cases [OF assms(4)] assms(2,3) show ?thesis
    by (auto intro!: daemon_inv_started daemon_inv_network runs.close wired_Close)
qed

lemma app_Start_cases:
  fixes env :: "('w, 'k) app_env"
  assumes "app_Start env ans a w = ((err, a'), w')"
  obtains (preflight) "start_preflight env a w = ((err, a'), w')" and "err \<noteq> None"
    | (no_runtime) w1 where "start_preflight env a w = ((None, a'), w1)" and "err \<noteq> None"
    | (no_dns) w1 n where "start_preflight env a w = ((None, a'), w1)" and "err \<noteq> None"
    | (servers) b w1 n w2 where "start_preflight env a w = ((None, b), w1)"
      and "NewNetworkRuntime (ae_net env) (app_network_config b) (app_reconciler b) w1 = (Inr n, w2)"
      and "fst (Start (sa_net ans) n) = None"
      and "start_servers env ans (snd (Start (sa_net ans) n)) b w2 = (err, a')"
proof -
  obtain e b w1 where pre: "start_preflight env a w = ((e, b), w1)" by (metis prod.exhaust)
  show ?thesis
  proof (cases e)
    case (Some msg)
    with assms pre that(1) show ?thesis by (auto simp: app_Start_def)
  next
    case None
    obtain r :: "go_error + (reconciler, unit, 'w, 'k) network_runtime" and w2 where new: "NewNetworkRuntime (ae_net env) (app_network_config b) (app_reconciler b) w1 = (r, w2)"
      by (metis prod.exhaust)
    show ?thesis
    proof (cases r)
      case (Inl msg)
      with assms pre new None that(2) show ?thesis by (auto simp: app_Start_def)
    next
      case (Inr n)
      obtain se m where start: "Start (sa_net ans) n = (se, m)" by (metis prod.exhaust)
      show ?thesis
      proof (cases se)
        case (Some msg)
        with assms pre new None Inr start that(3) show ?thesis by (auto simp: app_Start_def)
      next
        case se: None
        with assms pre new None Inr start that(4) show ?thesis by (auto simp: app_Start_def)
      qed
    qed
  qed
qed

lemma daemon_inv_Start:
  assumes "daemon_inv env cfg cs a" and "rearranges (env_it (ae_net env))"
    and "app_Start env ans a w = ((err, a'), w')"
  shows "daemon_inv env cfg
      (refresh_after (app_cfg a) (snd (optional_effect (ac_DockerPing (app_cfg a)) w)) cs) a'"
  using assms(3)
proof (cases rule: app_Start_cases)
  case (servers b w1 n w2)
  note inv = daemon_inv_preflight(1) [OF assms(1,2) servers(1)]
  have "runs (ae_net env) (snd (Start (sa_net ans) n))"
    by (rule runs.start [OF runs.new [OF servers(2)]])
  moreover have "wired (effective_suffix cfg) (snd (Start (sa_net ans) n))"
    using wired_Start [OF wired_new [OF servers(2)]] inv by (simp add: daemon_inv_def)
  ultimately show ?thesis by (rule daemon_inv_start_servers [OF inv _ _ servers(4)])
qed (use daemon_inv_preflight(1) [OF assms(1,2)] in blast)+


lemma daemon_inv_Refresh:
  assumes "daemon_inv env cfg cs a" and "rearranges (env_it (ae_net env))"
    and "Refresh env a w = ((err, a'), w')"
  shows "daemon_inv env cfg (refresh_after (app_cfg a) w cs) a'"
proof -
  obtain e b w1 where refresh: "refreshFromDocker env a w = ((e, b), w1)" by (metis prod.exhaust)
  then have b: "daemon_inv env cfg (refresh_after (app_cfg a) w cs) b"
    using daemon_inv_refreshFromDocker [OF assms(1,2), of w] by simp
  show ?thesis
  proof (cases e)
    case None
    with assms(3) refresh have "a' = fst (syncNetworkCertificates env b w1)"
      by (simp add: Refresh_def split: prod.splits)
    with daemon_inv_sync [OF b] show ?thesis by simp
  next
    case (Some msg)
    with assms(3) refresh b show ?thesis by (simp add: Refresh_def)
  qed
qed

lemma daemon_inv_event:
  assumes "daemon_inv env cfg cs a" and "rearranges (env_it (ae_net env))"
  shows "daemon_inv env cfg
    (if isSupportedDockerEvent action then synced_after (fst (scan w)) cs else cs)
    (fst (handleDockerEvent env scan action a w))"
proof (cases "isSupportedDockerEvent action")
  case True
  obtain answer w1 where scan: "scan w = (answer, w1)" by force
  show ?thesis
  proof (cases answer)
    case (Inl err)
    with True scan assms(1) show ?thesis
      by (simp add: handleDockerEvent_def synced_after_def daemon_inv_recordWatcherIssue)
  next
    case (Inr found)
    have ev: "action \<in> set rebuild_events"
      using True by (simp add: isSupportedDockerEvent_def supportedDockerEvents_def rebuild_events_def)
    let ?r = "snd (RebuildSnapshot (env_it (ae_net env)) (ae_now env w1) found (app_reconciler a))"
    have inv: "daemon_inv env cfg found (a\<lparr>app_reconciler := ?r\<rparr>)"
      by (rule daemon_inv_rebuild [OF assms])
    show ?thesis
    proof (cases "dwh_Connected (app_watcher a)")
      case connected: True
      have "fst (handleDockerEvent env scan action a w) =
          fst (syncNetworkCertificates env (a\<lparr>app_reconciler := ?r, app_watcher := app_watcher a\<rparr>) w1)"
        using True connected scan Inr ev
        by (simp add: handleDockerEvent_def watcher_HandleEvent_def HandleEvent_def RebuildSnapshot_eq Let_def)
      then show ?thesis
        using True scan Inr inv by (simp add: synced_after_def daemon_inv_sync daemon_inv_watcher)
    next
      case False
      have "fst (handleDockerEvent env scan action a w) =
          fst (syncNetworkCertificates env (snd (app_reconnect env found w1 a)) w1)"
        using True False scan Inr by (simp add: handleDockerEvent_def app_reconnect_eq)
      then show ?thesis
        using True scan Inr daemon_inv_reconnect [OF assms, of found w1]
        by (simp add: synced_after_def daemon_inv_sync)
    qed
  qed
qed (use assms in \<open>simp add: handleDockerEvent_def\<close>)

lemma daemon_inv_resync:
  assumes "daemon_inv env cfg cs a" and "rearranges (env_it (ae_net env))"
  shows "daemon_inv env cfg (synced_after (fst (scan w)) cs) (snd (fst (resyncWatcher env scan a w)))"
proof -
  obtain answer w1 where scan: "scan w = (answer, w1)" by force
  show ?thesis
  proof (cases answer)
    case (Inl err)
    with scan assms(1) show ?thesis
      by (simp add: resyncWatcher_def synced_after_def daemon_inv_recordWatcherIssue)
  next
    case (Inr found)
    have "snd (fst (resyncWatcher env scan a w)) =
        fst (syncNetworkCertificates env (snd (app_reconnect env found w1 a)) w1)"
      using scan Inr by (simp add: resyncWatcher_def app_reconnect_eq split: prod.split)
    then show ?thesis
      using scan Inr daemon_inv_reconnect [OF assms, of found w1]
      by (simp add: synced_after_def daemon_inv_sync)
  qed
qed

lemma daemon_inv_connect:
  assumes "daemon_inv env cfg cs a" and "rearranges (env_it (ae_net env))"
  shows "daemon_inv env cfg
    (if err = None \<and> \<not> dwh_Connected (app_watcher a) then synced_after (fst (scan w)) cs else cs)
    (fst (snd (watch_connect env scan err cancelled a w)))"
proof (cases "err = None \<and> \<not> dwh_Connected (app_watcher a)")
  case True
  then have "fst (snd (watch_connect env scan err cancelled a w)) = snd (fst (resyncWatcher env scan a w))"
    by (simp add: watch_connect_def split: prod.split option.split)
  with True daemon_inv_resync [OF assms] show ?thesis by simp
next
  case False
  with assms(1) show ?thesis
    by (auto simp: watch_connect_def daemon_inv_recordWatcherIssue split: option.split)
qed

lemma daemon_inv_item:
  assumes "daemon_inv env cfg cs a" and "rearranges (env_it (ae_net env))"
  shows "daemon_inv env cfg (case consume_item item of
       Inr action \<Rightarrow> if isSupportedDockerEvent action then synced_after (fst (scan w)) cs else cs
     | Inl _ \<Rightarrow> cs) (fst (snd (watch_item env scan item cancelled a w)))"
proof (cases "consume_item item")
  case (Inl result)
  with assms(1) show ?thesis
    by (simp add: watch_item_def watch_end_def daemon_inv_recordWatcherIssue split: option.split)
next
  case (Inr action)
  have "fst (snd (watch_item env scan item cancelled a w)) = fst (handleDockerEvent env scan action a w)"
    by (simp add: watch_item_def Inr split: prod.split)
  with daemon_inv_event [OF assms, of action scan w] Inr show ?thesis by simp
qed

lemma daemon_inv_pause:
  "daemon_inv env cfg cs a \<Longrightarrow> daemon_inv env cfg cs (snd (setRoutingPaused b a))"
  by (auto simp: daemon_inv_def network_ok_def setRoutingPaused_def intro: reaches.pause)

lemma setStartupEnabled_app:
  assumes "setStartupEnabled os g home now role enabled a s = (res, a', s')"
  shows "a' = a \<or> (\<exists>role msg. a' = recordIssue now role ''startup-toggle'' msg a)"
  using assms
  by (auto simp: setStartupEnabled_def Let_def split: if_splits prod.splits option.splits)

lemma daemon_inv_Close:
  assumes "daemon_inv env cfg cs a"
  shows "daemon_inv env cfg cs (snd (app_Close ans a))"
proof (cases "app_network a")
  case (Some n)
  then have "runs (ae_net env) n" "wired (effective_suffix cfg) n"
    using assms by (simp_all add: daemon_inv_def network_ok_def)
  with Some assms show ?thesis
    by (simp add: app_Close_def daemon_inv_network runs.close wired_Close split: prod.split)
      (metis daemon_inv_network runs.close snd_conv wired_Close)
qed (use assms in \<open>simp add: app_Close_def\<close>)

lemma daemon_runs_inv:
  assumes "daemon_runs env cfg cs phase a" and "rearranges (env_it (ae_net env))"
  shows "daemon_inv env cfg cs a"
  using assms(1)
proof (induction rule: daemon_runs.induct)
  case (toggle cs phase a os g home now role enabled s res a' s')
  then show ?case using setStartupEnabled_app [OF toggle(2)] by (auto intro: daemon_inv_recordIssue)
next
  case (connect cs a scan err cancelled w phase a' w')
  then show ?case using daemon_inv_connect [OF connect.IH assms(2), of err scan w cancelled] by simp
next
  case (receive cs a scan item cancelled w phase a' w')
  then show ?case using daemon_inv_item [OF receive.IH assms(2), of scan w item cancelled] by simp
next
  case (start cs a ans w err a' w')
  then show ?case using daemon_inv_Start [OF _ assms(2)] by blast
next
  case (refresh cs phase a w err a' w')
  then show ?case using daemon_inv_Refresh [OF _ assms(2)] by blast
qed (simp_all add: assms(2) daemon_inv_NewApp daemon_inv_pause daemon_inv_recordIssue daemon_inv_Close)


section \<open>A daemon for the witnesses\<close>

text \<open>The world counts: container \<open>acme-rival-1\<close> is up from moment 1 on, and Docker answers no
  scan at moment 9.\<close>

definition acme_scan :: "nat \<Rightarrow> (go_error + container_state list) \<times> nat" where
  "acme_scan w = (if w = 9 then Inl ''docker is down''
     else Inr (if w = 0 then [api_container] else [api_container, rival_container]), w)"

definition acme_app_env :: "(nat, unit) app_env" where
  "acme_app_env = \<lparr>ae_net = acme_env, ae_now = At\<rparr>"

definition acme_app_config :: "nat app_config" where
  "acme_app_config = \<lparr>ac_AdminSocketPath = [], ac_DashboardAddress = [], ac_DNSAddress = [],
     ac_HTTPAddress = [], ac_HTTPSAddress = [], ac_Config = DefaultConfig, ac_DockerPing = None,
     ac_DockerScan = Some acme_scan, ac_DockerEvents = True, ac_EnsureMKCert = None,
     ac_IssueCertificate = Some (\<lambda>dir sans w. (Inr \<lparr>issued_ProjectRoot = hd sans, issued_SANs = sans,
       issued_CertPath = ''c.pem'', issued_KeyPath = ''k.pem''\<rparr>, w)),
     ac_BuildNetworkRuntime = None\<rparr>"

definition quiet_answers :: start_answers where
  "quiet_answers = \<lparr>sa_net = port_80_taken, sa_NewServer = None, sa_ServerStart = None,
     sa_dns_shutdown = None, sa_http_shutdown = None, sa_https_shutdown = None\<rparr>"

definition acme_started :: "(go_error option \<times> (nat, unit) app) \<times> nat" where
  "acme_started = app_Start acme_app_env quiet_answers (NewApp acme_app_env acme_app_config 0) 0"

definition acme_daemon :: "(nat, unit) app" where
  "acme_daemon = snd (fst acme_started)"

lemma acme_env_rearranges: "rearranges (env_it (ae_net acme_app_env))"
  by (simp add: acme_app_env_def acme_env_def)

lemma acme_started_ok: "fst (fst acme_started) = None"
  by code_simp

lemma acme_daemon_runs: "daemon_runs acme_app_env acme_app_config [api_container] Connecting acme_daemon"
proof -
  let ?a = "NewApp acme_app_env acme_app_config 0"
  have fresh: "app_network ?a = None" by (simp add: NewApp_def Let_def)
  have scan: "ac_DockerScan (app_cfg ?a) = Some acme_scan" "ac_DockerPing (app_cfg ?a) = None"
    "ac_DockerEvents (app_cfg ?a)"
    by (simp_all add: NewApp_def acme_app_config_def Let_def)
  have "app_Start acme_app_env quiet_answers ?a 0 = ((None, acme_daemon), snd acme_started)"
    using acme_started_ok by (simp add: acme_daemon_def acme_started_def prod_eq_iff)
  from daemon_runs.start [OF daemon_runs.new fresh this] scan
  show ?thesis
    by (simp add: refresh_after_def optional_effect_def acme_scan_def synced_after_def watcher_starts_def)
qed


section \<open>Properties\<close>

lemma daemon_network:
  assumes "daemon_runs env cfg cs phase a" and "rearranges (env_it (ae_net env))" and "app_network a = Some n"
  shows "reaches (app_options (ac_Config cfg)) cs (app_reconciler a)" "runs (ae_net env) n"
    "wired (effective_suffix cfg) n"
  using daemon_runs_inv [OF assms(1,2)] assms(3) by (simp_all add: daemon_inv_def network_ok_def)

text \<open>C1. End to end: in every state the daemon can reach once its network runs, both proxies
  answer a request for a host from what the last successful scan of Docker found. Outside the
  managed suffix it is the plain 404; while routing is paused every managed host gets 503; a managed host no container
  claims gets the friendly 404; any other is forwarded to the published port of the best claim
  on that host among the containers found.\<close>

theorem daemon_serves_last_scan:
  assumes "daemon_runs env cfg cs phase a" and "rearranges (env_it (ae_net env))"
    and "app_network a = Some n" and "plain req"
  shows "ServeHTTP (nr_httpHandler n) (app_reconciler a) req =
      (let h = normalize (host_part req); suffix = normalize (effective_suffix cfg) in
       if suffix = [] \<or> \<not> under_suffix suffix h then NotFound
       else if IsRoutingPaused (app_reconciler a) then writeFriendlyPaused h
       else case Option.bind (best_claim h (all_claims (app_options (ac_Config cfg)) cs))
           (upstreamURL \<circ> route_Upstream) of
           None \<Rightarrow> writeFriendlyNoRoute h
         | Some target \<Rightarrow> [ReverseProxy target DefaultTransport]) \<and>
    ServeHTTPS (nr_httpsHandler n) (app_reconciler a) req =
      ServeHTTP (nr_httpHandler n) (app_reconciler a) req"
proof -
  have "gm_get (snap_Routes (Snapshot (app_reconciler a))) h =
      best_claim h (all_claims (app_options (ac_Config cfg)) cs)" for h
    using reaches_agrees [OF daemon_network(1) [OF assms(1-3)]] by (simp add: agrees_with_def Snapshot_def)
  with daemon_network(3) [OF assms(1-3)] show ?thesis
    by (simp add: wired_def daemon_handler_def ServeHTTPS_def ServeHTTP_def HandleHTTP_eq [OF assms(4)]
        Let_def split: option.split)
qed

theorem daemon_serves_last_scan_witness:
  "ServeHTTP (nr_httpHandler (the (app_network acme_daemon))) (app_reconciler acme_daemon) ''api.acme.test:80'' =
     [ReverseProxy \<lparr>url_Scheme = ''http'', url_Host = ''127.0.0.1:8080''\<rparr> DefaultTransport]"
proof -
  have "map_option (\<lambda>_. ()) (app_network acme_daemon) = Some ()" by code_simp
  then obtain n where n: "app_network acme_daemon = Some n" by auto
  have plain: "plain ''api.acme.test:80''" by code_simp
  have "normalize (host_part ''api.acme.test:80'') = ''api.acme.test''"
    "normalize (effective_suffix acme_app_config) = ''test''" "under_suffix ''test'' ''api.acme.test''"
    "\<not> IsRoutingPaused (app_reconciler acme_daemon)"
    by code_simp+
  moreover have "Option.bind (best_claim ''api.acme.test''
      (all_claims (app_options (ac_Config acme_app_config)) [api_container])) (upstreamURL \<circ> route_Upstream) =
      Some \<lparr>url_Scheme = ''http'', url_Host = ''127.0.0.1:8080''\<rparr>"
    by code_simp
  ultimately show ?thesis
    using daemon_serves_last_scan [OF acme_daemon_runs acme_env_rearranges n plain] n by simp
qed

text \<open>C23. The session log keeps the newest issues: it never holds more than 25, what
  the admin API reports is the whole log, newest first, and recording one more puts it on top
  and drops only the oldest.\<close>

theorem issue_log_keeps_newest:
  assumes "daemon_runs env cfg cs phase a" and "rearranges (env_it (ae_net env))"
  shows "length (app_issues a) \<le> SessionIssueLimit \<and>
    BuildSessionIssues (st_Issues (stateSnapshot it now roles a)) = rev (app_issues a) \<and>
    BuildSessionIssues (app_issues (recordIssue now role action msg a)) =
      take SessionIssueLimit (\<lparr>si_Timestamp = now, si_Role = role, si_Action = action, si_Message = msg\<rparr>
        # rev (app_issues a))"
proof -
  have bound: "length (app_issues a) \<le> SessionIssueLimit"
    using daemon_runs_inv [OF assms] by (simp add: daemon_inv_def)
  moreover have "take (length xs - (Suc (length xs) - m)) (rev xs) = take (m - Suc 0) (rev xs)"
    if "length xs \<le> m" for xs :: "session_issue list" and m
    using that by (cases "length xs = m") simp_all
  ultimately show ?thesis
    by (simp add: stateSnapshot_def Let_def BuildSessionIssues_eq recordIssue_issues rev_drop take_Cons')
qed


theorem issue_log_keeps_newest_witness:
  "length (app_issues acme_daemon) = 1 \<and> length (app_issues acme_daemon) \<le> SessionIssueLimit \<and>
   map si_Role (BuildSessionIssues (app_issues (recordIssue (At 5) ''docker'' ''scan'' ''down'' acme_daemon))) =
     [''docker'', ''http'']"
proof -
  have issue: "map si_Role (app_issues acme_daemon) = [''http'']" by code_simp
  then have "length (app_issues acme_daemon) = 1" by (metis length_map length_Cons list.size(3) One_nat_def)
  with issue issue_log_keeps_newest [OF acme_daemon_runs acme_env_rearranges] show ?thesis
    by (simp add: SessionIssueLimit_def rev_map [symmetric] take_Cons')
qed


lemma sync_result: "syncNetworkCertificates env a w = (b, w') \<Longrightarrow> b = fst (syncNetworkCertificates env a w)"
  by simp

lemma Refresh_eq:
  "fst (Refresh env a w) =
     (case refreshFromDocker env a w of
        ((Some err, b), w) \<Rightarrow> (Some err, b)
      | ((None, b), w) \<Rightarrow> (None, fst (syncNetworkCertificates env b w)))"
  by (simp add: Refresh_def split: prod.split option.split)

lemma Refresh_synced:
  assumes "ac_DockerScan (app_cfg a) = Some scan" and "scan w = (Inr cs, w')"
  shows "fst (Refresh env a w) = (None, fst (syncNetworkCertificates env (snd (app_reconnect env cs w' a)) w'))"
  using assms by (simp add: Refresh_eq refreshFromDocker_def app_reconnect_eq)

lemma Refresh_failed:
  assumes "ac_DockerScan (app_cfg a) = Some scan" and "scan w = (Inl e, w')"
  shows "fst (Refresh env a w) = (Some (''docker container sync failed: '' @ e),
    recordIssue (ae_now env w') ''docker'' ''scan'' e
      (a\<lparr>app_watcher := OnDisconnect (ae_now env w') (app_watcher a)\<rparr>))"
  using assms by (simp add: Refresh_eq refreshFromDocker_def)

text \<open>C8. The routing data is well formed in every state the daemon can reach: host names are keys once, each
  route is filed under its own name, serves it among its domains and leads to this machine by a
  named scheme; each conflict names at least one loser, and its winner is the one the active
  route of that name belongs to.\<close>

theorem daemon_state_well_formed:
  assumes "daemon_runs env cfg cs phase a" and "rearranges (env_it (ae_net env))"
  shows "wf_snapshot (Snapshot (app_reconciler a))"
  using daemon_runs_inv [OF assms] agrees_wf [OF reaches_agrees] by (auto simp: daemon_inv_def Snapshot_def)

theorem daemon_state_well_formed_witness:
  "wf_snapshot (Snapshot (app_reconciler acme_daemon)) \<and> snap_Routes (Snapshot (app_reconciler acme_daemon)) \<noteq> []"
proof -
  have "snap_Routes (Snapshot (app_reconciler acme_daemon)) \<noteq> []" by code_simp
  with daemon_state_well_formed [OF acme_daemon_runs acme_env_rearranges] show ?thesis by blast
qed

text \<open>C19. A refresh either takes over what Docker answers or leaves the routes alone. When the scan
  succeeds the refresh succeeds, even if certificates cannot be issued, the snapshot is that of the
  containers found and the watcher counts as connected; when it fails the error is returned and
  logged, the watcher counts as disconnected, and the snapshot, the pause and the network are
  as before.\<close>

theorem refresh_outcome:
  assumes "daemon_runs env cfg cs phase a" and "rearranges (env_it (ae_net env))"
    and "ac_DockerScan (app_cfg a) = Some scan"
  shows "case (fst (scan w), fst (Refresh env a w)) of
      (Inr found, (err, a')) \<Rightarrow> err = None \<and>
        agrees_with (app_options (ac_Config cfg)) found (Snapshot (app_reconciler a')) \<and>
        IsRoutingPaused (app_reconciler a') = IsRoutingPaused (app_reconciler a) \<and>
        dwh_Connected (app_watcher a')
    | (Inl e, (err, a')) \<Rightarrow> err = Some (''docker container sync failed: '' @ e) \<and>
        app_reconciler a' = app_reconciler a \<and> app_network a' = app_network a \<and>
        \<not> dwh_Connected (app_watcher a') \<and> si_Message (hd (BuildSessionIssues (app_issues a'))) = e"
proof -
  have reach: "reaches (app_options (ac_Config cfg)) cs (app_reconciler a)"
    using daemon_runs_inv [OF assms(1,2)] by (simp add: daemon_inv_def)
  obtain answer w' where scan: "scan w = (answer, w')" by force
  show ?thesis
  proof (cases answer)
    case (Inl e)
    with scan show ?thesis
      by (simp add: Refresh_failed [OF assms(3), of w e w'] OnDisconnect_def BuildSessionIssues_eq
          recordIssue_issues Let_def rev_drop SessionIssueLimit_def)
  next
    case (Inr found)
    note again = reaches_agrees [OF reaches.rebuild [OF reach assms(2), of found "ae_now env w'"]]
    from Inr scan show ?thesis
      using again Refresh_synced [OF assms(3), of w found w' env]
      by (simp add: app_reconnect_eq sync_frame Snapshot_def IsRoutingPaused_def)
  qed
qed

theorem refresh_outcome_witness:
  "\<not> dwh_Connected (app_watcher (snd (fst (Refresh acme_app_env acme_daemon 9)))) \<and>
   app_reconciler (snd (fst (Refresh acme_app_env acme_daemon 9))) = app_reconciler acme_daemon \<and>
   agrees_with (app_options DefaultConfig) [api_container, rival_container]
     (Snapshot (app_reconciler (snd (fst (Refresh acme_app_env acme_daemon 1)))))"
proof -
  have scan: "ac_DockerScan (app_cfg acme_daemon) = Some acme_scan"
    using daemon_runs_inv [OF acme_daemon_runs acme_env_rearranges]
    by (simp add: daemon_inv_def acme_app_config_def)
  show ?thesis
    using refresh_outcome [OF acme_daemon_runs acme_env_rearranges scan, of 9]
      refresh_outcome [OF acme_daemon_runs acme_env_rearranges scan, of 1]
    by (simp add: acme_scan_def acme_app_config_def case_prod_unfold)
qed

text \<open>C20. After the event stream broke, the next connection first scans Docker again, and streams
  only with a snapshot of what that scan found. But a refresh asked for in between marks the watcher as
  connected: the connection that follows does not scan, whatever happened in the meantime.\<close>

theorem reconnect_resyncs_unless_refreshed:
  assumes "daemon_runs env cfg cs Streaming a" and "rearranges (env_it (ae_net env))"
    and "watch_item env scan (ErrorItem e) False a w = (phase, a1, w1)"
  shows "phase = Connecting \<and>
    (case (fst (scan w2), watch_connect env scan None False a1 w2) of
       (Inr found, (phase, a2, _)) \<Rightarrow> phase = Streaming \<and>
         agrees_with (app_options (ac_Config cfg)) found (Snapshot (app_reconciler a2))
     | (Inl _, (phase, a2, _)) \<Rightarrow> phase = Connecting \<and> app_reconciler a2 = app_reconciler a) \<and>
    (case fst (Refresh env a1 w2) of
       (None, a2) \<Rightarrow> watch_connect env scan None False a2 w3 = (Streaming, a2, w3)
     | (Some _, a2) \<Rightarrow> \<not> dwh_Connected (app_watcher a2))"
proof -
  obtain now msg where a1: "a1 = recordWatcherIssue now ''events-stream'' msg a" and "phase = Connecting"
    using assms(3) by (cases e) (auto simp: watch_item_def watch_end_def)
  have reach: "reaches (app_options (ac_Config cfg)) cs (app_reconciler a1)"
    using daemon_runs_inv [OF assms(1,2)] by (simp add: daemon_inv_def a1)
  have down: "\<not> dwh_Connected (app_watcher a1)" by (simp add: a1)
  obtain answer w' where scan: "scan w2 = (answer, w')" by force
  have connect: "case (fst (scan w2), watch_connect env scan None False a1 w2) of
       (Inr found, (phase, a2, _)) \<Rightarrow> phase = Streaming \<and>
         agrees_with (app_options (ac_Config cfg)) found (Snapshot (app_reconciler a2))
     | (Inl _, (phase, a2, _)) \<Rightarrow> phase = Connecting \<and> app_reconciler a2 = app_reconciler a"
  proof (cases answer)
    case (Inl err)
    with scan down show ?thesis by (simp add: watch_connect_def resyncWatcher_def a1)
  next
    case (Inr found)
    note again = reaches_agrees [OF reaches.rebuild [OF reach assms(2), of found "ae_now env w'"]]
    obtain b w'' where sync:
      "syncNetworkCertificates env (snd (app_reconnect env found w' a1)) w' = (b, w'')" by force
    then have "app_reconciler b = snd (RebuildSnapshot (env_it (ae_net env)) (ae_now env w') found (app_reconciler a1))"
      using sync_frame(2) [of env "snd (app_reconnect env found w' a1)" w'] by (simp add: app_reconnect_eq)
    with Inr scan down sync again show ?thesis
      by (simp add: watch_connect_def resyncWatcher_def app_reconnect_eq Snapshot_def)
  qed
  moreover have "case fst (Refresh env a1 w2) of
       (None, a2) \<Rightarrow> dwh_Connected (app_watcher a2)
     | (Some _, a2) \<Rightarrow> \<not> dwh_Connected (app_watcher a2)"
    by (simp add: Refresh_eq refreshFromDocker_def app_reconnect_eq OnDisconnect_def sync_frame
        split: option.split prod.split sum.split)
  ultimately show ?thesis
    using \<open>phase = Connecting\<close> by (auto simp: watch_connect_def split: prod.splits option.splits)
qed


lemma acme_daemon_scan: "ac_DockerScan (app_cfg acme_daemon) = Some acme_scan"
  using daemon_runs_inv [OF acme_daemon_runs acme_env_rearranges]
  by (simp add: daemon_inv_def acme_app_config_def)

lemma acme_daemon_streams: "daemon_runs acme_app_env acme_app_config [api_container] Streaming acme_daemon"
proof -
  have up: "dwh_Connected (app_watcher acme_daemon)" by code_simp
  then have "watch_connect acme_app_env acme_scan None False acme_daemon 0 = (Streaming, acme_daemon, 0)"
    by (simp add: watch_connect_def)
  from daemon_runs.connect [OF acme_daemon_runs acme_daemon_scan this] up show ?thesis by simp
qed

theorem reconnect_resyncs_unless_refreshed_witness:
  "let a1 = fst (snd (watch_item acme_app_env acme_scan (ErrorItem (Some ''EOF'')) False acme_daemon 0));
       a2 = snd (fst (Refresh acme_app_env a1 0))
   in agrees_with (app_options DefaultConfig) [api_container, rival_container]
        (Snapshot (app_reconciler (fst (snd (watch_connect acme_app_env acme_scan None False a1 1))))) \<and>
      watch_connect acme_app_env acme_scan None False a2 1 = (Streaming, a2, 1)"
proof -
  let ?a1 = "fst (snd (watch_item acme_app_env acme_scan (ErrorItem (Some ''EOF'')) False acme_daemon 0))"
  obtain phase a1 w1 where broken:
    "watch_item acme_app_env acme_scan (ErrorItem (Some ''EOF'')) False acme_daemon 0 = (phase, a1, w1)"
    by (metis prod.exhaust)
  then have a1: "?a1 = a1" by simp
  have "ac_DockerScan (app_cfg a1) = Some acme_scan"
    using broken acme_daemon_scan by (auto simp: watch_item_def watch_end_def)
  moreover have "acme_scan 0 = (Inr [api_container], 0)" by (simp add: acme_scan_def)
  ultimately have "fst (fst (Refresh acme_app_env a1 0)) = None"
    by (simp add: Refresh_synced)
  then have refreshed: "fst (Refresh acme_app_env a1 0) = (None, snd (fst (Refresh acme_app_env a1 0)))"
    by (simp add: prod_eq_iff)
  note both = reconnect_resyncs_unless_refreshed [OF acme_daemon_streams acme_env_rearranges broken]
  have "agrees_with (app_options DefaultConfig) [api_container, rival_container]
      (Snapshot (app_reconciler (fst (snd (watch_connect acme_app_env acme_scan None False a1 1)))))"
    using both [of 1] by (simp add: acme_scan_def acme_app_config_def case_prod_unfold)
  moreover have "watch_connect acme_app_env acme_scan None False (snd (fst (Refresh acme_app_env a1 0))) 1 =
      (Streaming, snd (fst (Refresh acme_app_env a1 0)), 1)"
    using both [of 0 1] by (subst (asm) refreshed) simp
  ultimately show ?thesis by (simp add: a1 Let_def)
qed

lemma start_servers_server:
  assumes "start_servers env ans n a w = (err, a')" and "\<not> app_server a"
  shows "(err = None \<longrightarrow> app_server a' \<and> app_network a' = Some n) \<and>
    (err \<noteq> None \<longrightarrow> \<not> app_server a' \<and> app_network a' = Some (snd (Close (sa_dns_shutdown ans)
       (sa_http_shutdown ans) (sa_https_shutdown ans) n)))"
  using start_servers_cases [OF assms(1)] assms(2) by (auto simp: recordNetworkListenerIssues_def)

lemma Close_stops:
  "nr_dnsServer (snd (Close e1 e2 e3 n)) = None" "\<not> nr_httpServer (snd (Close e1 e2 e3 n))"
  "\<not> nr_httpsServer (snd (Close e1 e2 e3 n))"
  by (simp_all add: Close_def stopDNSServerLocked_def Let_def)






text \<open>Before it opens any socket, \<open>Start\<close> fails only when the \<open>mkcert\<close> prerequisites do: a Docker
  that does not answer stops nothing. The watcher counts as connected exactly when the scan
  answered (or none is configured); a ping that failed does not count once it did.\<close>

theorem docker_outage_does_not_stop_start:
  "fst (fst (start_preflight env a w)) =
     map_option (\<lambda>e. ''mkcert prerequisites failed: '' @ e)
       (fst (optional_effect (ac_EnsureMKCert (app_cfg a))
         (let w1 = snd (optional_effect (ac_DockerPing (app_cfg a)) w)
          in case ac_DockerScan (app_cfg a) of None \<Rightarrow> w1 | Some scan \<Rightarrow> snd (scan w1)))) \<and>
   dwh_Connected (app_watcher (snd (fst (start_preflight env a w)))) =
     (let w1 = snd (optional_effect (ac_DockerPing (app_cfg a)) w)
      in case ac_DockerScan (app_cfg a) of None \<Rightarrow> True | Some scan \<Rightarrow> \<not> isl (fst (scan w1)))"
proof -
  obtain ping_err w1 where ping: "optional_effect (ac_DockerPing (app_cfg a)) w = (ping_err, w1)"
    by force
  define b where "b = (case ping_err of None \<Rightarrow> a
    | Some err \<Rightarrow> recordWatcherIssue (ae_now env w1) ''ping''
        (''docker reachability check failed: '' @ err) a)"
  have b: "app_cfg b = app_cfg a" by (simp add: b_def split: option.split)
  obtain err c w2 where scan: "refreshFromDocker env b w1 = ((err, c), w2)" by (metis prod.exhaust)
  then have c: "app_cfg c = app_cfg a" "w2 = (case ac_DockerScan (app_cfg a) of None \<Rightarrow> w1 | Some scan \<Rightarrow> snd (scan w1))"
    "dwh_Connected (app_watcher c) =
       (case ac_DockerScan (app_cfg a) of None \<Rightarrow> True | Some scan \<Rightarrow> \<not> isl (fst (scan w1)))"
    "err \<noteq> None \<longrightarrow> ac_DockerScan (app_cfg a) \<noteq> None"
    using b by (auto simp: refreshFromDocker_def app_reconnect_eq OnDisconnect_def
        split: option.splits prod.splits sum.splits)
  obtain mk w3 where mkcert: "optional_effect (ac_EnsureMKCert (app_cfg a)) w2 = (mk, w3)" by force
  show ?thesis
    using c mkcert
    by (simp add: start_preflight_def ping scan Let_def flip: b_def)
      (auto split: option.split prod.split)
qed

end
