(* ===== verification/Docker.thy ===== *)
theory Docker
  imports Daemon
begin

text \<open>
  \<open>internal/daemon/docker_runtime.go\<close>: what the daemon asks of the \<open>docker\<close> command. Running the
  command and decoding its JSON are parameters (\<open>docker_env\<close>); what the code does with the answers
  is modelled: which containers and ports a scan finds, and how the goroutine of the event stream and the
  daemon's consumer work together over their two channels until the stream ends. Go ranges over the port map in any order \<open>it\<close>, and \<open>sort.Slice\<close> is not stable: the
  rearrangement \<open>shuf\<close> stands for what it may do to equal elements.
\<close>

section \<open>Scanning\<close>

record port_binding =
  pb_HostIP :: string
  pb_HostPort :: string

record docker_inspect_container =
  dic_ID :: string
  dic_Name :: string
  dic_Labels :: "string \<rightharpoonup> string"
  dic_Running :: bool
  dic_Ports :: "port_binding list gomap"

record docker_event_message =
  dem_Status :: string
  dem_Action :: string

record 'w docker_env =
  de_Output :: "string list \<Rightarrow> 'w \<Rightarrow> (go_error + string) \<times> 'w"
  de_CombinedOutput :: "string list \<Rightarrow> 'w \<Rightarrow> (string \<times> go_error option) \<times> 'w"
  de_LookPath :: "string \<Rightarrow> 'w \<Rightarrow> (go_error + string) \<times> 'w"
  de_containers :: "string \<Rightarrow> go_error + docker_inspect_container list"
  de_event :: "string \<Rightarrow> go_error + docker_event_message"

definition DefaultDockerPing :: "'w docker_env \<Rightarrow> 'w \<Rightarrow> go_error option \<times> 'w" where
  "DefaultDockerPing env w =
     (case de_CombinedOutput env [''info''] w of
        ((out, Some err), w) \<Rightarrow> (Some (''docker info failed: '' @ err @ '': '' @ trim_space out), w)
      | ((out, None), w) \<Rightarrow> (None, w))"

definition DefaultEnsureMKCert :: "'w docker_env \<Rightarrow> 'w \<Rightarrow> go_error option \<times> 'w" where
  "DefaultEnsureMKCert env w =
     (case de_LookPath env ''mkcert'' w of
        (Inl err, w) \<Rightarrow> (Some (''mkcert not found: install mkcert before enabling HTTPS: '' @ err), w)
      | (Inr _, w) \<Rightarrow> (None, w))"

definition listRunningContainerIDs :: "'w docker_env \<Rightarrow> 'w \<Rightarrow> (go_error + string list) \<times> 'w" where
  "listRunningContainerIDs env w =
     (case de_Output env [''ps'', ''--format'', ''{{.ID}}''] w of
        (Inl err, w) \<Rightarrow> (Inl (''docker ps failed: '' @ err), w)
      | (Inr out, w) \<Rightarrow>
          (Inr (filter (\<lambda>id. id \<noteq> []) (map trim_space (split_on CHR 0x0A (trim_space out)))), w))"

text \<open>The bindings of one port specification; \<open>strings.Cut\<close> at the first slash.\<close>

definition spec_ports :: "string \<times> port_binding list \<Rightarrow> published_port list" where
  "spec_ports = (\<lambda>(spec, bindings).
     case cut_at CHR ''/'' spec of
       (_, protocol, ok) \<Rightarrow>
         if \<not> ok \<or> length bindings = 0 then []
         else List.map_filter (\<lambda>b.
           case atoi (trim_space (pb_HostPort b)) of
             None \<Rightarrow> None
           | Some hostPort \<Rightarrow>
               if hostPort \<le> 0 then None
               else Some \<lparr>pp_HostIP = pb_HostIP b, pp_HostPort = hostPort,
                 pp_Protocol = to_lower protocol\<rparr>) bindings)"

definition port_before :: "published_port \<Rightarrow> published_port \<Rightarrow> bool" where
  "port_before p q =
     (if pp_HostPort p = pp_HostPort q then pp_Protocol p < pp_Protocol q
      else pp_HostPort p < pp_HostPort q)"

definition publishedPorts ::
  "(string list \<Rightarrow> string list) \<Rightarrow> (published_port list \<Rightarrow> published_port list)
     \<Rightarrow> docker_inspect_container \<Rightarrow> published_port list" where
  "publishedPorts it shuf c = sort_slice shuf port_before (concat (map spec_ports (range_map it (dic_Ports c))))"

definition inspected ::
  "(string list \<Rightarrow> string list) \<Rightarrow> (published_port list \<Rightarrow> published_port list)
     \<Rightarrow> docker_inspect_container \<Rightarrow> container_state" where
  "inspected it shuf c = \<lparr>cs_ID = dic_ID c, cs_Name = dic_Name c, cs_Running = dic_Running c,
     cs_Labels = dic_Labels c, cs_Ports = publishedPorts it shuf c\<rparr>"

definition DefaultDockerScan ::
  "'w docker_env \<Rightarrow> (string list \<Rightarrow> string list) \<Rightarrow> (published_port list \<Rightarrow> published_port list)
     \<Rightarrow> 'w \<Rightarrow> (go_error + container_state list) \<times> 'w" where
  "DefaultDockerScan env it shuf w =
     (case listRunningContainerIDs env w of
        (Inl err, w) \<Rightarrow> (Inl err, w)
      | (Inr ids, w) \<Rightarrow>
          (if length ids = 0 then (Inr [], w)
           else case de_Output env (''inspect'' # ids) w of
               (Inl err, w) \<Rightarrow> (Inl (''docker inspect failed: '' @ err), w)
             | (Inr out, w) \<Rightarrow>
                 (case de_containers env out of
                    Inl err \<Rightarrow> (Inl (''decode docker inspect output: '' @ err), w)
                  | Inr containers \<Rightarrow> (Inr (map (inspected it shuf) containers), w))))"

section \<open>The event stream\<close>

definition docker_events_args :: "string list" where
  "docker_events_args =
     [''events'', ''--format'', ''{{json .}}'', ''--filter'', ''type=container''] @
     concat (map (\<lambda>action. [''--filter'', ''event='' @ action]) supportedDockerEvents)"

definition event_action :: "docker_event_message \<Rightarrow> string" where
  "event_action payload =
     (let action = trim_space (dem_Action payload)
      in if action = [] then trim_space (dem_Status payload) else action)"

text \<open>How the command ended: the scanner's error, the exit error and what it wrote to standard error.\<close>

record stream_ending =
  se_scan_err :: "go_error option"
  se_wait_err :: "go_error option"
  se_stderr :: string

text \<open>What the goroutine then leaves in \<open>errs\<close>, given whether the context of the stream is cancelled.\<close>

definition final_error :: "stream_ending \<Rightarrow> bool \<Rightarrow> go_error option" where
  "final_error e cancelled =
     (if cancelled then None
      else case se_scan_err e of
          Some err \<Rightarrow> Some (''read docker events output: '' @ err)
        | None \<Rightarrow>
            (case se_wait_err e of
               Some err \<Rightarrow>
                 (let msg = trim_space (se_stderr e)
                  in if msg \<noteq> [] then Some (''docker events failed: '' @ err @ '': '' @ msg)
                     else Some (''docker events failed: '' @ err))
             | None \<Rightarrow> Some ''EOF''))"

text \<open>
  The stream: what the command has still to print, where the goroutine is, the two channels, and
  whether their context is cancelled. \<open>events\<close> has no buffer, so a send waits for the consumer; \<open>errs\<close>
  holds one error. The deferred calls close \<open>errs\<close> before \<open>events\<close>.
\<close>

datatype relay_pc = Scanning | Sending string | ClosingErrs | ClosingEvents | Exited

record event_stream =
  es_lines :: "string list"
  es_pc :: relay_pc
  es_errs :: "go_error option"
  es_errsClosed :: bool
  es_eventsClosed :: bool
  es_cancelled :: bool

definition new_stream :: "string list \<Rightarrow> event_stream" where
  "new_stream lines = \<lparr>es_lines = lines, es_pc = Scanning, es_errs = None, es_errsClosed = False,
     es_eventsClosed = False, es_cancelled = False\<rparr>"

text \<open>What the goroutine of \<open>DefaultDockerEvents\<close> does next; \<open>None\<close> where it waits for the consumer or has ended.\<close>

definition relay_step ::
  "(string \<Rightarrow> go_error + docker_event_message) \<Rightarrow> stream_ending \<Rightarrow> event_stream \<Rightarrow> event_stream option" where
  "relay_step unmarshal ending es =
     (case es_pc es of
        Scanning \<Rightarrow>
          (case es_lines es of
             line # lines \<Rightarrow>
               (if es_cancelled es then Some (es\<lparr>es_lines := lines, es_pc := ClosingErrs\<rparr>)
                else case unmarshal line of
                    Inl err \<Rightarrow> Some (es\<lparr>es_lines := lines, es_errs := Some (''decode docker events output: '' @ err),
                      es_cancelled := True, es_pc := ClosingErrs\<rparr>)
                  | Inr payload \<Rightarrow>
                      (let action = event_action payload
                       in if action = [] then Some (es\<lparr>es_lines := lines\<rparr>)
                          else Some (es\<lparr>es_lines := lines, es_pc := Sending action\<rparr>)))
           | [] \<Rightarrow> Some (es\<lparr>es_errs := final_error ending (es_cancelled es),
               es_cancelled := (es_cancelled es \<or> se_scan_err ending \<noteq> None), es_pc := ClosingErrs\<rparr>))
      | Sending _ \<Rightarrow> None
      | ClosingErrs \<Rightarrow> Some (es\<lparr>es_errsClosed := True, es_pc := ClosingEvents\<rparr>)
      | ClosingEvents \<Rightarrow> Some (es\<lparr>es_eventsClosed := True, es_pc := Exited\<rparr>)
      | Exited \<Rightarrow> None)"

text \<open>The consumer next to it: the application it acts on, whether its own context is done, and what
  \<open>consumeDockerEvents\<close> has returned. The stream's context is derived from the consumer's.\<close>

record ('w, 'k) consumer =
  cn_stream :: event_stream
  cn_app :: "('w, 'k) app"
  cn_world :: 'w
  cn_done :: bool
  cn_result :: "go_error option option"

definition new_consumer :: "string list \<Rightarrow> ('w, 'k) app \<Rightarrow> 'w \<Rightarrow> ('w, 'k) consumer" where
  "new_consumer lines a w = \<lparr>cn_stream = new_stream lines, cn_app = a, cn_world = w, cn_done = False, cn_result = None\<rparr>"

text \<open>The cases of the \<open>select\<close> that are ready.\<close>

definition ready :: "('w, 'k) consumer \<Rightarrow> stream_item set" where
  "ready x =
     (let es = cn_stream x in
      (if cn_done x then {ContextDone} else {}) \<union>
      (case es_errs es of Some e \<Rightarrow> {ErrorItem (Some e)} | None \<Rightarrow> if es_errsClosed es then {ErrorsClosed} else {}) \<union>
      (case es_pc es of Sending action \<Rightarrow> {EventItem action} | _ \<Rightarrow> {}) \<union>
      (if es_eventsClosed es then {EventsClosed} else {}))"

text \<open>One round of the loop of \<open>consumeDockerEvents\<close>, with the case that \<open>select\<close> takes. Taking an event lets the
  goroutine go on scanning.\<close>

definition consumeDockerEvents ::
  "('w, 'k) app_env \<Rightarrow> ('w \<Rightarrow> (go_error + container_state list) \<times> 'w) \<Rightarrow> stream_item
     \<Rightarrow> ('w, 'k) consumer \<Rightarrow> ('w, 'k) consumer" where
  "consumeDockerEvents env scan item x =
     (case consume_item item of
        Inl result \<Rightarrow>
          (let es = cn_stream x;
               es = (case item of ErrorItem _ \<Rightarrow> es\<lparr>es_errs := None\<rparr> | _ \<Rightarrow> es)
           in x\<lparr>cn_stream := es, cn_result := Some result\<rparr>)
      | Inr action \<Rightarrow>
          (case handleDockerEvent env scan action (cn_app x) (cn_world x) of
             (a, w) \<Rightarrow> x\<lparr>cn_stream := (cn_stream x)\<lparr>es_pc := Scanning\<rparr>, cn_app := a, cn_world := w\<rparr>))"

text \<open>The two goroutines together, one step at a time in any order; and the end of the consumer's context,
  which may come at any moment or never.\<close>

inductive stream_step ::
  "(string \<Rightarrow> go_error + docker_event_message) \<Rightarrow> stream_ending \<Rightarrow> ('w, 'k) app_env
     \<Rightarrow> ('w \<Rightarrow> (go_error + container_state list) \<times> 'w) \<Rightarrow> ('w, 'k) consumer \<Rightarrow> ('w, 'k) consumer \<Rightarrow> bool"
  for unmarshal ending env scan where
  relay: "relay_step unmarshal ending (cn_stream x) = Some es \<Longrightarrow>
     stream_step unmarshal ending env scan x (x\<lparr>cn_stream := es\<rparr>)"
| receive: "cn_result x = None \<Longrightarrow> item \<in> ready x \<Longrightarrow>
     stream_step unmarshal ending env scan x (consumeDockerEvents env scan item x)"

definition context_ends :: "('w, 'k) consumer \<Rightarrow> ('w, 'k) consumer \<Rightarrow> bool" where
  "context_ends x y \<longleftrightarrow> \<not> cn_done x \<and>
     y = x\<lparr>cn_done := True, cn_stream := (cn_stream x)\<lparr>es_cancelled := True\<rparr>\<rparr>"

section \<open>Lemmas\<close>

text \<open>What distinguishes two ports in the order is also all the routes depend on.\<close>

definition port_key :: "published_port \<Rightarrow> int \<times> string" where
  "port_key p = (pp_HostPort p, pp_Protocol p)"

definition key_before :: "int \<times> string \<Rightarrow> int \<times> string \<Rightarrow> bool" where
  "key_before = (\<lambda>(n, s) (m, t). if n = m then s < t else n < m)"

lemma port_before_key: "port_before p q = key_before (port_key p) (port_key q)"
  by (simp add: port_before_def key_before_def port_key_def)

interpretation key_order: weak_order key_before
  by unfold_locales (auto simp: key_before_def split: if_splits)

lemma key_order_same: "key_order.same a b \<Longrightarrow> a = b"
  unfolding key_order.same_def by (cases a; cases b) (auto simp: key_before_def split: if_splits)

lemma mset_range_map:
  assumes "rearranges it" and "wf_gomap m"
  shows "mset (range_map it m) = mset m"
proof -
  have "distinct (range_map it m)" "distinct m" "set (range_map it m) = set m"
    using set_range_map [OF assms] assms
    using range_map_distinct [OF assms] by (auto simp: wf_gomap_def distinct_map)
  then show ?thesis by (simp add: set_eq_iff_mset_eq_distinct)
qed

lemma published_keys:
  assumes "rearranges it" and "rearranges shuf" and "wf_gomap (dic_Ports c)"
  shows "map port_key (publishedPorts it shuf c) =
    stable_sort key_before (map port_key (concat (map spec_ports (dic_Ports c))))"
proof -
  let ?all = "concat (map spec_ports (range_map it (dic_Ports c)))"
  have "mset ?all = mset (concat (map spec_ports (dic_Ports c)))"
    using mset_range_map [OF assms(1,3)]
    by (simp add: mset_concat flip: sum_mset_sum_list)
  then have "mset (map port_key (shuf ?all)) = mset (map port_key (concat (map spec_ports (dic_Ports c))))"
    using rearranges_mset [OF assms(2), of ?all] by (metis mset_map)
  then have "stable_sort key_before (map port_key (shuf ?all)) =
      stable_sort key_before (map port_key (concat (map spec_ports (dic_Ports c))))"
    by (rule key_order.stable_sort_unique) (rule key_order_same)
  then show ?thesis
    by (simp add: publishedPorts_def sort_slice_def map_stable_sort [of port_before key_before port_key, OF port_before_key])
qed


text \<open>The port selection sees the ports only through their keys.\<close>

definition first_key :: "(int \<times> string) list \<Rightarrow> int \<Rightarrow> (int \<times> string) option" where
  "first_key ks v = find (\<lambda>k. fst k = v) ks"

fun first_preferred_key :: "(int \<times> string) list \<Rightarrow> int list \<Rightarrow> (int \<times> string) option" where
  "first_preferred_key ks [] = None"
| "first_preferred_key ks (p # ps) =
     (case first_key ks p of Some k \<Rightarrow> Some k | None \<Rightarrow> first_preferred_key ks ps)"

definition select_key :: "(int \<times> string) list \<Rightarrow> label_options \<Rightarrow> int \<Rightarrow> ((int \<times> string) \<times> string) option" where
  "select_key ks opts n =
     (let tcp = filter (\<lambda>k. snd k = ''tcp'') ks in
      case tcp of
        [] \<Rightarrow> None
      | first # _ \<Rightarrow>
          (case Option.bind (lo_LabelPort opts) (first_key tcp) of
             Some port \<Rightarrow> Some (port, ''label'')
           | None \<Rightarrow>
               (case (if n > 0 then first_key tcp n else None) of
                  Some port \<Rightarrow> Some (port, ''override'')
                | None \<Rightarrow>
                    (case first_preferred_key tcp preferredPorts of
                       Some port \<Rightarrow> Some (port, ''preference'')
                     | None \<Rightarrow> Some (first, ''first-published'')))))"

lemma first_key_ports: "first_key (map port_key ports) v = map_option port_key (lookupPort ports v)"
  by (induction ports) (auto simp: lookupPort_def first_key_def port_key_def)

lemma preferred_key_ports:
  "first_preferred_key (map port_key ports) prefs = map_option port_key (first_preferred ports prefs)"
  by (induction prefs) (simp_all add: first_key_ports split: option.split)

lemma tcp_keys:
  "filter (\<lambda>k. snd k = ''tcp'') (map port_key ports) = map port_key (filter (\<lambda>p. pp_Protocol p = ''tcp'') ports)"
  by (simp add: filter_map comp_def port_key_def)

lemma SelectPublishedPort_key:
  "select_key (map port_key ports) opts n = map_option (apfst port_key) (SelectPublishedPort ports opts n)"
proof (cases "filter (\<lambda>p. pp_Protocol p = ''tcp'') ports")
  case (Cons f rest)
  note on_keys = first_key_ports [of "f # rest"] preferred_key_ports [of "f # rest"]
  show ?thesis
    using on_keys
    by (cases "lo_LabelPort opts")
      (simp_all add: SelectPublishedPort_def select_key_def tcp_keys Cons Let_def split: option.split)
qed (simp add: SelectPublishedPort_def select_key_def tcp_keys)

lemma selected_key_cong:
  assumes "map port_key ports = map port_key ports'"
  shows "map_option (apfst port_key) (SelectPublishedPort ports opts n) =
    map_option (apfst port_key) (SelectPublishedPort ports' opts n)"
  by (metis assms SelectPublishedPort_key)

subsection \<open>The event stream\<close>

abbreviation any_step ::
  "(string \<Rightarrow> go_error + docker_event_message) \<Rightarrow> stream_ending \<Rightarrow> ('w, 'k) app_env
     \<Rightarrow> ('w \<Rightarrow> (go_error + container_state list) \<times> 'w) \<Rightarrow> ('w, 'k) consumer \<Rightarrow> ('w, 'k) consumer \<Rightarrow> bool" where
  "any_step unmarshal ending env scan \<equiv> \<lambda>x y. stream_step unmarshal ending env scan x y \<or> context_ends x y"

text \<open>What the goroutine relays when nobody cancels: the actions, in order, and the error at the end.\<close>

fun relay_all ::
  "(string \<Rightarrow> go_error + docker_event_message) \<Rightarrow> stream_ending \<Rightarrow> string list \<Rightarrow> string list \<times> go_error option" where
  "relay_all unmarshal ending [] = ([], final_error ending False)"
| "relay_all unmarshal ending (line # lines) =
     (case unmarshal line of
        Inl err \<Rightarrow> ([], Some (''decode docker events output: '' @ err))
      | Inr payload \<Rightarrow>
          (let action = event_action payload; (actions, err) = relay_all unmarshal ending lines
           in (if action = [] then actions else action # actions, err)))"

definition handle_all ::
  "('w, 'k) app_env \<Rightarrow> ('w \<Rightarrow> (go_error + container_state list) \<times> 'w) \<Rightarrow> string list
     \<Rightarrow> ('w, 'k) app \<times> 'w \<Rightarrow> ('w, 'k) app \<times> 'w" where
  "handle_all env scan actions = fold (\<lambda>action (a, w). handleDockerEvent env scan action a w) actions"

text \<open>How many steps are left at most.\<close>

definition steps_left :: "('w, 'k) consumer \<Rightarrow> nat" where
  "steps_left x = 2 * length (es_lines (cn_stream x)) +
     (case es_pc (cn_stream x) of Scanning \<Rightarrow> 3 | Sending _ \<Rightarrow> 4 | ClosingErrs \<Rightarrow> 2 | ClosingEvents \<Rightarrow> 1 | Exited \<Rightarrow> 0) +
     (if cn_result x = None then 1 else 0) + (if cn_done x then 0 else 1)"

lemma steps_left_relay: "relay_step unmarshal ending (cn_stream x) = Some es \<Longrightarrow> steps_left (x\<lparr>cn_stream := es\<rparr>) < steps_left x"
  by (auto simp: relay_step_def steps_left_def Let_def split: relay_pc.splits list.splits sum.splits if_splits)

lemma steps_left_receive:
  assumes "cn_result x = None" and "item \<in> ready x"
  shows "steps_left (consumeDockerEvents env scan item x) < steps_left x"
proof (cases "consume_item item")
  case (Inl r)
  with assms(1) show ?thesis
    by (simp add: consumeDockerEvents_def steps_left_def Let_def split: stream_item.split)
next
  case (Inr action)
  then have "item = EventItem action" by (cases item rule: consume_item.cases) auto
  with assms(2) have "es_pc (cn_stream x) = Sending action"
    by (auto simp: ready_def Let_def split: option.splits if_splits relay_pc.splits)
  with assms(1) Inr show ?thesis
    by (simp add: consumeDockerEvents_def steps_left_def split: prod.split)
qed

lemma steps_left_step:
  "stream_step unmarshal ending env scan x y \<or> context_ends x y \<Longrightarrow> steps_left y < steps_left x"
  by (auto elim!: stream_step.cases dest: steps_left_relay steps_left_receive)
    (auto simp: context_ends_def steps_left_def)

lemma steps_left_run:
  "(any_step unmarshal ending env scan ^^ k) x y \<Longrightarrow>
     k + steps_left y \<le> steps_left x"
proof (induction k arbitrary: y)
  case (Suc k)
  from Suc.prems obtain z where "(any_step unmarshal ending env scan ^^ k) x z" and "any_step unmarshal ending env scan z y"
    by (rule relpowp_Suc_E)
  from Suc.IH [OF this(1)] steps_left_step [OF this(2)] show ?case by simp
qed simp

text \<open>As long as nobody cancels, what was handled and what is still to come are together what the goroutine
  relays, and the consumer returns only when the goroutine is done sending.\<close>

definition stream_inv ::
  "(string \<Rightarrow> go_error + docker_event_message) \<Rightarrow> stream_ending \<Rightarrow> ('w, 'k) app_env
     \<Rightarrow> ('w \<Rightarrow> (go_error + container_state list) \<times> 'w) \<Rightarrow> string list \<Rightarrow> ('w, 'k) app \<times> 'w \<Rightarrow> ('w, 'k) consumer \<Rightarrow> bool" where
  "stream_inv unmarshal ending env scan lines start x \<longleftrightarrow>
     (let es = cn_stream x; (actions, err) = relay_all unmarshal ending lines;
          (coming, err') = relay_all unmarshal ending (es_lines es);
          outcome = handle_all env scan actions start; here = (cn_app x, cn_world x);
          sending = (es_errs es = None \<and> \<not> es_errsClosed es \<and> \<not> es_eventsClosed es \<and> \<not> es_cancelled es \<and>
            cn_result x = None \<and> err' = err)
      in case es_pc es of
           Scanning \<Rightarrow> sending \<and> handle_all env scan coming here = outcome
         | Sending action \<Rightarrow> sending \<and> handle_all env scan (action # coming) here = outcome
         | pc \<Rightarrow> here = outcome \<and> es_errsClosed es = (pc \<noteq> ClosingErrs) \<and> es_eventsClosed es = (pc = Exited) \<and>
             (cn_result x = None \<longrightarrow> es_errs es = err) \<and>
             (\<forall>r. cn_result x = Some r \<longrightarrow> r \<in> {err, Some ''docker event stream closed''}))"

lemma relay_events_err: "snd (relay_all unmarshal ending lines) \<noteq> None"
  by (induction lines)
    (auto simp: final_error_def Let_def case_prod_unfold split: option.splits sum.splits)

lemma stream_inv_relay:
  assumes "stream_inv unmarshal ending env scan lines start x" and "\<not> cn_done x"
    and "relay_step unmarshal ending (cn_stream x) = Some es"
  shows "stream_inv unmarshal ending env scan lines start (x\<lparr>cn_stream := es\<rparr>)"
proof (cases "es_pc (cn_stream x)")
  case Scanning
  show ?thesis
  proof (cases "es_lines (cn_stream x)")
    case Nil
    with Scanning assms show ?thesis
      by (auto simp: stream_inv_def relay_step_def Let_def case_prod_unfold handle_all_def)
  next
    case (Cons line rest)
    with Scanning assms show ?thesis
      by (auto simp: stream_inv_def relay_step_def Let_def case_prod_unfold handle_all_def
          split: sum.splits if_splits)
  qed
qed (use assms in \<open>auto simp: stream_inv_def relay_step_def Let_def case_prod_unfold\<close>)

lemma stream_inv_receive:
  assumes "stream_inv unmarshal ending env scan lines start x" and "\<not> cn_done x"
    and "cn_result x = None" and "item \<in> ready x"
  shows "stream_inv unmarshal ending env scan lines start (consumeDockerEvents env scan item x)"
proof (cases "es_pc (cn_stream x)")
  case (Sending action)
  with assms have "item = EventItem action"
    by (auto simp: stream_inv_def ready_def Let_def case_prod_unfold)
  with Sending assms show ?thesis
    by (auto simp: stream_inv_def consumeDockerEvents_def Let_def case_prod_unfold handle_all_def)
next
  case Scanning
  with assms show ?thesis by (auto simp: stream_inv_def ready_def Let_def case_prod_unfold)
qed (use assms relay_events_err [of unmarshal ending lines] in
  \<open>auto simp: stream_inv_def ready_def consumeDockerEvents_def Let_def case_prod_unfold split: option.splits if_splits\<close>)

lemma cn_done_step: "stream_step unmarshal ending env scan x y \<Longrightarrow> cn_done y = cn_done x"
  by (induction rule: stream_step.induct)
    (auto simp: consumeDockerEvents_def Let_def split: sum.split prod.split)

lemma stream_inv_run:
  assumes "(any_step unmarshal ending env scan ^^ k) (new_consumer lines a w) x"
    and "\<not> cn_done x"
  shows "stream_inv unmarshal ending env scan lines (a, w) x"
  using assms
proof (induction k arbitrary: x)
  case 0
  then have "x = new_consumer lines a w" by simp
  then show ?case by (simp add: stream_inv_def new_consumer_def new_stream_def Let_def case_prod_unfold)
next
  case (Suc k)
  from Suc.prems(1) obtain y where run: "(any_step unmarshal ending env scan ^^ k) (new_consumer lines a w) y"
    and "any_step unmarshal ending env scan y x" by (rule relpowp_Suc_E)
  with Suc.prems(2) have step: "stream_step unmarshal ending env scan y x" by (auto simp: context_ends_def)
  with Suc.prems(2) have alive: "\<not> cn_done y" by (simp add: cn_done_step)
  from Suc.IH [OF run alive] step alive show ?case
    by (auto elim!: stream_step.cases intro: stream_inv_relay stream_inv_receive)
qed

text \<open>No deadlock: while the consumer waits, one of the two can go on.\<close>

lemma stream_progress:
  assumes "stream_inv unmarshal ending env scan lines start x \<or> cn_done x" and "cn_result x = None"
  shows "\<exists>y. stream_step unmarshal ending env scan x y"
proof (cases "ready x = {}")
  case True
  then have pc: "\<forall>action. es_pc (cn_stream x) \<noteq> Sending action" and alive: "\<not> cn_done x"
      and "\<not> es_eventsClosed (cn_stream x)"
    by (auto simp: ready_def Let_def split: if_splits)
  with assms have "es_pc (cn_stream x) \<noteq> Exited"
    by (auto simp: stream_inv_def Let_def case_prod_unfold)
  with pc have "relay_step unmarshal ending (cn_stream x) \<noteq> None"
    by (auto simp: relay_step_def Let_def split: relay_pc.split list.split sum.split)
  then show ?thesis by (auto intro: stream_step.relay)
next
  case False
  with assms(2) show ?thesis by (auto intro: stream_step.receive)
qed

section \<open>Properties\<close>

lemma claims_see_port_keys:
  assumes "map port_key ports = map port_key ports'"
  shows "claims_of opts (c\<lparr>cs_Ports := ports\<rparr>) = claims_of opts (c\<lparr>cs_Ports := ports'\<rparr>)"
proof -
  let ?c = "c\<lparr>cs_Ports := ports\<rparr>" and ?c' = "c\<lparr>cs_Ports := ports'\<rparr>"
  have same: "container_candidate ?c = container_candidate ?c'" "container_options ?c = container_options ?c'"
    by (simp_all add: container_candidate_def container_options_def the_container_def)
  then have prefs: "container_prefs opts ?c = container_prefs opts ?c'"
    by (simp add: container_prefs_def)
  have "map_option (apfst port_key) (container_port opts ?c) = map_option (apfst port_key) (container_port opts ?c')"
    using selected_key_cong [OF assms] by (simp add: container_port_def same prefs)
  then have "container_port opts ?c = None \<and> container_port opts ?c' = None \<or>
      (\<exists>p p' src. container_port opts ?c = Some (p, src) \<and> container_port opts ?c' = Some (p', src) \<and>
        pp_HostPort p = pp_HostPort p')"
    by (cases "container_port opts ?c"; cases "container_port opts ?c'") (auto simp: port_key_def)
  then show ?thesis
    by (auto simp: claims_of_def routed_port_def claim_of_def container_domains_def same prefs)
qed

text \<open>C27. What the daemon routes after a scan does not depend on the order in which Go ranges over
  Docker's port maps, nor on how \<open>sort.Slice\<close> leaves ports that compare equal: the containers
  found claim the same names with the same upstreams. (Only the host address of a port that is bound
  several times may differ, and nothing reads it.)\<close>

theorem scan_claims_deterministic:
  assumes "rearranges it" and "rearranges it'" and "rearranges shuf" and "rearranges shuf'"
    and "\<forall>c \<in> set containers. wf_gomap (dic_Ports c)"
  shows "all_claims opts (map (inspected it shuf) containers) =
    all_claims opts (map (inspected it' shuf') containers)"
proof -
  have "claims_of opts (inspected it shuf c) = claims_of opts (inspected it' shuf' c)"
    if "c \<in> set containers" for c
  proof -
    have "map port_key (publishedPorts it shuf c) = map port_key (publishedPorts it' shuf' c)"
      using that assms by (simp add: published_keys)
    note claims_see_port_keys [OF this, of opts "inspected it shuf c"]
    moreover have "inspected it shuf c = (inspected it shuf c)\<lparr>cs_Ports := publishedPorts it shuf c\<rparr>"
      "inspected it' shuf' c = (inspected it shuf c)\<lparr>cs_Ports := publishedPorts it' shuf' c\<rparr>"
      by (simp_all add: inspected_def)
    ultimately show ?thesis by metis
  qed
  then show ?thesis by (simp add: all_claims_def comp_def cong: map_cong)
qed

definition two_port_container :: docker_inspect_container where
  "two_port_container = \<lparr>dic_ID = ''c3'', dic_Name = ''/acme-web-1'',
     dic_Labels = [''com.docker.compose.project'' \<mapsto> ''acme'', ''com.docker.compose.service'' \<mapsto> ''web''],
     dic_Running = True,
     dic_Ports = [(''80/tcp'', [\<lparr>pb_HostIP = ''0.0.0.0'', pb_HostPort = ''8081''\<rparr>,
         \<lparr>pb_HostIP = ''::'', pb_HostPort = ''8081''\<rparr>]),
       (''9000/tcp'', [\<lparr>pb_HostIP = ''0.0.0.0'', pb_HostPort = '' 4444 ''\<rparr>]), (''53/udp'', [])]\<rparr>"

theorem scan_claims_deterministic_witness:
  "map (up_Port \<circ> route_Upstream) (all_claims plain_options [inspected rev rev two_port_container]) = [4444] \<and>
   all_claims plain_options [inspected rev rev two_port_container] =
     all_claims plain_options [inspected id id two_port_container]"
proof -
  have "\<forall>c \<in> set [two_port_container]. wf_gomap (dic_Ports c)"
    by (simp add: two_port_container_def wf_gomap_def)
  note same = scan_claims_deterministic [OF rearranges_rev _ rearranges_rev _ this, of id id plain_options]
  have "map (up_Port \<circ> route_Upstream) (all_claims plain_options [inspected rev rev two_port_container]) = [4444]"
    by code_simp
  with same show ?thesis by (simp add: rearranges_def)
qed

text \<open>C28. The watcher never goes quiet. The goroutine that relays the events of the docker command and the
  consumer of the daemon cannot deadlock, in whatever order they run, and are done within
  \<open>2 * lines + 5\<close> steps once the command has ended, however it ended. When they can go no further, the consumer has
  returned. Unless its own context ended, it has handled exactly the relayed events, in order, and
  returns an error, the relayed one or that of the closed stream, and with any such error the
  watcher is marked disconnected and connects again.\<close>

theorem stream_end_is_noticed:
  assumes "(any_step unmarshal ending env scan ^^ k) (new_consumer lines a w) x"
    and "relay_all unmarshal ending lines = (actions, err)"
  shows "k \<le> 2 * length lines + 5 \<and>
    ((\<nexists>y. stream_step unmarshal ending env scan x y) \<longrightarrow>
      (\<exists>result. cn_result x = Some result \<and>
        (\<not> cn_done x \<longrightarrow> result \<noteq> None \<and> result \<in> {err, Some ''docker event stream closed''} \<and>
           (cn_app x, cn_world x) = handle_all env scan actions (a, w) \<and>
           (let (phase, a', w') = watch_end env result False (cn_app x) (cn_world x)
            in phase = Connecting \<and> \<not> dwh_Connected (app_watcher a')))))"
proof -
  have "k \<le> 2 * length lines + 5"
    using steps_left_run [OF assms(1)] by (simp add: steps_left_def new_consumer_def new_stream_def)
  moreover have "\<exists>result. cn_result x = Some result \<and>
        (\<not> cn_done x \<longrightarrow> result \<noteq> None \<and> result \<in> {err, Some ''docker event stream closed''} \<and>
           (cn_app x, cn_world x) = handle_all env scan actions (a, w) \<and>
           (let (phase, a', w') = watch_end env result False (cn_app x) (cn_world x)
            in phase = Connecting \<and> \<not> dwh_Connected (app_watcher a')))"
    if stuck: "\<nexists>y. stream_step unmarshal ending env scan x y"
  proof -
    have inv: "stream_inv unmarshal ending env scan lines (a, w) x \<or> cn_done x" using stream_inv_run [OF assms(1)] by blast
    from stream_progress [OF this] stuck obtain result where result: "cn_result x = Some result" by fastforce
    have "result \<noteq> None \<and> result \<in> {err, Some ''docker event stream closed''} \<and>
        (cn_app x, cn_world x) = handle_all env scan actions (a, w)" if "\<not> cn_done x"
      using inv that result assms(2) relay_events_err [of unmarshal ending lines]
      by (auto simp: stream_inv_def Let_def split: relay_pc.splits prod.splits)
    moreover have "let (phase, a', w') = watch_end env result False (cn_app x) (cn_world x)
        in phase = Connecting \<and> \<not> dwh_Connected (app_watcher a')" if "result \<noteq> None"
      using that by (auto simp: watch_end_def recordWatcherIssue_def recordIssue_def OnDisconnect_def Let_def)
    ultimately show ?thesis using result by blast
  qed
  ultimately show ?thesis by blast
qed


definition print_events :: "string \<Rightarrow> go_error + docker_event_message" where
  "print_events line = Inr \<lparr>dem_Status = line, dem_Action = []\<rparr>"

definition clean_exit :: stream_ending where
  "clean_exit = \<lparr>se_scan_err = None, se_wait_err = None, se_stderr = []\<rparr>"

text \<open>A run: a container dies, the command ends, and the consumer takes the error.\<close>

lemma one_event_run:
  "\<exists>x. (any_step print_events clean_exit acme_app_env acme_scan ^^ 6) (new_consumer [''die''] acme_daemon 1) x \<and>
     \<not> cn_done x \<and> cn_result x \<noteq> None \<and> es_pc (cn_stream x) = Exited"
proof -
  let ?step = "stream_step print_events clean_exit acme_app_env acme_scan"
  let ?es = "\<lambda>pc errs closed1 closed2. \<lparr>es_lines = [], es_pc = pc, es_errs = errs, es_errsClosed = closed1,
    es_eventsClosed = closed2, es_cancelled = False\<rparr>"
  obtain a w where handled: "handleDockerEvent acme_app_env acme_scan ''die'' acme_daemon 1 = (a, w)" by fastforce
  let ?x = "\<lambda>es a w r. \<lparr>cn_stream = es, cn_app = a, cn_world = w, cn_done = False, cn_result = r\<rparr>"
  have relayed: "?step (?x es a w r) (?x es' a w r)" if "relay_step print_events clean_exit es = Some es'" for es es' a w r
    using stream_step.relay [of print_events clean_exit "?x es a w r" es'] that by simp
  have "?step (new_consumer [''die''] acme_daemon 1) (?x (?es (Sending ''die'') None False False) acme_daemon 1 None)"
    unfolding new_consumer_def by (rule relayed) code_simp
  moreover have "?step (?x (?es (Sending ''die'') None False False) acme_daemon 1 None) (?x (?es Scanning None False False) a w None)"
    using stream_step.receive [of "?x (?es (Sending ''die'') None False False) acme_daemon 1 None" "EventItem ''die''"
      print_events clean_exit acme_app_env acme_scan] handled
    by (simp add: ready_def consumeDockerEvents_def)
  moreover have "?step (?x (?es Scanning None False False) a w None) (?x (?es ClosingErrs (Some ''EOF'') False False) a w None)"
    by (rule relayed) code_simp
  moreover have "?step (?x (?es ClosingErrs (Some ''EOF'') False False) a w None)
      (?x (?es ClosingErrs None False False) a w (Some (Some ''EOF'')))"
    using stream_step.receive [of "?x (?es ClosingErrs (Some ''EOF'') False False) a w None" "ErrorItem (Some ''EOF'')"]
    by (simp add: ready_def consumeDockerEvents_def)
  moreover have "?step (?x (?es ClosingErrs None False False) a w r) (?x (?es ClosingEvents None True False) a w r)"
      "?step (?x (?es ClosingEvents None True False) a w r) (?x (?es Exited None True True) a w r)" for r
    by (rule relayed, simp add: relay_step_def)+
  ultimately have "(any_step print_events clean_exit acme_app_env acme_scan ^^ 6) (new_consumer [''die''] acme_daemon 1)
      (?x (?es Exited None True True) a w (Some (Some ''EOF'')))"
    by (simp add: eval_nat_numeral relcompp.simps) blast
  then show ?thesis by (intro exI [of _ "?x (?es Exited None True True) a w (Some (Some ''EOF''))"]) simp
qed

theorem stream_end_is_noticed_witness:
  "\<exists>x. (any_step print_events clean_exit acme_app_env acme_scan ^^ 6) (new_consumer [''die''] acme_daemon 1) x \<and>
     (cn_app x, cn_world x) = handle_all acme_app_env acme_scan [''die''] (acme_daemon, 1)"
proof -
  obtain x where run: "(any_step print_events clean_exit acme_app_env acme_scan ^^ 6) (new_consumer [''die''] acme_daemon 1) x"
    and x: "\<not> cn_done x" "cn_result x \<noteq> None" "es_pc (cn_stream x) = Exited" using one_event_run by blast
  then have "\<nexists>y. stream_step print_events clean_exit acme_app_env acme_scan x y"
    by (auto elim!: stream_step.cases simp: relay_step_def)
  moreover have "relay_all print_events clean_exit [''die''] = ([''die''], Some ''EOF'')" by code_simp
  ultimately show ?thesis using stream_end_is_noticed [OF run] run x(1) by blast
qed

end
