(* ===== verification/Json.thy ===== *)
theory Json
  imports Admin "HOL-Library.Monad_Syntax"
begin

text \<open>
  The JSON the admin socket carries: what \<open>encoding/json\<close> makes of the structs of \<open>internal/admin\<close>,
  \<open>internal/routing\<close> and \<open>internal/adminapi/types.go\<close>, and how it reads them back. A value is encoded under
  the names its struct gives its fields (their tags, or their Go names where there is no tag), and each
  decoder looks those names up on its own; that they fit together is proved type by type. JSON
  is its abstract syntax: the text in between belongs to the standard library, which replaces bytes that are
  not UTF-8; no string of the model has any.
\<close>

section \<open>Values\<close>

text \<open>A time is its RFC 3339 text and a \<open>map[string]string\<close> an object of strings, whose keys have no
  order. A nil slice is \<open>null\<close>, which reads as nil again; the model has one empty list for both.\<close>

datatype json =
    is_null: JNull
  | JBool bool
  | JInt int
  | JStr string
  | JTime go_time
  | JArr "json list"
  | JObj "(string \<times> json) list"
  | JDict "string \<rightharpoonup> string"

text \<open>A string field with the tag \<open>omitempty\<close>.\<close>

definition omit_empty :: "string \<Rightarrow> string \<Rightarrow> (string \<times> json) list" where
  "omit_empty name s = (if s = [] then [] else [(name, JStr s)])"

section \<open>Decoding\<close>

text \<open>\<open>None\<close> is the error of a value of the wrong kind.\<close>

fun as_bool :: "json \<Rightarrow> bool option" where
  "as_bool (JBool b) = Some b"
| "as_bool _ = None"

fun as_int :: "json \<Rightarrow> int option" where
  "as_int (JInt i) = Some i"
| "as_int _ = None"

text \<open>Counts are Go integers that are never negative.\<close>

fun as_nat :: "json \<Rightarrow> nat option" where
  "as_nat (JInt i) = (if 0 \<le> i then Some (nat i) else None)"
| "as_nat _ = None"

fun as_string :: "json \<Rightarrow> string option" where
  "as_string (JStr s) = Some s"
| "as_string _ = None"

fun as_time :: "json \<Rightarrow> go_time option" where
  "as_time (JTime t) = Some t"
| "as_time _ = None"

fun as_dict :: "json \<Rightarrow> (string \<rightharpoonup> string) option" where
  "as_dict (JDict m) = Some m"
| "as_dict _ = None"

text \<open>Every element, or the error of one.\<close>

fun as_all :: "('a \<Rightarrow> 'b option) \<Rightarrow> 'a list \<Rightarrow> 'b list option" where
  "as_all d [] = Some []"
| "as_all d (x # xs) = do { y \<leftarrow> d x; ys \<leftarrow> as_all d xs; Some (y # ys) }"

fun as_list :: "(json \<Rightarrow> 'a option) \<Rightarrow> json \<Rightarrow> 'a list option" where
  "as_list d (JArr js) = as_all d js"
| "as_list d _ = None"

text \<open>\<open>null\<close> leaves a struct as it is.\<close>

fun as_object :: "json \<Rightarrow> (string \<times> json) list option" where
  "as_object (JObj kvs) = Some kvs"
| "as_object JNull = Some []"
| "as_object _ = None"

text \<open>The member for a field: the last one of that name, or else the last whose name differs in case only.
  A field without a member, or with the member \<open>null\<close>, keeps its zero value.\<close>

definition member_of :: "string \<Rightarrow> (string \<times> json) list \<Rightarrow> json option" where
  "member_of name obj =
     (case map_of (rev obj) name of
        Some v \<Rightarrow> Some v
      | None \<Rightarrow> map_option snd (find (\<lambda>(k, v). to_lower k = to_lower name) (rev obj)))"

definition field :: "string \<Rightarrow> (json \<Rightarrow> 'a option) \<Rightarrow> 'a \<Rightarrow> (string \<times> json) list \<Rightarrow> 'a option" where
  "field name d zero obj =
     (case member_of name obj of None \<Rightarrow> Some zero | Some v \<Rightarrow> if is_null v then Some zero else d v)"

named_theorems json

lemma as_all_map [json]: "(\<And>x. d (e x) = Some x) \<Longrightarrow> as_all d (map e xs) = Some xs"
  by (induction xs) simp_all

declare field_def [json] member_of_def [json] omit_empty_def [json]

lemma lower_names [json]:
  "to_lower ''accepted'' = ''accepted''" "to_lower ''refreshed'' = ''refreshed''" "to_lower ''at'' = ''at''"
  "to_lower ''error'' = ''error''" "to_lower ''paused'' = ''paused''" "to_lower ''role'' = ''role''"
  "to_lower ''enabled'' = ''enabled''" "to_lower ''affected_role'' = ''affected_role''" "to_lower ''reason'' = ''reason''"
  by code_simp+

section \<open>Routing data\<close>

definition zero_candidate :: candidate where
  "zero_candidate = \<lparr>cand_ContainerID = [], cand_ContainerName = [], cand_Project = [], cand_Service = [],
     cand_Source = [], cand_PublishedPorts = [], cand_Labels = Map.empty, cand_Warnings = []\<rparr>"

definition enc_port :: "routing_port \<Rightarrow> json" where
  "enc_port x = JObj
     [(''ContainerPort'', JInt (rp_ContainerPort x)), (''HostPort'', JInt (rp_HostPort x)),
      (''Protocol'', JStr (rp_Protocol x)), (''HostIP'', JStr (rp_HostIP x))]"

definition dec_port :: "json \<Rightarrow> routing_port option" where
  "dec_port j = do {
     obj \<leftarrow> as_object j;
     v0 \<leftarrow> field ''ContainerPort'' as_int 0 obj;
     v1 \<leftarrow> field ''HostPort'' as_int 0 obj;
     v2 \<leftarrow> field ''Protocol'' as_string [] obj;
     v3 \<leftarrow> field ''HostIP'' as_string [] obj;
     Some \<lparr>rp_ContainerPort = v0, rp_HostPort = v1, rp_Protocol = v2, rp_HostIP = v3\<rparr>
   }"

lemma port_round_trip [json]: "\<not> is_null (enc_port x)" "dec_port (enc_port x) = Some x"
  by (simp_all add: enc_port_def dec_port_def json)

definition enc_warning :: "warning \<Rightarrow> json" where
  "enc_warning x = JObj
     [(''Code'', JStr (warn_Code x)), (''Message'', JStr (warn_Message x)),
      (''Container'', JStr (warn_Container x)), (''Field'', JStr (warn_Field x)),
      (''Severity'', JStr (warn_Severity x)), (''Source'', JStr (warn_Source x))]"

definition dec_warning :: "json \<Rightarrow> warning option" where
  "dec_warning j = do {
     obj \<leftarrow> as_object j;
     v0 \<leftarrow> field ''Code'' as_string [] obj;
     v1 \<leftarrow> field ''Message'' as_string [] obj;
     v2 \<leftarrow> field ''Container'' as_string [] obj;
     v3 \<leftarrow> field ''Field'' as_string [] obj;
     v4 \<leftarrow> field ''Severity'' as_string [] obj;
     v5 \<leftarrow> field ''Source'' as_string [] obj;
     Some \<lparr>warn_Code = v0, warn_Message = v1, warn_Container = v2, warn_Field = v3, warn_Severity = v4,
       warn_Source = v5\<rparr>
   }"

lemma warning_round_trip [json]: "\<not> is_null (enc_warning x)" "dec_warning (enc_warning x) = Some x"
  by (simp_all add: enc_warning_def dec_warning_def json)

definition enc_candidate :: "candidate \<Rightarrow> json" where
  "enc_candidate x = JObj
     [(''ContainerID'', JStr (cand_ContainerID x)), (''ContainerName'', JStr (cand_ContainerName x)),
      (''Project'', JStr (cand_Project x)), (''Service'', JStr (cand_Service x)),
      (''Source'', JStr (cand_Source x)), (''PublishedPorts'', JArr (map enc_port (cand_PublishedPorts x))),
      (''Labels'', JDict (cand_Labels x)), (''Warnings'', JArr (map enc_warning (cand_Warnings x)))]"

definition dec_candidate :: "json \<Rightarrow> candidate option" where
  "dec_candidate j = do {
     obj \<leftarrow> as_object j;
     v0 \<leftarrow> field ''ContainerID'' as_string [] obj;
     v1 \<leftarrow> field ''ContainerName'' as_string [] obj;
     v2 \<leftarrow> field ''Project'' as_string [] obj;
     v3 \<leftarrow> field ''Service'' as_string [] obj;
     v4 \<leftarrow> field ''Source'' as_string [] obj;
     v5 \<leftarrow> field ''PublishedPorts'' (as_list dec_port) [] obj;
     v6 \<leftarrow> field ''Labels'' as_dict Map.empty obj;
     v7 \<leftarrow> field ''Warnings'' (as_list dec_warning) [] obj;
     Some \<lparr>cand_ContainerID = v0, cand_ContainerName = v1, cand_Project = v2, cand_Service = v3, cand_Source = v4,
       cand_PublishedPorts = v5, cand_Labels = v6, cand_Warnings = v7\<rparr>
   }"

lemma candidate_round_trip [json]: "\<not> is_null (enc_candidate x)" "dec_candidate (enc_candidate x) = Some x"
  by (simp_all add: enc_candidate_def dec_candidate_def json)

definition enc_conflict :: "conflict \<Rightarrow> json" where
  "enc_conflict x = JObj
     [(''Hostname'', JStr (conf_Hostname x)), (''Winner'', enc_candidate (conf_Winner x)),
      (''Losers'', JArr (map enc_candidate (conf_Losers x))), (''Reason'', JStr (conf_Reason x)),
      (''PriorityTie'', JBool (conf_PriorityTie x))]"

definition dec_conflict :: "json \<Rightarrow> conflict option" where
  "dec_conflict j = do {
     obj \<leftarrow> as_object j;
     v0 \<leftarrow> field ''Hostname'' as_string [] obj;
     v1 \<leftarrow> field ''Winner'' dec_candidate zero_candidate obj;
     v2 \<leftarrow> field ''Losers'' (as_list dec_candidate) [] obj;
     v3 \<leftarrow> field ''Reason'' as_string [] obj;
     v4 \<leftarrow> field ''PriorityTie'' as_bool False obj;
     Some \<lparr>conf_Hostname = v0, conf_Winner = v1, conf_Losers = v2, conf_Reason = v3, conf_PriorityTie = v4\<rparr>
   }"

lemma conflict_round_trip [json]: "\<not> is_null (enc_conflict x)" "dec_conflict (enc_conflict x) = Some x"
  by (simp_all add: enc_conflict_def dec_conflict_def json)

section \<open>The views of \<open>internal/admin\<close>\<close>

definition zero_watcher_health :: watcher_health where
  "zero_watcher_health = \<lparr>wh_Connected = False, wh_LastDisconnect = ZeroTime, wh_LastReconnectSync = ZeroTime\<rparr>"

definition zero_dns_status :: dns_status where
  "zero_dns_status = \<lparr>ds_Healthy = False, ds_ManagedSuffix = []\<rparr>"

definition zero_listener_status :: listener_status where
  "zero_listener_status = \<lparr>lst_Enabled = False, lst_Bound = False, lst_BindAddress = [], lst_LastError = []\<rparr>"

definition zero_status_view :: status_view where
  "zero_status_view = \<lparr>sv_SnapshotVersion = [], sv_ActiveRoutes = 0, sv_Conflicts = 0, sv_Warnings = 0,
     sv_ConflictDetails = [], sv_WarningDetails = [], sv_LastSync = ZeroTime, sv_Watcher = zero_watcher_health,
     sv_DNS = zero_dns_status, sv_HTTP = zero_listener_status, sv_HTTPS = zero_listener_status,
     sv_Paused = False, sv_CertificateReady = False, sv_StartupRoles = []\<rparr>"

definition zero_network_doctor :: network_doctor_status where
  "zero_network_doctor = \<lparr>nds_DNSHealthy = False, nds_HTTPBound = False, nds_HTTPSBound = False,
     nds_Paused = False, nds_CertificateReady = False, nds_ManagedSuffix = []\<rparr>"

definition zero_doctor_view :: doctor_view where
  "zero_doctor_view = \<lparr>dv_ConflictCount = 0, dv_WarningCount = 0, dv_Warnings = [], dv_Conflicts = [],
     dv_Network = zero_network_doctor\<rparr>"

definition enc_watcher :: "watcher_health \<Rightarrow> json" where
  "enc_watcher x = JObj
     [(''Connected'', JBool (wh_Connected x)), (''LastDisconnect'', JTime (wh_LastDisconnect x)),
      (''LastReconnectSync'', JTime (wh_LastReconnectSync x))]"

definition dec_watcher :: "json \<Rightarrow> watcher_health option" where
  "dec_watcher j = do {
     obj \<leftarrow> as_object j;
     v0 \<leftarrow> field ''Connected'' as_bool False obj;
     v1 \<leftarrow> field ''LastDisconnect'' as_time ZeroTime obj;
     v2 \<leftarrow> field ''LastReconnectSync'' as_time ZeroTime obj;
     Some \<lparr>wh_Connected = v0, wh_LastDisconnect = v1, wh_LastReconnectSync = v2\<rparr>
   }"

lemma watcher_round_trip [json]: "\<not> is_null (enc_watcher x)" "dec_watcher (enc_watcher x) = Some x"
  by (simp_all add: enc_watcher_def dec_watcher_def json)

definition enc_dns_status :: "dns_status \<Rightarrow> json" where
  "enc_dns_status x = JObj
     [(''Healthy'', JBool (ds_Healthy x)), (''ManagedSuffix'', JStr (ds_ManagedSuffix x))]"

definition dec_dns_status :: "json \<Rightarrow> dns_status option" where
  "dec_dns_status j = do {
     obj \<leftarrow> as_object j;
     v0 \<leftarrow> field ''Healthy'' as_bool False obj;
     v1 \<leftarrow> field ''ManagedSuffix'' as_string [] obj;
     Some \<lparr>ds_Healthy = v0, ds_ManagedSuffix = v1\<rparr>
   }"

lemma dns_status_round_trip [json]: "\<not> is_null (enc_dns_status x)" "dec_dns_status (enc_dns_status x) = Some x"
  by (simp_all add: enc_dns_status_def dec_dns_status_def json)

definition enc_listener :: "listener_status \<Rightarrow> json" where
  "enc_listener x = JObj
     [(''Enabled'', JBool (lst_Enabled x)), (''Bound'', JBool (lst_Bound x)),
      (''BindAddress'', JStr (lst_BindAddress x)), (''LastError'', JStr (lst_LastError x))]"

definition dec_listener :: "json \<Rightarrow> listener_status option" where
  "dec_listener j = do {
     obj \<leftarrow> as_object j;
     v0 \<leftarrow> field ''Enabled'' as_bool False obj;
     v1 \<leftarrow> field ''Bound'' as_bool False obj;
     v2 \<leftarrow> field ''BindAddress'' as_string [] obj;
     v3 \<leftarrow> field ''LastError'' as_string [] obj;
     Some \<lparr>lst_Enabled = v0, lst_Bound = v1, lst_BindAddress = v2, lst_LastError = v3\<rparr>
   }"

lemma listener_round_trip [json]: "\<not> is_null (enc_listener x)" "dec_listener (enc_listener x) = Some x"
  by (simp_all add: enc_listener_def dec_listener_def json)

definition enc_role_status :: "startup_role_status \<Rightarrow> json" where
  "enc_role_status x = JObj
     [(''Role'', JStr (srs_Role x)), (''Domain'', JStr (srs_Domain x)), (''Label'', JStr (srs_Label x)),
      (''Installed'', JBool (srs_Installed x)), (''Running'', JBool (srs_Running x)),
      (''Toggleable'', JBool (srs_Toggleable x)), (''StatusMessage'', JStr (srs_StatusMessage x))]"

definition dec_role_status :: "json \<Rightarrow> startup_role_status option" where
  "dec_role_status j = do {
     obj \<leftarrow> as_object j;
     v0 \<leftarrow> field ''Role'' as_string [] obj;
     v1 \<leftarrow> field ''Domain'' as_string [] obj;
     v2 \<leftarrow> field ''Label'' as_string [] obj;
     v3 \<leftarrow> field ''Installed'' as_bool False obj;
     v4 \<leftarrow> field ''Running'' as_bool False obj;
     v5 \<leftarrow> field ''Toggleable'' as_bool False obj;
     v6 \<leftarrow> field ''StatusMessage'' as_string [] obj;
     Some \<lparr>srs_Role = v0, srs_Domain = v1, srs_Label = v2, srs_Installed = v3, srs_Running = v4,
       srs_Toggleable = v5, srs_StatusMessage = v6\<rparr>
   }"

lemma role_status_round_trip [json]: "\<not> is_null (enc_role_status x)" "dec_role_status (enc_role_status x) = Some x"
  by (simp_all add: enc_role_status_def dec_role_status_def json)

definition enc_status_view :: "status_view \<Rightarrow> json" where
  "enc_status_view x = JObj
     [(''SnapshotVersion'', JStr (sv_SnapshotVersion x)), (''ActiveRoutes'', JInt (int (sv_ActiveRoutes x))),
      (''Conflicts'', JInt (int (sv_Conflicts x))), (''Warnings'', JInt (int (sv_Warnings x))),
      (''ConflictDetails'', JArr (map enc_conflict (sv_ConflictDetails x))),
      (''WarningDetails'', JArr (map enc_warning (sv_WarningDetails x))), (''LastSync'', JTime (sv_LastSync x)),
      (''Watcher'', enc_watcher (sv_Watcher x)), (''DNS'', enc_dns_status (sv_DNS x)),
      (''HTTP'', enc_listener (sv_HTTP x)), (''HTTPS'', enc_listener (sv_HTTPS x)),
      (''Paused'', JBool (sv_Paused x)), (''CertificateReady'', JBool (sv_CertificateReady x)),
      (''StartupRoles'', JArr (map enc_role_status (sv_StartupRoles x)))]"

definition dec_status_view :: "json \<Rightarrow> status_view option" where
  "dec_status_view j = do {
     obj \<leftarrow> as_object j;
     v0 \<leftarrow> field ''SnapshotVersion'' as_string [] obj;
     v1 \<leftarrow> field ''ActiveRoutes'' as_nat 0 obj;
     v2 \<leftarrow> field ''Conflicts'' as_nat 0 obj;
     v3 \<leftarrow> field ''Warnings'' as_nat 0 obj;
     v4 \<leftarrow> field ''ConflictDetails'' (as_list dec_conflict) [] obj;
     v5 \<leftarrow> field ''WarningDetails'' (as_list dec_warning) [] obj;
     v6 \<leftarrow> field ''LastSync'' as_time ZeroTime obj;
     v7 \<leftarrow> field ''Watcher'' dec_watcher zero_watcher_health obj;
     v8 \<leftarrow> field ''DNS'' dec_dns_status zero_dns_status obj;
     v9 \<leftarrow> field ''HTTP'' dec_listener zero_listener_status obj;
     v10 \<leftarrow> field ''HTTPS'' dec_listener zero_listener_status obj;
     v11 \<leftarrow> field ''Paused'' as_bool False obj;
     v12 \<leftarrow> field ''CertificateReady'' as_bool False obj;
     v13 \<leftarrow> field ''StartupRoles'' (as_list dec_role_status) [] obj;
     Some \<lparr>sv_SnapshotVersion = v0, sv_ActiveRoutes = v1, sv_Conflicts = v2, sv_Warnings = v3,
       sv_ConflictDetails = v4, sv_WarningDetails = v5, sv_LastSync = v6, sv_Watcher = v7, sv_DNS = v8,
       sv_HTTP = v9, sv_HTTPS = v10, sv_Paused = v11, sv_CertificateReady = v12, sv_StartupRoles = v13\<rparr>
   }"

lemma status_view_round_trip [json]: "\<not> is_null (enc_status_view x)" "dec_status_view (enc_status_view x) = Some x"
  by (simp_all add: enc_status_view_def dec_status_view_def json)

definition enc_network_doctor :: "network_doctor_status \<Rightarrow> json" where
  "enc_network_doctor x = JObj
     [(''DNSHealthy'', JBool (nds_DNSHealthy x)), (''HTTPBound'', JBool (nds_HTTPBound x)),
      (''HTTPSBound'', JBool (nds_HTTPSBound x)), (''Paused'', JBool (nds_Paused x)),
      (''CertificateReady'', JBool (nds_CertificateReady x)), (''ManagedSuffix'', JStr (nds_ManagedSuffix x))]"

definition dec_network_doctor :: "json \<Rightarrow> network_doctor_status option" where
  "dec_network_doctor j = do {
     obj \<leftarrow> as_object j;
     v0 \<leftarrow> field ''DNSHealthy'' as_bool False obj;
     v1 \<leftarrow> field ''HTTPBound'' as_bool False obj;
     v2 \<leftarrow> field ''HTTPSBound'' as_bool False obj;
     v3 \<leftarrow> field ''Paused'' as_bool False obj;
     v4 \<leftarrow> field ''CertificateReady'' as_bool False obj;
     v5 \<leftarrow> field ''ManagedSuffix'' as_string [] obj;
     Some \<lparr>nds_DNSHealthy = v0, nds_HTTPBound = v1, nds_HTTPSBound = v2, nds_Paused = v3, nds_CertificateReady = v4,
       nds_ManagedSuffix = v5\<rparr>
   }"

lemma network_doctor_round_trip [json]: "\<not> is_null (enc_network_doctor x)" "dec_network_doctor (enc_network_doctor x) = Some x"
  by (simp_all add: enc_network_doctor_def dec_network_doctor_def json)

definition enc_doctor_view :: "doctor_view \<Rightarrow> json" where
  "enc_doctor_view x = JObj
     [(''ConflictCount'', JInt (int (dv_ConflictCount x))), (''WarningCount'', JInt (int (dv_WarningCount x))),
      (''Warnings'', JArr (map enc_warning (dv_Warnings x))),
      (''Conflicts'', JArr (map enc_conflict (dv_Conflicts x))),
      (''Network'', enc_network_doctor (dv_Network x))]"

definition dec_doctor_view :: "json \<Rightarrow> doctor_view option" where
  "dec_doctor_view j = do {
     obj \<leftarrow> as_object j;
     v0 \<leftarrow> field ''ConflictCount'' as_nat 0 obj;
     v1 \<leftarrow> field ''WarningCount'' as_nat 0 obj;
     v2 \<leftarrow> field ''Warnings'' (as_list dec_warning) [] obj;
     v3 \<leftarrow> field ''Conflicts'' (as_list dec_conflict) [] obj;
     v4 \<leftarrow> field ''Network'' dec_network_doctor zero_network_doctor obj;
     Some \<lparr>dv_ConflictCount = v0, dv_WarningCount = v1, dv_Warnings = v2, dv_Conflicts = v3, dv_Network = v4\<rparr>
   }"

lemma doctor_view_round_trip [json]: "\<not> is_null (enc_doctor_view x)" "dec_doctor_view (enc_doctor_view x) = Some x"
  by (simp_all add: enc_doctor_view_def dec_doctor_view_def json)

definition enc_log_event :: "log_event \<Rightarrow> json" where
  "enc_log_event x = JObj
     [(''Timestamp'', JTime (le_Timestamp x)), (''Type'', JStr (le_Type x)), (''Message'', JStr (le_Message x)),
      (''Hostname'', JStr (le_Hostname x)), (''HandlingState'', JStr (le_HandlingState x)),
      (''UpstreamScheme'', JStr (le_UpstreamScheme x)), (''UpstreamPort'', JInt (le_UpstreamPort x))]"

definition dec_log_event :: "json \<Rightarrow> log_event option" where
  "dec_log_event j = do {
     obj \<leftarrow> as_object j;
     v0 \<leftarrow> field ''Timestamp'' as_time ZeroTime obj;
     v1 \<leftarrow> field ''Type'' as_string [] obj;
     v2 \<leftarrow> field ''Message'' as_string [] obj;
     v3 \<leftarrow> field ''Hostname'' as_string [] obj;
     v4 \<leftarrow> field ''HandlingState'' as_string [] obj;
     v5 \<leftarrow> field ''UpstreamScheme'' as_string [] obj;
     v6 \<leftarrow> field ''UpstreamPort'' as_int 0 obj;
     Some \<lparr>le_Timestamp = v0, le_Type = v1, le_Message = v2, le_Hostname = v3, le_HandlingState = v4,
       le_UpstreamScheme = v5, le_UpstreamPort = v6\<rparr>
   }"

lemma log_event_round_trip [json]: "\<not> is_null (enc_log_event x)" "dec_log_event (enc_log_event x) = Some x"
  by (simp_all add: enc_log_event_def dec_log_event_def json)

definition enc_session_issue :: "session_issue \<Rightarrow> json" where
  "enc_session_issue x = JObj
     [(''Timestamp'', JTime (si_Timestamp x)), (''Role'', JStr (si_Role x)), (''Action'', JStr (si_Action x)),
      (''Message'', JStr (si_Message x))]"

definition dec_session_issue :: "json \<Rightarrow> session_issue option" where
  "dec_session_issue j = do {
     obj \<leftarrow> as_object j;
     v0 \<leftarrow> field ''Timestamp'' as_time ZeroTime obj;
     v1 \<leftarrow> field ''Role'' as_string [] obj;
     v2 \<leftarrow> field ''Action'' as_string [] obj;
     v3 \<leftarrow> field ''Message'' as_string [] obj;
     Some \<lparr>si_Timestamp = v0, si_Role = v1, si_Action = v2, si_Message = v3\<rparr>
   }"

lemma session_issue_round_trip [json]: "\<not> is_null (enc_session_issue x)" "dec_session_issue (enc_session_issue x) = Some x"
  by (simp_all add: enc_session_issue_def dec_session_issue_def json)

definition enc_route_view :: "route_view \<Rightarrow> json" where
  "enc_route_view x = JObj
     [(''Hostname'', JStr (rv_Hostname x)), (''UpstreamScheme'', JStr (rv_UpstreamScheme x)),
      (''UpstreamHost'', JStr (rv_UpstreamHost x)), (''UpstreamPort'', JInt (rv_UpstreamPort x)),
      (''OpenURL'', JStr (rv_OpenURL x)), (''PreferredScheme'', JStr (rv_PreferredScheme x)),
      (''FallbackReason'', JStr (rv_FallbackReason x)), (''HTTPSReady'', JBool (rv_HTTPSReady x)),
      (''HandlingState'', JStr (rv_HandlingState x)), (''Winner'', JStr (rv_Winner x)),
      (''Losers'', JArr (map JStr (rv_Losers x))), (''Conflict'', JBool (rv_Conflict x))]"

definition dec_route_view :: "json \<Rightarrow> route_view option" where
  "dec_route_view j = do {
     obj \<leftarrow> as_object j;
     v0 \<leftarrow> field ''Hostname'' as_string [] obj;
     v1 \<leftarrow> field ''UpstreamScheme'' as_string [] obj;
     v2 \<leftarrow> field ''UpstreamHost'' as_string [] obj;
     v3 \<leftarrow> field ''UpstreamPort'' as_int 0 obj;
     v4 \<leftarrow> field ''OpenURL'' as_string [] obj;
     v5 \<leftarrow> field ''PreferredScheme'' as_string [] obj;
     v6 \<leftarrow> field ''FallbackReason'' as_string [] obj;
     v7 \<leftarrow> field ''HTTPSReady'' as_bool False obj;
     v8 \<leftarrow> field ''HandlingState'' as_string [] obj;
     v9 \<leftarrow> field ''Winner'' as_string [] obj;
     v10 \<leftarrow> field ''Losers'' (as_list as_string) [] obj;
     v11 \<leftarrow> field ''Conflict'' as_bool False obj;
     Some \<lparr>rv_Hostname = v0, rv_UpstreamScheme = v1, rv_UpstreamHost = v2, rv_UpstreamPort = v3, rv_OpenURL = v4,
       rv_PreferredScheme = v5, rv_FallbackReason = v6, rv_HTTPSReady = v7, rv_HandlingState = v8,
       rv_Winner = v9, rv_Losers = v10, rv_Conflict = v11\<rparr>
   }"

lemma route_view_round_trip [json]: "\<not> is_null (enc_route_view x)" "dec_route_view (enc_route_view x) = Some x"
  by (simp_all add: enc_route_view_def dec_route_view_def json)

section \<open>The bodies of \<open>internal/adminapi/types.go\<close>\<close>

record refresh_response =
  rr_Accepted :: bool
  rr_Refreshed :: bool
  rr_At :: go_time
  rr_Error :: string

record routing_response =
  rp_Paused :: bool
  rp_Error :: string

record api_role =
  ar_Role :: string
  ar_Domain :: string
  ar_Label :: string
  ar_Installed :: bool
  ar_Running :: bool
  ar_Toggleable :: bool
  ar_StatusMessage :: string

record toggle_response =
  tr_Role :: string
  tr_Enabled :: bool
  tr_AffectedRole :: string
  tr_Error :: string

definition enc_RefreshResponse :: "refresh_response \<Rightarrow> json" where
  "enc_RefreshResponse x = JObj
     ([(''accepted'', JBool (rr_Accepted x)), (''refreshed'', JBool (rr_Refreshed x)), (''at'', JTime (rr_At x))] @ omit_empty ''error'' (rr_Error x))"

definition dec_RefreshResponse :: "json \<Rightarrow> refresh_response option" where
  "dec_RefreshResponse j = do {
     obj \<leftarrow> as_object j;
     v0 \<leftarrow> field ''accepted'' as_bool False obj;
     v1 \<leftarrow> field ''refreshed'' as_bool False obj;
     v2 \<leftarrow> field ''at'' as_time ZeroTime obj;
     v3 \<leftarrow> field ''error'' as_string [] obj;
     Some \<lparr>rr_Accepted = v0, rr_Refreshed = v1, rr_At = v2, rr_Error = v3\<rparr>
   }"

lemma RefreshResponse_round_trip [json]: "\<not> is_null (enc_RefreshResponse x)" "dec_RefreshResponse (enc_RefreshResponse x) = Some x"
  by (simp_all add: enc_RefreshResponse_def dec_RefreshResponse_def json)

definition enc_RoutingPauseResumeResponse :: "routing_response \<Rightarrow> json" where
  "enc_RoutingPauseResumeResponse x = JObj
     ([(''paused'', JBool (rp_Paused x))] @ omit_empty ''error'' (rp_Error x))"

definition dec_RoutingPauseResumeResponse :: "json \<Rightarrow> routing_response option" where
  "dec_RoutingPauseResumeResponse j = do {
     obj \<leftarrow> as_object j;
     v0 \<leftarrow> field ''paused'' as_bool False obj;
     v1 \<leftarrow> field ''error'' as_string [] obj;
     Some \<lparr>rp_Paused = v0, rp_Error = v1\<rparr>
   }"

lemma RoutingPauseResumeResponse_round_trip [json]: "\<not> is_null (enc_RoutingPauseResumeResponse x)" "dec_RoutingPauseResumeResponse (enc_RoutingPauseResumeResponse x) = Some x"
  by (simp_all add: enc_RoutingPauseResumeResponse_def dec_RoutingPauseResumeResponse_def json)

definition enc_api_role :: "api_role \<Rightarrow> json" where
  "enc_api_role x = JObj
     [(''role'', JStr (ar_Role x)), (''domain'', JStr (ar_Domain x)), (''label'', JStr (ar_Label x)),
      (''installed'', JBool (ar_Installed x)), (''running'', JBool (ar_Running x)),
      (''toggleable'', JBool (ar_Toggleable x)), (''status_message'', JStr (ar_StatusMessage x))]"

definition dec_api_role :: "json \<Rightarrow> api_role option" where
  "dec_api_role j = do {
     obj \<leftarrow> as_object j;
     v0 \<leftarrow> field ''role'' as_string [] obj;
     v1 \<leftarrow> field ''domain'' as_string [] obj;
     v2 \<leftarrow> field ''label'' as_string [] obj;
     v3 \<leftarrow> field ''installed'' as_bool False obj;
     v4 \<leftarrow> field ''running'' as_bool False obj;
     v5 \<leftarrow> field ''toggleable'' as_bool False obj;
     v6 \<leftarrow> field ''status_message'' as_string [] obj;
     Some \<lparr>ar_Role = v0, ar_Domain = v1, ar_Label = v2, ar_Installed = v3, ar_Running = v4, ar_Toggleable = v5,
       ar_StatusMessage = v6\<rparr>
   }"

lemma api_role_round_trip [json]: "\<not> is_null (enc_api_role x)" "dec_api_role (enc_api_role x) = Some x"
  by (simp_all add: enc_api_role_def dec_api_role_def json)

definition enc_StartupToggleResponse :: "toggle_response \<Rightarrow> json" where
  "enc_StartupToggleResponse x = JObj
     ([(''role'', JStr (tr_Role x)), (''enabled'', JBool (tr_Enabled x)),
      (''affected_role'', JStr (tr_AffectedRole x))] @ omit_empty ''error'' (tr_Error x))"

definition dec_StartupToggleResponse :: "json \<Rightarrow> toggle_response option" where
  "dec_StartupToggleResponse j = do {
     obj \<leftarrow> as_object j;
     v0 \<leftarrow> field ''role'' as_string [] obj;
     v1 \<leftarrow> field ''enabled'' as_bool False obj;
     v2 \<leftarrow> field ''affected_role'' as_string [] obj;
     v3 \<leftarrow> field ''error'' as_string [] obj;
     Some \<lparr>tr_Role = v0, tr_Enabled = v1, tr_AffectedRole = v2, tr_Error = v3\<rparr>
   }"

lemma StartupToggleResponse_round_trip [json]: "\<not> is_null (enc_StartupToggleResponse x)" "dec_StartupToggleResponse (enc_StartupToggleResponse x) = Some x"
  by (simp_all add: enc_StartupToggleResponse_def dec_StartupToggleResponse_def json)

text \<open>The bodies with one field.\<close>

definition enc_StatusResponse :: "status_view \<Rightarrow> json" where
  "enc_StatusResponse x = JObj [(''status'', enc_status_view x)]"

definition dec_StatusResponse :: "json \<Rightarrow> status_view option" where
  "dec_StatusResponse j = do { obj \<leftarrow> as_object j; field ''status'' dec_status_view zero_status_view obj }"

lemma StatusResponse_round_trip [json]: "dec_StatusResponse (enc_StatusResponse x) = Some x"
  by (simp add: enc_StatusResponse_def dec_StatusResponse_def json)

definition enc_RoutesResponse :: "route_view list \<Rightarrow> json" where
  "enc_RoutesResponse x = JObj [(''routes'', JArr (map enc_route_view x))]"

definition dec_RoutesResponse :: "json \<Rightarrow> (route_view list) option" where
  "dec_RoutesResponse j = do { obj \<leftarrow> as_object j; field ''routes'' (as_list dec_route_view) [] obj }"

lemma RoutesResponse_round_trip [json]: "dec_RoutesResponse (enc_RoutesResponse x) = Some x"
  by (simp add: enc_RoutesResponse_def dec_RoutesResponse_def json)

definition enc_DoctorResponse :: "doctor_view \<Rightarrow> json" where
  "enc_DoctorResponse x = JObj [(''doctor'', enc_doctor_view x)]"

definition dec_DoctorResponse :: "json \<Rightarrow> doctor_view option" where
  "dec_DoctorResponse j = do { obj \<leftarrow> as_object j; field ''doctor'' dec_doctor_view zero_doctor_view obj }"

lemma DoctorResponse_round_trip [json]: "dec_DoctorResponse (enc_DoctorResponse x) = Some x"
  by (simp add: enc_DoctorResponse_def dec_DoctorResponse_def json)

definition enc_LogsResponse :: "log_event list \<Rightarrow> json" where
  "enc_LogsResponse x = JObj [(''events'', JArr (map enc_log_event x))]"

definition dec_LogsResponse :: "json \<Rightarrow> (log_event list) option" where
  "dec_LogsResponse j = do { obj \<leftarrow> as_object j; field ''events'' (as_list dec_log_event) [] obj }"

lemma LogsResponse_round_trip [json]: "dec_LogsResponse (enc_LogsResponse x) = Some x"
  by (simp add: enc_LogsResponse_def dec_LogsResponse_def json)

definition enc_SessionIssuesResponse :: "session_issue list \<Rightarrow> json" where
  "enc_SessionIssuesResponse x = JObj [(''issues'', JArr (map enc_session_issue x))]"

definition dec_SessionIssuesResponse :: "json \<Rightarrow> (session_issue list) option" where
  "dec_SessionIssuesResponse j = do { obj \<leftarrow> as_object j; field ''issues'' (as_list dec_session_issue) [] obj }"

lemma SessionIssuesResponse_round_trip [json]: "dec_SessionIssuesResponse (enc_SessionIssuesResponse x) = Some x"
  by (simp add: enc_SessionIssuesResponse_def dec_SessionIssuesResponse_def json)

definition enc_ErrorResponse :: "string \<Rightarrow> json" where
  "enc_ErrorResponse x = JObj [(''error'', JStr x)]"

definition dec_ErrorResponse :: "json \<Rightarrow> string option" where
  "dec_ErrorResponse j = do { obj \<leftarrow> as_object j; field ''error'' as_string [] obj }"

lemma ErrorResponse_round_trip [json]: "dec_ErrorResponse (enc_ErrorResponse x) = Some x"
  by (simp add: enc_ErrorResponse_def dec_ErrorResponse_def json)

definition enc_StartupStatusResponse :: "api_role list \<Rightarrow> json" where
  "enc_StartupStatusResponse x = JObj [(''roles'', JArr (map enc_api_role x))]"

definition dec_StartupStatusResponse :: "json \<Rightarrow> (api_role list) option" where
  "dec_StartupStatusResponse j = do { obj \<leftarrow> as_object j; field ''roles'' (as_list dec_api_role) [] obj }"

lemma StartupStatusResponse_round_trip [json]: "dec_StartupStatusResponse (enc_StartupStatusResponse x) = Some x"
  by (simp add: enc_StartupStatusResponse_def dec_StartupStatusResponse_def json)

text \<open>The bodies of requests.\<close>

definition enc_RefreshRequest :: "string \<Rightarrow> json" where
  "enc_RefreshRequest reason = JObj (omit_empty ''reason'' reason)"

definition dec_RefreshRequest :: "json \<Rightarrow> string option" where
  "dec_RefreshRequest j = do { obj \<leftarrow> as_object j; field ''reason'' as_string [] obj }"

lemma RefreshRequest_round_trip [json]: "dec_RefreshRequest (enc_RefreshRequest reason) = Some reason"
  by (simp add: enc_RefreshRequest_def dec_RefreshRequest_def json)

definition enc_StartupToggleRequest :: "string \<times> bool \<Rightarrow> json" where
  "enc_StartupToggleRequest = (\<lambda>(role, enabled). JObj [(''role'', JStr role), (''enabled'', JBool enabled)])"

definition dec_StartupToggleRequest :: "json \<Rightarrow> (string \<times> bool) option" where
  "dec_StartupToggleRequest j = do {
     obj \<leftarrow> as_object j;
     role \<leftarrow> field ''role'' as_string [] obj;
     enabled \<leftarrow> field ''enabled'' as_bool False obj;
     Some (role, enabled)
   }"

lemma StartupToggleRequest_round_trip [json]: "dec_StartupToggleRequest (enc_StartupToggleRequest x) = Some x"
  by (cases x) (simp add: enc_StartupToggleRequest_def dec_StartupToggleRequest_def json)

text \<open>Every body that has a field \<open>error\<close> can be read for it alone.\<close>

lemma error_of_responses [json]:
  "dec_ErrorResponse (enc_RefreshResponse x) = Some (rr_Error x)"
  "dec_ErrorResponse (enc_RoutingPauseResumeResponse y) = Some (rp_Error y)"
  "dec_ErrorResponse (enc_StartupToggleResponse z) = Some (tr_Error z)"
  by (simp_all add: dec_ErrorResponse_def enc_RefreshResponse_def enc_RoutingPauseResumeResponse_def
      enc_StartupToggleResponse_def json)

end
