(* ===== verification/AdminApi.thy ===== *)
theory AdminApi
  imports Daemon Json
begin

text \<open>
  \<open>internal/adminapi\<close>: the API on the admin socket. The server's functions act on a state \<open>'s\<close>
  (for the daemon: the application, the outside world and the file system). Requests and responses
  carry JSON; the server encodes a struct and the client decodes what it got as the struct it expects (Json).
  The socket file, its permissions and its owner are modelled over the file system; the
  connection itself is not.
\<close>

section \<open>Types\<close>

text \<open>\<open>None\<close> is a body that is not JSON: an empty one, or the text of \<open>http.NotFound\<close>.\<close>

record api_request =
  rq_Method :: string
  rq_Path :: string
  rq_Body :: "json option"

record api_response =
  rs_StatusCode :: int
  rs_Body :: "json option"

section \<open>The server\<close>

record 's server_config =
  svc_SocketPath :: string
  svc_State :: "('s \<Rightarrow> state_snapshot \<times> 's) option"
  svc_Refresh :: "(string \<Rightarrow> 's \<Rightarrow> go_error option \<times> 's) option"
  svc_SetRoutingPaused :: "(bool \<Rightarrow> 's \<Rightarrow> go_error option \<times> 's) option"
  svc_StartupStatus :: "('s \<Rightarrow> (go_error + startup_role_status list) \<times> 's) option"
  svc_SetStartupEnabled :: "(string \<Rightarrow> bool \<Rightarrow> 's \<Rightarrow> (startup_role_status \<times> go_error option) \<times> 's) option"

record 's admin_server =
  as_socketPath :: string
  as_state :: "'s \<Rightarrow> state_snapshot \<times> 's"
  as_refresh :: "string \<Rightarrow> 's \<Rightarrow> go_error option \<times> 's"
  as_setRoutingPaused :: "bool \<Rightarrow> 's \<Rightarrow> go_error option \<times> 's"
  as_startupStatus :: "'s \<Rightarrow> (go_error + startup_role_status list) \<times> 's"
  as_setStartupEnabled :: "string \<Rightarrow> bool \<Rightarrow> 's \<Rightarrow> (startup_role_status \<times> go_error option) \<times> 's"
  as_httpServer :: bool

definition zero_state_snapshot :: state_snapshot where
  "zero_state_snapshot = \<lparr>st_Snapshot = zero_snapshot, st_Status = zero_status_view,
     st_Doctor = zero_doctor_view, st_Logs = [], st_Issues = []\<rparr>"

definition default_startup_roles :: "startup_role_status list" where
  "default_startup_roles =
     [\<lparr>srs_Role = ''daemon'', srs_Domain = ''system'', srs_Label = ''com.devproxy.daemon'', srs_Installed = True,
        srs_Running = True, srs_Toggleable = False, srs_StatusMessage = ''Managed by system launchd''\<rparr>,
      \<lparr>srs_Role = ''menubar'', srs_Domain = ''gui'', srs_Label = ''com.devproxy.menubar'', srs_Installed = False,
        srs_Running = False, srs_Toggleable = True, srs_StatusMessage = ''Not configured''\<rparr>]"

definition NewAdminServer :: "'s server_config \<Rightarrow> go_error + 's admin_server" where
  "NewAdminServer cfg =
     (if svc_SocketPath cfg = [] then Inl ''admin socket path is required''
      else
        (let state = (case svc_State cfg of None \<Rightarrow> Pair zero_state_snapshot | Some f \<Rightarrow> f);
             refresh = (case svc_Refresh cfg of None \<Rightarrow> (\<lambda>_. Pair None) | Some f \<Rightarrow> f);
             setRoutingPaused = (case svc_SetRoutingPaused cfg of None \<Rightarrow> (\<lambda>_. Pair None) | Some f \<Rightarrow> f);
             startupStatus = (case svc_StartupStatus cfg of
                 None \<Rightarrow> (\<lambda>s. case state s of
                   (st, s) \<Rightarrow> (let roles = sv_StartupRoles (st_Status st)
                     in (Inr (if length roles > 0 then roles else default_startup_roles), s)))
               | Some f \<Rightarrow> f);
             setStartupEnabled = (case svc_SetStartupEnabled cfg of
                 None \<Rightarrow> (\<lambda>role _. Pair (zero_role_status\<lparr>srs_Role := role\<rparr>, None))
               | Some f \<Rightarrow> f)
         in Inr \<lparr>as_socketPath = svc_SocketPath cfg, as_state = state, as_refresh = refresh,
              as_setRoutingPaused = setRoutingPaused, as_startupStatus = startupStatus,
              as_setStartupEnabled = setStartupEnabled, as_httpServer = False\<rparr>))"

definition SetRefreshFunc ::
  "(string \<Rightarrow> 's \<Rightarrow> go_error option \<times> 's) option \<Rightarrow> 's admin_server \<Rightarrow> 's admin_server" where
  "SetRefreshFunc f srv = (case f of None \<Rightarrow> srv | Some f \<Rightarrow> srv\<lparr>as_refresh := f\<rparr>)"

definition SetRoutingPauseResume ::
  "(bool \<Rightarrow> 's \<Rightarrow> go_error option \<times> 's) option \<Rightarrow> 's admin_server \<Rightarrow> 's admin_server" where
  "SetRoutingPauseResume f srv = (case f of None \<Rightarrow> srv | Some f \<Rightarrow> srv\<lparr>as_setRoutingPaused := f\<rparr>)"

section \<open>Handlers\<close>

definition writeJSON :: "int \<Rightarrow> json \<Rightarrow> api_response" where
  "writeJSON code payload = \<lparr>rs_StatusCode = code, rs_Body = Some payload\<rparr>"

definition method_not_allowed :: api_response where
  "method_not_allowed = writeJSON 405 (enc_ErrorResponse ''method not allowed'')"

type_synonym 's api_handler = "'s \<Rightarrow> api_response \<times> 's"

definition handleStatus :: "'s admin_server \<Rightarrow> 's api_handler" where
  "handleStatus srv s = (case as_state srv s of (st, s) \<Rightarrow> (writeJSON 200 (enc_StatusResponse (st_Status st)), s))"

definition handleRoutes :: "'s admin_server \<Rightarrow> (string list \<Rightarrow> string list) \<Rightarrow> 's api_handler" where
  "handleRoutes srv it s =
     (case as_state srv s of
        (st, s) \<Rightarrow>
          (let httpsReady = (sv_CertificateReady (st_Status st) \<and> lst_Bound (sv_HTTPS (st_Status st)))
           in (writeJSON 200 (enc_RoutesResponse (RoutesFromSnapshotWithRuntime it (st_Snapshot st) httpsReady)), s)))"

definition handleDoctor :: "'s admin_server \<Rightarrow> 's api_handler" where
  "handleDoctor srv s = (case as_state srv s of (st, s) \<Rightarrow> (writeJSON 200 (enc_DoctorResponse (st_Doctor st)), s))"

definition handleLogs :: "'s admin_server \<Rightarrow> 's api_handler" where
  "handleLogs srv s = (case as_state srv s of (st, s) \<Rightarrow> (writeJSON 200 (enc_LogsResponse (st_Logs st)), s))"

definition handleIssues :: "'s admin_server \<Rightarrow> 's api_handler" where
  "handleIssues srv s =
     (case as_state srv s of
        (st, s) \<Rightarrow> (writeJSON 200 (enc_SessionIssuesResponse (BuildSessionIssues (st_Issues st))), s))"

text \<open>The error of decoding a refresh request is dropped: the reason is then empty.\<close>

definition refresh_reason :: "json option \<Rightarrow> string" where
  "refresh_reason body =
     (case Option.bind body dec_RefreshRequest of None \<Rightarrow> [] | Some reason \<Rightarrow> reason)"

definition handleRefresh :: "'s admin_server \<Rightarrow> ('s \<Rightarrow> go_time) \<Rightarrow> api_request \<Rightarrow> 's api_handler" where
  "handleRefresh srv now req s =
     (if rq_Method req \<noteq> ''POST'' then (method_not_allowed, s)
      else case as_refresh srv (refresh_reason (rq_Body req)) s of
          (Some err, s) \<Rightarrow> (writeJSON 503 (enc_RefreshResponse \<lparr>rr_Accepted = True, rr_Refreshed = False,
             rr_At = now s, rr_Error = err\<rparr>), s)
        | (None, s) \<Rightarrow> (writeJSON 200 (enc_RefreshResponse \<lparr>rr_Accepted = True, rr_Refreshed = True,
             rr_At = now s, rr_Error = []\<rparr>), s))"

definition handleRoutingPause :: "'s admin_server \<Rightarrow> api_request \<Rightarrow> 's api_handler" where
  "handleRoutingPause srv req s =
     (if rq_Method req \<noteq> ''POST'' then (method_not_allowed, s)
      else case as_setRoutingPaused srv True s of
          (Some err, s) \<Rightarrow> (writeJSON 503 (enc_RoutingPauseResumeResponse \<lparr>rp_Paused = False, rp_Error = err\<rparr>), s)
        | (None, s) \<Rightarrow> (writeJSON 200 (enc_RoutingPauseResumeResponse \<lparr>rp_Paused = True, rp_Error = []\<rparr>), s))"

definition handleRoutingResume :: "'s admin_server \<Rightarrow> api_request \<Rightarrow> 's api_handler" where
  "handleRoutingResume srv req s =
     (if rq_Method req \<noteq> ''POST'' then (method_not_allowed, s)
      else case as_setRoutingPaused srv False s of
          (Some err, s) \<Rightarrow> (writeJSON 503 (enc_RoutingPauseResumeResponse \<lparr>rp_Paused = True, rp_Error = err\<rparr>), s)
        | (None, s) \<Rightarrow> (writeJSON 200 (enc_RoutingPauseResumeResponse \<lparr>rp_Paused = False, rp_Error = []\<rparr>), s))"

definition api_role_of :: "startup_role_status \<Rightarrow> api_role" where
  "api_role_of r = \<lparr>ar_Role = srs_Role r, ar_Domain = srs_Domain r, ar_Label = srs_Label r,
     ar_Installed = srs_Installed r, ar_Running = srs_Running r, ar_Toggleable = srs_Toggleable r,
     ar_StatusMessage = srs_StatusMessage r\<rparr>"

definition handleStartup :: "'s admin_server \<Rightarrow> api_request \<Rightarrow> 's api_handler" where
  "handleStartup srv req s =
     (if rq_Method req = ''GET''
      then (case as_startupStatus srv s of
          (Inl err, s) \<Rightarrow> (writeJSON 503 (enc_ErrorResponse err), s)
        | (Inr roles, s) \<Rightarrow> (writeJSON 200 (enc_StartupStatusResponse (map api_role_of roles)), s))
      else if rq_Method req \<noteq> ''POST'' then (method_not_allowed, s)
      else case Option.bind (rq_Body req) dec_StartupToggleRequest of
          None \<Rightarrow> (writeJSON 400 (enc_ErrorResponse ''invalid startup toggle request''), s)
        | Some (role, enabled) \<Rightarrow>
            if role \<noteq> ''daemon'' \<and> role \<noteq> ''menubar''
            then (writeJSON 400 (enc_ErrorResponse ''role must be daemon or menubar''), s)
            else (case as_setStartupEnabled srv role enabled s of
                ((_, Some err), s) \<Rightarrow> (writeJSON 503 (enc_StartupToggleResponse \<lparr>tr_Role = role,
                   tr_Enabled = enabled, tr_AffectedRole = role, tr_Error = err\<rparr>), s)
              | ((result, None), s) \<Rightarrow> (writeJSON 200 (enc_StartupToggleResponse \<lparr>tr_Role = srs_Role result,
                   tr_Enabled = enabled, tr_AffectedRole = srs_Role result, tr_Error = []\<rparr>), s)))"

text \<open>The \<open>ServeMux\<close> of \<open>Start\<close>: each pattern matches its path only.\<close>

definition serve ::
  "'s admin_server \<Rightarrow> (string list \<Rightarrow> string list) \<Rightarrow> ('s \<Rightarrow> go_time) \<Rightarrow> api_request \<Rightarrow> 's api_handler" where
  "serve srv it now req =
     (let path = rq_Path req in
      if path = ''/status'' then handleStatus srv
      else if path = ''/routes'' then handleRoutes srv it
      else if path = ''/doctor'' then handleDoctor srv
      else if path = ''/logs'' then handleLogs srv
      else if path = ''/issues'' then handleIssues srv
      else if path = ''/refresh'' then handleRefresh srv now req
      else if path = ''/routing/pause'' then handleRoutingPause srv req
      else if path = ''/routing/resume'' then handleRoutingResume srv req
      else if path = ''/startup'' then handleStartup srv req
      else Pair \<lparr>rs_StatusCode = 404, rs_Body = None\<rparr>)"


section \<open>The client\<close>

text \<open>\<open>resp.Status\<close>: the code and its standard text.\<close>

definition status_line :: "int \<Rightarrow> string" where
  "status_line code = itoa code @ '' '' @
     (if code = 200 then ''OK'' else if code = 400 then ''Bad Request'' else if code = 404 then ''Not Found''
      else if code = 405 then ''Method Not Allowed'' else if code = 503 then ''Service Unavailable''
      else [])"

text \<open>\<open>T\<close>'s decoder is \<open>dec\<close>; \<open>undecodable\<close> is the error of decoding a body that is no JSON or the wrong one.\<close>

definition decodeJSONResponse ::
  "go_error \<Rightarrow> (json \<Rightarrow> 'a option) \<Rightarrow> string \<Rightarrow> api_response \<Rightarrow> go_error + 'a" where
  "decodeJSONResponse undecodable dec path resp =
     (if rs_StatusCode resp < 200 \<or> rs_StatusCode resp \<ge> 300
      then (case Option.bind (rs_Body resp) dec_ErrorResponse of
          Some e \<Rightarrow>
            (if e \<noteq> []
             then Inl (''request '' @ path @ '' returned '' @ status_line (rs_StatusCode resp) @ '': '' @ e)
             else Inl (''request '' @ path @ '' returned '' @ status_line (rs_StatusCode resp)))
        | None \<Rightarrow> Inl (''request '' @ path @ '' returned '' @ status_line (rs_StatusCode resp)))
      else case Option.bind (rs_Body resp) dec of
          None \<Rightarrow> Inl (''decode '' @ path @ '' response: '' @ undecodable)
        | Some payload \<Rightarrow> Inr payload)"

text \<open>Sending a request over the socket: an error of the connection (or the timeout), or the
  server's response.\<close>

type_synonym 's api_transport = "api_request \<Rightarrow> 's \<Rightarrow> (go_error + api_response) \<times> 's"

definition request_json ::
  "'s api_transport \<Rightarrow> go_error \<Rightarrow> (json \<Rightarrow> 'a option) \<Rightarrow> api_request \<Rightarrow> 's \<Rightarrow> (go_error + 'a) \<times> 's" where
  "request_json send undecodable dec req s =
     (case send req s of
        (Inl err, s) \<Rightarrow> (Inl (''request '' @ rq_Path req @ '': '' @ err), s)
      | (Inr resp, s) \<Rightarrow> (decodeJSONResponse undecodable dec (rq_Path req) resp, s))"

definition fetchJSON ::
  "'s api_transport \<Rightarrow> go_error \<Rightarrow> (json \<Rightarrow> 'a option) \<Rightarrow> string \<Rightarrow> 's \<Rightarrow> (go_error + 'a) \<times> 's" where
  "fetchJSON send undecodable dec path =
     request_json send undecodable dec \<lparr>rq_Method = ''GET'', rq_Path = path, rq_Body = None\<rparr>"

definition postJSON ::
  "'s api_transport \<Rightarrow> go_error \<Rightarrow> (json \<Rightarrow> 'a option) \<Rightarrow> string \<Rightarrow> json \<Rightarrow> 's \<Rightarrow> (go_error + 'a) \<times> 's" where
  "postJSON send undecodable dec path body =
     request_json send undecodable dec \<lparr>rq_Method = ''POST'', rq_Path = path, rq_Body = Some body\<rparr>"

definition client_Status :: "'s api_transport \<Rightarrow> go_error \<Rightarrow> 's \<Rightarrow> (go_error + status_view) \<times> 's" where
  "client_Status send undecodable = fetchJSON send undecodable dec_StatusResponse ''/status''"

definition client_Routes :: "'s api_transport \<Rightarrow> go_error \<Rightarrow> 's \<Rightarrow> (go_error + route_view list) \<times> 's" where
  "client_Routes send undecodable = fetchJSON send undecodable dec_RoutesResponse ''/routes''"

definition client_Logs :: "'s api_transport \<Rightarrow> go_error \<Rightarrow> 's \<Rightarrow> (go_error + log_event list) \<times> 's" where
  "client_Logs send undecodable = fetchJSON send undecodable dec_LogsResponse ''/logs''"

definition client_Issues :: "'s api_transport \<Rightarrow> go_error \<Rightarrow> 's \<Rightarrow> (go_error + session_issue list) \<times> 's" where
  "client_Issues send undecodable = fetchJSON send undecodable dec_SessionIssuesResponse ''/issues''"

definition client_Doctor :: "'s api_transport \<Rightarrow> go_error \<Rightarrow> 's \<Rightarrow> (go_error + doctor_view) \<times> 's" where
  "client_Doctor send undecodable = fetchJSON send undecodable dec_DoctorResponse ''/doctor''"

definition client_Refresh ::
  "'s api_transport \<Rightarrow> go_error \<Rightarrow> string \<Rightarrow> 's \<Rightarrow> (go_error + refresh_response) \<times> 's" where
  "client_Refresh send undecodable reason =
     postJSON send undecodable dec_RefreshResponse ''/refresh'' (enc_RefreshRequest reason)"

definition PauseRouting :: "'s api_transport \<Rightarrow> go_error \<Rightarrow> 's \<Rightarrow> (go_error + routing_response) \<times> 's" where
  "PauseRouting send undecodable = postJSON send undecodable dec_RoutingPauseResumeResponse ''/routing/pause'' (JObj [])"

definition ResumeRouting :: "'s api_transport \<Rightarrow> go_error \<Rightarrow> 's \<Rightarrow> (go_error + routing_response) \<times> 's" where
  "ResumeRouting send undecodable = postJSON send undecodable dec_RoutingPauseResumeResponse ''/routing/resume'' (JObj [])"

definition client_StartupStatus ::
  "'s api_transport \<Rightarrow> go_error \<Rightarrow> 's \<Rightarrow> (go_error + api_role list) \<times> 's" where
  "client_StartupStatus send undecodable = fetchJSON send undecodable dec_StartupStatusResponse ''/startup''"

definition client_SetStartupEnabled ::
  "'s api_transport \<Rightarrow> go_error \<Rightarrow> string \<Rightarrow> bool \<Rightarrow> 's \<Rightarrow> (go_error + toggle_response) \<times> 's" where
  "client_SetStartupEnabled send undecodable role enabled =
     postJSON send undecodable dec_StartupToggleResponse ''/startup'' (enc_StartupToggleRequest (role, enabled))"

text \<open>The client as the dashboard and the menu bar see it: the methods of their \<open>adminClient\<close>
  interfaces.\<close>

record 's admin_client =
  cl_Status :: "'s \<Rightarrow> (go_error + status_view) \<times> 's"
  cl_Routes :: "'s \<Rightarrow> (go_error + route_view list) \<times> 's"
  cl_Logs :: "'s \<Rightarrow> (go_error + log_event list) \<times> 's"
  cl_Issues :: "'s \<Rightarrow> (go_error + session_issue list) \<times> 's"
  cl_Doctor :: "'s \<Rightarrow> (go_error + doctor_view) \<times> 's"
  cl_Refresh :: "string \<Rightarrow> 's \<Rightarrow> (go_error + refresh_response) \<times> 's"
  cl_PauseRouting :: "'s \<Rightarrow> (go_error + routing_response) \<times> 's"
  cl_ResumeRouting :: "'s \<Rightarrow> (go_error + routing_response) \<times> 's"
  cl_StartupStatus :: "'s \<Rightarrow> (go_error + api_role list) \<times> 's"
  cl_SetStartupEnabled :: "string \<Rightarrow> bool \<Rightarrow> 's \<Rightarrow> (go_error + toggle_response) \<times> 's"

definition NewClient :: "'s api_transport \<Rightarrow> go_error \<Rightarrow> 's admin_client" where
  "NewClient send u =
     \<lparr>cl_Status = client_Status send u, cl_Routes = client_Routes send u, cl_Logs = client_Logs send u,
      cl_Issues = client_Issues send u, cl_Doctor = client_Doctor send u, cl_Refresh = client_Refresh send u,
      cl_PauseRouting = PauseRouting send u, cl_ResumeRouting = ResumeRouting send u,
      cl_StartupStatus = client_StartupStatus send u,
      cl_SetStartupEnabled = client_SetStartupEnabled send u\<rparr>"

text \<open>A client connected to the server.\<close>

definition over_socket ::
  "'s admin_server \<Rightarrow> (string list \<Rightarrow> string list) \<Rightarrow> ('s \<Rightarrow> go_time) \<Rightarrow> 's api_transport" where
  "over_socket srv it now req s = (case serve srv it now req s of (resp, s) \<Rightarrow> (Inr resp, s))"


section \<open>The socket file\<close>

text \<open>\<open>os.FileMode\<close> of a socket. The modes below, octal in the code: 600 is \<open>0x180\<close>, 660 is
  \<open>0x1B0\<close>, 755 is \<open>0x1ED\<close>.\<close>

definition ModeSocket :: "32 word" where
  "ModeSocket = 0x1000000"

text \<open>What the console says: who owns \<open>/dev/console\<close> (\<open>None\<close> where \<open>Sys()\<close> is no \<open>Stat_t\<close>).\<close>

definition activeGUIUserIDs_darwin :: "go_error + (int \<times> int) option \<Rightarrow> go_error + int \<times> int" where
  "activeGUIUserIDs_darwin console =
     (case console of
        Inl err \<Rightarrow> Inl (''determine active GUI user from /dev/console: '' @ err)
      | Inr None \<Rightarrow> Inl ''determine active GUI user from /dev/console: unsupported stat data''
      | Inr (Some (uid, gid)) \<Rightarrow>
          if uid \<le> 0 \<or> gid \<le> 0
          then Inl ''no active GUI user session found; unable to set admin socket ownership''
          else Inr (uid, gid))"

definition activeGUIUserIDs_other :: "go_error + int \<times> int" where
  "activeGUIUserIDs_other = Inl ''active GUI user resolution is only supported on darwin''"

definition resolveActiveGUIUserIDs ::
  "'x os_env \<Rightarrow> go_error + (int \<times> int) option \<Rightarrow> go_error + int \<times> int" where
  "resolveActiveGUIUserIDs env console =
     (if os_darwin env then activeGUIUserIDs_darwin console else activeGUIUserIDs_other)"

text \<open>\<open>shown\<close> is the mode of what is there as \<open>FileMode.String\<close> prints it.\<close>

definition removeStaleSocket ::
  "'x os_env \<Rightarrow> string \<Rightarrow> string \<Rightarrow> 'x sys \<Rightarrow> go_error option \<times> 'x sys" where
  "removeStaleSocket env shown path s =
     (case os_stat env path s of
        Inl err \<Rightarrow>
          (if is_not_exist err then (None, s)
           else (Some (''stat admin socket path '' @ go_quote path @ '': '' @ os_error_msg err), s))
      | Inr info \<Rightarrow>
          (case info of
             None \<Rightarrow> (Some (''admin socket path '' @ go_quote path @
               '' already exists and is not removable type: '' @ shown), s)
           | Some f \<Rightarrow>
               (if file_perm f AND mode_type = ModeSocket \<or> file_perm f AND mode_type = 0
                then (case os_remove env path s of
                    (Some err, s) \<Rightarrow> (Some (''remove stale admin socket '' @ go_quote path @ '': '' @ os_error_msg err), s)
                  | (None, s) \<Rightarrow> (None, s))
                else (Some (''admin socket path '' @ go_quote path @
                  '' already exists and is not removable type: '' @ shown), s))))"

definition setAdminSocketAccess ::
  "'x os_env \<Rightarrow> go_error + (int \<times> int) option \<Rightarrow> string \<Rightarrow> 'x sys \<Rightarrow> go_error option \<times> 'x sys" where
  "setAdminSocketAccess env console path s =
     (let mode = (if os_darwin env then 0x180 else 0x1B0) in
      case os_chmod env path mode s of
        (Some err, s) \<Rightarrow> (Some err, s)
      | (None, s) \<Rightarrow>
          (if \<not> os_darwin env then (None, s)
           else case resolveActiveGUIUserIDs env console of
               Inl err \<Rightarrow> (Some err, s)
             | Inr (uid, gid) \<Rightarrow>
                 (case os_chown env path uid gid s of
                    (Some err, s) \<Rightarrow> (Some (''chown admin socket to active GUI user uid='' @ itoa uid @
                       '' gid='' @ itoa gid @ '': '' @ err), s)
                  | (None, s) \<Rightarrow> (None, s))))"

text \<open>\<open>net.Listen\<close> on a Unix socket creates the file; closing the listener removes it.\<close>

definition listen_unix ::
  "'x os_env \<Rightarrow> go_error option \<Rightarrow> string \<Rightarrow> 'x sys \<Rightarrow> go_error option \<times> 'x sys" where
  "listen_unix env answer path s =
     (case answer of
        Some err \<Rightarrow> (Some err, s)
      | None \<Rightarrow> (None, s\<lparr>sys_files := (sys_files s)(path \<mapsto> \<lparr>file_contents = [],
          file_perm = ModeSocket OR 0x1ED, file_uid = os_geteuid env, file_gid = 0\<rparr>)\<rparr>))"

definition close_listener :: "string \<Rightarrow> 'x sys \<Rightarrow> 'x sys" where
  "close_listener path s = s\<lparr>sys_files := (sys_files s)(path := None)\<rparr>"

definition admin_Start ::
  "'x os_env \<Rightarrow> go_error + (int \<times> int) option \<Rightarrow> string \<Rightarrow> go_error option \<Rightarrow> 's admin_server \<Rightarrow> 'x sys
     \<Rightarrow> go_error option \<times> 's admin_server \<times> 'x sys" where
  "admin_Start env console shown listen srv s =
     (let path = as_socketPath srv in
      case os_mkdir_all env (filepath_dir path) s of
        (Some err, s) \<Rightarrow> (Some (''create admin socket parent: '' @ err), srv, s)
      | (None, s) \<Rightarrow>
          (case removeStaleSocket env shown path s of
             (Some err, s) \<Rightarrow> (Some err, srv, s)
           | (None, s) \<Rightarrow>
               (case listen_unix env listen path s of
                  (Some err, s) \<Rightarrow> (Some (''listen admin socket '' @ go_quote path @ '': '' @ err), srv, s)
                | (None, s) \<Rightarrow>
                    (case setAdminSocketAccess env console path s of
                       (Some err, s) \<Rightarrow>
                         (Some (''set admin socket permissions: '' @ err), srv, close_listener path s)
                     | (None, s) \<Rightarrow> (None, srv\<lparr>as_httpServer := True\<rparr>, s)))))"

text \<open>\<open>shutdown\<close> is what \<open>http.Server.Shutdown\<close> answers; it closes the listener. The error of
  \<open>os.Remove\<close> is dropped.\<close>

definition admin_Close ::
  "'x os_env \<Rightarrow> shutdown_error option \<Rightarrow> 's admin_server \<Rightarrow> 'x sys \<Rightarrow> go_error option \<times> 'x sys" where
  "admin_Close env shutdown srv s =
     (if \<not> as_httpServer srv then (None, s)
      else
        (let s = snd (os_remove env (as_socketPath srv) (close_listener (as_socketPath srv) s))
         in (case shutdown of Some (ShutdownFailed err) \<Rightarrow> Some err | _ \<Rightarrow> None, s)))"

section \<open>The daemon behind the API\<close>

text \<open>The server \<open>App.Start\<close> makes; its state is the application, the outside world and the system.\<close>

definition daemon_server_config ::
  "('w, 'k) app_env \<Rightarrow> 'x os_env \<Rightarrow> gui_env \<Rightarrow> string option \<Rightarrow> string
     \<Rightarrow> (('w, 'k) app \<times> 'w \<times> 'x sys) server_config" where
  "daemon_server_config env os g home socketPath =
     \<lparr>svc_SocketPath = socketPath,
      svc_State = Some (\<lambda>(a, w, s). case startupStatus os g home s of
          (roles, s) \<Rightarrow> (stateSnapshot (env_it (ae_net env)) (ae_now env w) roles a, (a, w, s))),
      svc_Refresh = Some (\<lambda>_ (a, w, s). case Refresh env a w of ((err, a), w) \<Rightarrow> (err, (a, w, s))),
      svc_SetRoutingPaused = Some (\<lambda>paused (a, w, s). case setRoutingPaused paused a of
          (err, a) \<Rightarrow> (err, (a, w, s))),
      svc_StartupStatus = Some (\<lambda>(a, w, s). case startupStatus os g home s of
          (roles, s) \<Rightarrow> (Inr roles, (a, w, s))),
      svc_SetStartupEnabled = Some (\<lambda>role enabled (a, w, s).
          case setStartupEnabled os g home (ae_now env w) role enabled a s of
            (res, a, s) \<Rightarrow> (res, (a, w, s)))\<rparr>"

definition daemon_server ::
  "('w, 'k) app_env \<Rightarrow> 'x os_env \<Rightarrow> gui_env \<Rightarrow> string option \<Rightarrow> string
     \<Rightarrow> (('w, 'k) app \<times> 'w \<times> 'x sys) admin_server" where
  "daemon_server env os g home socketPath =
     projr (NewAdminServer (daemon_server_config env os g home socketPath))"


section \<open>What the clients rely on\<close>

text \<open>
  The menu bar, the dashboard and the command line pause routing and then ask for the status. What
  they rely on: reading the state does not disturb it, the pause is taken over, and the
  status tells it.
\<close>

locale admin_backend =
  fixes srv :: "'s admin_server"
    and ok :: "'s \<Rightarrow> bool"
    and paused :: "'s \<Rightarrow> bool"
  assumes reports_pause: "ok s \<Longrightarrow> sv_Paused (st_Status (fst (as_state srv s))) = paused s"
    and obeys_pause: "ok s \<Longrightarrow> fst (as_setRoutingPaused srv b s) = None \<and> paused (snd (as_setRoutingPaused srv b s)) = b"
    and ok_pause: "ok s \<Longrightarrow> ok (snd (as_setRoutingPaused srv b s))"
begin

lemma PauseRouting_ok:
  "ok s \<Longrightarrow> PauseRouting (over_socket srv it now) u s =
     (Inr \<lparr>rp_Paused = True, rp_Error = []\<rparr>, snd (as_setRoutingPaused srv True s))"
  using obeys_pause [of s True]
  by (simp add: PauseRouting_def postJSON_def request_json_def over_socket_def serve_def Let_def
      handleRoutingPause_def writeJSON_def decodeJSONResponse_def case_prod_unfold json)

lemma ResumeRouting_ok:
  "ok s \<Longrightarrow> ResumeRouting (over_socket srv it now) u s =
     (Inr \<lparr>rp_Paused = False, rp_Error = []\<rparr>, snd (as_setRoutingPaused srv False s))"
  using obeys_pause [of s False]
  by (simp add: ResumeRouting_def postJSON_def request_json_def over_socket_def serve_def Let_def
      handleRoutingResume_def writeJSON_def decodeJSONResponse_def case_prod_unfold json)

lemma Status_tells_pause:
  assumes "ok s"
  shows "map_sum id sv_Paused (fst (client_Status (over_socket srv it now) u s)) = Inr (paused s)"
  using reports_pause [OF assms]
  by (simp add: client_Status_def fetchJSON_def request_json_def over_socket_def serve_def Let_def
      handleStatus_def writeJSON_def decodeJSONResponse_def case_prod_unfold json)

lemma pause_then_status:
  assumes "ok s"
  shows "map_sum id sv_Paused (fst (client_Status (over_socket srv it now) u
      (snd (PauseRouting (over_socket srv it now) u s)))) = Inr True"
    "map_sum id sv_Paused (fst (client_Status (over_socket srv it now) u
      (snd (ResumeRouting (over_socket srv it now) u s)))) = Inr False"
  using Status_tells_pause [OF ok_pause [OF assms]] obeys_pause [OF assms]
  by (simp_all add: PauseRouting_ok [OF assms] ResumeRouting_ok [OF assms])

end

lemma daemon_server_simps:
  assumes "socketPath \<noteq> []"
  shows "as_state (daemon_server env os g home socketPath) (a, w, s) =
      (stateSnapshot (env_it (ae_net env)) (ae_now env w) (fst (startupStatus os g home s)) a,
       (a, w, snd (startupStatus os g home s)))"
    "as_refresh (daemon_server env os g home socketPath) reason (a, w, s) =
      (fst (fst (Refresh env a w)), (snd (fst (Refresh env a w)), snd (Refresh env a w), s))"
    "as_setRoutingPaused (daemon_server env os g home socketPath) b (a, w, s) =
      (None, (a\<lparr>app_reconciler := SetRoutingPaused b (app_reconciler a)\<rparr>, w, s))"
    "as_startupStatus (daemon_server env os g home socketPath) (a, w, s) =
      (Inr (fst (startupStatus os g home s)), (a, w, snd (startupStatus os g home s)))"
    "as_setStartupEnabled (daemon_server env os g home socketPath) role enabled (a, w, s) =
      (let r = setStartupEnabled os g home (ae_now env w) role enabled a s
       in (fst r, (fst (snd r), w, snd (snd r))))"
  using assms
  by (simp_all add: daemon_server_def daemon_server_config_def NewAdminServer_def setRoutingPaused_def
      Let_def case_prod_unfold)

text \<open>A daemon whose network runs.\<close>

definition daemon_up :: "('w, 'k) app_env \<Rightarrow> 'w app_config \<Rightarrow> ('w, 'k) app \<Rightarrow> bool" where
  "daemon_up env cfg a \<longleftrightarrow> rearranges (env_it (ae_net env)) \<and> app_network a \<noteq> None \<and>
     (\<exists>cs. daemon_inv env cfg cs a)"

lemma daemon_up_runs:
  "daemon_runs env cfg cs phase a \<Longrightarrow> rearranges (env_it (ae_net env)) \<Longrightarrow> app_network a \<noteq> None \<Longrightarrow> daemon_up env cfg a"
  by (auto simp: daemon_up_def intro: daemon_runs_inv)

lemma daemon_up_paused:
  assumes "daemon_up env cfg a"
  shows "sv_Paused (st_Status (stateSnapshot it now roles a)) = IsRoutingPaused (app_reconciler a)"
proof -
  obtain n where "app_network a = Some n" "wired (effective_suffix cfg) n"
    using assms by (auto simp: daemon_up_def daemon_inv_def network_ok_def)
  then show ?thesis
    by (simp add: stateSnapshot_def app_health_def Let_def BuildStatus_def NetworkRuntimeStatusFromHealth_def
        Health_def wired_def)
qed

lemma daemon_up_pause:
  assumes "daemon_up env cfg a"
  shows "daemon_up env cfg (a\<lparr>app_reconciler := SetRoutingPaused b (app_reconciler a)\<rparr>)"
proof -
  obtain cs where "daemon_inv env cfg cs a" using assms by (auto simp: daemon_up_def)
  then have "daemon_inv env cfg cs (a\<lparr>app_reconciler := SetRoutingPaused b (app_reconciler a)\<rparr>)"
    using daemon_inv_pause [of env cfg cs a b] by (simp add: setRoutingPaused_def)
  with assms show ?thesis by (auto simp: daemon_up_def)
qed

interpretation daemon_api: admin_backend "daemon_server env os g home (c # path)"
  "\<lambda>(a, w, s). daemon_up env cfg a" "\<lambda>(a, w, s). IsRoutingPaused (app_reconciler a)"
  for env os g home c path cfg
  by unfold_locales
    (auto simp: daemon_server_simps daemon_up_paused daemon_up_pause)


section \<open>Between two pause requests\<close>

text \<open>
  \<open>runs_on env b a a'\<close>: the daemon gets from \<open>a\<close> to \<open>a'\<close> by refreshes, certificate refreshes included, by what its
  watcher does, by startup requests and recorded issues, in any order and number, and by requests that set
  the pause to \<open>b\<close>, but by none that sets it to anything else.
\<close>

inductive runs_on :: "('w, 'k) app_env \<Rightarrow> bool \<Rightarrow> ('w, 'k) app \<Rightarrow> ('w, 'k) app \<Rightarrow> bool" for env b a where
  here: "runs_on env b a a"
| refresh: "runs_on env b a a' \<Longrightarrow> Refresh env a' w = ((err, a''), w') \<Longrightarrow> runs_on env b a a''"
| same_pause: "runs_on env b a a' \<Longrightarrow> runs_on env b a (snd (setRoutingPaused b a'))"
| toggle: "runs_on env b a a' \<Longrightarrow> setStartupEnabled os g home now role enabled a' (s :: 'w sys) = (res, a'', s') \<Longrightarrow>
     runs_on env b a a''"
| connect: "runs_on env b a a' \<Longrightarrow> watch_connect env scan err cancelled a' w = (phase, a'', w') \<Longrightarrow> runs_on env b a a''"
| receive: "runs_on env b a a' \<Longrightarrow> watch_item env scan item cancelled a' w = (phase, a'', w') \<Longrightarrow> runs_on env b a a''"
| issue: "runs_on env b a a' \<Longrightarrow> runs_on env b a (recordIssue now role action msg a')"

definition app_paused :: "('w, 'k) app \<Rightarrow> bool" where
  "app_paused a = IsRoutingPaused (app_reconciler a)"

lemma paused_rebuild [simp]: "IsRoutingPaused (snd (RebuildSnapshot it now cs r)) = IsRoutingPaused r"
  by (simp add: RebuildSnapshot_eq IsRoutingPaused_def Let_def)

lemma paused_issue [simp]:
  "app_paused (recordIssue now role action msg a) = app_paused a"
  "app_paused (recordWatcherIssue now action msg a) = app_paused a"
  by (simp_all add: app_paused_def)

lemma paused_sync [simp]: "app_paused (fst (syncNetworkCertificates env a w)) = app_paused a"
  by (simp add: app_paused_def sync_frame)

lemma paused_reconnect [simp]: "app_paused (snd (app_reconnect env cs w a)) = app_paused a"
  by (simp add: app_paused_def app_reconnect_eq)

lemma paused_watcher [simp]: "app_paused (a\<lparr>app_watcher := h\<rparr>) = app_paused a"
  by (simp add: app_paused_def)

lemma paused_refreshFromDocker [simp]: "app_paused (snd (fst (refreshFromDocker env a w))) = app_paused a"
  by (simp add: refreshFromDocker_def case_prod_unfold split: option.split sum.split)

lemma paused_Refresh [simp]: "app_paused (snd (fst (Refresh env a w))) = app_paused a"
  by (simp add: Refresh_def case_prod_unfold split: option.split)

lemma paused_resync [simp]: "app_paused (snd (fst (resyncWatcher env scan a w))) = app_paused a"
  by (simp add: resyncWatcher_def case_prod_unfold split: option.split sum.split)

lemma paused_HandleEvent [simp]:
  "IsRoutingPaused (fst (snd (watcher_HandleEvent it now event cs rh))) = IsRoutingPaused (fst rh)"
  by (simp add: watcher_HandleEvent_def HandleEvent_def case_prod_unfold)

lemma paused_event [simp]: "app_paused (fst (handleDockerEvent env scan action a w)) = app_paused a"
  by (simp add: handleDockerEvent_def case_prod_unfold Let_def split: option.split sum.split)
    (simp add: app_paused_def)

lemma paused_connect [simp]: "app_paused (fst (snd (watch_connect env scan err cancelled a w))) = app_paused a"
  by (simp add: watch_connect_def case_prod_unfold split: option.split)

lemma paused_item [simp]: "app_paused (fst (snd (watch_item env scan item cancelled a w))) = app_paused a"
  by (simp add: watch_item_def watch_end_def case_prod_unfold split: option.split sum.split)

lemma runs_on_inv:
  assumes "runs_on env b a a'" and "rearranges (env_it (ae_net env))" and "app_paused a = b"
    and "daemon_inv env cfg cs a"
  shows "app_paused a' = b \<and> (\<exists>cs'. daemon_inv env cfg cs' a')"
  using assms
proof (induction rule: runs_on.induct)
  case (refresh a' w err a'' w')
  then obtain cs' where "daemon_inv env cfg cs' a'" by blast
  from daemon_inv_Refresh [OF this refresh.prems(1) refresh.hyps(2)] refresh paused_Refresh [of env a' w] show ?case
    by auto
next
  case (same_pause a')
  then obtain cs' where "daemon_inv env cfg cs' a'" by blast
  from daemon_inv_pause [OF this, of b] show ?case
    by (auto simp: app_paused_def setRoutingPaused_def SetRoutingPaused_def IsRoutingPaused_def)
next
  case (toggle a' os g home now role enabled s res a'' s')
  with setStartupEnabled_app [OF toggle.hyps(2)] show ?case by (auto intro: daemon_inv_recordIssue)
next
  case (connect a' scan err cancelled w phase a'' w')
  then obtain cs' where "daemon_inv env cfg cs' a'" by blast
  from daemon_inv_connect [OF this connect.prems(1), where err = err and scan = scan and w = w and cancelled = cancelled] connect
    paused_connect [of env scan err cancelled a' w] show ?case by auto
next
  case (receive a' scan item cancelled w phase a'' w')
  then obtain cs' where "daemon_inv env cfg cs' a'" by blast
  from daemon_inv_item [OF this receive.prems(1), where item = item and scan = scan and w = w and cancelled = cancelled] receive
    paused_item [of env scan item cancelled a' w] show ?case by auto
next
  case (issue a' now role action msg)
  then show ?case by (auto intro: daemon_inv_recordIssue)
qed auto

text \<open>What both proxies then answer.\<close>

lemma proxies_while:
  assumes "runs_on env b a a'" and "rearranges (env_it (ae_net env))" and "app_paused a = b"
    and "daemon_inv env cfg cs a" and "app_network a' = Some n" and "plain req"
    and "normalize (effective_suffix cfg) \<noteq> []"
    and "under_suffix (normalize (effective_suffix cfg)) (normalize (host_part req))"
  shows "ServeHTTP (nr_httpHandler n) (app_reconciler a') req =
      (let h = normalize (host_part req) in
       if b then writeFriendlyPaused h
       else case Option.bind (gm_get (snap_Routes (Snapshot (app_reconciler a'))) h) (upstreamURL \<circ> route_Upstream) of
           None \<Rightarrow> writeFriendlyNoRoute h | Some target \<Rightarrow> [ReverseProxy target DefaultTransport])"
    and "ServeHTTPS (nr_httpsHandler n) (app_reconciler a') req = ServeHTTP (nr_httpHandler n) (app_reconciler a') req"
proof -
  obtain cs' where "daemon_inv env cfg cs' a'" and paused: "app_paused a' = b"
    using runs_on_inv [OF assms(1-4)] by blast
  then have wired: "wired (effective_suffix cfg) n" using assms(5) by (simp add: daemon_inv_def network_ok_def)
  then show "ServeHTTPS (nr_httpsHandler n) (app_reconciler a') req = ServeHTTP (nr_httpHandler n) (app_reconciler a') req"
    by (simp add: wired_def ServeHTTPS_def)
  from wired paused assms(7,8) show "ServeHTTP (nr_httpHandler n) (app_reconciler a') req =
      (let h = normalize (host_part req) in
       if b then writeFriendlyPaused h
       else case Option.bind (gm_get (snap_Routes (Snapshot (app_reconciler a'))) h) (upstreamURL \<circ> route_Upstream) of
           None \<Rightarrow> writeFriendlyNoRoute h | Some target \<Rightarrow> [ReverseProxy target DefaultTransport])"
    by (simp add: wired_def daemon_handler_def ServeHTTP_def HandleHTTP_eq [OF assms(6)] Let_def app_paused_def
        split: option.split)
qed

section \<open>Properties\<close>

lemmas client_defs = client_Status_def client_Routes_def client_Logs_def client_Issues_def client_Doctor_def
  client_Refresh_def client_StartupStatus_def client_SetStartupEnabled_def fetchJSON_def postJSON_def
  request_json_def over_socket_def serve_def

lemmas handler_defs = handleStatus_def handleRoutes_def handleDoctor_def handleLogs_def handleIssues_def
  handleRefresh_def handleRoutingPause_def handleRoutingResume_def handleStartup_def writeJSON_def
  method_not_allowed_def

lemma daemon_client_reads:
  fixes env os g home socketPath a w s
  assumes "socketPath \<noteq> []"
  defines "srv \<equiv> daemon_server env os g home socketPath"
    and "st \<equiv> stateSnapshot (env_it (ae_net env)) (ae_now env w) (fst (startupStatus os g home s)) a"
  shows "client_Status (over_socket srv it now) u (a, w, s) =
      (Inr (st_Status st), (a, w, snd (startupStatus os g home s)))"
    "client_Routes (over_socket srv it now) u (a, w, s) =
      (Inr (RoutesFromSnapshotWithRuntime it (st_Snapshot st)
        (sv_CertificateReady (st_Status st) \<and> lst_Bound (sv_HTTPS (st_Status st)))),
       (a, w, snd (startupStatus os g home s)))"
    "client_Logs (over_socket srv it now) u (a, w, s) =
      (Inr (st_Logs st), (a, w, snd (startupStatus os g home s)))"
    "client_Issues (over_socket srv it now) u (a, w, s) =
      (Inr (BuildSessionIssues (app_issues a)), (a, w, snd (startupStatus os g home s)))"
    "client_Doctor (over_socket srv it now) u (a, w, s) =
      (Inr (st_Doctor st), (a, w, snd (startupStatus os g home s)))"
  by (simp_all add: srv_def st_def client_defs handler_defs Let_def daemon_server_simps [OF assms(1)]
      decodeJSONResponse_def stateSnapshot_def json)

text \<open>C24. Over the socket and back: a client of the daemon's admin server reads exactly the state
  the daemon reports (status, routes, log, issues newest first, doctor), and a refresh it asks for
  gives back either success or the daemon's own error.\<close>

theorem client_sees_daemon_state:
  assumes "socketPath \<noteq> []"
  shows "let srv = daemon_server env os g home socketPath; send = over_socket srv it now;
      st = stateSnapshot (env_it (ae_net env)) (ae_now env w) (fst (startupStatus os g home s)) a;
      s' = snd (startupStatus os g home s)
    in client_Status send u (a, w, s) = (Inr (st_Status st), (a, w, s')) \<and>
      client_Routes send u (a, w, s) = (Inr (RoutesFromSnapshotWithRuntime it (st_Snapshot st)
        (sv_CertificateReady (st_Status st) \<and> lst_Bound (sv_HTTPS (st_Status st)))), (a, w, s')) \<and>
      client_Logs send u (a, w, s) = (Inr (st_Logs st), (a, w, s')) \<and>
      client_Issues send u (a, w, s) = (Inr (BuildSessionIssues (app_issues a)), (a, w, s')) \<and>
      client_Doctor send u (a, w, s) = (Inr (st_Doctor st), (a, w, s')) \<and>
      client_Refresh send u reason (a, w, s) =
        (case Refresh env a w of
           ((Some e, a'), w') \<Rightarrow> (Inl (''request /refresh returned 503 Service Unavailable'' @
              (if e = [] then [] else '': '' @ e)), (a', w', s))
         | ((None, a'), w') \<Rightarrow> (Inr \<lparr>rr_Accepted = True, rr_Refreshed = True, rr_At = now (a', w', s),
              rr_Error = []\<rparr>, (a', w', s)))"
proof -
  have line: "status_line 503 = ''503 Service Unavailable''" by code_simp
  obtain e a' w' where refresh: "Refresh env a w = ((e, a'), w')" by (metis prod.exhaust)
  then show ?thesis
    by (cases e) (simp_all add: daemon_client_reads [OF assms] client_Refresh_def postJSON_def request_json_def
        over_socket_def serve_def handleRefresh_def writeJSON_def Let_def daemon_server_simps [OF assms]
        decodeJSONResponse_def line refresh_reason_def json)
qed

text \<open>C25. Pausing through the admin API: the request succeeds, the next status says paused, and from then
  on, through any number of refreshes, Docker events and other requests, both proxies answer every managed host with 503, until a resume
  request. That one succeeds too, the status says so, and from then on both proxies serve the
  routes of the snapshot again, until the next pause.\<close>

theorem pause_reaches_proxy:
  assumes "daemon_runs env cfg cs phase a" and "rearranges (env_it (ae_net env))"
    and "app_network a \<noteq> None" and "socketPath \<noteq> []" and "plain req"
    and "normalize (effective_suffix cfg) \<noteq> []"
    and "under_suffix (normalize (effective_suffix cfg)) (normalize (host_part req))"
    and "send = over_socket (daemon_server env os g home socketPath) it now"
  shows "let (answer, (a1, w1, s1)) = PauseRouting send u (a, w, s); h = normalize (host_part req)
    in answer = Inr \<lparr>rp_Paused = True, rp_Error = []\<rparr> \<and>
      map_sum id sv_Paused (fst (client_Status send u (a1, w1, s1))) = Inr True \<and>
      (\<forall>a2 n2. runs_on env True a1 a2 \<longrightarrow> app_network a2 = Some n2 \<longrightarrow>
         ServeHTTP (nr_httpHandler n2) (app_reconciler a2) req = writeFriendlyPaused h \<and>
         ServeHTTPS (nr_httpsHandler n2) (app_reconciler a2) req = writeFriendlyPaused h \<and>
         (\<forall>w2 s2. let (answer, (a3, w3, s3)) = ResumeRouting send u (a2, w2, s2)
           in answer = Inr \<lparr>rp_Paused = False, rp_Error = []\<rparr> \<and>
             map_sum id sv_Paused (fst (client_Status send u (a3, w3, s3))) = Inr False \<and>
             (\<forall>a4 n4. runs_on env False a3 a4 \<longrightarrow> app_network a4 = Some n4 \<longrightarrow>
                ServeHTTP (nr_httpHandler n4) (app_reconciler a4) req =
                  (case Option.bind (gm_get (snap_Routes (Snapshot (app_reconciler a4))) h) (upstreamURL \<circ> route_Upstream) of
                     None \<Rightarrow> writeFriendlyNoRoute h | Some target \<Rightarrow> [ReverseProxy target DefaultTransport]) \<and>
                ServeHTTPS (nr_httpsHandler n4) (app_reconciler a4) req =
                  ServeHTTP (nr_httpHandler n4) (app_reconciler a4) req)))"
proof -
  obtain c path where path: "socketPath = c # path" using assms(4) by (cases socketPath) auto
  have send: "send = over_socket (daemon_server env os g home (c # path)) it now" using assms(8) path by simp
  let ?ok = "\<lambda>(a, w, s). daemon_up env cfg a"
  let ?pause = "\<lambda>b a. a\<lparr>app_reconciler := SetRoutingPaused b (app_reconciler a)\<rparr>"
  let ?h = "normalize (host_part req)"
  have paused_pause: "app_paused (?pause b a) = b" for b and a :: "('a, 'b) app"
    by (simp add: app_paused_def SetRoutingPaused_def IsRoutingPaused_def)
  have up: "daemon_up env cfg a" by (rule daemon_up_runs [OF assms(1-3)])
  have pause: "PauseRouting send u (a, w, s) = (Inr \<lparr>rp_Paused = True, rp_Error = []\<rparr>, (?pause True a, w, s))"
    using daemon_api.PauseRouting_ok [where s = "(a, w, s)"] up unfolding send by (simp add: daemon_server_simps)
  have resume: "ResumeRouting send u (a2, w2, s2) = (Inr \<lparr>rp_Paused = False, rp_Error = []\<rparr>, (?pause False a2, w2, s2))"
    if "daemon_up env cfg a2" for a2 w2 s2
    using daemon_api.ResumeRouting_ok [where s = "(a2, w2, s2)"] that unfolding send by (simp add: daemon_server_simps)
  have status: "map_sum id sv_Paused (fst (client_Status send u (?pause b a2, w2, s2))) = Inr b"
    if "daemon_up env cfg a2" for a2 b w2 s2
    using daemon_api.Status_tells_pause [where s = "(?pause b a2, w2, s2)"] daemon_up_pause [OF that, of b]
    unfolding send by (simp add: SetRoutingPaused_def IsRoutingPaused_def)
  have serve: "ServeHTTP (nr_httpHandler n) (app_reconciler a') req =
      (if b then writeFriendlyPaused ?h
       else case Option.bind (gm_get (snap_Routes (Snapshot (app_reconciler a'))) ?h) (upstreamURL \<circ> route_Upstream) of
           None \<Rightarrow> writeFriendlyNoRoute ?h | Some target \<Rightarrow> [ReverseProxy target DefaultTransport]) \<and>
      ServeHTTPS (nr_httpsHandler n) (app_reconciler a') req = ServeHTTP (nr_httpHandler n) (app_reconciler a') req \<and>
      daemon_up env cfg a'"
    if u2: "daemon_up env cfg a2" and on: "runs_on env b (?pause b a2) a'" and n: "app_network a' = Some n" for a2 b a' n
  proof -
    obtain cs2 where inv: "daemon_inv env cfg cs2 (?pause b a2)"
      using daemon_up_pause [OF u2, of b] by (auto simp: daemon_up_def)
    from proxies_while [OF on assms(2) paused_pause inv n assms(5-7)] runs_on_inv [OF on assms(2) paused_pause inv] n assms(2)
    show ?thesis by (auto simp: daemon_up_def Let_def)
  qed
  show ?thesis
    unfolding pause Let_def prod.case
  proof (intro conjI allI impI)
    show "map_sum id sv_Paused (fst (client_Status send u (?pause True a, w, s))) = Inr True" by (rule status [OF up])
    fix a2 n2 assume on: "runs_on env True (?pause True a) a2" and n2: "app_network a2 = Some n2"
    note then_serve = serve [OF up on n2]
    then show "ServeHTTP (nr_httpHandler n2) (app_reconciler a2) req = writeFriendlyPaused ?h"
      and "ServeHTTPS (nr_httpsHandler n2) (app_reconciler a2) req = writeFriendlyPaused ?h" by simp_all
    have up2: "daemon_up env cfg a2" using then_serve by blast
    fix w2 s2
    show "case ResumeRouting send u (a2, w2, s2) of (answer, a3, w3, s3) \<Rightarrow>
        answer = Inr \<lparr>rp_Paused = False, rp_Error = []\<rparr> \<and>
        map_sum id sv_Paused (fst (client_Status send u (a3, w3, s3))) = Inr False \<and>
        (\<forall>a4 n4. runs_on env False a3 a4 \<longrightarrow> app_network a4 = Some n4 \<longrightarrow>
          ServeHTTP (nr_httpHandler n4) (app_reconciler a4) req =
            (case Option.bind (gm_get (snap_Routes (Snapshot (app_reconciler a4))) ?h) (upstreamURL \<circ> route_Upstream) of
               None \<Rightarrow> writeFriendlyNoRoute ?h | Some target \<Rightarrow> [ReverseProxy target DefaultTransport]) \<and>
          ServeHTTPS (nr_httpsHandler n4) (app_reconciler a4) req = ServeHTTP (nr_httpHandler n4) (app_reconciler a4) req)"
      unfolding resume [OF up2] prod.case using status [OF up2, of False] serve [OF up2, of False] by simp
  qed simp
qed

definition mac_env :: "unit os_env" where
  "mac_env = \<lparr>os_fault = (\<lambda>_ _ _. None), os_exec = (\<lambda>_ _ s. (([], None), 0, sys_world s)), os_getuid = 0,
     os_geteuid = 0, os_darwin = True, os_executable = Inr ''/devproxy'', os_walk = (\<lambda>_ _. [])\<rparr>"

definition mac_gui :: gui_env where
  "mac_gui = \<lparr>gui_console = Inr (Some 501), gui_lookup = (\<lambda>_. Inr (''/Users/ann'', ''20''))\<rparr>"

definition mac_sys :: "unit sys" where
  "mac_sys = \<lparr>sys_files = Map.empty, sys_dirs = {}, sys_now = 0, sys_world = ()\<rparr>"

theorem client_sees_daemon_state_witness:
  "fst (client_Refresh (over_socket (daemon_server acme_app_env mac_env mac_gui None ''/s'') rev (\<lambda>_. At 1))
     ''EOF'' ''why'' (acme_daemon, 9, mac_sys)) =
   Inl ''request /refresh returned 503 Service Unavailable: docker container sync failed: docker is down''"
proof -
  have "acme_scan 9 = (Inl ''docker is down'', 9)" by (simp add: acme_scan_def)
  then have "fst (fst (Refresh acme_app_env acme_daemon 9)) = Some ''docker container sync failed: docker is down''"
    by (simp add: Refresh_failed [OF acme_daemon_scan])
  then obtain a' w' where "Refresh acme_app_env acme_daemon 9 =
      ((Some ''docker container sync failed: docker is down'', a'), w')"
    by (metis prod.collapse)
  with client_sees_daemon_state [of "''/s''" acme_app_env mac_env mac_gui None rev "\<lambda>_. At 1" 9 mac_sys
      acme_daemon "''EOF''" "''why''"]
  show ?thesis by (simp add: Let_def)
qed

theorem pause_reaches_proxy_witness:
  "let send = over_socket (daemon_server acme_app_env mac_env mac_gui None ''/s'') rev (\<lambda>_. At 1);
       (answer, (a1, w1, s1)) = PauseRouting send ''EOF'' (acme_daemon, 1, mac_sys);
       a2 = snd (fst (Refresh acme_app_env a1 1))
   in \<forall>n2. app_network a2 = Some n2 \<longrightarrow>
     ServeHTTP (nr_httpHandler n2) (app_reconciler a2) ''Api.acme.test'' = writeFriendlyPaused ''api.acme.test''"
proof -
  let ?send = "over_socket (daemon_server acme_app_env mac_env mac_gui None ''/s'') rev (\<lambda>_. At 1)"
  have "map_option (\<lambda>_. ()) (app_network acme_daemon) = Some ()" by code_simp
  then have network: "app_network acme_daemon \<noteq> None" by auto
  have names: "plain ''Api.acme.test''" "normalize (effective_suffix acme_app_config) \<noteq> []"
    "normalize (host_part ''Api.acme.test'') = ''api.acme.test''"
    "under_suffix (normalize (effective_suffix acme_app_config)) (normalize (host_part ''Api.acme.test''))"
    by code_simp+
  obtain answer a1 w1 s1 where pause: "PauseRouting ?send ''EOF'' (acme_daemon, 1, mac_sys) = (answer, (a1, w1, s1))"
    by (metis prod.exhaust)
  have "runs_on acme_app_env True a1 (snd (fst (Refresh acme_app_env a1 1)))"
    by (rule runs_on.refresh [OF runs_on.here]) (simp add: prod_eq_iff)
  with pause_reaches_proxy [OF acme_daemon_runs acme_env_rearranges network _ names(1,2,4) refl, of "''/s''"
      mac_env mac_gui None rev "\<lambda>_. At 1" "''EOF''" 1 mac_sys] pause names(3)
  show ?thesis by (simp add: Let_def)
qed

text \<open>C26. Who can use the admin socket. When the admin server starts on macOS, the socket has mode 600 and belongs to the
  user at the console, who is never root; elsewhere it has mode 660 and belongs to the user the
  daemon runs as. When the start fails at any step, no server runs, and the path holds nothing or
  what it held before, unchanged.\<close>

theorem admin_socket_is_private:
  assumes "admin_Start env console shown listen srv s = (err, srv', s')"
  shows "case err of
      None \<Rightarrow> as_httpServer srv' \<and> (\<exists>f. sys_files s' (as_socketPath srv) = Some f \<and>
        file_perm f = ModeSocket OR (if os_darwin env then 0x180 else 0x1B0) \<and>
        (if os_darwin env then file_uid f > 0 \<and> console = Inr (Some (file_uid f, file_gid f))
         else file_uid f = os_geteuid env))
    | Some _ \<Rightarrow> srv' = srv \<and>
        sys_files s' (as_socketPath srv) \<in> {None, sys_files s (as_socketPath srv)}"
proof -
  let ?p = "as_socketPath srv"
  obtain e1 s1 where mkdir: "os_mkdir_all env (filepath_dir ?p) s = (e1, s1)" by force
  then have s1: "sys_files s1 = sys_files s" by (metis os_mkdir_all_files snd_conv)
  obtain e2 s2 where stale: "removeStaleSocket env shown ?p s1 = (e2, s2)" by force
  then have s2: "sys_files s2 ?p \<in> {None, sys_files s ?p}"
    using s1 by (auto simp: removeStaleSocket_def os_remove_def split: sum.splits option.splits if_splits)
  obtain e3 s3 where listen: "listen_unix env listen ?p s2 = (e3, s3)" by force
  obtain e4 s4 where access: "setAdminSocketAccess env console ?p s3 = (e4, s4)" by force
  have bits: "(ModeSocket OR 0x1ED) AND mode_type OR 0x180 = ModeSocket OR 0x180"
    "(ModeSocket OR 0x1ED) AND mode_type OR 0x1B0 = ModeSocket OR 0x1B0"
    by (simp_all add: ModeSocket_def mode_type_def)
  show ?thesis
  proof (cases "e1 = None \<and> e2 = None \<and> e3 = None \<and> e4 = None")
    case True
    then have "sys_files s3 ?p = Some \<lparr>file_contents = [], file_perm = ModeSocket OR 0x1ED,
        file_uid = os_geteuid env, file_gid = 0\<rparr>"
      using listen by (auto simp: listen_unix_def split: option.splits)
    with True access have "\<exists>f. sys_files s4 ?p = Some f \<and>
        file_perm f = ModeSocket OR (if os_darwin env then 0x180 else 0x1B0) \<and>
        (if os_darwin env then file_uid f > 0 \<and> console = Inr (Some (file_uid f, file_gid f))
         else file_uid f = os_geteuid env)"
      by (auto simp: setAdminSocketAccess_def os_chmod_def os_chown_def resolveActiveGUIUserIDs_def bits
          activeGUIUserIDs_darwin_def Let_def split: option.splits sum.splits if_splits)
    with True assms mkdir stale listen access show ?thesis by (auto simp: admin_Start_def Let_def)
  next
    case False
    have "sys_files s3 ?p = sys_files s2 ?p" if "e3 \<noteq> None"
      using that listen by (auto simp: listen_unix_def split: option.splits)
    with False assms mkdir stale listen access s1 s2 show ?thesis
      by (auto simp: admin_Start_def Let_def close_listener_def split: option.splits)
  qed
qed

theorem admin_socket_is_private_witness:
  "case sys_files (snd (snd (admin_Start mac_env (Inr (Some (501, 20))) [] None
      (daemon_server acme_app_env mac_env mac_gui None ''/tmp/devproxy/admin.sock'') mac_sys)))
      ''/tmp/devproxy/admin.sock'' of
    None \<Rightarrow> False
  | Some f \<Rightarrow> file_perm f = 0x1000180 \<and> file_uid f = 501 \<and> file_gid f = 20"
proof -
  let ?srv = "daemon_server acme_app_env mac_env mac_gui None ''/tmp/devproxy/admin.sock''"
  obtain err srv' s' where started:
    "admin_Start mac_env (Inr (Some (501, 20))) [] None ?srv mac_sys = (err, srv', s')"
    by (metis prod.exhaust)
  have path: "as_socketPath ?srv = ''/tmp/devproxy/admin.sock''"
    by (simp add: daemon_server_def NewAdminServer_def daemon_server_config_def Let_def)
  have "fst (admin_Start mac_env (Inr (Some (501, 20))) [] None ?srv mac_sys) = None" by code_simp
  then have "err = None" using started by simp
  with admin_socket_is_private [OF started] started path show ?thesis
    by (auto simp: mac_env_def ModeSocket_def split: option.split)
qed

end
