(* ===== verification/DoctorChecks.thy ===== *)
theory DoctorChecks
  imports AdminApi
begin

text \<open>
  \<open>internal/doctor/checks.go\<close>: the checks of \<open>devproxy doctor\<close>. A run calls each of its dependencies at
  most once and only looks at the system, so a dependency is the answer it gives in that run; the
  default dependencies are functions of what the commands, the admin socket, the listeners and the
  DNS server answer (\<open>probe_env\<close>). The regular expression over the output of \<open>scutil\<close> is
  modelled by what it matches, and by an executable matcher proved equivalent.
\<close>

section \<open>Types\<close>

record resolver_state =
  res_ManagedSuffix :: string
  res_ActiveResolver :: bool
  res_Nameservers :: "string list"
  res_Evidence :: string

record check_result =
  cr_Name :: string
  cr_OK :: bool
  cr_Message :: string

record doctor_deps =
  dd_CheckDocker :: "go_error option"
  dd_CheckLaunchd :: "go_error option"
  dd_CheckAdminSocket :: "go_error option"
  dd_CheckProxyHTTP :: "string \<Rightarrow> go_error option"
  dd_CheckProxyHTTPS :: "string \<Rightarrow> go_error option"
  dd_CheckMKCert :: "go_error option"
  dd_CheckLocalCA :: "go_error option"
  dd_ReadResolverState :: "go_error + resolver_state"
  dd_ResolveExampleHost :: "string \<Rightarrow> go_error + string"
  dd_ReadNetworkHealth :: "go_error + admin_network_health"

text \<open>The \<open>Dependencies\<close> given to \<open>NewChecker\<close>, each of which may be nil.\<close>

record doctor_overrides =
  do_CheckDocker :: "go_error option option"
  do_CheckLaunchd :: "go_error option option"
  do_CheckAdminSocket :: "go_error option option"
  do_CheckProxyHTTP :: "(string \<Rightarrow> go_error option) option"
  do_CheckProxyHTTPS :: "(string \<Rightarrow> go_error option) option"
  do_CheckMKCert :: "go_error option option"
  do_CheckLocalCA :: "go_error option option"
  do_ReadResolverState :: "(go_error + resolver_state) option"
  do_ResolveExampleHost :: "(string \<Rightarrow> go_error + string) option"
  do_ReadNetworkHealth :: "(go_error + admin_network_health) option"

definition zero_resolver_state :: resolver_state where
  "zero_resolver_state = \<lparr>res_ManagedSuffix = [], res_ActiveResolver = False, res_Nameservers = [],
     res_Evidence = []\<rparr>"

definition default_to :: "'a \<Rightarrow> 'a option \<Rightarrow> 'a" where
  "default_to d x = (case x of None \<Rightarrow> d | Some v \<Rightarrow> v)"

definition NewChecker :: "doctor_deps \<Rightarrow> doctor_overrides \<Rightarrow> doctor_deps" where
  "NewChecker d x =
     \<lparr>dd_CheckDocker = default_to (dd_CheckDocker d) (do_CheckDocker x),
      dd_CheckLaunchd = default_to (dd_CheckLaunchd d) (do_CheckLaunchd x),
      dd_CheckAdminSocket = default_to (dd_CheckAdminSocket d) (do_CheckAdminSocket x),
      dd_CheckProxyHTTP = default_to (dd_CheckProxyHTTP d) (do_CheckProxyHTTP x),
      dd_CheckProxyHTTPS = default_to (dd_CheckProxyHTTPS d) (do_CheckProxyHTTPS x),
      dd_CheckMKCert = default_to (dd_CheckMKCert d) (do_CheckMKCert x),
      dd_CheckLocalCA = default_to (dd_CheckLocalCA d) (do_CheckLocalCA x),
      dd_ReadResolverState = default_to (dd_ReadResolverState d) (do_ReadResolverState x),
      dd_ResolveExampleHost = default_to (dd_ResolveExampleHost d) (do_ResolveExampleHost x),
      dd_ReadNetworkHealth = default_to (dd_ReadNetworkHealth d) (do_ReadNetworkHealth x)\<rparr>"

section \<open>Running the checks\<close>

definition probe :: "string \<Rightarrow> go_error option \<Rightarrow> check_result" where
  "probe name answer =
     (case answer of
        Some err \<Rightarrow> \<lparr>cr_Name = name, cr_OK = False, cr_Message = err\<rparr>
      | None \<Rightarrow> \<lparr>cr_Name = name, cr_OK = True, cr_Message = ''ok''\<rparr>)"

definition probeWithHost :: "string \<Rightarrow> (string \<Rightarrow> go_error option) \<Rightarrow> string \<Rightarrow> check_result" where
  "probeWithHost name fn host =
     (case fn host of
        Some err \<Rightarrow> \<lparr>cr_Name = name, cr_OK = False, cr_Message = err\<rparr>
      | None \<Rightarrow> \<lparr>cr_Name = name, cr_OK = True, cr_Message = ''ok''\<rparr>)"

definition listenerCheck :: "string \<Rightarrow> listener_status \<Rightarrow> check_result" where
  "listenerCheck name l =
     (if \<not> lst_Bound l
      then \<lparr>cr_Name = name, cr_OK = False,
          cr_Message = (if lst_LastError l \<noteq> [] then lst_LastError l else ''not bound'')\<rparr>
      else \<lparr>cr_Name = name, cr_OK = True, cr_Message = lst_BindAddress l\<rparr>)"

definition resolverMessage :: "resolver_state \<Rightarrow> string" where
  "resolverMessage st =
     (let ns = join_with '','' (res_Nameservers st); ns = (if ns = [] then ''none'' else ns)
      in ''scutil resolver active for .'' @ res_ManagedSuffix st @ '' via '' @ ns)"

definition resolver_check :: "go_error + resolver_state \<Rightarrow> check_result" where
  "resolver_check answer =
     (case answer of
        Inl err \<Rightarrow> \<lparr>cr_Name = ''resolver_state'', cr_OK = False, cr_Message = err\<rparr>
      | Inr st \<Rightarrow>
          if \<not> res_ActiveResolver st
          then \<lparr>cr_Name = ''resolver_state'', cr_OK = False,
              cr_Message = (if res_Evidence st = [] then ''scutil --dns shows no active managed resolver''
                            else res_Evidence st)\<rparr>
          else \<lparr>cr_Name = ''resolver_state'', cr_OK = True, cr_Message = resolverMessage st\<rparr>)"

definition listener_checks :: "go_error + admin_network_health \<Rightarrow> check_result list" where
  "listener_checks answer =
     (case answer of
        Inl err \<Rightarrow>
          [\<lparr>cr_Name = ''http_listener'', cr_OK = False, cr_Message = err\<rparr>,
           \<lparr>cr_Name = ''https_listener'', cr_OK = False, cr_Message = err\<rparr>]
      | Inr h \<Rightarrow> [listenerCheck ''http_listener'' (anh_HTTP h), listenerCheck ''https_listener'' (anh_HTTPS h)])"

text \<open>The resolver state is zero where reading it failed.\<close>

definition resolver_read :: "go_error + resolver_state \<Rightarrow> resolver_state" where
  "resolver_read answer = (case answer of Inl _ \<Rightarrow> zero_resolver_state | Inr st \<Rightarrow> st)"

definition managed_host :: "string \<Rightarrow> resolver_state \<Rightarrow> string" where
  "managed_host exampleHost st =
     (let managedHost = trim_space exampleHost in
      if managedHost = []
      then (let suffix = trim_space (res_ManagedSuffix st); suffix = (if suffix = [] then ''test'' else suffix)
            in ''example.'' @ suffix)
      else managedHost)"

text \<open>\<open>strings.EqualFold\<close> on ASCII.\<close>

definition using_placeholder :: "string \<Rightarrow> resolver_state \<Rightarrow> bool" where
  "using_placeholder managedHost st \<longleftrightarrow>
     to_lower managedHost = to_lower (''example.'' @ trim_dots (trim_space (res_ManagedSuffix st)))"

definition blocked_reason ::
  "go_error + resolver_state \<Rightarrow> go_error + admin_network_health \<Rightarrow> go_error option" where
  "blocked_reason resolver health =
     (case health of
        Inl err \<Rightarrow> Some err
      | Inr _ \<Rightarrow>
          (case resolver of
             Inl err \<Rightarrow> Some err
           | Inr st \<Rightarrow> if \<not> res_ActiveResolver st then Some ''resolver inactive'' else None))"

definition proxy_checks :: "doctor_deps \<Rightarrow> string \<Rightarrow> bool \<Rightarrow> go_error option \<Rightarrow> check_result list" where
  "proxy_checks d managedHost placeholder blocked =
     (case blocked of
        Some reason \<Rightarrow>
          (let msg = ''cannot verify managed proxy reachability without daemon status: '' @ reason
           in [\<lparr>cr_Name = ''proxy_http'', cr_OK = False, cr_Message = msg\<rparr>,
               \<lparr>cr_Name = ''proxy_https'', cr_OK = False, cr_Message = msg\<rparr>])
      | None \<Rightarrow>
          [probeWithHost ''proxy_http'' (dd_CheckProxyHTTP d) managedHost,
           if placeholder
           then \<lparr>cr_Name = ''proxy_https'', cr_OK = True, cr_Message =
             ''skipped TLS probe without a route-specific host; use --example-host to verify HTTPS end-to-end''\<rparr>
           else probeWithHost ''proxy_https'' (dd_CheckProxyHTTPS d) managedHost])"

definition checker_Run :: "doctor_deps \<Rightarrow> string \<Rightarrow> check_result list" where
  "checker_Run d exampleHost =
     (let checks = [probe ''docker'' (dd_CheckDocker d), probe ''launchd'' (dd_CheckLaunchd d),
            probe ''admin_socket'' (dd_CheckAdminSocket d)];
          resolver = dd_ReadResolverState d;
          checks = checks @ [resolver_check resolver];
          health = dd_ReadNetworkHealth d;
          checks = checks @ listener_checks health;
          managedHost = managed_host exampleHost (resolver_read resolver);
          placeholder = using_placeholder managedHost (resolver_read resolver);
          checks = checks @ proxy_checks d managedHost placeholder (blocked_reason resolver health);
          checks = checks @ [probe ''mkcert'' (dd_CheckMKCert d), probe ''local_ca'' (dd_CheckLocalCA d)]
      in if managedHost \<noteq> []
         then checks @
           [case dd_ResolveExampleHost d managedHost of
              Inl err \<Rightarrow> \<lparr>cr_Name = ''managed_domain_resolution'', cr_OK = False, cr_Message = err\<rparr>
            | Inr _ \<Rightarrow> \<lparr>cr_Name = ''managed_domain_resolution'', cr_OK = True,
                cr_Message = managedHost @ '' resolves via devproxy DNS''\<rparr>]
         else checks)"

section \<open>The default dependencies\<close>

datatype dns_answer = ARecord "8 word list" | OtherRecord

text \<open>
  What the system answers: a command (output, error), \<open>exec.LookPath\<close>, the client of the admin
  socket, an HTTP or HTTPS request for a host sent to the local listener, and a DNS query of type A
  sent to the local server (\<open>None\<close> for a nil reply).
\<close>

record probe_env =
  pe_run :: "string \<Rightarrow> string list \<Rightarrow> string \<times> go_error option"
  pe_lookpath :: "string \<Rightarrow> go_error option"
  pe_status :: "go_error + status_view"
  pe_http :: "string \<Rightarrow> go_error option"
  pe_https :: "string \<Rightarrow> go_error option"
  pe_dns :: "string \<Rightarrow> go_error + dns_answer list option"

definition checkDocker :: "probe_env \<Rightarrow> go_error option" where
  "checkDocker pe =
     (case pe_run pe ''docker'' [''info''] of
        (out, Some err) \<Rightarrow> Some (''docker info failed: '' @ err @ '': '' @ trim_space out)
      | (_, None) \<Rightarrow> None)"

definition launchdPrintIndicatesRunning :: "string \<Rightarrow> bool" where
  "launchdPrintIndicatesRunning printOutput = contains_sub (to_lower printOutput) ''state = running''"

definition checkLaunchd :: "probe_env \<Rightarrow> go_error option" where
  "checkLaunchd pe =
     (case pe_run pe ''launchctl'' [''print'', ''system/com.devproxy.daemon''] of
        (out, Some err) \<Rightarrow>
          Some (''launchctl print system/com.devproxy.daemon failed: '' @ err @ '': '' @ trim_space out)
      | (out, None) \<Rightarrow>
          (if \<not> launchdPrintIndicatesRunning (trim_space out)
           then Some (''launchd daemon not running (state not running). launchctl print system/com.devproxy.daemon output: ''
             @ trim_space out)
           else None))"

definition checkAdminSocket :: "probe_env \<Rightarrow> go_error option" where
  "checkAdminSocket pe =
     (case pe_status pe of Inl err \<Rightarrow> Some (''admin socket unreachable: '' @ err) | Inr _ \<Rightarrow> None)"

definition checkProxyHTTP :: "probe_env \<Rightarrow> string \<Rightarrow> go_error option" where
  "checkProxyHTTP pe host =
     map_option (\<lambda>err. ''http proxy unreachable: '' @ err) (pe_http pe (''http://'' @ host))"

definition checkProxyHTTPS :: "probe_env \<Rightarrow> string \<Rightarrow> go_error option" where
  "checkProxyHTTPS pe host =
     map_option (\<lambda>err. ''https proxy unreachable: '' @ err) (pe_https pe (''https://'' @ host))"

definition checkMKCert :: "probe_env \<Rightarrow> go_error option" where
  "checkMKCert pe = map_option (\<lambda>err. ''mkcert not found: '' @ err) (pe_lookpath pe ''mkcert'')"

definition checkLocalCA :: "probe_env \<Rightarrow> go_error option" where
  "checkLocalCA pe =
     (case pe_run pe ''mkcert'' [''-CAROOT''] of
        (out, Some err) \<Rightarrow> Some (''mkcert local CA unavailable: '' @ err @ '': '' @ trim_space out)
      | (out, None) \<Rightarrow> if trim_space out = [] then Some ''mkcert local CA root is empty'' else None)"

text \<open>Blanks of a regular expression: \<open>\s\<close>.\<close>

definition re_space :: "char \<Rightarrow> bool" where
  "re_space c \<longleftrightarrow> c \<in> {CHR 0x09, CHR 0x0A, CHR 0x0C, CHR 0x0D, CHR '' ''}"

text \<open>What \<open>(?m)^\s*domain\s*:\s*\.?SUFFIX\s*$\<close> matches, from the start of the match.\<close>

definition domain_entry :: "string \<Rightarrow> string \<Rightarrow> bool" where
  "domain_entry suffix input \<longleftrightarrow>
     (\<exists>w1 w2 w3 dot w4 rest. input = w1 @ ''domain'' @ w2 @ '':'' @ w3 @ dot @ suffix @ w4 @ rest \<and>
        list_all re_space (w1 @ w2 @ w3 @ w4) \<and> dot \<in> {[], ''.''} \<and> (rest = [] \<or> hd rest = CHR 0x0A))"

text \<open>An executable matcher: what may be left after each part, backtracking as a list.\<close>

fun after_blanks :: "string \<Rightarrow> string list" where
  "after_blanks [] = [[]]"
| "after_blanks (c # input) = (c # input) # (if re_space c then after_blanks input else [])"

definition after_literal :: "string \<Rightarrow> string \<Rightarrow> string list" where
  "after_literal lit input = (if has_prefix input lit then [drop (length lit) input] else [])"

definition after_dot :: "string \<Rightarrow> string list" where
  "after_dot input = input # after_literal ''.'' input"

definition then_after :: "(string \<Rightarrow> string list) \<Rightarrow> (string \<Rightarrow> string list) \<Rightarrow> string \<Rightarrow> string list" where
  "then_after f g input = concat (map g (f input))"

definition matches_entry :: "string \<Rightarrow> string \<Rightarrow> bool" where
  "matches_entry suffix input =
     list_ex (\<lambda>rest. rest = [] \<or> hd rest = CHR 0x0A)
       (then_after after_blanks (then_after (after_literal ''domain'') (then_after after_blanks
         (then_after (after_literal '':'') (then_after after_blanks (then_after after_dot
           (then_after (after_literal suffix) after_blanks)))))) input)"

text \<open>The matches may start at the input's start and after every newline.\<close>

fun matches_at_line :: "bool \<Rightarrow> string \<Rightarrow> string \<Rightarrow> bool" where
  "matches_at_line start suffix [] = (start \<and> matches_entry suffix [])"
| "matches_at_line start suffix (c # input) =
     (start \<and> matches_entry suffix (c # input) \<or> matches_at_line (c = CHR 0x0A) suffix input)"

definition scutilHasManagedResolver :: "string \<Rightarrow> string \<Rightarrow> bool" where
  "scutilHasManagedResolver scutilOutput suffix =
     (let trimmedSuffix = trim_dots (trim_space suffix) in
      if trimmedSuffix = [] then False else matches_at_line True trimmedSuffix scutilOutput)"

definition readResolverState :: "probe_env \<Rightarrow> go_error + resolver_state" where
  "readResolverState pe =
     (case pe_run pe ''scutil'' [''--dns''] of
        (out, Some err) \<Rightarrow> Inl (''scutil --dns failed: '' @ err @ '': '' @ trim_space out)
      | (out, None) \<Rightarrow> Inr \<lparr>res_ManagedSuffix = ''test'', res_ActiveResolver = scutilHasManagedResolver out ''test'',
          res_Nameservers = [''127.0.0.1''], res_Evidence = ''scutil --dns inspected''\<rparr>)"

text \<open>\<open>net.IP.String\<close> of the four bytes of an A record.\<close>

definition ip_string :: "8 word list \<Rightarrow> string" where
  "ip_string bytes = join_with ''.'' (map (\<lambda>b. itoa (uint b)) bytes)"

definition parseDNSAnswerAddress :: "dns_answer list option \<Rightarrow> string" where
  "parseDNSAnswerAddress resp =
     (case resp of
        None \<Rightarrow> []
      | Some answers \<Rightarrow>
          (case List.map_filter (\<lambda>a. case a of ARecord (b # bs) \<Rightarrow> Some (ip_string (b # bs)) | _ \<Rightarrow> None) answers of
             [] \<Rightarrow> []
           | addr # _ \<Rightarrow> addr))"

definition resolveExampleHost :: "probe_env \<Rightarrow> string \<Rightarrow> go_error + string" where
  "resolveExampleHost pe host =
     (case pe_dns pe host of
        Inl err \<Rightarrow> Inl (''lookup '' @ host @ '' failed via devproxy DNS: '' @ err)
      | Inr resp \<Rightarrow>
          (let addr = parseDNSAnswerAddress resp
           in if addr = [] then Inl (''lookup '' @ host @ '' returned no addresses via devproxy DNS'')
              else Inr addr))"

definition readNetworkHealth :: "probe_env \<Rightarrow> go_error + admin_network_health" where
  "readNetworkHealth pe =
     (case pe_status pe of
        Inl err \<Rightarrow> Inl (''read runtime status: '' @ err)
      | Inr status \<Rightarrow> Inr \<lparr>anh_DNS = \<lparr>lst_Enabled = True, lst_Bound = ds_Healthy (sv_DNS status),
            lst_BindAddress = ''127.0.0.1:53535'', lst_LastError = []\<rparr>,
          anh_HTTP = sv_HTTP status, anh_HTTPS = sv_HTTPS status, anh_Paused = sv_Paused status,
          anh_CertificateReady = sv_CertificateReady status,
          anh_ManagedSuffix = ds_ManagedSuffix (sv_DNS status)\<rparr>)"

definition default_deps :: "probe_env \<Rightarrow> doctor_deps" where
  "default_deps pe =
     \<lparr>dd_CheckDocker = checkDocker pe, dd_CheckLaunchd = checkLaunchd pe,
      dd_CheckAdminSocket = checkAdminSocket pe, dd_CheckProxyHTTP = checkProxyHTTP pe,
      dd_CheckProxyHTTPS = checkProxyHTTPS pe, dd_CheckMKCert = checkMKCert pe,
      dd_CheckLocalCA = checkLocalCA pe, dd_ReadResolverState = readResolverState pe,
      dd_ResolveExampleHost = resolveExampleHost pe, dd_ReadNetworkHealth = readNetworkHealth pe\<rparr>"


section \<open>Lemmas\<close>

lemma after_blanks_iff: "r \<in> set (after_blanks input) \<longleftrightarrow> (\<exists>w. input = w @ r \<and> list_all re_space w)"
proof (induction input)
  case (Cons c input)
  have "(\<exists>w. c # input = w @ r \<and> list_all re_space w) \<longleftrightarrow>
      r = c # input \<or> re_space c \<and> (\<exists>w. input = w @ r \<and> list_all re_space w)"
    by (auto simp: Cons_eq_append_conv)
  with Cons show ?case by auto
qed auto

lemma after_literal_iff: "r \<in> set (after_literal lit input) \<longleftrightarrow> input = lit @ r"
  by (auto simp: after_literal_def has_prefix_iff)

lemma after_dot_iff: "r \<in> set (after_dot input) \<longleftrightarrow> (\<exists>dot. input = dot @ r \<and> dot \<in> {[], ''.''})"
  by (auto simp: after_dot_def after_literal_iff)

lemma then_after_iff: "r \<in> set (then_after f g input) \<longleftrightarrow> (\<exists>t. t \<in> set (f input) \<and> r \<in> set (g t))"
  by (auto simp: then_after_def)

lemma matches_entry_iff: "matches_entry suffix input = domain_entry suffix input"
proof
  assume "matches_entry suffix input"
  then obtain w1 t1 t2 w2 t3 t4 w3 t5 dot t6 t7 w4 rest where
    "input = w1 @ t1" "t1 = ''domain'' @ t2" "t2 = w2 @ t3" "t3 = '':'' @ t4" "t4 = w3 @ t5" "t5 = dot @ t6"
    "t6 = suffix @ t7" "t7 = w4 @ rest" "list_all re_space w1" "list_all re_space w2" "list_all re_space w3"
    "list_all re_space w4" "dot \<in> {[], ''.''}" "rest = [] \<or> hd rest = CHR 0x0A"
    unfolding matches_entry_def list_ex_iff Bex_def then_after_iff after_blanks_iff
      after_literal_iff after_dot_iff by metis
  then have "input = w1 @ ''domain'' @ w2 @ '':'' @ w3 @ dot @ suffix @ w4 @ rest"
    "list_all re_space (w1 @ w2 @ w3 @ w4)" by simp_all
  then show "domain_entry suffix input"
    unfolding domain_entry_def using \<open>dot \<in> {[], ''.''}\<close> \<open>rest = [] \<or> hd rest = CHR 0x0A\<close> by metis
next
  assume "domain_entry suffix input"
  then obtain w1 w2 w3 dot w4 rest where
    parts: "input = w1 @ ''domain'' @ w2 @ '':'' @ w3 @ dot @ suffix @ w4 @ rest"
    "list_all re_space w1" "list_all re_space w2" "list_all re_space w3" "list_all re_space w4"
    "dot \<in> {[], ''.''}" "rest = [] \<or> hd rest = CHR 0x0A"
    unfolding domain_entry_def list_all_append by metis
  have "rest \<in> set (then_after (after_literal suffix) after_blanks (suffix @ w4 @ rest))"
    using parts(5) by (auto simp: then_after_iff after_literal_iff after_blanks_iff)
  then have "rest \<in> set (then_after after_dot (then_after (after_literal suffix) after_blanks)
      (dot @ suffix @ w4 @ rest))"
    using parts(6) by (subst then_after_iff) (auto simp: after_dot_iff)
  then have "rest \<in> set (then_after (after_literal '':'') (then_after after_blanks (then_after after_dot
      (then_after (after_literal suffix) after_blanks))) ('':'' @ w3 @ dot @ suffix @ w4 @ rest))"
    using parts(4) by (subst then_after_iff, subst then_after_iff) (auto simp: after_literal_iff after_blanks_iff)
  then have "rest \<in> set (then_after (after_literal ''domain'') (then_after after_blanks
      (then_after (after_literal '':'') (then_after after_blanks (then_after after_dot
        (then_after (after_literal suffix) after_blanks)))))
      (''domain'' @ w2 @ '':'' @ w3 @ dot @ suffix @ w4 @ rest))"
    using parts(3) by (subst then_after_iff, subst then_after_iff) (auto simp: after_literal_iff after_blanks_iff)
  then have "rest \<in> set (then_after after_blanks (then_after (after_literal ''domain'') (then_after after_blanks
      (then_after (after_literal '':'') (then_after after_blanks (then_after after_dot
        (then_after (after_literal suffix) after_blanks)))))) input)"
    using parts(1,2) by (subst then_after_iff) (auto simp: after_blanks_iff)
  then show "matches_entry suffix input"
    unfolding matches_entry_def list_ex_iff using parts(7) by blast
qed

text \<open>A rest of the input that begins a line, \<open>start\<close> telling whether the input itself does.\<close>

definition line_rest :: "bool \<Rightarrow> string \<Rightarrow> string \<Rightarrow> bool" where
  "line_rest start input rest \<longleftrightarrow>
     (\<exists>pre. input = pre @ rest \<and> (if pre = [] then start else last pre = CHR 0x0A))"

lemma line_rest_Nil: "line_rest start [] rest \<longleftrightarrow> start \<and> rest = []"
  by (auto simp: line_rest_def)

lemma line_rest_Cons:
  "line_rest start (c # input) rest \<longleftrightarrow> start \<and> rest = c # input \<or> line_rest (c = CHR 0x0A) input rest"
proof
  assume "line_rest start (c # input) rest"
  then obtain pre where pre: "c # input = pre @ rest" "if pre = [] then start else last pre = CHR 0x0A"
    by (auto simp: line_rest_def)
  then show "start \<and> rest = c # input \<or> line_rest (c = CHR 0x0A) input rest"
    by (cases pre) (auto simp: line_rest_def split: if_splits)
next
  assume "start \<and> rest = c # input \<or> line_rest (c = CHR 0x0A) input rest"
  then show "line_rest start (c # input) rest"
  proof
    assume "line_rest (c = CHR 0x0A) input rest"
    then obtain pre where "input = pre @ rest" "last (c # pre) = CHR 0x0A"
      by (auto simp: line_rest_def split: if_splits)
    then show ?thesis unfolding line_rest_def by (intro exI [of _ "c # pre"]) auto
  qed (auto simp: line_rest_def)
qed

lemma matches_at_line_iff:
  "matches_at_line start suffix input \<longleftrightarrow> (\<exists>rest. line_rest start input rest \<and> domain_entry suffix rest)"
  by (induction input arbitrary: start)
    (auto simp: line_rest_Nil line_rest_Cons matches_entry_iff)

lemma scutilHasManagedResolver_iff:
  "scutilHasManagedResolver out suffix \<longleftrightarrow>
     trim_dots (trim_space suffix) \<noteq> [] \<and>
     (\<exists>rest. line_rest True out rest \<and> domain_entry (trim_dots (trim_space suffix)) rest)"
  by (simp add: scutilHasManagedResolver_def Let_def matches_at_line_iff)


lemma probe_simps [simp]:
  "cr_Name (probe name answer) = name" "cr_OK (probe name answer) = (answer = None)"
  "cr_Name (probeWithHost name fn host) = name" "cr_OK (probeWithHost name fn host) = (fn host = None)"
  "cr_Name (listenerCheck name l) = name" "cr_OK (listenerCheck name l) = lst_Bound l"
  by (simp_all add: probe_def probeWithHost_def listenerCheck_def split: option.split)

lemma managed_host_nonempty: "managed_host exampleHost st \<noteq> []"
  by (simp add: managed_host_def Let_def)

section \<open>Properties\<close>

text \<open>C29. What \<open>devproxy doctor\<close> reports: always the same eleven checks in the same order, each green exactly when
  its probe succeeded. The listeners are green when the daemon reports them bound; the proxies are
  probed only when the resolver is active and the daemon answers, and are red otherwise; and without
  a host to probe, the HTTPS proxy is green without having been probed.\<close>

theorem doctor_report:
  "let resolver = dd_ReadResolverState d; health = dd_ReadNetworkHealth d;
       st = resolver_read resolver; host = managed_host exampleHost st;
       active = (\<not> isl resolver \<and> res_ActiveResolver st);
       unblocked = (active \<and> \<not> isl health)
   in map (\<lambda>c. (cr_Name c, cr_OK c)) (checker_Run d exampleHost) =
     [(''docker'', dd_CheckDocker d = None), (''launchd'', dd_CheckLaunchd d = None),
      (''admin_socket'', dd_CheckAdminSocket d = None), (''resolver_state'', active),
      (''http_listener'', case health of Inl _ \<Rightarrow> False | Inr h \<Rightarrow> lst_Bound (anh_HTTP h)),
      (''https_listener'', case health of Inl _ \<Rightarrow> False | Inr h \<Rightarrow> lst_Bound (anh_HTTPS h)),
      (''proxy_http'', unblocked \<and> dd_CheckProxyHTTP d host = None),
      (''proxy_https'', unblocked \<and> (using_placeholder host st \<or> dd_CheckProxyHTTPS d host = None)),
      (''mkcert'', dd_CheckMKCert d = None), (''local_ca'', dd_CheckLocalCA d = None),
      (''managed_domain_resolution'', \<not> isl (dd_ResolveExampleHost d host))]"
proof -
  have listeners: "map (\<lambda>c. (cr_Name c, cr_OK c)) (listener_checks health) =
      [(''http_listener'', case health of Inl _ \<Rightarrow> False | Inr h \<Rightarrow> lst_Bound (anh_HTTP h)),
       (''https_listener'', case health of Inl _ \<Rightarrow> False | Inr h \<Rightarrow> lst_Bound (anh_HTTPS h))]" for health
    by (cases health) (simp_all add: listener_checks_def)
  have resolver: "cr_Name (resolver_check r) = ''resolver_state''"
    "cr_OK (resolver_check r) = (\<not> isl r \<and> res_ActiveResolver (resolver_read r))" for r
    by (simp_all add: resolver_check_def resolver_read_def split: sum.split)
  have blocked: "blocked_reason r h = None \<longleftrightarrow> \<not> isl r \<and> res_ActiveResolver (resolver_read r) \<and> \<not> isl h" for r h
    by (simp add: blocked_reason_def resolver_read_def split: sum.split)
  have proxies: "map (\<lambda>c. (cr_Name c, cr_OK c)) (proxy_checks d host placeholder b) =
      [(''proxy_http'', b = None \<and> dd_CheckProxyHTTP d host = None),
       (''proxy_https'', b = None \<and> (placeholder \<or> dd_CheckProxyHTTPS d host = None))]" for host placeholder b
    by (cases b) (simp_all add: proxy_checks_def Let_def)
  show ?thesis
    by (simp add: checker_Run_def Let_def managed_host_nonempty listeners resolver proxies blocked
        split: sum.split)
qed

text \<open>
  The default probes look for the suffix \<open>test\<close> only. Run without a host against a daemon with another managed suffix,
  the checks of resolver and resolution tell nothing about it: they are green or red by the resolver
  entry for \<open>test\<close>, and by whether the daemon's suffix happens to cover \<open>example.test\<close>.
\<close>

definition daemon_dns ::
  "('h dns_msg option \<Rightarrow> 'h dns_msg) \<Rightarrow> 'h \<Rightarrow> string \<Rightarrow> string \<Rightarrow> go_error + dns_answer list option" where
  "daemon_dns set_reply header suffix host =
     Inr (Some (map (\<lambda>a. ARecord (a_A a)) (msg_Answer (BuildResponse set_reply
       (NewServer suffix (None :: (unit \<Rightarrow> snapshot) option)) (Some \<lparr>msg_Header = header, msg_Authoritative = False,
         msg_Question = [\<lparr>q_Name = host @ ''.'', q_Qtype = TypeA, q_Qclass = ClassINET\<rparr>], msg_Answer = []\<rparr>)))))"

lemma loopback_string: "ip_string [127, 0, 0, 1] = ''127.0.0.1''"
  by code_simp

lemma doctor_only_knows_test:
  assumes "\<forall>m. msg_Answer (set_reply m) = []"
    and "pe_dns pe = daemon_dns set_reply header suffix"
    and "pe_run pe ''scutil'' [''--dns''] = (out, None)"
    and "d = default_deps pe"
  shows "res_ActiveResolver (resolver_read (dd_ReadResolverState d)) = scutilHasManagedResolver out ''test'' \<and>
    (dd_ResolveExampleHost d (managed_host [] (resolver_read (dd_ReadResolverState d))) =
      (if IsManagedHost (NewServer suffix (None :: (unit \<Rightarrow> snapshot) option)) (normalizeHost ''example.test.'')
       then Inr ''127.0.0.1''
       else Inl ''lookup example.test returned no addresses via devproxy DNS''))"
proof -
  have host: "managed_host [] (resolver_read (dd_ReadResolverState d)) = ''example.test''"
    using assms(3,4)
    by (simp add: managed_host_def resolver_read_def default_deps_def readResolverState_def Let_def
        trim_space_def trim_by_def is_space_def)
  show ?thesis
    unfolding host using assms
    by (simp add: default_deps_def readResolverState_def resolver_read_def resolveExampleHost_def
        daemon_dns_def BuildResponse_def Let_def parseDNSAnswerAddress_def loopback_string map_filter_simps)
qed

end
