(* ===== verification/Dashboard.thy ===== *)
theory Dashboard
  imports AdminApi
begin

text \<open>
  \<open>internal/dashboard/server.go\<close>: the local dashboard, a client of the admin API. Its pages are the
  data handed to the templates, its polling endpoints the JSON they encode; rendering and the
  static files are not modelled. \<open>net.SplitHostPort\<close> and \<open>url.QueryEscape\<close> are written out,
  since the address check and the redirect depend on them. \<open>sort.Slice\<close> may rearrange routes that
  compare equal (\<open>shuf\<close>).
\<close>

section \<open>Where it listens\<close>

text \<open>\<open>net.SplitHostPort\<close>, with the text of its \<open>AddrError\<close>.\<close>

definition addr_error :: "string \<Rightarrow> string \<Rightarrow> go_error" where
  "addr_error addr why = (if addr \<noteq> [] then ''address '' @ addr @ '': '' @ why else why)"

definition SplitHostPort :: "string \<Rightarrow> go_error + string \<times> string" where
  "SplitHostPort hostport =
     (let port = rev (takeWhile (\<lambda>c. c \<noteq> CHR '':'') (rev hostport));
          i = length hostport - Suc (length port) in
      if CHR '':'' \<notin> set hostport then Inl (addr_error hostport ''missing port in address'')
      else if hd hostport = CHR ''[''
      then (let before = takeWhile (\<lambda>c. c \<noteq> CHR '']'') hostport; n = length before in
        if CHR '']'' \<notin> set hostport then Inl (addr_error hostport ''missing ']' in address'')
        else if Suc n = length hostport then Inl (addr_error hostport ''missing port in address'')
        else if Suc n = i
        then (if CHR ''['' \<in> set (drop 1 hostport) then Inl (addr_error hostport ''unexpected '[' in address'')
              else if CHR '']'' \<in> set (drop (Suc n) hostport)
              then Inl (addr_error hostport ''unexpected ']' in address'')
              else Inr (drop 1 before, port))
        else if hostport ! Suc n = CHR '':'' then Inl (addr_error hostport ''too many colons in address'')
        else Inl (addr_error hostport ''missing port in address''))
      else (let host = take i hostport in
        if CHR '':'' \<in> set host then Inl (addr_error hostport ''too many colons in address'')
        else if CHR ''['' \<in> set hostport then Inl (addr_error hostport ''unexpected '[' in address'')
        else if CHR '']'' \<in> set hostport then Inl (addr_error hostport ''unexpected ']' in address'')
        else Inr (host, port)))"

definition ValidateListenAddress :: "string \<Rightarrow> go_error option" where
  "ValidateListenAddress address =
     (case SplitHostPort address of
        Inl err \<Rightarrow> Some (''invalid listen address '' @ go_quote address @ '': '' @ err)
      | Inr (host, _) \<Rightarrow>
          if host \<noteq> ''127.0.0.1'' \<and> host \<noteq> ''localhost''
          then Some ''dashboard listen host must be localhost or 127.0.0.1'' else None)"

record 's dash_server =
  dsv_listenAddress :: string
  dsv_client :: "'s admin_client"

text \<open>\<open>None\<close> is the panic on a nil client; the templates and assets are part of the binary.\<close>

definition NewDashboardServer :: "string \<Rightarrow> 's admin_client option \<Rightarrow> 's dash_server option" where
  "NewDashboardServer listenAddress client =
     map_option (\<lambda>c. \<lparr>dsv_listenAddress = (if listenAddress = [] then DefaultListenAddress else listenAddress),
       dsv_client = c\<rparr>) client"

text \<open>\<open>listen\<close> is \<open>ListenAndServe\<close>: what it does to the world, and how it ends (\<open>None\<close> for
  \<open>http.ErrServerClosed\<close> too).\<close>

definition dash_Run :: "(string \<Rightarrow> 'w \<Rightarrow> go_error option \<times> 'w) \<Rightarrow> 's dash_server \<Rightarrow> 'w \<Rightarrow> go_error option \<times> 'w" where
  "dash_Run listen srv w =
     (case ValidateListenAddress (dsv_listenAddress srv) of
        Some err \<Rightarrow> (Some err, w)
      | None \<Rightarrow> listen (dsv_listenAddress srv) w)"

section \<open>Pages\<close>

definition errDaemonUnreachable :: string where
  "errDaemonUnreachable = ''DevProxy can'' @ [CHR 0xE2, CHR 0x80, CHR 0x99] @
     ''t reach the daemon right now. Ensure the daemon is running, then select Run Doctor for repair guidance.''"

record page_base =
  pg_ActivePage :: string
  pg_DaemonError :: string
  pg_Flash :: string

record dashboard_page = page_base +
  dp_Status :: status_view
  dp_Routes :: "route_view list"
  dp_RecentConflicts :: "log_event list"
  dp_RecentErrors :: "log_event list"
  dp_NoActiveRoutes :: bool

record routes_page = page_base +
  rtp_Routes :: "route_view list"
  rtp_NoActiveRoutes :: bool

record logs_page = page_base +
  lgp_Logs :: "log_event list"
  lgp_Errors :: "log_event list"
  lgp_ApprovedErrorMsg :: string

record doctor_page = page_base +
  dcp_Doctor :: doctor_view

record status_page = page_base +
  stp_Status :: status_view

record api_dashboard =
  ad_DaemonError :: string
  ad_Status :: status_view
  ad_Routes :: "route_view list"
  ad_Conflicts :: "log_event list"
  ad_Errors :: "log_event list"

record api_logs =
  al_DaemonError :: string
  al_Logs :: "log_event list"
  al_Errors :: "log_event list"

datatype dash_json =
    ApiError string
  | ApiDashboard api_dashboard
  | ApiRoutes string "route_view list"
  | ApiLogs api_logs
  | ApiDoctor string doctor_view
  | ApiStatus string status_view

datatype dash_response =
    DashboardPage dashboard_page
  | RoutesPage routes_page
  | LogsPage logs_page
  | DoctorPage doctor_page
  | StatusPage status_page
  | PageNotFound
  | StatusOnly int
  | Redirect string int
  | Json int dash_json

record dash_request =
  dr_Method :: string
  dr_Path :: string
  dr_Flash :: string

type_synonym 's dash_handler = "'s dash_server \<Rightarrow> dash_request \<Rightarrow> 's \<Rightarrow> dash_response \<times> 's"

definition hostname_before :: "route_view \<Rightarrow> route_view \<Rightarrow> bool" where
  "hostname_before a b \<longleftrightarrow> rv_Hostname a < rv_Hostname b"

definition conflict_entries :: "log_event list \<Rightarrow> log_event list" where
  "conflict_entries logs = filter (\<lambda>e. to_lower (le_Type e) = ''conflict'') logs"

definition error_entries :: "log_event list \<Rightarrow> log_event list" where
  "error_entries logs = filter (\<lambda>e. to_lower (le_Type e) = ''error'' \<or> to_lower (le_Type e) = ''warning'') logs"

definition handleDashboard :: "(route_view list \<Rightarrow> route_view list) \<Rightarrow> 's dash_handler" where
  "handleDashboard shuf srv r s =
     (if dr_Path r \<noteq> ''/'' then (PageNotFound, s)
      else
        (let data = \<lparr>pg_ActivePage = ''dashboard'', pg_DaemonError = [], pg_Flash = dr_Flash r,
               dp_Status = zero_status_view, dp_Routes = [], dp_RecentConflicts = [], dp_RecentErrors = [],
               dp_NoActiveRoutes = False\<rparr> in
         case cl_Status (dsv_client srv) s of
           (Inl err, s) \<Rightarrow> (DashboardPage (data\<lparr>pg_DaemonError := errDaemonUnreachable\<rparr>), s)
         | (Inr status, s) \<Rightarrow>
             (let data = data\<lparr>dp_Status := status\<rparr>;
                  (routes, s) = cl_Routes (dsv_client srv) s;
                  data = (case routes of
                      Inl _ \<Rightarrow> data
                    | Inr routes \<Rightarrow> data\<lparr>dp_Routes := sort_slice shuf hostname_before routes,
                        dp_NoActiveRoutes := (length routes = 0)\<rparr>);
                  (logs, s) = cl_Logs (dsv_client srv) s;
                  data = (case logs of
                      Inl _ \<Rightarrow> data
                    | Inr logs \<Rightarrow> data\<lparr>dp_RecentConflicts := conflict_entries logs,
                        dp_RecentErrors := error_entries logs\<rparr>)
              in (DashboardPage data, s))))"

definition handleRoutesPage :: "(route_view list \<Rightarrow> route_view list) \<Rightarrow> 's dash_handler" where
  "handleRoutesPage shuf srv r s =
     (if dr_Path r \<noteq> ''/routes'' then (PageNotFound, s)
      else
        (let data = \<lparr>pg_ActivePage = ''routes'', pg_DaemonError = [], pg_Flash = [], rtp_Routes = [],
               rtp_NoActiveRoutes = False\<rparr> in
         case cl_Routes (dsv_client srv) s of
           (Inl err, s) \<Rightarrow> (RoutesPage (data\<lparr>pg_DaemonError := errDaemonUnreachable\<rparr>), s)
         | (Inr routes, s) \<Rightarrow>
             (RoutesPage (data\<lparr>rtp_Routes := sort_slice shuf hostname_before routes,
                rtp_NoActiveRoutes := (length routes = 0)\<rparr>), s)))"

definition handleLogsPage :: "'s dash_handler" where
  "handleLogsPage srv r s =
     (if dr_Path r \<noteq> ''/logs'' then (PageNotFound, s)
      else
        (let data = \<lparr>pg_ActivePage = ''logs'', pg_DaemonError = [], pg_Flash = [], lgp_Logs = [], lgp_Errors = [],
               lgp_ApprovedErrorMsg = errDaemonUnreachable\<rparr> in
         case cl_Logs (dsv_client srv) s of
           (Inl err, s) \<Rightarrow> (LogsPage data, s)
         | (Inr logs, s) \<Rightarrow> (LogsPage (data\<lparr>lgp_Logs := logs, lgp_Errors := error_entries logs\<rparr>), s)))"

definition handleDoctorPage :: "'s dash_handler" where
  "handleDoctorPage srv r s =
     (if dr_Path r \<noteq> ''/doctor'' then (PageNotFound, s)
      else
        (let data = \<lparr>pg_ActivePage = ''doctor'', pg_DaemonError = [], pg_Flash = [],
               dcp_Doctor = zero_doctor_view\<rparr> in
         case cl_Doctor (dsv_client srv) s of
           (Inl err, s) \<Rightarrow> (DoctorPage (data\<lparr>pg_DaemonError := errDaemonUnreachable\<rparr>), s)
         | (Inr doctor, s) \<Rightarrow> (DoctorPage (data\<lparr>dcp_Doctor := doctor\<rparr>), s)))"

definition handleStatusPage :: "'s dash_handler" where
  "handleStatusPage srv r s =
     (if dr_Path r \<noteq> ''/status'' then (PageNotFound, s)
      else
        (let data = \<lparr>pg_ActivePage = ''status'', pg_DaemonError = [], pg_Flash = [],
               stp_Status = zero_status_view\<rparr> in
         case cl_Status (dsv_client srv) s of
           (Inl err, s) \<Rightarrow> (StatusPage (data\<lparr>pg_DaemonError := errDaemonUnreachable\<rparr>), s)
         | (Inr status, s) \<Rightarrow> (StatusPage (data\<lparr>stp_Status := status\<rparr>), s)))"

text \<open>\<open>url.QueryEscape\<close>.\<close>

definition upper_hex_digit :: "nat \<Rightarrow> char" where
  "upper_hex_digit n = (''0123456789ABCDEF'') ! n"

definition unreserved :: "char \<Rightarrow> bool" where
  "unreserved c \<longleftrightarrow> (CHR ''a'' \<le> c \<and> c \<le> CHR ''z'') \<or> (CHR ''A'' \<le> c \<and> c \<le> CHR ''Z'') \<or>
     (CHR ''0'' \<le> c \<and> c \<le> CHR ''9'') \<or> c \<in> {CHR ''-'', CHR ''_'', CHR ''.'', CHR ''~''}"

definition QueryEscape :: "string \<Rightarrow> string" where
  "QueryEscape s = concat (map (\<lambda>c.
     if unreserved c then [c] else if c = CHR '' '' then ''+''
     else let n = (of_char c :: nat) in [CHR ''%'', upper_hex_digit (n div 16), upper_hex_digit (n mod 16)]) s)"

definition dash_handleRefresh :: "'s dash_handler" where
  "dash_handleRefresh srv r s =
     (if dr_Method r \<noteq> ''POST'' then (StatusOnly 405, s)
      else case cl_Refresh (dsv_client srv) ''dashboard refresh action'' s of
          (Inl err, s) \<Rightarrow> (Redirect (''/?flash='' @ QueryEscape ''Refresh failed'') 303, s)
        | (Inr _, s) \<Rightarrow> (Redirect (''/?flash='' @ QueryEscape ''Routes refreshed'') 303, s))"

section \<open>Polling endpoints\<close>

definition api_not_allowed :: dash_response where
  "api_not_allowed = Json 405 (ApiError ''method not allowed'')"

definition handleAPIDashboard :: "(route_view list \<Rightarrow> route_view list) \<Rightarrow> 's dash_handler" where
  "handleAPIDashboard shuf srv r s =
     (if dr_Method r \<noteq> ''GET'' then (api_not_allowed, s)
      else
        (let data = \<lparr>ad_DaemonError = [], ad_Status = zero_status_view, ad_Routes = [], ad_Conflicts = [],
               ad_Errors = []\<rparr> in
         case cl_Status (dsv_client srv) s of
           (Inl err, s) \<Rightarrow> (Json 200 (ApiDashboard (data\<lparr>ad_DaemonError := errDaemonUnreachable\<rparr>)), s)
         | (Inr status, s) \<Rightarrow>
             (let data = data\<lparr>ad_Status := status\<rparr>;
                  (routes, s) = cl_Routes (dsv_client srv) s;
                  data = (case routes of
                      Inl _ \<Rightarrow> data
                    | Inr routes \<Rightarrow> data\<lparr>ad_Routes := sort_slice shuf hostname_before routes\<rparr>);
                  (logs, s) = cl_Logs (dsv_client srv) s;
                  data = (case logs of
                      Inl _ \<Rightarrow> data
                    | Inr logs \<Rightarrow> data\<lparr>ad_Conflicts := conflict_entries logs, ad_Errors := error_entries logs\<rparr>)
              in (Json 200 (ApiDashboard data), s))))"

definition handleAPIRoutes :: "(route_view list \<Rightarrow> route_view list) \<Rightarrow> 's dash_handler" where
  "handleAPIRoutes shuf srv r s =
     (if dr_Method r \<noteq> ''GET'' then (api_not_allowed, s)
      else case cl_Routes (dsv_client srv) s of
          (Inl err, s) \<Rightarrow> (Json 200 (ApiRoutes errDaemonUnreachable []), s)
        | (Inr routes, s) \<Rightarrow> (Json 200 (ApiRoutes [] (sort_slice shuf hostname_before routes)), s))"

definition handleAPILogs :: "'s dash_handler" where
  "handleAPILogs srv r s =
     (if dr_Method r \<noteq> ''GET'' then (api_not_allowed, s)
      else
        (let data = \<lparr>al_DaemonError = [], al_Logs = [], al_Errors = []\<rparr> in
         case cl_Logs (dsv_client srv) s of
           (Inl err, s) \<Rightarrow> (Json 200 (ApiLogs (data\<lparr>al_DaemonError := errDaemonUnreachable\<rparr>)), s)
         | (Inr logs, s) \<Rightarrow> (Json 200 (ApiLogs (data\<lparr>al_Logs := logs, al_Errors := error_entries logs\<rparr>)), s)))"

definition handleAPIDoctor :: "'s dash_handler" where
  "handleAPIDoctor srv r s =
     (if dr_Method r \<noteq> ''GET'' then (api_not_allowed, s)
      else case cl_Doctor (dsv_client srv) s of
          (Inl err, s) \<Rightarrow> (Json 200 (ApiDoctor errDaemonUnreachable zero_doctor_view), s)
        | (Inr doctor, s) \<Rightarrow> (Json 200 (ApiDoctor [] doctor), s))"

definition handleAPIStatus :: "'s dash_handler" where
  "handleAPIStatus srv r s =
     (if dr_Method r \<noteq> ''GET'' then (api_not_allowed, s)
      else case cl_Status (dsv_client srv) s of
          (Inl err, s) \<Rightarrow> (Json 200 (ApiStatus errDaemonUnreachable zero_status_view), s)
        | (Inr status, s) \<Rightarrow> (Json 200 (ApiStatus [] status), s))"

text \<open>The mux of \<open>NewServer\<close>, without the static files: \<open>/\<close> gets every path no other pattern matches.\<close>

definition dash_serve :: "(route_view list \<Rightarrow> route_view list) \<Rightarrow> 's dash_handler" where
  "dash_serve shuf srv r =
     (let path = dr_Path r in
      if path = ''/routes'' then handleRoutesPage shuf srv r
      else if path = ''/logs'' then handleLogsPage srv r
      else if path = ''/doctor'' then handleDoctorPage srv r
      else if path = ''/status'' then handleStatusPage srv r
      else if path = ''/actions/refresh'' then dash_handleRefresh srv r
      else if path = ''/api/dashboard'' then handleAPIDashboard shuf srv r
      else if path = ''/api/routes'' then handleAPIRoutes shuf srv r
      else if path = ''/api/logs'' then handleAPILogs srv r
      else if path = ''/api/doctor'' then handleAPIDoctor srv r
      else if path = ''/api/status'' then handleAPIStatus srv r
      else handleDashboard shuf srv r)"

section \<open>Lemmas\<close>

text \<open>What \<open>SplitHostPort\<close> accepts: a port after the last colon, and a host either bare or in brackets.\<close>

definition plain_part :: "string \<Rightarrow> bool" where
  "plain_part s \<longleftrightarrow> CHR '':'' \<notin> set s \<and> CHR ''['' \<notin> set s \<and> CHR '']'' \<notin> set s"

lemma takeWhile_until [simp]: "c \<notin> set xs \<Longrightarrow> takeWhile (\<lambda>x. x \<noteq> c) (xs @ c # ys) = xs"
  by (induction xs) auto

lemma last_part: "c \<notin> set port \<Longrightarrow> rev (takeWhile (\<lambda>x. x \<noteq> c) (rev (host @ [c] @ port))) = port"
  by simp

lemma SplitHostPort_bare:
  assumes "plain_part host" and "plain_part port"
  shows "SplitHostPort (host @ '':'' @ port) = Inr (host, port)"
proof -
  have "hd (host @ '':'' @ port) \<noteq> CHR ''[''"
    using assms(1) by (cases host) (auto simp: plain_part_def)
  then show ?thesis
    using assms last_part [of "CHR '':''" port host] by (simp add: SplitHostPort_def Let_def plain_part_def)
qed

lemma SplitHostPort_bracketed:
  assumes "CHR '']'' \<notin> set host" and "CHR ''['' \<notin> set host" and "plain_part port"
  shows "SplitHostPort (''['' @ host @ '']:'' @ port) = Inr (host, port)"
proof -
  have "takeWhile (\<lambda>c. c \<noteq> CHR '']'') (''['' @ host @ '']:'' @ port) = ''['' @ host"
    using assms(1) by simp
  then show ?thesis
    using assms last_part [of "CHR '':''" port "''['' @ host @ '']''"]
    by (simp add: SplitHostPort_def Let_def plain_part_def)
qed

lemma SplitHostPort_Inr:
  assumes "SplitHostPort s = Inr (host, port)"
  shows "plain_part port \<and> (s = host @ '':'' @ port \<or> s = ''['' @ host @ '']:'' @ port)"
proof -
  have "CHR '':'' \<in> set s" using assms by (auto simp: SplitHostPort_def Let_def split: if_splits)
  then obtain pre post where s: "s = pre @ CHR '':'' # post" "CHR '':'' \<notin> set post"
    by (meson split_list_last)
  have split: "rev (takeWhile (\<lambda>c. c \<noteq> CHR '':'') (rev s)) = post"
    using last_part [OF s(2), of pre] s(1) by simp
  have i: "length s - Suc (length post) = length pre" and ne: "length s \<noteq> length pre" "CHR '':'' \<in> set s"
    using s(1) by auto
  note eq = assms [unfolded SplitHostPort_def Let_def split i]
  show ?thesis
  proof (cases "hd s = CHR ''[''")
    case True
    let ?before = "takeWhile (\<lambda>c. c \<noteq> CHR '']'') s"
    have parts: "CHR '']'' \<in> set s \<and> Suc (length ?before) = length pre \<and>
        CHR ''['' \<notin> set (drop 1 s) \<and> CHR '']'' \<notin> set (drop (Suc (length ?before)) s) \<and>
        host = drop 1 ?before \<and> port = post"
      using eq by (simp only: True ne(2) if_True if_False not_not split: if_split_asm) simp_all
    then have len: "CHR '']'' \<in> set s" "Suc (length ?before) = length pre" "CHR ''['' \<notin> set (drop 1 s)"
        "host = drop 1 ?before" "port = post"
      by blast+
    have close: "CHR '']'' \<notin> set (drop (length pre) s)" unfolding len(2) [symmetric] using parts by blast
    have "pre = ?before @ '']''"
    proof -
      obtain ys rest where ys: "s = ys @ CHR '']'' # rest" "CHR '']'' \<notin> set ys"
        using len(1) by (meson split_list_first)
      then have before: "?before = ys" by simp
      have "take (Suc (length ys)) s = ys @ '']''" by (simp add: ys(1))
      then show ?thesis using len(2) s(1) before by simp
    qed
    moreover have "?before = ''['' @ host"
      using True len(1,4) by (cases s) auto
    ultimately have "s = ''['' @ host @ '']:'' @ port" using s(1) len(5) by simp
    moreover have "CHR ''['' \<notin> set port" "CHR '']'' \<notin> set port"
      using len(3,5) close s(1) by (cases pre; auto)+
    ultimately show ?thesis using s(2) len(5) by (simp add: plain_part_def)
  next
    case False
    with assms s split show ?thesis
      by (auto simp: SplitHostPort_def Let_def plain_part_def split: if_splits)
  qed
qed

lemma sorted_hostnames:
  "map rv_Hostname (sort_slice shuf hostname_before routes) = sort_strings (map rv_Hostname (shuf routes))"
  by (simp add: sort_slice_def sort_strings_def map_stable_sort [of hostname_before "(<)" rv_Hostname]
      hostname_before_def)

lemma ValidateListenAddress_None:
  "ValidateListenAddress address = None \<longleftrightarrow>
     (\<exists>host port. host \<in> {''127.0.0.1'', ''localhost''} \<and> plain_part port \<and>
        (address = host @ '':'' @ port \<or> address = ''['' @ host @ '']:'' @ port))" (is "_ \<longleftrightarrow> ?loopback")
proof
  assume "ValidateListenAddress address = None"
  then obtain host port where "SplitHostPort address = Inr (host, port)" "host \<in> {''127.0.0.1'', ''localhost''}"
    by (auto simp: ValidateListenAddress_def split: sum.splits if_splits)
  with SplitHostPort_Inr show ?loopback by blast
next
  assume ?loopback
  then obtain host port where host: "host \<in> {''127.0.0.1'', ''localhost''}" "plain_part port"
      "address = host @ '':'' @ port \<or> address = ''['' @ host @ '']:'' @ port"
    by blast
  then have "plain_part host" by (auto simp: plain_part_def)
  then have "SplitHostPort address = Inr (host, port)"
    using host SplitHostPort_bare [of host port] SplitHostPort_bracketed [of host port]
    by (auto simp only: plain_part_def)
  with host(1) show "ValidateListenAddress address = None" by (auto simp: ValidateListenAddress_def)
qed

text \<open>Sorted by name, the route list is the sorted list of the claimed names.\<close>

lemma claimed_names_listed:
  assumes "reaches opts cs r" and "rearranges it" and "rearranges shuf"
  shows "map rv_Hostname (sort_slice shuf hostname_before (RoutesFromSnapshotWithRuntime it (Snapshot r) ready)) =
    sorted_list_of_set {h. \<exists>c \<in> set cs. routed_port opts c \<noteq> None \<and> h \<in> set (container_domains opts c)}"
proof -
  let ?routes = "RoutesFromSnapshotWithRuntime it (Snapshot r) ready"
  have wf: "wf_gomap (snap_Routes (Snapshot r))"
    using reaches_agrees [OF assms(1)] by (simp add: agrees_with_def Snapshot_def)
  have names: "map rv_Hostname ?routes = map fst (range_map it (snap_Routes (Snapshot r)))"
    by (simp add: RoutesFromSnapshotWithRuntime_def route_view_of_def Let_def case_prod_unfold split: option.split)
  have "mset (map rv_Hostname (shuf ?routes)) = mset (map rv_Hostname ?routes)"
    using assms(3) by (simp add: rearranges_def)
  then have "sort_strings (map rv_Hostname (shuf ?routes)) = sort_strings (map rv_Hostname ?routes)"
    by (rule sort_strings_cong)
  moreover have "distinct (map rv_Hostname ?routes)"
    unfolding names by (rule range_map_distinct [OF assms(2) wf])
  moreover have "set (map rv_Hostname ?routes) = {h. \<exists>c \<in> set cs. routed_port opts c \<noteq> None \<and>
      h \<in> set (container_domains opts c)}"
    using routed_names [OF assms(1)] set_range_map [OF assms(2) wf] by (simp only: names set_map)
  ultimately show ?thesis
    by (metis sorted_hostnames sort_strings_eq_sort sorted_list_of_set_sort_remdups distinct_remdups_id)
qed

section \<open>Properties\<close>

text \<open>C33. The dashboard never listens beyond this machine: it opens a socket exactly when its address is
  \<open>127.0.0.1\<close> or \<open>localhost\<close> (bare or in brackets) with a port behind the last colon; for every other
  address, the other loopback addresses such as \<open>[::1]\<close> and \<open>127.0.0.2\<close> included, it stops with an
  error before it touches the network.\<close>

theorem dashboard_listens_on_loopback_only:
  "dash_Run listen srv w =
     (let address = dsv_listenAddress srv in
      if \<exists>host port. host \<in> {''127.0.0.1'', ''localhost''} \<and> plain_part port \<and>
           (address = host @ '':'' @ port \<or> address = ''['' @ host @ '']:'' @ port)
      then listen address w
      else (Some (case SplitHostPort address of
               Inl err \<Rightarrow> ''invalid listen address '' @ go_quote address @ '': '' @ err
             | Inr _ \<Rightarrow> ''dashboard listen host must be localhost or 127.0.0.1''), w))"
proof (cases "ValidateListenAddress (dsv_listenAddress srv)")
  case None
  with ValidateListenAddress_None [of "dsv_listenAddress srv"] show ?thesis
    by (simp add: dash_Run_def)
next
  case (Some err)
  with ValidateListenAddress_None [of "dsv_listenAddress srv"] show ?thesis
    by (auto simp: dash_Run_def ValidateListenAddress_def Let_def split: sum.splits if_splits)
qed

text \<open>The dashboard of a running daemon, over its admin socket.\<close>

definition daemon_dashboard ::
  "('w, 'k) app_env \<Rightarrow> 'x os_env \<Rightarrow> gui_env \<Rightarrow> string option \<Rightarrow> string \<Rightarrow> (string list \<Rightarrow> string list)
     \<Rightarrow> (('w, 'k) app \<times> 'w \<times> 'x sys \<Rightarrow> go_time) \<Rightarrow> (('w, 'k) app \<times> 'w \<times> 'x sys) dash_server" where
  "daemon_dashboard env os g home socketPath it now =
     the (NewDashboardServer [] (Some (NewClient (over_socket (daemon_server env os g home socketPath) it now) ''EOF'')))"

lemma daemon_dashboard_client [simp]:
  "dsv_client (daemon_dashboard env os g home socketPath it now) =
     NewClient (over_socket (daemon_server env os g home socketPath) it now) ''EOF''"
  by (simp add: daemon_dashboard_def NewDashboardServer_def)

text \<open>C30. End to end from Docker to the browser: in every state the running daemon can reach, the
  dashboard's first page and its polling endpoint list, in alphabetical order and once each, exactly the
  host names that the containers of the last successful scan claim, whatever order the maps and the
  sort leave things in.\<close>

theorem dashboard_lists_claimed_names:
  assumes "daemon_runs env cfg cs phase a" and "rearranges (env_it (ae_net env))" and "app_network a = Some n"
    and "rearranges it" and "rearranges shuf" and "socketPath \<noteq> []"
  shows "let dash = daemon_dashboard env os g home socketPath it now; opts = app_options (ac_Config cfg);
      names = sorted_list_of_set {h. \<exists>c \<in> set cs. routed_port opts c \<noteq> None \<and> h \<in> set (container_domains opts c)}
    in (\<exists>routes. map rv_Hostname routes = names \<and>
        fst (dash_serve shuf dash \<lparr>dr_Method = ''GET'', dr_Path = ''/api/routes'', dr_Flash = []\<rparr> (a, w, s)) =
          Json 200 (ApiRoutes [] routes)) \<and>
      (\<exists>page. map rv_Hostname (dp_Routes page) = names \<and> dp_NoActiveRoutes page = (names = []) \<and>
        pg_DaemonError page = [] \<and> sv_Paused (dp_Status page) = IsRoutingPaused (app_reconciler a) \<and>
        fst (dash_serve shuf dash \<lparr>dr_Method = ''GET'', dr_Path = ''/'', dr_Flash = []\<rparr> (a, w, s)) =
          DashboardPage page)"
proof -
  let ?r = "app_reconciler a"
  let ?S = "{h. \<exists>c \<in> set cs. routed_port (app_options (ac_Config cfg)) c \<noteq> None \<and>
      h \<in> set (container_domains (app_options (ac_Config cfg)) c)}"
  have reaches: "reaches (app_options (ac_Config cfg)) cs ?r" by (rule daemon_network(1) [OF assms(1-3)])
  have snap: "st_Snapshot (stateSnapshot i t roles a) = Snapshot ?r" for i t roles
    by (simp add: stateSnapshot_def Let_def)
  have names: "map rv_Hostname (sort_slice shuf hostname_before (RoutesFromSnapshotWithRuntime it (Snapshot ?r) ready)) =
      sorted_list_of_set ?S" for ready
    using claimed_names_listed [OF reaches assms(4,5)] .
  have paused: "sv_Paused (st_Status (stateSnapshot i t roles a)) = IsRoutingPaused ?r" for i t roles
    using assms(1-3) by (intro daemon_up_paused [of env cfg] daemon_up_runs) auto
  have empty: "length (sort_slice shuf hostname_before xs) = length xs" for xs
    using assms(5) by (simp add: sort_slice_def rearranges_def) (metis mset_eq_length)
  have none: "(RoutesFromSnapshotWithRuntime it (Snapshot ?r) ready = []) = (sorted_list_of_set ?S = [])" for ready
    using names [of ready] empty [of "RoutesFromSnapshotWithRuntime it (Snapshot ?r) ready"]
    by (metis length_0_conv length_map)
  obtain roles s' where roles: "startupStatus os g home s = (roles, s')" by force
  obtain roles2 s2 where roles2: "startupStatus os g home s' = (roles2, s2)" by force
  note reads = daemon_client_reads [OF assms(6)] NewClient_def snap paused roles roles2
  have "\<exists>routes. map rv_Hostname routes = sorted_list_of_set ?S \<and>
      fst (dash_serve shuf (daemon_dashboard env os g home socketPath it now)
        \<lparr>dr_Method = ''GET'', dr_Path = ''/api/routes'', dr_Flash = []\<rparr> (a, w, s)) = Json 200 (ApiRoutes [] routes)"
    by (simp add: dash_serve_def handleAPIRoutes_def reads names)
  moreover have "\<exists>page. map rv_Hostname (dp_Routes page) = sorted_list_of_set ?S \<and>
      dp_NoActiveRoutes page = (sorted_list_of_set ?S = []) \<and> pg_DaemonError page = [] \<and>
      sv_Paused (dp_Status page) = IsRoutingPaused ?r \<and>
      fst (dash_serve shuf (daemon_dashboard env os g home socketPath it now)
        \<lparr>dr_Method = ''GET'', dr_Path = ''/'', dr_Flash = []\<rparr> (a, w, s)) = DashboardPage page"
    by (simp add: dash_serve_def handleDashboard_def reads names none Let_def)
  ultimately show ?thesis by (simp only: Let_def)
qed

theorem dashboard_lists_claimed_names_witness:
  "\<exists>routes. ''api.acme.test'' \<in> rv_Hostname ` set routes \<and> sorted (map rv_Hostname routes) \<and>
     fst (dash_serve rev (daemon_dashboard acme_app_env mac_env mac_gui None ''/s'' rev (\<lambda>_. At 1))
       \<lparr>dr_Method = ''GET'', dr_Path = ''/api/routes'', dr_Flash = []\<rparr> (acme_daemon, 1, mac_sys)) =
     Json 200 (ApiRoutes [] routes)"
proof -
  let ?opts = "app_options (ac_Config acme_app_config)"
  let ?S = "{h. \<exists>c \<in> set [api_container]. routed_port ?opts c \<noteq> None \<and> h \<in> set (container_domains ?opts c)}"
  have "map_option (\<lambda>_. ()) (app_network acme_daemon) = Some ()" by code_simp
  then obtain n where n: "app_network acme_daemon = Some n" by auto
  have "map_option (\<lambda>_. ()) (routed_port ?opts api_container) = Some ()"
    "''api.acme.test'' \<in> set (container_domains ?opts api_container)"
    by code_simp+
  then have member: "''api.acme.test'' \<in> ?S" by auto
  have "?S \<subseteq> set (container_domains ?opts api_container)" by auto
  then have "finite ?S" by (rule finite_subset) simp
  with member have listed: "''api.acme.test'' \<in> set (sorted_list_of_set ?S)" by simp
  from dashboard_lists_claimed_names [OF acme_daemon_runs acme_env_rearranges n rearranges_rev rearranges_rev,
      of "''/s''" mac_env mac_gui None "\<lambda>_. At 1" 1 mac_sys]
  obtain routes where "map rv_Hostname routes = sorted_list_of_set ?S"
    and serves: "fst (dash_serve rev (daemon_dashboard acme_app_env mac_env mac_gui None ''/s'' rev (\<lambda>_. At 1))
       \<lparr>dr_Method = ''GET'', dr_Path = ''/api/routes'', dr_Flash = []\<rparr> (acme_daemon, 1, mac_sys)) =
     Json 200 (ApiRoutes [] routes)"
    by (auto simp: Let_def)
  then have "''api.acme.test'' \<in> set (map rv_Hostname routes)" "sorted (map rv_Hostname routes)"
    using listed by (simp_all only: sorted_sorted_list_of_set)
  with serves show ?thesis by auto
qed

end
