(* ===== verification/Menubar.thy ===== *)
theory Menubar
  imports AdminApi
begin

text \<open>
  \<open>internal/menubar\<close>: the macOS menu bar, a client of the admin API. The menu is the state the
  code keeps: the slice of route slots with the arrays behind it, the menu items \<open>systray\<close> shows,
  and for each item the pointer its click goroutine was given. Slices are modelled with their
  backing arrays because the pointers outlive them: \<open>append\<close> moves a full slice to a new array,
  of a capacity \<open>grow\<close> the Go runtime chooses. The two goroutines of \<open>Run\<close> are modelled as one
  sequence of events; \<open>systray\<close> and the opening of a browser are parameters.
\<close>

section \<open>What the menu says\<close>

record route_menu_item =
  rmi_Hostname :: string
  rmi_OpenURL :: string

record repair_actions =
  ra_RunDoctor :: bool
  ra_OpenLogs :: bool
  ra_OpenDashboard :: bool

record menu_state =
  ms_HealthLine :: string
  ms_PauseLine :: string
  ms_ActiveRoutesLine :: string
  ms_StartupLine :: string
  ms_ErrorLine :: string
  ms_RouteItems :: "route_menu_item list"
  ms_RepairActions :: repair_actions

definition all_repairs :: repair_actions where
  "all_repairs = \<lparr>ra_RunDoctor = True, ra_OpenLogs = True, ra_OpenDashboard = True\<rparr>"

definition dashboardURL :: string where "dashboardURL = ''http://127.0.0.1:45831/''"
definition logsURL :: string where "logsURL = ''http://127.0.0.1:45831/logs''"
definition startupRoleMenubar :: string where "startupRoleMenubar = ''menubar''"

definition em_dash :: string where "em_dash = [CHR 0xE2, CHR 0x80, CHR 0x94]"

definition offlineCopy :: string where
  "offlineCopy = ''DevProxy can'' @ [CHR 0xE2, CHR 0x80, CHR 0x99] @
     ''t reach the daemon right now. Ensure the daemon is running, then select Run Doctor for repair guidance.''"

text \<open>The loop of \<open>startupSummary\<close>: the last role of each name wins.\<close>

fun role_messages :: "api_role list \<Rightarrow> string \<times> string \<Rightarrow> string \<times> string" where
  "role_messages [] acc = acc"
| "role_messages (role # roles) (daemonStatus, menubarStatus) =
     role_messages roles
       (if ar_Role role = ''daemon'' then (ar_StatusMessage role, menubarStatus)
        else if ar_Role role = startupRoleMenubar then (daemonStatus, ar_StatusMessage role)
        else (daemonStatus, menubarStatus))"

definition startupSummary :: "api_role list \<Rightarrow> string" where
  "startupSummary roles =
     (if length roles = 0 then ''Startup: unavailable''
      else
        (let (daemonStatus, menubarStatus) = role_messages roles ([], []);
             daemonStatus = (if daemonStatus = [] then ''unknown'' else daemonStatus);
             menubarStatus = (if menubarStatus = [] then ''unknown'' else menubarStatus)
         in ''Startup '' @ em_dash @ '' daemon: '' @ daemonStatus @ '' | menubar: '' @ menubarStatus))"

definition buildMenuState :: "status_view \<Rightarrow> route_view list \<Rightarrow> api_role list \<Rightarrow> menu_state" where
  "buildMenuState status routes startup =
     \<lparr>ms_HealthLine = ''Daemon: healthy'',
      ms_PauseLine = (if sv_Paused status then ''Routing: paused'' else ''Routing: active''),
      ms_ActiveRoutesLine = ''Active routes: '' @ itoa (int (sv_ActiveRoutes status)),
      ms_StartupLine = startupSummary startup, ms_ErrorLine = [],
      ms_RouteItems = map (\<lambda>r. \<lparr>rmi_Hostname = rv_Hostname r, rmi_OpenURL = rv_OpenURL r\<rparr>) routes,
      ms_RepairActions = all_repairs\<rparr>"

definition offlineMenuState :: "go_error option \<Rightarrow> menu_state" where
  "offlineMenuState err =
     \<lparr>ms_HealthLine = ''Daemon: offline'', ms_PauseLine = ''Routing: unknown'',
      ms_ActiveRoutesLine = ''Active routes: unavailable'', ms_StartupLine = [],
      ms_ErrorLine = (case err of
          Some e \<Rightarrow> if trim_space e \<noteq> [] then ''Cannot connect: '' @ trim_space e else offlineCopy
        | None \<Rightarrow> offlineCopy),
      ms_RouteItems = [], ms_RepairActions = all_repairs\<rparr>"

section \<open>What the menu does\<close>

text \<open>The \<open>opener\<close> interface, over the same state as the client.\<close>

type_synonym 's opener = "string \<Rightarrow> 's \<Rightarrow> go_error option \<times> 's"

text \<open>\<open>parse\<close> is \<open>url.Parse\<close>, with the scheme and the host it finds; \<open>run\<close> starts \<open>open\<close>.\<close>

definition OpenURL ::
  "(string \<Rightarrow> go_error + string \<times> string) \<Rightarrow> bool \<Rightarrow> 's opener \<Rightarrow> 's opener" where
  "OpenURL parse darwin run target s =
     (case parse target of
        Inl err \<Rightarrow> (Some (''parse open url: '' @ err), s)
      | Inr (scheme, host) \<Rightarrow>
          if scheme \<noteq> ''http'' \<and> scheme \<noteq> ''https'' then (Some ''open url must use http or https'', s)
          else if trim_space host = [] then (Some ''open url host is required'', s)
          else if \<not> darwin then (Some ''open url is only supported on macOS'', s)
          else (case run target s of
              (Some err, s) \<Rightarrow> (Some (''open '' @ go_quote target @ '': '' @ err), s)
            | (None, s) \<Rightarrow> (None, s)))"

record 's dispatcher =
  dp_admin :: "'s admin_client"
  dp_opener :: "'s opener"

text \<open>What \<open>refresh\<close>, \<open>togglePause\<close> and \<open>toggleStartup\<close> make of a response.\<close>

definition reply_error :: "('a \<Rightarrow> string) \<Rightarrow> (go_error + 'a) \<times> 's \<Rightarrow> go_error option \<times> 's" where
  "reply_error error_of reply =
     (case reply of
        (Inl err, s) \<Rightarrow> (Some err, s)
      | (Inr resp, s) \<Rightarrow> (if error_of resp \<noteq> [] then Some (error_of resp) else None, s))"

definition dispatch_refresh :: "'s dispatcher \<Rightarrow> 's \<Rightarrow> go_error option \<times> 's" where
  "dispatch_refresh d s = reply_error rr_Error (cl_Refresh (dp_admin d) ''menubar refresh action'' s)"

definition togglePause :: "'s dispatcher \<Rightarrow> bool \<Rightarrow> 's \<Rightarrow> go_error option \<times> 's" where
  "togglePause d pause s =
     (if pause then reply_error rp_Error (cl_PauseRouting (dp_admin d) s)
      else reply_error rp_Error (cl_ResumeRouting (dp_admin d) s))"

definition toggleStartup :: "'s dispatcher \<Rightarrow> bool \<Rightarrow> 's \<Rightarrow> go_error option \<times> 's" where
  "toggleStartup d enabled s =
     reply_error tr_Error (cl_SetStartupEnabled (dp_admin d) startupRoleMenubar enabled s)"

definition openDashboard :: "'s dispatcher \<Rightarrow> 's \<Rightarrow> go_error option \<times> 's" where
  "openDashboard d = dp_opener d dashboardURL"

definition openLogs :: "'s dispatcher \<Rightarrow> 's \<Rightarrow> go_error option \<times> 's" where
  "openLogs d = dp_opener d logsURL"

definition openRoute :: "'s dispatcher \<Rightarrow> string \<Rightarrow> 's \<Rightarrow> go_error option \<times> 's" where
  "openRoute d routeURL = dp_opener d routeURL"

definition runDoctor :: "'s dispatcher \<Rightarrow> 's \<Rightarrow> go_error option \<times> 's" where
  "runDoctor d s = (case cl_Doctor (dp_admin d) s of (Inl err, s) \<Rightarrow> (Some err, s) | (Inr _, s) \<Rightarrow> (None, s))"

section \<open>The route slots\<close>

text \<open>\<open>sl_item\<close> is the index of the menu item in \<open>mn_items\<close>.\<close>

record route_slot =
  sl_item :: nat
  sl_host :: string
  sl_openURL :: string

record slot_assignment =
  asg_visible :: bool
  asg_host :: string
  asg_openURL :: string

record menu_item =
  mi_title :: string
  mi_shown :: bool

text \<open>\<open>mn_arrays\<close>: every array ever allocated, of full capacity; \<open>mn_slots\<close>: the slice, its array
  and length; \<open>mn_bound\<close>: the pointers given to the click goroutines, as array and index.\<close>

record menu =
  mn_arrays :: "route_slot list list"
  mn_slots :: "nat \<times> nat"
  mn_items :: "menu_item list"
  mn_bound :: "(nat \<times> nat) list"
  mn_status :: string
  mn_pause :: string
  mn_startup :: string

definition zero_slot :: route_slot where
  "zero_slot = \<lparr>sl_item = 0, sl_host = [], sl_openURL = []\<rparr>"

definition computeRouteSlotAssignments :: "nat \<Rightarrow> route_menu_item list \<Rightarrow> slot_assignment list" where
  "computeRouteSlotAssignments slotCount routes =
     (let slotCount = (if slotCount < length routes then length routes else slotCount)
      in map (\<lambda>i. if i \<ge> length routes then \<lparr>asg_visible = False, asg_host = [], asg_openURL = []\<rparr>
           else \<lparr>asg_visible = True, asg_host = rmi_Hostname (routes ! i),
             asg_openURL = rmi_OpenURL (routes ! i)\<rparr>) [0..<slotCount])"

text \<open>\<open>append(slots, slot)\<close>: in place while there is room, else in a new array.\<close>

definition append_slot :: "(nat \<Rightarrow> nat) \<Rightarrow> route_slot \<Rightarrow> menu \<Rightarrow> menu" where
  "append_slot grow slot m =
     (let (a, n) = mn_slots m; arr = mn_arrays m ! a in
      if n < length arr
      then m\<lparr>mn_arrays := (mn_arrays m)[a := arr[n := slot]], mn_slots := (a, Suc n)\<rparr>
      else m\<lparr>mn_arrays := mn_arrays m @ [take n arr @ [slot] @ replicate (grow (length arr) - Suc n) zero_slot],
             mn_slots := (length (mn_arrays m), Suc n)\<rparr>)"

text \<open>One round of the first loop: a hidden item is created, its slot appended and a click
  goroutine bound to \<open>&slots[len(slots)-1]\<close>.\<close>

definition create_slot :: "(nat \<Rightarrow> nat) \<Rightarrow> menu \<Rightarrow> menu" where
  "create_slot grow m =
     (let item = length (mn_items m);
          m = m\<lparr>mn_items := mn_items m @ [\<lparr>mi_title = [], mi_shown = False\<rparr>]\<rparr>;
          m = append_slot grow (zero_slot\<lparr>sl_item := item\<rparr>) m;
          (a, n) = mn_slots m
      in m\<lparr>mn_bound := mn_bound m @ [(a, n - 1)]\<rparr>)"

fun create_slots :: "(nat \<Rightarrow> nat) \<Rightarrow> nat \<Rightarrow> menu \<Rightarrow> menu" where
  "create_slots grow 0 m = m"
| "create_slots grow (Suc missing) m = create_slots grow missing (create_slot grow m)"

definition assign_slot :: "nat \<Rightarrow> slot_assignment \<Rightarrow> menu \<Rightarrow> menu" where
  "assign_slot i asg m =
     (let a = fst (mn_slots m); slot = mn_arrays m ! a ! i; item = sl_item slot;
          m = m\<lparr>mn_arrays := (mn_arrays m)[a := (mn_arrays m ! a)
            [i := slot\<lparr>sl_host := (if asg_visible asg then asg_host asg else []),
                   sl_openURL := (if asg_visible asg then asg_openURL asg else [])\<rparr>]]\<rparr>
      in if asg_visible asg
         then m\<lparr>mn_items := (mn_items m)[item := \<lparr>mi_title = asg_host asg, mi_shown = True\<rparr>]\<rparr>
         else m\<lparr>mn_items := (mn_items m)[item := (mn_items m ! item)\<lparr>mi_shown := False\<rparr>]\<rparr>)"

fun assign_slots :: "nat \<Rightarrow> slot_assignment list \<Rightarrow> menu \<Rightarrow> menu" where
  "assign_slots i [] m = m"
| "assign_slots i (asg # asgs) m = assign_slots (Suc i) asgs (assign_slot i asg m)"

definition syncRouteSlots :: "(nat \<Rightarrow> nat) \<Rightarrow> route_menu_item list \<Rightarrow> menu \<Rightarrow> menu" where
  "syncRouteSlots grow routes m =
     (let n = snd (mn_slots m); assignments = computeRouteSlotAssignments n routes
      in assign_slots 0 assignments (create_slots grow (length assignments - n) m))"

text \<open>The goroutine a click on item \<open>k\<close> wakes: it reads the URL through the pointer it was given.
  \<open>s.item\<close> was read once, when the goroutine started, and no code changes it.\<close>

definition clicked_url :: "menu \<Rightarrow> nat \<Rightarrow> string option" where
  "clicked_url m k =
     map_option (\<lambda>(a, i). sl_openURL (mn_arrays m ! a ! i))
       (List.find (\<lambda>(a, i). sl_item (mn_arrays m ! a ! i) = k) (mn_bound m))"

section \<open>Running the menu\<close>

record runtime_state =
  rst_paused :: bool
  rst_startupEnabled :: bool

fun menubar_installed :: "api_role list \<Rightarrow> bool" where
  "menubar_installed [] = False"
| "menubar_installed (role # roles) =
     (if ar_Role role = startupRoleMenubar then ar_Installed role else menubar_installed roles)"

definition refreshMenu ::
  "(nat \<Rightarrow> nat) \<Rightarrow> 's admin_client \<Rightarrow> menu \<Rightarrow> 's \<Rightarrow> ((go_error + runtime_state) \<times> menu) \<times> 's" where
  "refreshMenu grow client m s =
     (case cl_Status client s of
        (Inl err, s) \<Rightarrow> ((Inl err, m), s)
      | (Inr status, s) \<Rightarrow>
          (case cl_Routes client s of
             (Inl err, s) \<Rightarrow> ((Inl err, m), s)
           | (Inr routes, s) \<Rightarrow>
               (case cl_StartupStatus client s of
                  (Inl err, s) \<Rightarrow> ((Inl err, m), s)
                | (Inr roles, s) \<Rightarrow>
                    (let state = buildMenuState status routes roles;
                         m = syncRouteSlots grow (ms_RouteItems state) m;
                         startupEnabled = menubar_installed roles
                     in ((Inr \<lparr>rst_paused = sv_Paused status, rst_startupEnabled = startupEnabled\<rparr>,
                          m\<lparr>mn_status := ms_HealthLine state @ '' | '' @ ms_PauseLine state @ '' | '' @
                               ms_ActiveRoutesLine state,
                            mn_pause := (if sv_Paused status then ''Resume Routing'' else ''Pause Routing''),
                            mn_startup := (if startupEnabled then ''Disable Start at Login (menubar)''
                              else ''Enable Start at Login (menubar)'')\<rparr>), s)))))"

definition show_offline :: "go_error \<Rightarrow> menu \<Rightarrow> menu" where
  "show_offline err m =
     (let state = offlineMenuState (Some err)
      in m\<lparr>mn_status := ms_HealthLine state @ '' '' @ em_dash @ '' '' @ ms_ErrorLine state,
           mn_pause := ''Pause Routing''\<rparr>)"

record menubar =
  mb_menu :: menu
  mb_state :: runtime_state
  mb_quit :: bool

definition initial_menu :: menu where
  "initial_menu = \<lparr>mn_arrays = [[]], mn_slots = (0, 0), mn_items = [], mn_bound = [],
     mn_status = ''Loading...'', mn_pause = ''Pause Routing'', mn_startup = ''Start at Login (menubar)''\<rparr>"

definition refreshState :: "(nat \<Rightarrow> nat) \<Rightarrow> 's admin_client \<Rightarrow> menubar \<Rightarrow> 's \<Rightarrow> menubar \<times> 's" where
  "refreshState grow client mb s =
     (case refreshMenu grow client (mb_menu mb) s of
        ((Inl err, m), s) \<Rightarrow> (mb\<lparr>mb_menu := show_offline err m\<rparr>, s)
      | ((Inr updated, m), s) \<Rightarrow> (mb\<lparr>mb_menu := m, mb_state := updated\<rparr>, s))"

text \<open>\<open>onReady\<close>, and the error of \<open>Run\<close> when there is no client.\<close>

definition menubar_ready :: "(nat \<Rightarrow> nat) \<Rightarrow> 's admin_client \<Rightarrow> 's \<Rightarrow> menubar \<times> 's" where
  "menubar_ready grow client s =
     refreshState grow client \<lparr>mb_menu = initial_menu,
       mb_state = \<lparr>rst_paused = False, rst_startupEnabled = False\<rparr>, mb_quit = False\<rparr> s"

datatype menu_event =
    RouteClick nat | RefreshClick | PauseClick | DashboardClick | LogsClick | DoctorClick
  | StartupClick | QuitClick | Ticked | ContextDone

definition menubar_step ::
  "(nat \<Rightarrow> nat) \<Rightarrow> 's dispatcher \<Rightarrow> menu_event \<Rightarrow> menubar \<times> 's \<Rightarrow> menubar \<times> 's" where
  "menubar_step grow d ev = (\<lambda>(mb, s).
     if mb_quit mb then (mb, s)
     else case ev of
         RouteClick k \<Rightarrow>
           (case clicked_url (mb_menu mb) k of
              None \<Rightarrow> (mb, s)
            | Some routeURL \<Rightarrow> if routeURL = [] then (mb, s) else (mb, snd (openRoute d routeURL s)))
       | RefreshClick \<Rightarrow> refreshState grow (dp_admin d) mb (snd (dispatch_refresh d s))
       | PauseClick \<Rightarrow>
           refreshState grow (dp_admin d) mb (snd (togglePause d (\<not> rst_paused (mb_state mb)) s))
       | DashboardClick \<Rightarrow> (mb, snd (openDashboard d s))
       | LogsClick \<Rightarrow> (mb, snd (openLogs d s))
       | DoctorClick \<Rightarrow> (mb, snd (runDoctor d s))
       | StartupClick \<Rightarrow>
           refreshState grow (dp_admin d) mb (snd (toggleStartup d (\<not> rst_startupEnabled (mb_state mb)) s))
       | QuitClick \<Rightarrow> (mb\<lparr>mb_quit := True\<rparr>, s)
       | Ticked \<Rightarrow> refreshState grow (dp_admin d) mb s
       | ContextDone \<Rightarrow> (mb\<lparr>mb_quit := True\<rparr>, s))"

definition menubar_Run ::
  "(nat \<Rightarrow> nat) \<Rightarrow> 's admin_client option \<Rightarrow> 's opener option \<Rightarrow> 's opener \<Rightarrow> menu_event list
     \<Rightarrow> 's \<Rightarrow> go_error option \<times> 's" where
  "menubar_Run grow client op default_opener events s =
     (case client of
        None \<Rightarrow> (Some ''menubar admin client is required'', s)
      | Some client \<Rightarrow>
          (let d = \<lparr>dp_admin = client, dp_opener = (case op of None \<Rightarrow> default_opener | Some op \<Rightarrow> op)\<rparr>
           in (None, snd (fold (menubar_step grow d) events (menubar_ready grow client s)))))"

section \<open>What a click opens\<close>

text \<open>The capacity of the slots' array once there are \<open>n\<close> slots.\<close>

fun cap_at :: "(nat \<Rightarrow> nat) \<Rightarrow> nat \<Rightarrow> nat" where
  "cap_at grow 0 = 0"
| "cap_at grow (Suc n) = (if n < cap_at grow n then cap_at grow n else grow (cap_at grow n))"

definition url_at :: "nat \<Rightarrow> route_menu_item list \<Rightarrow> string" where
  "url_at k routes = (if k < length routes then rmi_OpenURL (routes ! k) else [])"

definition last_routes :: "route_menu_item list list \<Rightarrow> route_menu_item list" where
  "last_routes history = (if history = [] then [] else last history)"

definition most_routes :: "route_menu_item list list \<Rightarrow> nat" where
  "most_routes history = fold (\<lambda>routes. max (length routes)) history 0"

text \<open>The route lists an array of this capacity could hold, up to the first that was too long.\<close>

definition fitting :: "nat \<Rightarrow> route_menu_item list list \<Rightarrow> route_menu_item list list" where
  "fitting cap history = takeWhile (\<lambda>routes. length routes \<le> cap) history"

lemma most_routes_snoc [simp]:
  "most_routes [] = 0" "most_routes (history @ [routes]) = max (length routes) (most_routes history)"
  by (simp_all add: most_routes_def)

lemma most_routes_ge: "routes \<in> set history \<Longrightarrow> length routes \<le> most_routes history"
  by (induction history rule: rev_induct) auto

lemma most_routes_attained: "n < most_routes history \<Longrightarrow> \<exists>routes \<in> set history. n < length routes"
  by (induction history rule: rev_induct) (auto simp: max_def split: if_splits)

lemma cap_at_ge: "(\<And>n. n < grow n) \<Longrightarrow> n \<le> cap_at grow n"
proof (induction n)
  case (Suc n)
  then show ?case using Suc.prems [of "cap_at grow n"] by (auto simp: Suc_le_eq)
qed simp

lemma cap_at_Suc: "(\<And>n. n < grow n) \<Longrightarrow> cap_at grow n \<le> cap_at grow (Suc n)"
  by (simp add: less_imp_le)

lemma fitting_all: "most_routes history \<le> cap \<Longrightarrow> fitting cap history = history"
  unfolding fitting_def by (simp add: order_trans [OF most_routes_ge])

lemma fitting_snoc:
  assumes "cap < most_routes (history @ [routes])"
  shows "fitting cap (history @ [routes]) = fitting cap history"
proof -
  obtain r where "r \<in> set (history @ [routes])" "cap < length r"
    using most_routes_attained [OF assms] by auto
  then show ?thesis
    by (cases "r \<in> set history") (auto simp: fitting_def takeWhile_append takeWhile_eq_all_conv [THEN iffD2] not_le)
qed

text \<open>
  The invariant of the menu after the route lists \<open>history\<close>, while it has \<open>n\<close> slots: the arrays are
  the ones the slice has lived in, each but the last smaller than \<open>n\<close>; slot \<open>k\<close> was bound in the array
  of capacity \<open>cap_at (k + 1)\<close>; and an array holds the routes of the last list it was current for.
\<close>

definition menu_ok :: "(nat \<Rightarrow> nat) \<Rightarrow> route_menu_item list list \<Rightarrow> nat \<Rightarrow> menu \<Rightarrow> bool" where
  "menu_ok grow history n m \<longleftrightarrow>
     (let arrays = mn_arrays m in
      arrays \<noteq> [] \<and> mn_slots m = (length arrays - 1, n) \<and> length (last arrays) = cap_at grow n \<and>
      length (mn_items m) = n \<and> length (mn_bound m) = n \<and>
      (\<forall>b < length arrays - 1. length (arrays ! b) < n) \<and>
      (\<forall>k < n. \<exists>b < length arrays. mn_bound m ! k = (b, k) \<and> length (arrays ! b) = cap_at grow (Suc k)) \<and>
      (\<forall>b < length arrays. \<forall>k < length (arrays ! b).
         (k < n \<longrightarrow> sl_item (arrays ! b ! k) = k) \<and>
         sl_openURL (arrays ! b ! k) = url_at k (last_routes (fitting (length (arrays ! b)) history))))"

lemma menu_okI:
  assumes "mn_arrays m \<noteq> []" and "mn_slots m = (length (mn_arrays m) - 1, n)"
    and "length (mn_arrays m ! (length (mn_arrays m) - 1)) = cap_at grow n"
    and "length (mn_items m) = n" and "length (mn_bound m) = n"
    and "\<And>b. b < length (mn_arrays m) - 1 \<Longrightarrow> length (mn_arrays m ! b) < n"
    and "\<And>k. k < n \<Longrightarrow> \<exists>b < length (mn_arrays m). mn_bound m ! k = (b, k) \<and>
      length (mn_arrays m ! b) = cap_at grow (Suc k)"
    and "\<And>b k. b < length (mn_arrays m) \<Longrightarrow> k < length (mn_arrays m ! b) \<Longrightarrow>
      (k < n \<longrightarrow> sl_item (mn_arrays m ! b ! k) = k) \<and>
      sl_openURL (mn_arrays m ! b ! k) = url_at k (last_routes (fitting (length (mn_arrays m ! b)) history))"
  shows "menu_ok grow history n m"
  using assms by (simp add: menu_ok_def Let_def last_conv_nth)

lemma menu_ok_initial: "menu_ok grow [] 0 initial_menu"
  by (simp add: menu_ok_def initial_menu_def Let_def)

lemma url_at_beyond:
  assumes "\<forall>routes \<in> set history. length routes \<le> k"
  shows "url_at k (last_routes history) = []"
proof (cases "history = []")
  case False
  then have "length (last history) \<le> k" using assms by simp
  then show ?thesis using False by (simp add: url_at_def last_routes_def)
qed (simp add: url_at_def last_routes_def)

lemma fitting_subset: "set (fitting cap history) \<subseteq> set history"
  unfolding fitting_def by (auto dest: set_takeWhileD)

lemma url_at_unused:
  "most_routes history \<le> k \<Longrightarrow> url_at k (last_routes (fitting cap history)) = []"
  by (rule url_at_beyond) (meson fitting_subset most_routes_ge order_trans subsetD)

text \<open>Writing the assignments touches the current array and the items, one index each.\<close>

lemma assign_slot_simps [simp]:
  "mn_slots (assign_slot i asg m) = mn_slots m" "mn_bound (assign_slot i asg m) = mn_bound m"
  "length (mn_items (assign_slot i asg m)) = length (mn_items m)"
  by (simp_all add: assign_slot_def Let_def)

lemma assign_slot_arrays:
  "mn_arrays (assign_slot i asg m) = (mn_arrays m)[fst (mn_slots m) := (mn_arrays m ! fst (mn_slots m))
     [i := (mn_arrays m ! fst (mn_slots m) ! i)\<lparr>sl_host := (if asg_visible asg then asg_host asg else []),
            sl_openURL := (if asg_visible asg then asg_openURL asg else [])\<rparr>]]"
  by (simp add: assign_slot_def Let_def)

lemma assign_slots_simps [simp]:
  "mn_slots (assign_slots i asgs m) = mn_slots m" "mn_bound (assign_slots i asgs m) = mn_bound m"
  "length (mn_items (assign_slots i asgs m)) = length (mn_items m)"
  "length (mn_arrays (assign_slots i asgs m)) = length (mn_arrays m)"
  by (induction asgs arbitrary: i m) (simp_all add: assign_slot_arrays)

lemma assign_slots_other_array:
  "b \<noteq> fst (mn_slots m) \<Longrightarrow> mn_arrays (assign_slots i asgs m) ! b = mn_arrays m ! b"
  by (induction asgs arbitrary: i m) (simp_all add: assign_slot_arrays)

lemma assign_slots_array:
  assumes "fst (mn_slots m) < length (mn_arrays m)"
  shows "length (mn_arrays (assign_slots i asgs m) ! fst (mn_slots m)) = length (mn_arrays m ! fst (mn_slots m))"
    "k < length (mn_arrays m ! fst (mn_slots m)) \<Longrightarrow>
     sl_item (mn_arrays (assign_slots i asgs m) ! fst (mn_slots m) ! k) = sl_item (mn_arrays m ! fst (mn_slots m) ! k) \<and>
     sl_openURL (mn_arrays (assign_slots i asgs m) ! fst (mn_slots m) ! k) =
       (if i \<le> k \<and> k < i + length asgs
        then (if asg_visible (asgs ! (k - i)) then asg_openURL (asgs ! (k - i)) else [])
        else sl_openURL (mn_arrays m ! fst (mn_slots m) ! k))"
  using assms
proof (induction asgs arbitrary: i m)
  case (Cons asg asgs)
  case 1
  with Cons(1) [of "assign_slot i asg m" "Suc i"] show ?case by (simp add: assign_slot_arrays)
next
  case (Cons asg asgs)
  case 2
  with Cons(2) [of "assign_slot i asg m" "Suc i"] show ?case
    by (auto simp: assign_slot_arrays nth_list_update nth_Cons' Suc_diff_le)
qed auto

lemma assign_slots_items:
  assumes "fst (mn_slots m) < length (mn_arrays m)"
    and "i + length asgs \<le> length (mn_arrays m ! fst (mn_slots m))"
    and "i + length asgs \<le> length (mn_items m)"
    and "\<And>k. k < i + length asgs \<Longrightarrow> sl_item (mn_arrays m ! fst (mn_slots m) ! k) = k"
    and "k < length (mn_items m)"
  shows "mn_items (assign_slots i asgs m) ! k =
       (if i \<le> k \<and> k < i + length asgs
        then (if asg_visible (asgs ! (k - i))
              then \<lparr>mi_title = asg_host (asgs ! (k - i)), mi_shown = True\<rparr>
              else (mn_items m ! k)\<lparr>mi_shown := False\<rparr>)
        else mn_items m ! k)"
  using assms
proof (induction asgs arbitrary: i m)
  case (Cons asg asgs)
  let ?m = "assign_slot i asg m"
  have item: "sl_item (mn_arrays m ! fst (mn_slots m) ! i) = i" using Cons.prems(4) [of i] by simp
  then have items: "mn_items ?m = (mn_items m)[i := (if asg_visible asg
      then \<lparr>mi_title = asg_host asg, mi_shown = True\<rparr> else (mn_items m ! i)\<lparr>mi_shown := False\<rparr>)]"
    by (simp add: assign_slot_def Let_def)
  have same: "sl_item (mn_arrays ?m ! fst (mn_slots ?m) ! j) = sl_item (mn_arrays m ! fst (mn_slots m) ! j)" for j
    using Cons.prems(1,2) by (simp add: assign_slot_arrays nth_list_update)
  have array: "fst (mn_slots ?m) < length (mn_arrays ?m)"
      "length (mn_arrays ?m ! fst (mn_slots ?m)) = length (mn_arrays m ! fst (mn_slots m))"
    using Cons.prems(1) by (simp_all add: assign_slot_arrays)
  have "mn_items (assign_slots (Suc i) asgs ?m) ! k =
       (if Suc i \<le> k \<and> k < Suc i + length asgs
        then (if asg_visible (asgs ! (k - Suc i))
              then \<lparr>mi_title = asg_host (asgs ! (k - Suc i)), mi_shown = True\<rparr>
              else (mn_items ?m ! k)\<lparr>mi_shown := False\<rparr>)
        else mn_items ?m ! k)"
    by (rule Cons.IH) (use Cons.prems same array in auto)
  then show ?case using Cons.prems items by (auto simp: nth_Cons' nth_list_update Suc_diff_le)
qed auto

text \<open>One more slot.\<close>

lemma menu_ok_create_slot:
  assumes grow: "\<And>n. n < grow n" and ok: "menu_ok grow history n m" and "most_routes history \<le> n"
  shows "menu_ok grow history (Suc n) (create_slot grow m)"
proof -
  let ?A = "mn_arrays m" let ?a = "length ?A - 1" let ?slot = "zero_slot\<lparr>sl_item := n\<rparr>"
  note ok = ok [unfolded menu_ok_def Let_def]
  have A: "?A \<noteq> []" "mn_slots m = (?a, n)" "length (?A ! ?a) = cap_at grow n" "length (mn_items m) = n"
      "length (mn_bound m) = n" and small: "\<And>b. b < ?a \<Longrightarrow> length (?A ! b) < n"
      and cells: "\<And>b k. b < length ?A \<Longrightarrow> k < length (?A ! b) \<Longrightarrow> (k < n \<longrightarrow> sl_item (?A ! b ! k) = k) \<and>
        sl_openURL (?A ! b ! k) = url_at k (last_routes (fitting (length (?A ! b)) history))"
      and bound: "\<And>k. k < n \<Longrightarrow> \<exists>b < length ?A. mn_bound m ! k = (b, k) \<and> length (?A ! b) = cap_at grow (Suc k)"
    using ok by (auto simp: last_conv_nth)
  have earlier: "length (?A ! b) < n" if "b < length ?A" "b \<noteq> ?a" for b
    using that by (intro small) linarith
  have unused: "url_at n (last_routes (fitting cap history)) = []" for cap
    using assms(3) by (rule url_at_unused)
  show ?thesis
  proof (cases "n < cap_at grow n")
    case True
    let ?arr = "(?A ! ?a)[n := ?slot]"
    have new: "mn_arrays (create_slot grow m) = ?A[?a := ?arr]" "mn_slots (create_slot grow m) = (?a, Suc n)"
        "length (mn_items (create_slot grow m)) = Suc n" "mn_bound (create_slot grow m) = mn_bound m @ [(?a, n)]"
      using True A by (simp_all add: create_slot_def append_slot_def Let_def)
    have cells': "(k < Suc n \<longrightarrow> sl_item (?A[?a := ?arr] ! b ! k) = k) \<and>
        sl_openURL (?A[?a := ?arr] ! b ! k) = url_at k (last_routes (fitting (length (?A[?a := ?arr] ! b)) history))"
      if "b < length (?A[?a := ?arr])" "k < length (?A[?a := ?arr] ! b)" for b k
    proof (cases "b = ?a")
      case True
      with that cells [of b k] A unused show ?thesis
        by (cases "k = n") (auto simp: nth_list_update zero_slot_def less_Suc_eq)
    next
      case False
      with that small [of b] have "length (?A ! b) < n" by simp
      with False that cells [of b k] show ?thesis by (auto simp: nth_list_update less_Suc_eq)
    qed
    have bound': "\<exists>b < length (?A[?a := ?arr]). (mn_bound m @ [(?a, n)]) ! k = (b, k) \<and>
        length (?A[?a := ?arr] ! b) = cap_at grow (Suc k)" if "k < Suc n" for k
    proof (cases "k = n")
      case True
      with A \<open>n < cap_at grow n\<close> show ?thesis by (auto simp: nth_append intro!: exI [of _ ?a])
    next
      case False
      with that bound [of k] A show ?thesis by (auto simp: nth_append nth_list_update)
    qed
    show ?thesis
      by (rule menu_okI; unfold new)
        (fact cells' bound' | use True A small in \<open>force simp: nth_list_update less_Suc_eq\<close>)+
  next
    case False
    have full: "cap_at grow n = n" using False cap_at_ge [of grow n, OF grow] by simp
    let ?arr = "?A ! ?a @ [?slot] @ replicate (grow n - Suc n) zero_slot"
    have new: "mn_arrays (create_slot grow m) = ?A @ [?arr]" "mn_slots (create_slot grow m) = (length ?A, Suc n)"
        "length (mn_items (create_slot grow m)) = Suc n"
        "mn_bound (create_slot grow m) = mn_bound m @ [(length ?A, n)]"
      using full A by (simp_all add: create_slot_def append_slot_def Let_def)
    have size: "length ?arr = grow n" using A full grow [of n] by simp
    have fits: "fitting cap history = history" if "n \<le> cap" for cap
      using that assms(3) by (intro fitting_all) simp
    have cells': "(k < Suc n \<longrightarrow> sl_item ((?A @ [?arr]) ! b ! k) = k) \<and>
        sl_openURL ((?A @ [?arr]) ! b ! k) = url_at k (last_routes (fitting (length ((?A @ [?arr]) ! b)) history))"
      if "b < length (?A @ [?arr])" "k < length ((?A @ [?arr]) ! b)" for b k
    proof (cases "b < length ?A")
      case True
      then have "length (?A ! b) \<le> n" using earlier [of b] A full by (cases "b = ?a") auto
      with True that cells [of b k] show ?thesis by (auto simp: nth_append)
    next
      case False
      then have b: "(?A @ [?arr]) ! b = ?arr" using that by (simp add: nth_append)
      have "sl_openURL (?arr ! k) = url_at k (last_routes history) \<and> (k < Suc n \<longrightarrow> sl_item (?arr ! k) = k)"
      proof (cases "k < n")
        case True
        with cells [of ?a k] A full fits [of n] show ?thesis by (simp add: nth_append)
      next
        case False
        then have "url_at k (last_routes history) = []"
          using url_at_unused [of history k k] fits [of k] assms(3) by simp
        with False that b size A full show ?thesis
          by (auto simp: nth_append nth_Cons' zero_slot_def)
      qed
      with b size fits [of "grow n"] grow [of n] show ?thesis by simp
    qed
    have bound': "\<exists>b < length (?A @ [?arr]). (mn_bound m @ [(length ?A, n)]) ! k = (b, k) \<and>
        length ((?A @ [?arr]) ! b) = cap_at grow (Suc k)" if "k < Suc n" for k
    proof (cases "k = n")
      case True
      with A full size show ?thesis by (auto simp: nth_append intro!: exI [of _ "length ?A"])
    next
      case False
      then obtain b where "b < length ?A" "mn_bound m ! k = (b, k)" "length (?A ! b) = cap_at grow (Suc k)"
        using \<open>k < Suc n\<close> bound [of k] by auto
      with False \<open>k < Suc n\<close> A(5) show ?thesis
        by (intro exI [of _ b]) (simp add: nth_append del: cap_at.simps)
    qed
    have small': "length ((?A @ [?arr]) ! b) < Suc n" if "b < length (?A @ [?arr]) - 1" for b
      using that earlier [of b] A full by (cases "b = ?a") (auto simp: nth_append)
    show ?thesis
    proof (rule menu_okI; unfold new)
      show "length ((?A @ [?arr]) ! (length (?A @ [?arr]) - 1)) = cap_at grow (Suc n)"
        using size full by (simp add: nth_append)
    qed (rule cells' bound' small'; assumption | use A(5) in simp)+
  qed
qed

lemma menu_ok_create_slots:
  assumes "\<And>n. n < grow n" and "most_routes history \<le> n"
  shows "menu_ok grow history n m \<Longrightarrow> menu_ok grow history (n + missing) (create_slots grow missing m)"
  using assms(2)
proof (induction missing arbitrary: n m)
  case (Suc missing)
  from Suc.IH [OF menu_ok_create_slot [OF assms(1) Suc.prems(1,2)]] Suc.prems(2) show ?case by simp
qed simp

text \<open>The assignments of a new list of routes, once every route has a slot.\<close>

lemma menu_ok_assign_slots:
  assumes ok: "menu_ok grow history n m" and n: "n = most_routes (history @ [routes])"
    and grow: "\<And>n. n < grow n" and asgs: "asgs = computeRouteSlotAssignments k routes" "length asgs = n"
  shows "menu_ok grow (history @ [routes]) n (assign_slots 0 asgs m) \<and>
    (\<forall>k < n. mi_shown (mn_items (assign_slots 0 asgs m) ! k) = (k < length routes) \<and>
      (k < length routes \<longrightarrow> mi_title (mn_items (assign_slots 0 asgs m) ! k) = rmi_Hostname (routes ! k)))"
proof -
  let ?A = "mn_arrays m" let ?a = "length ?A - 1" let ?m = "assign_slots 0 asgs m"
  have A: "?A \<noteq> []" "mn_slots m = (?a, n)" "length (?A ! ?a) = cap_at grow n" "length (mn_items m) = n"
      "length (mn_bound m) = n" and small: "\<And>b. b < ?a \<Longrightarrow> length (?A ! b) < n"
      and cells: "\<And>b k. b < length ?A \<Longrightarrow> k < length (?A ! b) \<Longrightarrow> (k < n \<longrightarrow> sl_item (?A ! b ! k) = k) \<and>
        sl_openURL (?A ! b ! k) = url_at k (last_routes (fitting (length (?A ! b)) history))"
      and bound: "\<And>k. k < n \<Longrightarrow> \<exists>b < length ?A. mn_bound m ! k = (b, k) \<and> length (?A ! b) = cap_at grow (Suc k)"
    using ok by (auto simp: menu_ok_def Let_def last_conv_nth)
  have cap: "n \<le> length (?A ! ?a)" using A(3) cap_at_ge [of grow n, OF grow] by simp
  have a: "fst (mn_slots m) = ?a" "?a < length ?A" using A by auto
  have asg: "asg_visible (asgs ! k) = (k < length routes)"
      "(if asg_visible (asgs ! k) then asg_openURL (asgs ! k) else []) = url_at k routes"
      "k < length routes \<Longrightarrow> asg_host (asgs ! k) = rmi_Hostname (routes ! k)"
    if "k < n" for k
    using that asgs by (auto simp: computeRouteSlotAssignments_def Let_def url_at_def)
  have lens: "length (mn_arrays ?m ! b) = length (?A ! b)" for b
    using assign_slots_array(1) [of m 0 asgs] assign_slots_other_array [of b m 0 asgs] a
    by (cases "b = ?a") auto
  have history: "fitting (length (?A ! ?a)) (history @ [routes]) = history @ [routes]"
    using cap n by (intro fitting_all) simp
  have cells': "(k < n \<longrightarrow> sl_item (mn_arrays ?m ! b ! k) = k) \<and> sl_openURL (mn_arrays ?m ! b ! k) =
      url_at k (last_routes (fitting (length (mn_arrays ?m ! b)) (history @ [routes])))"
    if "b < length (mn_arrays ?m)" "k < length (mn_arrays ?m ! b)" for b k
  proof (cases "b = ?a")
    case True
    have old: "(k < n \<longrightarrow> sl_item (?A ! ?a ! k) = k) \<and> sl_openURL (?A ! ?a ! k) =
        url_at k (last_routes (fitting (length (?A ! ?a)) history))"
      using cells [of ?a k] that True a by (simp add: lens)
    have "url_at k (last_routes (history @ [routes])) = url_at k routes" by (simp add: last_routes_def)
    moreover have "sl_openURL (?A ! ?a ! k) = []" "url_at k routes = []" if "\<not> k < n"
      using that old n url_at_unused [of history k] by (auto simp: url_at_def)
    moreover have "sl_item (mn_arrays ?m ! ?a ! k) = sl_item (?A ! ?a ! k) \<and>
        sl_openURL (mn_arrays ?m ! ?a ! k) = (if k < n then url_at k routes else sl_openURL (?A ! ?a ! k))"
      using assign_slots_array(2) [of m k 0 asgs] that True a asgs(2) asg(2) [of k, symmetric]
      by (cases "k < n") (simp_all add: lens)
    ultimately show ?thesis using True old by (simp add: lens history [simplified])
  next
    case False
    then have b: "b < ?a" using that by simp
    with small have "fitting (length (?A ! b)) (history @ [routes]) = fitting (length (?A ! b)) history"
      using n by (intro fitting_snoc) simp
    with False that b cells [of b k] a assign_slots_other_array [of b m 0 asgs] show ?thesis by (simp add: lens)
  qed
  have "menu_ok grow (history @ [routes]) n ?m"
  proof (rule menu_okI)
    fix k assume "k < n"
    from bound [OF this] show "\<exists>b < length (mn_arrays ?m). mn_bound ?m ! k = (b, k) \<and>
        length (mn_arrays ?m ! b) = cap_at grow (Suc k)"
      by (simp add: lens del: cap_at.simps)
  next
    fix b assume "b < length (mn_arrays ?m) - 1"
    then show "length (mn_arrays ?m ! b) < n" using small [of b] by (simp add: lens)
  next
    show "length (mn_arrays ?m ! (length (mn_arrays ?m) - 1)) = cap_at grow n" using A(3) by (simp add: lens)
  next
    show "mn_arrays ?m \<noteq> []" using A(1) assign_slots_simps(4) [of 0 asgs m] by (metis length_0_conv)
  qed (rule cells'; assumption | simp add: A(2,4,5))+
  moreover have "\<forall>k < n. mi_shown (mn_items ?m ! k) = (k < length routes) \<and>
      (k < length routes \<longrightarrow> mi_title (mn_items ?m ! k) = rmi_Hostname (routes ! k))"
    using assign_slots_items [of m 0 asgs] a cap asgs(2) A cells [of ?a] asg by auto
  ultimately show ?thesis by blast
qed

lemma menu_ok_sync:
  assumes grow: "\<And>n. n < grow n" and ok: "menu_ok grow history (most_routes history) m"
  shows "menu_ok grow (history @ [routes]) (most_routes (history @ [routes])) (syncRouteSlots grow routes m) \<and>
    (\<forall>k < most_routes (history @ [routes]).
      mi_shown (mn_items (syncRouteSlots grow routes m) ! k) = (k < length routes) \<and>
      (k < length routes \<longrightarrow> mi_title (mn_items (syncRouteSlots grow routes m) ! k) = rmi_Hostname (routes ! k)))"
proof -
  let ?n = "most_routes history" let ?asgs = "computeRouteSlotAssignments ?n routes"
  have n: "snd (mn_slots m) = ?n" using ok by (simp add: menu_ok_def Let_def)
  have len: "length ?asgs = most_routes (history @ [routes])"
    by (simp add: computeRouteSlotAssignments_def Let_def)
  have "menu_ok grow history (?n + (length ?asgs - ?n)) (create_slots grow (length ?asgs - ?n) m)"
    by (rule menu_ok_create_slots [OF grow order_refl ok])
  then have "menu_ok grow history (most_routes (history @ [routes])) (create_slots grow (length ?asgs - ?n) m)"
    using len by simp
  from menu_ok_assign_slots [OF this refl grow refl len] show ?thesis
    by (simp add: syncRouteSlots_def n Let_def)
qed

definition menu_after :: "(nat \<Rightarrow> nat) \<Rightarrow> route_menu_item list list \<Rightarrow> menu" where
  "menu_after grow history = fold (syncRouteSlots grow) history initial_menu"

lemma menu_after_ok:
  assumes "\<And>n. n < grow n"
  shows "menu_ok grow history (most_routes history) (menu_after grow history)"
proof (induction history rule: rev_induct)
  case Nil
  show ?case by (simp add: menu_after_def menu_ok_initial)
next
  case (snoc routes history)
  from menu_ok_sync [OF assms snoc, of routes] show ?case by (simp add: menu_after_def)
qed

lemma find_bound:
  assumes grow: "\<And>n. n < grow n" and "menu_ok grow history n m" and "k < n"
  shows "List.find (\<lambda>(a, i). sl_item (mn_arrays m ! a ! i) = k) (mn_bound m) = Some (mn_bound m ! k)"
proof -
  have len: "length (mn_bound m) = n" using assms(2) by (simp add: menu_ok_def Let_def)
  have item: "(case mn_bound m ! j of (a, i) \<Rightarrow> sl_item (mn_arrays m ! a ! i)) = j" if "j < n" for j
  proof -
    obtain b where b: "b < length (mn_arrays m)" "mn_bound m ! j = (b, j)"
        "length (mn_arrays m ! b) = cap_at grow (Suc j)"
      using assms(2) \<open>j < n\<close> by (auto simp: menu_ok_def Let_def)
    have "j < cap_at grow (Suc j)" using cap_at_ge [of grow "Suc j", OF grow] by simp
    with b assms(2) \<open>j < n\<close> show ?thesis by (auto simp: menu_ok_def Let_def)
  qed
  let ?hit = "\<lambda>(a, i). sl_item (mn_arrays m ! a ! i) = k"
  have hit: "?hit (mn_bound m ! j) = (j = k)" if "j < n" for j
    using item [OF that] by (auto simp: case_prod_unfold)
  have "\<not> ?hit (mn_bound m ! j)" if "j < k" for j
    using hit [of j] that assms(3) by simp
  moreover have "?hit (mn_bound m ! k)" using hit assms(3) by simp
  ultimately show ?thesis
    using assms(3) unfolding find_Some_iff by (intro exI [of _ k]) (simp add: len)
qed

text \<open>C32. What a click in the menu bar opens. After any sequence of refreshes the menu shows exactly
  the current routes, in order; but a click on item \<open>k\<close> opens the \<open>k\<close>-th route of the last refresh
  before the slots' array outgrew the capacity it had when item \<open>k\<close> was created. The current route is
  opened only if the array was not moved since: the pointer given to the click goroutine goes stale.\<close>

theorem menu_click_opens:
  assumes "\<And>n. n < grow n" and "k < most_routes history"
  shows "let m = menu_after grow history; item = mn_items m ! k;
      history' = takeWhile (\<lambda>routes. length routes \<le> cap_at grow (Suc k)) history
    in mi_shown item = (k < length (last history)) \<and>
      (k < length (last history) \<longrightarrow> mi_title item = rmi_Hostname (last history ! k)) \<and>
      clicked_url m k =
        Some (if history' \<noteq> [] \<and> k < length (last history') then rmi_OpenURL (last history' ! k) else [])"
proof -
  let ?m = "menu_after grow history" let ?n = "most_routes history"
  note ok = menu_after_ok [of grow history, OF assms(1)]
  obtain b where b: "b < length (mn_arrays ?m)" "mn_bound ?m ! k = (b, k)"
      "length (mn_arrays ?m ! b) = cap_at grow (Suc k)"
    using ok assms(2) by (auto simp: menu_ok_def Let_def)
  have "k < cap_at grow (Suc k)" using cap_at_ge [of grow "Suc k", OF assms(1)] by simp
  with b ok have "sl_openURL (mn_arrays ?m ! b ! k) = url_at k (last_routes (fitting (cap_at grow (Suc k)) history))"
    by (auto simp: menu_ok_def Let_def)
  then have click: "clicked_url ?m k = Some (url_at k (last_routes (fitting (cap_at grow (Suc k)) history)))"
    using find_bound [OF assms(1) ok assms(2)] b by (simp add: clicked_url_def)
  obtain before routes where history: "history = before @ [routes]"
    using assms(2) by (cases history rule: rev_cases) auto
  have "mi_shown (mn_items ?m ! k) = (k < length routes) \<and>
      (k < length routes \<longrightarrow> mi_title (mn_items ?m ! k) = rmi_Hostname (routes ! k))"
    using menu_ok_sync [OF assms(1) menu_after_ok [of grow before, OF assms(1)], of routes] assms(2)
    by (simp add: history menu_after_def)
  then show ?thesis
    using click by (simp add: Let_def history fitting_def last_routes_def url_at_def)
qed

text \<open>With the doubling of the Go runtime: after a second route has appeared, the first item still
  opens what it was created for.\<close>

definition doubling :: "nat \<Rightarrow> nat" where
  "doubling n = (if n = 0 then 1 else 2 * n)"

definition menu_route :: "string \<Rightarrow> route_menu_item" where
  "menu_route host = \<lparr>rmi_Hostname = host, rmi_OpenURL = ''https://'' @ host\<rparr>"

theorem menu_click_opens_witness:
  "let m = menu_after doubling [[menu_route ''b.test''], [menu_route ''a.test'', menu_route ''b.test'']]
   in mi_title (mn_items m ! 0) = ''a.test'' \<and> clicked_url m 0 = Some ''https://b.test'' \<and>
     mi_title (mn_items m ! 1) = ''b.test'' \<and> clicked_url m 1 = Some ''https://b.test''"
proof -
  let ?history = "[[menu_route ''b.test''], [menu_route ''a.test'', menu_route ''b.test'']]"
  have grow: "n < doubling n" for n by (simp add: doubling_def)
  have "most_routes ?history = 2" by (simp add: most_routes_def)
  then show ?thesis
    using menu_click_opens [of doubling 0 ?history, OF grow] menu_click_opens [of doubling 1 ?history, OF grow]
    by (simp add: Let_def menu_route_def doubling_def)
qed

end
