(* ===== verification/Cli.thy ===== *)
theory Cli
  imports Installer Menubar Dashboard DoctorChecks Docker
begin

text \<open>
  \<open>cmd/devproxy\<close> and \<open>main.go\<close>: what each command does once \<open>cobra\<close> has parsed its flags. The flags
  are arguments, the loaded configuration is the one \<open>viper\<close> decodes, and the output is a writer
  that may fail. The commands that need root act on the file system and the service manager of
  System.thy; the others on the state of the daemon behind the admin client.
\<close>

section \<open>Output\<close>

type_synonym 's writer = "string \<Rightarrow> 's \<Rightarrow> go_error option \<times> 's"

definition nl :: string where "nl = [CHR 0x0A]"
definition tab :: string where "tab = [CHR 0x09]"

text \<open>\<open>%t\<close>.\<close>

definition bool_text :: "bool \<Rightarrow> string" where
  "bool_text b = (if b then ''true'' else ''false'')"

text \<open>A sequence of writes that stops at the first error, as every loop over \<open>Fprintf\<close> does.\<close>

fun write_all :: "'s writer \<Rightarrow> string list \<Rightarrow> 's \<Rightarrow> go_error option \<times> 's" where
  "write_all out [] s = (None, s)"
| "write_all out (l # ls) s =
     (case out l s of (Some err, s) \<Rightarrow> (Some err, s) | (None, s) \<Rightarrow> write_all out ls s)"

text \<open>Standard output next to the operating system: writing does not touch the file system.\<close>

definition beside :: "'x writer \<Rightarrow> 'x sys writer" where
  "beside out l s = (case out l (sys_world s) of (err, x) \<Rightarrow> (err, s\<lparr>sys_world := x\<rparr>))"

section \<open>The root command\<close>

text \<open>The keys \<open>SetDefault\<close> gives a value: what \<open>viper\<close> decodes when no file or variable sets anything.\<close>

definition viper_defaults :: config where
  "viper_defaults = DefaultConfig\<lparr>cfg_Serving := \<lparr>sc_ManagedSuffix = [], sc_RedirectHTTPToHTTPS = False\<rparr>,
     cfg_Overrides := Map.empty\<rparr>"

record viper =
  vp_ReadInConfig :: "string \<Rightarrow> go_error option"
  vp_Unmarshal :: "config \<Rightarrow> string option \<Rightarrow> go_error + config"

definition loadConfig :: "viper \<Rightarrow> string \<Rightarrow> go_error + config" where
  "loadConfig v path =
     (let decode = (\<lambda>file. case vp_Unmarshal v viper_defaults file of
            Inl err \<Rightarrow> Inl (''decode config: '' @ err) | Inr cfg \<Rightarrow> Inr cfg)
      in if path \<noteq> []
         then (case vp_ReadInConfig v path of
             Some err \<Rightarrow> Inl (''read config: '' @ err)
           | None \<Rightarrow> decode (Some path))
         else decode None)"

text \<open>Every command runs after \<open>PersistentPreRunE\<close> has loaded the configuration.\<close>

definition run_command ::
  "viper \<Rightarrow> string \<Rightarrow> (config \<Rightarrow> 's \<Rightarrow> go_error option \<times> 's) \<Rightarrow> 's \<Rightarrow> go_error option \<times> 's" where
  "run_command v configPath cmd s =
     (case loadConfig v configPath of Inl err \<Rightarrow> (Some err, s) | Inr loadedCfg \<Rightarrow> cmd loadedCfg s)"

definition exit_code :: "go_error option \<Rightarrow> int" where
  "exit_code err = (if err \<noteq> None then 1 else 0)"

text \<open>The registry of command constructors; the state is the package variable.\<close>

definition registerCommandFactory :: "'c option \<Rightarrow> 'c option list \<Rightarrow> 'c option list" where
  "registerCommandFactory factory registered =
     (case factory of None \<Rightarrow> registered | Some f \<Rightarrow> registered @ [Some f])"

definition registerCommands :: "'c option list \<Rightarrow> 'c option list \<Rightarrow> 'c list \<Rightarrow> 'c list" where
  "registerCommands registered factories root = root @ List.map_filter id (factories @ registered)"

definition print_config_command :: "'s writer \<Rightarrow> config \<Rightarrow> 's \<Rightarrow> go_error option \<times> 's" where
  "print_config_command out cfg =
     out (''suffix='' @ cfg_DomainSuffix cfg @ '' root_services='' @ join_with '','' (cfg_RootServices cfg) @ nl)"

section \<open>Commands for root\<close>

text \<open>
  A command that needs root and does not have it is run again under \<open>sudo\<close>, with the same arguments. What
  \<open>sudo\<close> decides, and what the second process finds around it, is a parameter: whether it grants the run
  (the password may be asked for), the environment and the home directory it gives, and the
  configuration the process loads there. The process is root.
\<close>

record 'x sudo =
  sudo_auth :: "string list \<Rightarrow> 'x \<Rightarrow> go_error option \<times> 'x"
  sudo_env :: "'x os_env"
  sudo_home :: "string option"
  sudo_config :: "go_error + config"

type_synonym 'x root_command = "'x os_env \<Rightarrow> string option \<Rightarrow> config \<Rightarrow> 'x sys \<Rightarrow> go_error option \<times> 'x sys"

definition sudo_run ::
  "'x sudo \<Rightarrow> string list \<Rightarrow> 'x root_command \<Rightarrow> 'x sys \<Rightarrow> go_error option \<times> 'x sys" where
  "sudo_run sudo args command s =
     (case sudo_auth sudo args (sys_world s) of
        (Some err, x) \<Rightarrow> (Some err, s\<lparr>sys_world := x\<rparr>)
      | (None, x) \<Rightarrow>
          (case (case sudo_config sudo of
                   Inl err \<Rightarrow> (Some err, s\<lparr>sys_world := x\<rparr>)
                 | Inr cfg \<Rightarrow> command ((sudo_env sudo)\<lparr>os_geteuid := 0\<rparr>) (sudo_home sudo) cfg (s\<lparr>sys_world := x\<rparr>)) of
             (err, s) \<Rightarrow> (if exit_code err \<noteq> 0 then Some (''exit status '' @ itoa (exit_code err)) else None, s)))"

text \<open>\<open>ensureRoot\<close>: nil, the sentinel \<open>errPrivilegedRerunComplete\<close>, or another error. \<open>command\<close> is the command
  it is called from.\<close>

datatype root_error = RerunComplete | RootError go_error

definition ensureRoot ::
  "'x os_env \<Rightarrow> 'x sudo \<Rightarrow> string list \<Rightarrow> 'x root_command \<Rightarrow> 'x sys \<Rightarrow> root_error option \<times> 'x sys" where
  "ensureRoot env sudo osArgs command s =
     (if os_geteuid env = 0 then (None, s)
      else case os_executable env of
          Inl err \<Rightarrow> (Some (RootError (''resolve devproxy executable for privileged rerun: '' @ err)), s)
        | Inr exe \<Rightarrow>
            (case sudo_run sudo (exe # drop 1 osArgs) command s of
               (Some err, s) \<Rightarrow> (Some (RootError (''sudo devproxy command failed: '' @ err)), s)
             | (None, s) \<Rightarrow> (Some RerunComplete, s)))"

definition handledByPrivilegedRerun :: "root_error \<Rightarrow> bool" where
  "handledByPrivilegedRerun err \<longleftrightarrow> err = RerunComplete"

fun root_error_msg :: "root_error \<Rightarrow> go_error" where
  "root_error_msg RerunComplete = ''privileged rerun completed''"
| "root_error_msg (RootError err) = err"

text \<open>The opening of every command that calls \<open>ensureRoot\<close>.\<close>

definition as_root ::
  "'x os_env \<Rightarrow> 'x sudo \<Rightarrow> string list \<Rightarrow> 'x root_command \<Rightarrow> string option \<Rightarrow> config
     \<Rightarrow> 'x sys \<Rightarrow> go_error option \<times> 'x sys" where
  "as_root env sudo osArgs command home cfg s =
     (case ensureRoot env sudo osArgs command s of
        (None, s) \<Rightarrow> command env home cfg s
      | (Some err, s) \<Rightarrow> (if handledByPrivilegedRerun err then (None, s) else (Some (root_error_msg err), s)))"

definition start_command ::
  "'x os_env \<Rightarrow> 'x sudo \<Rightarrow> string option \<Rightarrow> 'x writer \<Rightarrow> string list \<Rightarrow> config
     \<Rightarrow> 'x sys \<Rightarrow> go_error option \<times> 'x sys" where
  "start_command env sudo =
     (\<lambda>home out osArgs. as_root env sudo osArgs (\<lambda>env home cfg.
       or_return (StartService env (DaemonServiceConfig (DefaultPaths home) [])) (wrapped ''start daemon service'')
         (beside out (''devproxy daemon started'' @ nl))) home)"

definition stop_command ::
  "'x os_env \<Rightarrow> 'x sudo \<Rightarrow> string option \<Rightarrow> 'x writer \<Rightarrow> string list \<Rightarrow> config
     \<Rightarrow> 'x sys \<Rightarrow> go_error option \<times> 'x sys" where
  "stop_command env sudo =
     (\<lambda>home out osArgs. as_root env sudo osArgs (\<lambda>env home cfg.
       or_return (StopService env (DaemonServiceConfig (DefaultPaths home) [])) (wrapped ''stop daemon service'')
         (beside out (''devproxy daemon stopped'' @ nl))) home)"

definition no_install_overrides :: "'w install_overrides" where
  "no_install_overrides = \<lparr>ov_CurrentEUID = None, ov_EnsurePaths = None, ov_PrepareDaemonBinary = None,
     ov_PrepareMenubarBundle = None, ov_WriteResolver = None, ov_BootstrapCertificates = None,
     ov_InstallDaemonService = None, ov_StartDaemonService = None, ov_InstallMenubarService = None,
     ov_StartMenubarService = None, ov_ResolveGUIUser = None, ov_ResolveGUIUserOwnership = None,
     ov_EnsureMenubarOwnership = None\<rparr>"

definition zero_paths :: install_paths where
  "zero_paths = \<lparr>ip_ConfigDir = [], ip_StateDir = [], ip_LogDir = [], ip_ResolverDir = [],
     ip_LaunchDaemons = [], ip_UserLibraryDir = []\<rparr>"

definition show_step :: "'x writer \<Rightarrow> string \<Rightarrow> 'x sys \<Rightarrow> 'x sys" where
  "show_step out step s = snd (beside out (''==> '' @ step @ nl) s)"

text \<open>\<open>look_path\<close> is the error of \<open>exec.LookPath\<close> on \<open>mkcert\<close>, in the environment of the process.\<close>

definition install_command ::
  "'x os_env \<Rightarrow> 'x sudo \<Rightarrow> gui_env \<Rightarrow> ('x os_env \<Rightarrow> go_error option) \<Rightarrow> string option \<Rightarrow> 'x writer \<Rightarrow> bool
     \<Rightarrow> string list \<Rightarrow> config \<Rightarrow> 'x sys \<Rightarrow> go_error option \<times> 'x sys" where
  "install_command env sudo g look_path home out withMenubar osArgs =
     as_root env sudo osArgs (\<lambda>env home cfg.
       if cfg_DomainSuffix cfg = [] then Pair (Some ''config domain_suffix is required'')
       else Install home (NewInstaller env g (look_path env) no_install_overrides)
         \<lparr>io_Suffix = cfg_DomainSuffix cfg, io_WithMenubar = withMenubar, io_Paths = zero_paths,
          io_Progress = Some (show_step out)\<rparr>) home"

definition no_uninstall_overrides :: "'w uninstall_overrides" where
  "no_uninstall_overrides = \<lparr>uv_CurrentEUID = None, uv_ResolveGUIUser = None, uv_StopDaemonService = None,
     uv_UninstallDaemonService = None, uv_StopMenubarService = None, uv_UninstallMenubarService = None,
     uv_RemoveResolver = None, uv_RemoveConfig = None, uv_RemoveState = None, uv_RemoveLogs = None,
     uv_RemoveCertificates = None\<rparr>"

text \<open>\<open>read\<close> is \<open>ReadString('\n')\<close> on standard input: a line, or an error.\<close>

definition ask ::
  "'x writer \<Rightarrow> ('x \<Rightarrow> (go_error + string) \<times> 'x) \<Rightarrow> string \<Rightarrow> 'x \<Rightarrow> (go_error + bool) \<times> 'x" where
  "ask out read label x =
     (case out (''Remove '' @ label @ ''? [y/N]: '') x of
        (Some err, x) \<Rightarrow> (Inl err, x)
      | (None, x) \<Rightarrow>
          (case read x of
             (Inl err, x) \<Rightarrow> (Inl err, x)
           | (Inr line, x) \<Rightarrow>
               (let response = to_lower (trim_space line) in (Inr (response = ''y'' \<or> response = ''yes''), x))))"

text \<open>\<open>v, err := task(label); if err != nil { return err }\<close>.\<close>

definition then_ask ::
  "('x \<Rightarrow> (go_error + bool) \<times> 'x) \<Rightarrow> (bool \<Rightarrow> 'x \<Rightarrow> (go_error + 'a) \<times> 'x) \<Rightarrow> 'x \<Rightarrow> (go_error + 'a) \<times> 'x" where
  "then_ask task rest x = (case task x of (Inl err, x) \<Rightarrow> (Inl err, x) | (Inr v, x) \<Rightarrow> rest v x)"

definition promptCleanupScope ::
  "'x writer \<Rightarrow> ('x \<Rightarrow> (go_error + string) \<times> 'x) \<Rightarrow> 'x \<Rightarrow> (go_error + cleanup_scope) \<times> 'x" where
  "promptCleanupScope out read =
     then_ask (ask out read ''config'') (\<lambda>config.
     then_ask (ask out read ''state'') (\<lambda>state.
     then_ask (ask out read ''logs'') (\<lambda>logs.
     then_ask (ask out read ''certificates'') (\<lambda>certs.
       Pair (Inr \<lparr>clean_Config = config, clean_State = state, clean_Logs = logs, clean_Certificates = certs\<rparr>)))))"

definition uninstall_command ::
  "'x os_env \<Rightarrow> 'x sudo \<Rightarrow> gui_env \<Rightarrow> string option \<Rightarrow> 'x writer \<Rightarrow> ('x \<Rightarrow> (go_error + string) \<times> 'x) \<Rightarrow> bool \<Rightarrow> bool
     \<Rightarrow> string list \<Rightarrow> config \<Rightarrow> 'x sys \<Rightarrow> go_error option \<times> 'x sys" where
  "uninstall_command env sudo g home out read withMenubar assumeYes osArgs =
     as_root env sudo osArgs (\<lambda>env home cfg s.
       case (if assumeYes
             then (Inr \<lparr>clean_Config = False, clean_State = False, clean_Logs = False, clean_Certificates = False\<rparr>, sys_world s)
             else promptCleanupScope out read (sys_world s)) of
         (Inl err, x) \<Rightarrow> (Some err, s\<lparr>sys_world := x\<rparr>)
       | (Inr scope, x) \<Rightarrow>
           or_return (Uninstall env home (NewUninstaller env g no_uninstall_overrides)
             \<lparr>uo_Suffix = cfg_DomainSuffix cfg, uo_WithMenubar = withMenubar, uo_Paths = zero_paths,
              uo_Cleanup = scope, uo_Progress = Some (show_step out)\<rparr>) (\<lambda>e. e)
             (beside out (''devproxy uninstall completed'' @ nl)) (s\<lparr>sys_world := x\<rparr>)) home"

section \<open>The daemon command\<close>

text \<open>\<open>App.Run\<close>: \<open>life\<close> is what happens to the daemon between its start and the end of its context.\<close>

definition app_Run ::
  "('w, 'k) app_env \<Rightarrow> start_answers \<Rightarrow> (('w, 'k) app \<times> 'w \<Rightarrow> ('w, 'k) app \<times> 'w) \<Rightarrow> ('w, 'k) app \<Rightarrow> 'w
     \<Rightarrow> (go_error option \<times> ('w, 'k) app) \<times> 'w" where
  "app_Run env ans life a w =
     (case app_Start env ans a w of
        ((Some err, a), w) \<Rightarrow> ((Some err, a), w)
      | ((None, a), w) \<Rightarrow> (case life (a, w) of (a, w) \<Rightarrow> (app_Close ans a, w)))"

text \<open>The application the command makes: the functions of docker_runtime.go and the mkcert issuer.\<close>

definition daemon_app_config ::
  "'w docker_env \<Rightarrow> (string list \<Rightarrow> string list) \<Rightarrow> (published_port list \<Rightarrow> published_port list) \<Rightarrow> string \<Rightarrow> string
     \<Rightarrow> string \<Rightarrow> config \<Rightarrow> 'w app_config" where
  "daemon_app_config docker it shuf socketPath httpAddress httpsAddress loadedCfg =
     (let cfg = (if cfg_DomainSuffix loadedCfg = [] then DefaultConfig else loadedCfg)
      in \<lparr>ac_AdminSocketPath = socketPath, ac_DashboardAddress = [], ac_DNSAddress = [],
          ac_HTTPAddress = httpAddress, ac_HTTPSAddress = httpsAddress, ac_Config = cfg,
          ac_DockerPing = Some (DefaultDockerPing docker), ac_DockerScan = Some (DefaultDockerScan docker it shuf),
          ac_DockerEvents = True, ac_EnsureMKCert = Some (DefaultEnsureMKCert docker),
          ac_IssueCertificate = None, ac_BuildNetworkRuntime = None\<rparr>)"

text \<open>\<open>context.Canceled\<close> has the text below, and no other error of \<open>Run\<close> is that text.\<close>

definition daemon_command ::
  "'x os_env \<Rightarrow> 'x sudo \<Rightarrow> string option \<Rightarrow> ('x sys, 'k) app_env \<Rightarrow> 'x sys docker_env \<Rightarrow> (published_port list \<Rightarrow> published_port list)
     \<Rightarrow> start_answers \<Rightarrow> (('x sys, 'k) app \<times> 'x sys \<Rightarrow> ('x sys, 'k) app \<times> 'x sys)
     \<Rightarrow> string \<Rightarrow> string \<Rightarrow> string \<Rightarrow> string list \<Rightarrow> config \<Rightarrow> 'x sys \<Rightarrow> go_error option \<times> 'x sys" where
  "daemon_command os sudo home env docker shuf ans life socketPath httpAddress httpsAddress osArgs =
     as_root os sudo osArgs (\<lambda>os home cfg s.
       let app = NewApp env (daemon_app_config docker (env_it (ae_net env)) shuf socketPath httpAddress
             httpsAddress cfg) s
       in case app_Run env ans life app s of
            ((Some err, app), s) \<Rightarrow>
              (if err \<noteq> ''context canceled'' then Some (''daemon startup failed: '' @ err) else None, s)
          | ((None, app), s) \<Rightarrow> (None, s)) home"

section \<open>Commands over the admin socket\<close>

definition refresh_command ::
  "(go_time \<Rightarrow> string) \<Rightarrow> 's admin_client \<Rightarrow> 's writer \<Rightarrow> config \<Rightarrow> 's \<Rightarrow> go_error option \<times> 's" where
  "refresh_command show_time client out cfg s =
     (case cl_Refresh client ''operator refresh command'' s of
        (Inl err, s) \<Rightarrow> (Some err, s)
      | (Inr resp, s) \<Rightarrow>
          if rr_Error resp \<noteq> [] then (Some (''refresh failed: '' @ rr_Error resp), s)
          else out (''refresh accepted='' @ bool_text (rr_Accepted resp) @ '' refreshed='' @
            bool_text (rr_Refreshed resp) @ '' at='' @ show_time (rr_At resp) @ nl) s)"

definition route_line :: "route_view \<Rightarrow> string" where
  "route_line route =
     (let losers = (if length (rv_Losers route) > 0 then join_with '','' (rv_Losers route) else ''-'')
      in rv_Hostname route @ '' -> '' @ rv_UpstreamScheme route @ ''://'' @ rv_UpstreamHost route @ '':'' @
         itoa (rv_UpstreamPort route) @ '' winner='' @ rv_Winner route @ '' conflict='' @
         bool_text (rv_Conflict route) @ '' losers='' @ losers @ nl)"

definition routes_command :: "'s admin_client \<Rightarrow> 's writer \<Rightarrow> config \<Rightarrow> 's \<Rightarrow> go_error option \<times> 's" where
  "routes_command client out cfg s =
     (case cl_Routes client s of
        (Inl err, s) \<Rightarrow> (Some err, s)
      | (Inr routes, s) \<Rightarrow> write_all out (map route_line routes) s)"

definition log_line :: "(go_time \<Rightarrow> string) \<Rightarrow> log_event \<Rightarrow> string" where
  "log_line show_time e = show_time (le_Timestamp e) @ '' ['' @ le_Type e @ ''] host='' @ le_Hostname e @
     '' state='' @ le_HandlingState e @ '' upstream='' @ le_UpstreamScheme e @ '':'' @ itoa (le_UpstreamPort e) @
     '' '' @ le_Message e @ nl"

definition issue_line :: "(go_time \<Rightarrow> string) \<Rightarrow> session_issue \<Rightarrow> string" where
  "issue_line show_time e = show_time (si_Timestamp e) @ '' [issue] role='' @ si_Role e @ '' action='' @
     si_Action e @ '' '' @ si_Message e @ nl"

definition logs_command ::
  "(go_time \<Rightarrow> string) \<Rightarrow> 's admin_client \<Rightarrow> 's writer \<Rightarrow> config \<Rightarrow> 's \<Rightarrow> go_error option \<times> 's" where
  "logs_command show_time client out cfg s =
     (case cl_Logs client s of
        (Inl err, s) \<Rightarrow> (Some err, s)
      | (Inr events, s) \<Rightarrow>
          (case cl_Issues client s of
             (Inl err, s) \<Rightarrow> (Some err, s)
           | (Inr issues, s) \<Rightarrow>
               write_all out (map (log_line show_time) events @ map (issue_line show_time) issues @
                 (if length events = 0 \<and> length issues = 0
                  then [''no current daemon-session events recorded'' @ nl] else [])) s))"

definition conflict_line :: "conflict \<Rightarrow> string" where
  "conflict_line c = conf_Hostname c @ '' winner='' @ cand_ContainerName (conf_Winner c) @ '' losers='' @
     join_with '','' (map cand_ContainerName (conf_Losers c)) @ '' reason='' @ conf_Reason c @ nl"

definition warning_line :: "warning \<Rightarrow> string" where
  "warning_line w = warn_Message w @ '' code='' @ warn_Code w @ '' field='' @ warn_Field w @ '' container='' @
     warn_Container w @ '' source='' @ warn_Source w @ nl"

definition writeStatusDetails :: "'s writer \<Rightarrow> status_view \<Rightarrow> 's \<Rightarrow> go_error option \<times> 's" where
  "writeStatusDetails out status =
     write_all out
       ((if length (sv_ConflictDetails status) > 0
         then (''conflicts:'' @ nl) # map conflict_line (sv_ConflictDetails status) else []) @
        (if length (sv_WarningDetails status) > 0
         then (''warnings:'' @ nl) # map warning_line (sv_WarningDetails status) else []))"

definition status_summary :: "status_view \<Rightarrow> string" where
  "status_summary status = ''snapshot='' @ sv_SnapshotVersion status @ '' active_routes='' @
     itoa (int (sv_ActiveRoutes status)) @ '' conflicts='' @ itoa (int (sv_Conflicts status)) @ '' warnings='' @
     itoa (int (sv_Warnings status)) @ '' paused='' @ bool_text (sv_Paused status) @ '' cert_ready='' @
     bool_text (sv_CertificateReady status) @ '' dns_healthy='' @ bool_text (ds_Healthy (sv_DNS status)) @
     '' managed_suffix='' @ ds_ManagedSuffix (sv_DNS status) @ '' http_bound='' @
     bool_text (lst_Bound (sv_HTTP status)) @ '' https_bound='' @ bool_text (lst_Bound (sv_HTTPS status)) @ nl"

definition status_command :: "'s admin_client \<Rightarrow> 's writer \<Rightarrow> config \<Rightarrow> 's \<Rightarrow> go_error option \<times> 's" where
  "status_command client out cfg s =
     (case cl_Status client s of
        (Inl err, s) \<Rightarrow> (Some err, s)
      | (Inr status, s) \<Rightarrow>
          or_return (out (status_summary status)) (\<lambda>e. e) (writeStatusDetails out status) s)"

text \<open>The admin socket is asked twice: for the check and for the listeners; \<open>pe\<close> answers the other probes.\<close>

definition buildDoctorChecker ::
  "probe_env \<Rightarrow> go_error + status_view \<Rightarrow> go_error + status_view \<Rightarrow> doctor_deps" where
  "buildDoctorChecker pe status1 status2 =
     NewChecker (default_deps pe)
       \<lparr>do_CheckDocker = None, do_CheckLaunchd = None,
        do_CheckAdminSocket = Some (case status1 of Inl err \<Rightarrow> Some err | Inr _ \<Rightarrow> None),
        do_CheckProxyHTTP = None, do_CheckProxyHTTPS = None, do_CheckMKCert = None, do_CheckLocalCA = None,
        do_ReadResolverState = None, do_ResolveExampleHost = None,
        do_ReadNetworkHealth = Some (case status2 of
            Inl err \<Rightarrow> Inl err
          | Inr status \<Rightarrow> Inr \<lparr>anh_DNS = \<lparr>lst_Enabled = True, lst_Bound = ds_Healthy (sv_DNS status),
                lst_BindAddress = ''127.0.0.1:53535'', lst_LastError = []\<rparr>,
              anh_HTTP = sv_HTTP status, anh_HTTPS = sv_HTTPS status, anh_Paused = sv_Paused status,
              anh_CertificateReady = sv_CertificateReady status,
              anh_ManagedSuffix = ds_ManagedSuffix (sv_DNS status)\<rparr>)\<rparr>"

definition check_line :: "check_result \<Rightarrow> string" where
  "check_line c = cr_Name c @ tab @ (if \<not> cr_OK c then ''fail'' else ''ok'') @ tab @ cr_Message c @ nl"

definition writeDoctorDetails :: "'s writer \<Rightarrow> doctor_view \<Rightarrow> 's \<Rightarrow> go_error option \<times> 's" where
  "writeDoctorDetails out view =
     write_all out
       ((if length (dv_Conflicts view) > 0
         then (''snapshot_conflicts:'' @ nl) # map conflict_line (dv_Conflicts view) else []) @
        (if length (dv_Warnings view) > 0
         then (''snapshot_warnings:'' @ nl) # map warning_line (dv_Warnings view) else []))"

definition doctor_command ::
  "('s \<Rightarrow> probe_env) \<Rightarrow> 's admin_client \<Rightarrow> 's writer \<Rightarrow> string \<Rightarrow> config \<Rightarrow> 's \<Rightarrow> go_error option \<times> 's" where
  "doctor_command pe client out exampleHost cfg s =
     (let exampleHost = (if exampleHost = [] then ''example.'' @ cfg_DomainSuffix cfg else exampleHost);
          probes = pe s;
          (status1, s) = cl_Status client s;
          (status2, s) = cl_Status client s;
          report = checker_Run (buildDoctorChecker probes status1 status2) exampleHost
      in or_return (write_all out (map check_line report)) (\<lambda>e. e)
           (\<lambda>s. case cl_Doctor client s of
              (Inl err, s) \<Rightarrow> (Some err, s)
            | (Inr view, s) \<Rightarrow> or_return (writeDoctorDetails out view) (\<lambda>e. e) (Pair None) s) s)"

section \<open>The dashboard command\<close>

text \<open>An HTTP GET of a page: the request cannot be built, no answer, a broken body, or its body.\<close>

datatype page_reply = BadTarget go_error | NoAnswer go_error | BrokenBody go_error | PageBody string

record 's dash_shell =
  ds_get :: "string \<Rightarrow> 's \<Rightarrow> page_reply \<times> 's"
  ds_run_open :: "string \<Rightarrow> 's \<Rightarrow> go_error option \<times> 's"
  ds_listen :: "string \<Rightarrow> 's \<Rightarrow> go_error option \<times> 's"
  ds_tty :: bool
  ds_darwin :: bool

definition dashboardResponding :: "'s dash_shell \<Rightarrow> string \<Rightarrow> 's \<Rightarrow> (go_error + bool) \<times> 's" where
  "dashboardResponding sh targetURL s =
     (case ds_get sh targetURL s of
        (BadTarget err, s) \<Rightarrow> (Inl err, s)
      | (NoAnswer err, s) \<Rightarrow> (Inr False, s)
      | (BrokenBody err, s) \<Rightarrow> (Inl err, s)
      | (PageBody body, s) \<Rightarrow> (Inr (contains_sub (take 4096 body) ''DevProxy Dashboard''), s))"

definition cli_openURL :: "'s dash_shell \<Rightarrow> string \<Rightarrow> 's \<Rightarrow> go_error option \<times> 's" where
  "cli_openURL sh target s = (if ds_darwin sh then ds_run_open sh target s else (None, s))"

definition isAddressInUse :: "go_error option \<Rightarrow> bool" where
  "isAddressInUse err =
     (case err of None \<Rightarrow> False | Some e \<Rightarrow> contains_sub (to_lower e) ''address already in use'')"

definition announce_running :: "'s dash_shell \<Rightarrow> 's writer \<Rightarrow> string \<Rightarrow> bool \<Rightarrow> 's \<Rightarrow> 's" where
  "announce_running sh out targetURL openBrowser s =
     (let s = snd (out (''dashboard already running on '' @ targetURL @ nl) s)
      in if openBrowser then snd (cli_openURL sh targetURL s) else s)"

definition reuseRunningDashboard ::
  "'s dash_shell \<Rightarrow> 's writer \<Rightarrow> string \<Rightarrow> go_error \<Rightarrow> bool \<Rightarrow> 's \<Rightarrow> (go_error + bool) \<times> 's" where
  "reuseRunningDashboard sh out targetURL runErr openBrowser s =
     (if \<not> isAddressInUse (Some runErr) then (Inr False, s)
      else case dashboardResponding sh targetURL s of
          (Inl probeErr, s) \<Rightarrow> (Inl probeErr, s)
        | (Inr responding, s) \<Rightarrow>
            if \<not> responding then (Inl runErr, s)
            else (Inr True, announce_running sh out targetURL openBrowser s))"

text \<open>The goroutine that opens the browser after 200 ms runs while the server does; its effect is put
  before it.\<close>

definition dashboard_command ::
  "'s dash_shell \<Rightarrow> 's admin_client \<Rightarrow> 's writer \<Rightarrow> string \<Rightarrow> bool \<Rightarrow> config \<Rightarrow> 's \<Rightarrow> go_error option \<times> 's" where
  "dashboard_command sh client out listenAddress openBrowser cfg s =
     (case ValidateListenAddress listenAddress of
        Some err \<Rightarrow> (Some err, s)
      | None \<Rightarrow>
          (let shouldOpen = (openBrowser \<or> ds_tty sh);
               srv = the (NewDashboardServer listenAddress (Some client));
               targetURL = ''http://'' @ listenAddress
           in case dashboardResponding sh targetURL s of
                (Inl err, s) \<Rightarrow> (Some err, s)
              | (Inr responding, s) \<Rightarrow>
                  if responding then (None, announce_running sh out targetURL shouldOpen s)
                  else
                    (let s = (if shouldOpen then snd (cli_openURL sh targetURL s) else s);
                         s = snd (out (''dashboard listening on '' @ targetURL @ nl) s)
                     in case dash_Run (ds_listen sh) srv s of
                          (None, s) \<Rightarrow> (None, s)
                        | (Some err, s) \<Rightarrow>
                            (case reuseRunningDashboard sh out targetURL err shouldOpen s of
                               (Inl reuseErr, s) \<Rightarrow> (Some reuseErr, s)
                             | (Inr reused, s) \<Rightarrow> (if reused then None else Some err, s)))))"

definition menubar_command ::
  "(nat \<Rightarrow> nat) \<Rightarrow> 's admin_client \<Rightarrow> 's opener \<Rightarrow> menu_event list \<Rightarrow> bool \<Rightarrow> config \<Rightarrow> 's \<Rightarrow> go_error option \<times> 's" where
  "menubar_command grow client op events darwin cfg s =
     (if darwin then menubar_Run grow (Some client) (Some op) op events s
      else (Some ''menubar is only supported on macOS'', s))"

text \<open>The constructors in the order \<open>NewRootCommand\<close> and the \<open>init\<close> functions register them.\<close>

definition command_names :: "string list" where
  "command_names =
     registerCommands
       (fold (\<lambda>name. registerCommandFactory (Some name))
         [''dashboard'', ''doctor'', ''install'', ''logs'', ''menubar'', ''refresh'', ''routes'', ''start'', ''stop'',
          ''status'', ''uninstall''] [])
       [Some ''print-config'', Some ''daemon''] []"

section \<open>What an operation leaves alone\<close>

text \<open>An operation on the system that changes no file outside \<open>P\<close>.\<close>

definition only_changes :: "(string \<Rightarrow> bool) \<Rightarrow> ('x sys \<Rightarrow> 'r \<times> 'x sys) \<Rightarrow> bool" where
  "only_changes P act \<longleftrightarrow> (\<forall>s p. \<not> P p \<longrightarrow> sys_files (snd (act s)) p = sys_files s p)"

named_theorems frame

lemma only_changes_Pair [frame]: "only_changes P (Pair r)"
  by (simp add: only_changes_def)

lemma only_changes_or_return [frame]:
  "only_changes P act \<Longrightarrow> only_changes P rest \<Longrightarrow> only_changes P (or_return act wrap rest)"
  unfolding only_changes_def or_return_def by (auto split: prod.splits option.splits) (metis snd_conv)+

lemma only_changes_announce [frame]:
  "(\<And>s. sys_files (tell s) = sys_files s) \<Longrightarrow> only_changes P rest \<Longrightarrow> only_changes P (announce tell rest)"
  by (simp add: only_changes_def announce_def)

lemma only_changes_tolerating [frame]: "only_changes P act \<Longrightarrow> only_changes P (tolerating_removed act)"
  unfolding only_changes_def tolerating_removed_def by (auto split: prod.splits) (metis snd_conv)

lemma only_changes_best_effort [frame]: "only_changes P act \<Longrightarrow> only_changes P (best_effort required act)"
  unfolding only_changes_def best_effort_def by (auto split: prod.splits) (metis snd_conv)

lemma only_changes_cleanup [frame]:
  assumes "\<And>s. sys_files (tell s) = sys_files s" and "selected \<Longrightarrow> only_changes P act" and "only_changes P rest"
  shows "only_changes P (cleanup_step selected tell what act rest)"
  using assms by (simp add: cleanup_step_def frame)

lemma sys_files_run [simp]: "sys_files (snd (os_run env command args s)) = sys_files s"
  by (simp add: os_run_def split: prod.split)

lemma sys_files_launchctl [simp]: "sys_files (snd (runLaunchctl env args s)) = sys_files s"
proof -
  obtain out err s' where "os_run env ''launchctl'' args s = ((out, err), s')" by (metis prod.exhaust)
  moreover from this have "sys_files s' = sys_files s" by (metis sys_files_run snd_conv)
  ultimately show ?thesis
    by (simp add: runLaunchctl_def install_runCommand_def Let_def split: option.split)
qed

lemma only_changes_StopService [frame]: "only_changes P (StopService env cfg)"
proof -
  have "sys_files (snd (StopService env cfg s)) = sys_files s" for s
  proof -
    obtain err s1 where run: "runLaunchctl env [''bootout'', domainTarget env cfg, ls_PlistPath cfg] s = (err, s1)"
      by force
    obtain err2 s2 where probe: "runLaunchctl env [''print'', service_target env cfg] s1 = (err2, s2)" by force
    have "sys_files s1 = sys_files s" "sys_files s2 = sys_files s1"
      using run probe by (metis sys_files_launchctl snd_conv)+
    then show ?thesis
      by (simp add: StopService_def serviceAlreadyMissing_def run probe split: option.split bool.split)
  qed
  then show ?thesis by (simp add: only_changes_def)
qed

lemma only_changes_os_remove: "P path \<Longrightarrow> only_changes P (os_remove env path)"
  by (auto simp: only_changes_def os_remove_def split: option.split)

lemma only_changes_os_write: "P path \<Longrightarrow> only_changes P (os_write env path contents perm)"
  by (auto simp: only_changes_def os_write_def split: option.split)

lemma only_changes_UninstallService [frame]: "P (ls_PlistPath cfg) \<Longrightarrow> only_changes P (UninstallService env cfg)"
  using only_changes_os_remove [of P "ls_PlistPath cfg" env]
  unfolding only_changes_def UninstallService_def
  by (auto split: prod.splits option.splits) (metis snd_conv)+

lemma only_changes_remove_all [frame]:
  "(\<And>p. path_below path p \<Longrightarrow> P p) \<Longrightarrow> only_changes P (os_remove_all env path)"
  by (auto simp: only_changes_def os_remove_all_def split: option.split)

text \<open>Where \<open>RemoveResolver\<close> works: the resolver file and its backup.\<close>

definition resolver_paths :: "resolver_config \<Rightarrow> string set" where
  "resolver_paths cfg =
     (case normalizeResolverConfig cfg of
        Inl _ \<Rightarrow> {}
      | Inr (suffix, dir) \<Rightarrow> {filepath_join [dir, suffix], resolverBackupPath cfg suffix})"

lemma only_changes_RemoveResolver [frame]:
  assumes "\<And>p. p \<in> resolver_paths cfg \<Longrightarrow> P p"
  shows "only_changes P (RemoveResolver env cfg)"
proof (cases "normalizeResolverConfig cfg")
  case (Inl err)
  then show ?thesis by (simp add: only_changes_def RemoveResolver_def)
next
  case (Inr target)
  then obtain suffix dir where target: "normalizeResolverConfig cfg = Inr (suffix, dir)" by (cases target) auto
  let ?file = "filepath_join [dir, suffix]" and ?backup = "resolverBackupPath cfg suffix"
  have "P ?file" "P ?backup" using assms target by (auto simp: resolver_paths_def)
  note steps = only_changes_os_remove [of P, OF \<open>P ?file\<close>, of env] only_changes_os_remove [of P, OF \<open>P ?backup\<close>, of env]
    only_changes_os_write [of P, OF \<open>P ?file\<close>, of env]
  show ?thesis
    unfolding only_changes_def
  proof (intro allI impI)
    fix s :: "'a sys" and p assume "\<not> P p"
    then have same: "sys_files (snd (os_remove env ?file s)) p = sys_files s p"
      "sys_files (snd (os_remove env ?backup s)) p = sys_files s p"
      "sys_files (snd (os_write env ?file c m s)) p = sys_files s p" for s :: "'a sys" and c m
      using steps by (simp_all add: only_changes_def)
    then show "sys_files (snd (RemoveResolver env cfg s)) p = sys_files s p"
      by (auto simp: RemoveResolver_def target Let_def or_return_def split: sum.split option.split prod.split)
        (metis snd_conv)+
  qed
qed

text \<open>The files an uninstall may touch.\<close>

definition service_paths :: "install_paths \<Rightarrow> go_error + (int \<times> string) \<Rightarrow> string \<Rightarrow> bool" where
  "service_paths paths guiUser p \<longleftrightarrow>
     p = ls_PlistPath (DaemonServiceConfig paths []) \<or>
     (case guiUser of
        Inl _ \<Rightarrow> False
      | Inr (uid, home) \<Rightarrow>
          (let menubarPaths = paths\<lparr>ip_UserLibraryDir := filepath_join [home, ''Library'']\<rparr>
           in p = ls_PlistPath (MenubarServiceConfig menubarPaths uid) \<or>
              path_below (MenubarBundlePath menubarPaths) p))"

definition cleanup_paths :: "install_paths \<Rightarrow> cleanup_scope \<Rightarrow> string \<Rightarrow> bool" where
  "cleanup_paths paths scope p \<longleftrightarrow>
     clean_Config scope \<and> path_below (ip_ConfigDir paths) p \<or> clean_State scope \<and> path_below (ip_StateDir paths) p \<or>
     clean_Logs scope \<and> path_below (ip_LogDir paths) p \<or>
     clean_Certificates scope \<and> path_below (filepath_join [ip_StateDir paths, ''certs'']) p"

lemma only_changes_menubar [frame]:
  assumes quiet: "\<And>step s. sys_files (progress step s) = sys_files s"
    and "\<And>p. service_paths paths (ResolveGUIUser env g) p \<Longrightarrow> P p"
  shows "only_changes P (uninstall_menubar env (NewUninstaller env g no_uninstall_overrides) progress required paths)"
proof (cases "ResolveGUIUser env g")
  case (Inl err)
  then show ?thesis
    by (simp add: only_changes_def uninstall_menubar_def NewUninstaller_def no_uninstall_overrides_def or_default_def)
next
  case (Inr user)
  then obtain uid home where user: "ResolveGUIUser env g = Inr (uid, home)" by (cases user) auto
  let ?paths = "paths\<lparr>ip_UserLibraryDir := filepath_join [home, ''Library'']\<rparr>"
  have P: "P (ls_PlistPath (MenubarServiceConfig ?paths uid))" "\<And>p. path_below (MenubarBundlePath ?paths) p \<Longrightarrow> P p"
    using assms(2) by (auto simp: service_paths_def user Let_def)
  have "uninstall_menubar env (NewUninstaller env g no_uninstall_overrides) progress required paths =
      announce (progress ''Stopping menubar service'')
        (or_return (best_effort required (tolerating_removed (StopService env (MenubarServiceConfig ?paths uid))))
          (wrapped ''stop menubar service'')
        (announce (progress ''Removing menubar service'')
        (or_return (best_effort required (tolerating_removed (UninstallService env (MenubarServiceConfig ?paths uid))))
          (wrapped ''uninstall menubar service'')
        (announce (progress ''Removing menubar app bundle'')
        (or_return (best_effort required (os_remove_all env (MenubarBundlePath ?paths)))
          (wrapped ''remove menubar app bundle'')
        (Pair None))))))"
    by (simp add: fun_eq_iff uninstall_menubar_def NewUninstaller_def no_uninstall_overrides_def or_default_def
        user Let_def)
  then show ?thesis by (simp only:) (intro frame quiet P)
qed

lemma or_default_None [simp]: "or_default None d = d"
  by (simp add: or_default_def)

lemma only_changes_Uninstall:
  fixes opts :: "'x sys uninstall_options" and home :: "string option"
  defines "paths \<equiv> (if ip_ConfigDir (uo_Paths opts) = [] then DefaultPaths home else uo_Paths opts)"
  assumes quiet: "\<And>step s. sys_files (or_default (uo_Progress opts) (\<lambda>_ s. s) step s) = sys_files s"
    and P: "\<And>p. service_paths paths (ResolveGUIUser env g) p \<or> cleanup_paths paths (uo_Cleanup opts) p \<or>
      p \<in> resolver_paths \<lparr>rc_Suffix = uo_Suffix opts, rc_ResolverDir = ip_ResolverDir paths,
        rc_StateDir = ip_StateDir paths\<rparr> \<Longrightarrow> P p"
  shows "only_changes P (Uninstall env home (NewUninstaller env g no_uninstall_overrides) opts)"
proof -
  let ?u = "NewUninstaller env g no_uninstall_overrides"
  let ?progress = "or_default (uo_Progress opts) (\<lambda>_ s. s)" and ?scope = "uo_Cleanup opts"
  have u: "ud_StopDaemonService ?u = StopService env" "ud_UninstallDaemonService ?u = UninstallService env"
      "ud_RemoveResolver ?u = RemoveResolver env" "ud_RemoveConfig ?u = removeConfig env"
      "ud_RemoveState ?u = removeState env" "ud_RemoveLogs ?u = removeLogs env"
      "ud_RemoveCertificates ?u = removeCertificates env"
    by (simp_all add: NewUninstaller_def no_uninstall_overrides_def)
  have plist: "P (ls_PlistPath (DaemonServiceConfig paths []))" by (rule P) (simp add: service_paths_def)
  have menubar: "\<And>p. service_paths paths (ResolveGUIUser env g) p \<Longrightarrow> P p"
    and resolver: "\<And>p. p \<in> resolver_paths \<lparr>rc_Suffix = uo_Suffix opts, rc_ResolverDir = ip_ResolverDir paths,
      rc_StateDir = ip_StateDir paths\<rparr> \<Longrightarrow> P p"
    by (rule P, simp)+
  have cleanup: "clean_Config ?scope \<Longrightarrow> only_changes P (removeConfig env paths)"
      "clean_State ?scope \<Longrightarrow> only_changes P (removeState env paths)"
      "clean_Logs ?scope \<Longrightarrow> only_changes P (removeLogs env paths)"
      "clean_Certificates ?scope \<Longrightarrow> only_changes P (removeCertificates env paths)"
    unfolding removeConfig_def removeState_def removeLogs_def removeCertificates_def
    by (rule only_changes_remove_all, rule P, simp add: cleanup_paths_def)+
  let ?body = "announce (?progress ''Stopping daemon service'')
       (or_return (tolerating_removed (StopService env (DaemonServiceConfig paths []))) (wrapped ''stop daemon service'')
       (announce (?progress ''Removing daemon service'')
       (or_return (tolerating_removed (UninstallService env (DaemonServiceConfig paths [])))
         (wrapped ''uninstall daemon service'')
       (or_return (uninstall_menubar env ?u ?progress (uo_WithMenubar opts) paths) (\<lambda>e. e)
       (announce (?progress ''Removing resolver configuration'')
       (or_return (RemoveResolver env \<lparr>rc_Suffix = uo_Suffix opts, rc_ResolverDir = ip_ResolverDir paths,
           rc_StateDir = ip_StateDir paths\<rparr>) (wrapped ''remove resolver'')
       (cleanup_step (clean_Config ?scope) (?progress ''Removing config'') ''remove config'' (removeConfig env paths)
       (cleanup_step (clean_State ?scope) (?progress ''Removing state'') ''remove state'' (removeState env paths)
       (cleanup_step (clean_Logs ?scope) (?progress ''Removing logs'') ''remove logs'' (removeLogs env paths)
       (cleanup_step (clean_Certificates ?scope) (?progress ''Removing certificates'') ''remove certificates''
         (removeCertificates env paths)
       (Pair None)))))))))))"
  have "only_changes P ?body"
    by (intro frame quiet plist menubar resolver cleanup)
  moreover have "Uninstall env home ?u opts s =
      (if ud_CurrentEUID ?u \<noteq> 0 then (Some uninstall_root_error, s) else ?body s)" for s
    by (simp only: Uninstall_def u Let_def paths_def)
  ultimately show ?thesis by (simp add: only_changes_def)
qed

lemma beside_files [simp]: "sys_files (snd (beside out l s)) = sys_files s"
  by (simp add: beside_def split: prod.split)

lemma only_changes_beside [frame]: "only_changes P (beside out l)"
  by (simp add: only_changes_def)

lemma show_step_files [simp]: "sys_files (show_step out step s) = sys_files s"
  by (simp add: show_step_def)

text \<open>The process that does the work of a command for root: itself, or the one \<open>sudo\<close> has granted, with its
  environment, home directory, configuration and the state of the world when it begins.\<close>

definition acting_process ::
  "'x os_env \<Rightarrow> 'x sudo \<Rightarrow> string list \<Rightarrow> string option \<Rightarrow> config \<Rightarrow> 'x
     \<Rightarrow> ('x os_env \<times> string option \<times> config \<times> 'x) option" where
  "acting_process env sudo osArgs home cfg x =
     (if os_geteuid env = 0 then Some (env, home, cfg, x)
      else case os_executable env of
          Inl err \<Rightarrow> None
        | Inr exe \<Rightarrow>
            (case (sudo_auth sudo (exe # drop 1 osArgs) x, sudo_config sudo) of
               ((None, x), Inr cfg) \<Rightarrow> Some ((sudo_env sudo)\<lparr>os_geteuid := 0\<rparr>, sudo_home sudo, cfg, x)
             | _ \<Rightarrow> None))"

lemma acting_root: "acting_process env sudo osArgs home cfg x = Some (env', home', cfg', x') \<Longrightarrow> os_geteuid env' = 0"
  by (auto simp: acting_process_def split: if_splits sum.splits option.splits prod.splits)

lemma as_root_files:
  "sys_files (snd (as_root env sudo osArgs command home cfg s)) =
     (case acting_process env sudo osArgs home cfg (sys_world s) of
        None \<Rightarrow> sys_files s
      | Some (env', home', cfg', x) \<Rightarrow> sys_files (snd (command env' home' cfg' (s\<lparr>sys_world := x\<rparr>))))"
  by (auto simp: as_root_def ensureRoot_def sudo_run_def acting_process_def
      split: sum.split prod.split option.split)

lemma uninstall_changes:
  assumes "sys_files (snd (uninstall_command env sudo g home out read withMenubar assumeYes osArgs cfg s)) p \<noteq> sys_files s p"
  obtains env' home' cfg' x where "acting_process env sudo osArgs home cfg (sys_world s) = Some (env', home', cfg', x)"
    and "service_paths (DefaultPaths home') (ResolveGUIUser env' g) p \<or>
     p \<in> resolver_paths \<lparr>rc_Suffix = cfg_DomainSuffix cfg', rc_ResolverDir = ''/etc/resolver'',
       rc_StateDir = ''/var/lib/devproxy''\<rparr> \<or>
     \<not> assumeYes \<and> (\<exists>scope. fst (promptCleanupScope out read x) = Inr scope \<and>
       (clean_Config scope \<and> path_below ''/usr/local/etc/devproxy'' p \<or>
        clean_State scope \<and> path_below ''/var/lib/devproxy'' p \<or>
        clean_Logs scope \<and> path_below ''/var/log/devproxy'' p \<or>
        clean_Certificates scope \<and> path_below ''/var/lib/devproxy/certs'' p))"
proof -
  from assms obtain env' home' cfg' x where
    acting: "acting_process env sudo osArgs home cfg (sys_world s) = Some (env', home', cfg', x)"
    unfolding uninstall_command_def as_root_files by (auto split: option.splits)
  let ?s = "s\<lparr>sys_world := x\<rparr>"
  let ?prompt = "if assumeYes
    then (Inr \<lparr>clean_Config = False, clean_State = False, clean_Logs = False, clean_Certificates = False\<rparr>, x)
    else promptCleanupScope out read x"
  obtain answer x1 where prompt: "?prompt = (answer, x1)" by force
  have world: "sys_world (s\<lparr>sys_world := x\<rparr>) = x" for x by simp
  note changed = assms [unfolded uninstall_command_def as_root_files acting option.case prod.case world prompt]
  show ?thesis
  proof (cases answer)
    case (Inl err)
    show ?thesis using changed Inl by simp
  next
    case (Inr scope)
    let ?opts = "\<lparr>uo_Suffix = cfg_DomainSuffix cfg', uo_WithMenubar = withMenubar, uo_Paths = zero_paths,
      uo_Cleanup = scope, uo_Progress = Some (show_step out)\<rparr>"
    let ?paths = "DefaultPaths home'"
    let ?P = "\<lambda>p. service_paths ?paths (ResolveGUIUser env' g) p \<or> cleanup_paths ?paths scope p \<or>
      p \<in> resolver_paths \<lparr>rc_Suffix = cfg_DomainSuffix cfg', rc_ResolverDir = ip_ResolverDir ?paths,
        rc_StateDir = ip_StateDir ?paths\<rparr>"
    let ?un = "Uninstall env' home' (NewUninstaller env' g no_uninstall_overrides) ?opts"
    have "only_changes ?P ?un"
      by (rule only_changes_Uninstall) (simp_all add: zero_paths_def or_default_def)
    then have "only_changes ?P (or_return ?un (\<lambda>e. e) (beside out (''devproxy uninstall completed'' @ nl)))"
      by (intro frame)
    then have "sys_files (snd (or_return ?un (\<lambda>e. e) (beside out (''devproxy uninstall completed'' @ nl)) s')) q =
        sys_files s' q" if "\<not> ?P q" for s' q
      using that by (simp add: only_changes_def)
    moreover have "sys_files (snd (or_return ?un (\<lambda>e. e) (beside out (''devproxy uninstall completed'' @ nl))
        (?s\<lparr>sys_world := x1\<rparr>))) p \<noteq> sys_files (?s\<lparr>sys_world := x1\<rparr>) p"
      using changed Inr by simp
    ultimately have "?P p" by blast
    moreover have "filepath_join [''/var/lib/devproxy'', ''certs''] = ''/var/lib/devproxy/certs''" by code_simp
    moreover have "cleanup_paths ?paths scope p \<Longrightarrow> \<not> assumeYes \<and> fst (promptCleanupScope out read x) = Inr scope"
      using prompt Inr by (cases assumeYes) (auto simp: cleanup_paths_def)
    ultimately show ?thesis
      by (intro that [OF acting]) (auto simp: DefaultPaths_def Let_def cleanup_paths_def)
  qed
qed

text \<open>The daemon keeps its certificates next to the admin socket (\<open>/tmp/devproxy\<close>), where no uninstall
  looks for them, whatever the user answers.\<close>

lemma certificate_dir: "filepath_dir ''/tmp/devproxy/admin.sock'' = ''/tmp/devproxy''"
  by code_simp

lemma path_below_take:
  assumes "path_below root p" and "k \<le> length root"
  shows "take k p = take k root"
proof (cases "p = root")
  case False
  then have "take (Suc (length root)) p = root @ ''/''" using assms(1) by (simp add: path_below_def has_prefix_def)
  then have "take k (take (Suc (length root)) p) = take k root" using assms(2) by simp
  then show ?thesis using assms(2) by (simp add: min_def)
qed simp

lemma certificates_survive_uninstall:
  assumes "path_below ''/tmp/devproxy'' p"
    and "acting_process env sudo osArgs home cfg (sys_world s) = Some (env', home', cfg', x)"
    and "\<not> service_paths (DefaultPaths home') (ResolveGUIUser env' g) p"
    and "p \<notin> resolver_paths \<lparr>rc_Suffix = cfg_DomainSuffix cfg', rc_ResolverDir = ''/etc/resolver'',
       rc_StateDir = ''/var/lib/devproxy''\<rparr>"
  shows "sys_files (snd (uninstall_command env sudo g home out read withMenubar assumeYes osArgs cfg s)) p = sys_files s p"
proof (rule ccontr)
  assume "sys_files (snd (uninstall_command env sudo g home out read withMenubar assumeYes osArgs cfg s)) p \<noteq> sys_files s p"
  then have "path_below ''/usr/local/etc/devproxy'' p \<or> path_below ''/var/lib/devproxy'' p \<or>
      path_below ''/var/log/devproxy'' p \<or> path_below ''/var/lib/devproxy/certs'' p"
    by (rule uninstall_changes) (use assms(2-4) in auto)
  moreover note path_below_take [OF assms(1), of 2]
  ultimately show False using path_below_take [of _ p 2] by fastforce
qed

section \<open>Properties\<close>

text \<open>C31. What \<open>devproxy uninstall\<close> may change, file by file. Nothing changes unless a process that is root does the
  work: the command itself, or, when it is not root, the one \<open>sudo\<close> has granted. A file it changes or removes is the property list of
  a service, part of the menu bar's bundle, the resolver file or its backup, or lies in a directory
  whose removal the user has confirmed at the prompt of that process; with \<open>--yes\<close> no
  configuration, state, log or certificate is touched.\<close>

theorem uninstall_removes_only_confirmed:
  assumes "sys_files (snd (uninstall_command env sudo g home out read withMenubar assumeYes osArgs cfg s)) p \<noteq> sys_files s p"
  shows "\<exists>env' home' cfg' x.
    acting_process env sudo osArgs home cfg (sys_world s) = Some (env', home', cfg', x) \<and> os_geteuid env' = 0 \<and>
    (service_paths (DefaultPaths home') (ResolveGUIUser env' g) p \<or>
     p \<in> resolver_paths \<lparr>rc_Suffix = cfg_DomainSuffix cfg', rc_ResolverDir = ''/etc/resolver'',
       rc_StateDir = ''/var/lib/devproxy''\<rparr> \<or>
     \<not> assumeYes \<and> (\<exists>scope. fst (promptCleanupScope out read x) = Inr scope \<and>
       (clean_Config scope \<and> path_below ''/usr/local/etc/devproxy'' p \<or>
        clean_State scope \<and> path_below ''/var/lib/devproxy'' p \<or>
        clean_Logs scope \<and> path_below ''/var/log/devproxy'' p \<or>
        clean_Certificates scope \<and> path_below ''/var/lib/devproxy/certs'' p)))"
  using assms by (rule uninstall_changes) (blast intro: acting_root)

definition mac_state :: "unit sys" where
  "mac_state = mac_sys\<lparr>sys_files := [''/var/lib/devproxy/routes'' \<mapsto> \<lparr>file_contents = [], file_perm = 0x1A4,
     file_uid = 0, file_gid = 0\<rparr>]\<rparr>"

text \<open>The user is not root, \<open>sudo\<close> grants the run, and every question is answered with yes.\<close>

definition granting_sudo :: "unit sudo" where
  "granting_sudo = \<lparr>sudo_auth = (\<lambda>_. Pair None), sudo_env = mac_env, sudo_home = None, sudo_config = Inr DefaultConfig\<rparr>"

definition user_env :: "unit os_env" where
  "user_env = mac_env\<lparr>os_geteuid := 501\<rparr>"

theorem uninstall_removes_only_confirmed_witness:
  "sys_files (snd (uninstall_command user_env granting_sudo mac_gui None (\<lambda>_. Pair None) (Pair (Inr ''Y '')) False False []
     DefaultConfig mac_state)) ''/var/lib/devproxy/routes'' = None \<and>
   (\<exists>scope. fst (promptCleanupScope (\<lambda>_. Pair None) (Pair (Inr ''Y '')) ()) = Inr scope \<and> clean_State scope)"
proof -
  let ?s = "snd (uninstall_command user_env granting_sudo mac_gui None (\<lambda>_. Pair None) (Pair (Inr ''Y '')) False False []
    DefaultConfig mac_state)"
  have gone: "map_option (\<lambda>_. ()) (sys_files ?s ''/var/lib/devproxy/routes'') = None" by code_simp
  then have changed: "sys_files ?s ''/var/lib/devproxy/routes'' \<noteq> sys_files mac_state ''/var/lib/devproxy/routes''"
    by (simp add: mac_state_def)
  have acting: "acting_process user_env granting_sudo [] None DefaultConfig x = Some (mac_env, None, DefaultConfig, ())" for x
    by (simp add: acting_process_def user_env_def granting_sudo_def mac_env_def)
  have "\<not> service_paths (DefaultPaths None) (ResolveGUIUser mac_env mac_gui) ''/var/lib/devproxy/routes''" by code_simp
  moreover have "''/var/lib/devproxy/routes'' \<notin> resolver_paths \<lparr>rc_Suffix = cfg_DomainSuffix DefaultConfig,
      rc_ResolverDir = ''/etc/resolver'', rc_StateDir = ''/var/lib/devproxy''\<rparr>" by code_simp
  ultimately show ?thesis
    using uninstall_removes_only_confirmed [OF changed] gone
    by (auto simp: acting mac_state_def mac_sys_def path_below_def has_prefix_def)
qed

end
