(* ===== verification/Spec2Isabelle.thy ===== *)
theory Spec2Isabelle
  imports Docker AdminApi DoctorChecks Dashboard Menubar Cli
begin

text \<open>
  devproxy gives the running containers of Docker Compose projects host names under a managed suffix
  (\<open>test\<close> by default) and serves them over HTTP and HTTPS on this machine. A daemon watches Docker
  and keeps a snapshot of routes; a DNS server answers for the managed names, two proxies forward
  requests by host name, certificates are issued per project, and an admin socket lets the command
  line, the dashboard and the menu bar look at the daemon and steer it. A second part of the program
  installs the daemon as a launchd service. This library models the program in Isabelle/HOL and
  proves what makes it correct; the definitions keep the names of the source.

  \<^bold>\<open>How the program is put together, and where it is modelled.\<close>

  \<^item> Prelude: Go strings (ASCII), slices, maps that are ranged over in any order (an association list
    with a rearrangement \<open>it\<close>), \<open>sort\<close>, \<open>strconv\<close>, paths; the locale \<open>weak_order\<close> (what a comparison
    must keep for sorting to be right).
  \<^item> Routing_Types, Discovery, Routing: \<open>internal/routing\<close>, \<open>internal/discovery\<close>, \<open>internal/config\<close>. One
    container's metadata, labels, published port and eligibility; the host names of a service; who
    wins a host name that several containers claim.
  \<^item> Reconciler: \<open>internal/registry\<close>, \<open>internal/daemon/reconciler.go\<close>. State: the snapshot and its
    builder. \<open>RebuildSnapshot\<close> turns the containers found into routes. The abstract specification is
    \<open>all_claims\<close>, \<open>ranking\<close>, \<open>best_claim\<close> and \<open>contested\<close>: the snapshot of every reachable reconciler
    holds the best claim of each claimed name and the conflicts of the contested ones, whatever
    the order of maps and containers.
  \<^item> Dns: \<open>internal/dns/server.go\<close>: which names are managed, and the answers (locale
    \<open>hostname_resolver\<close>, what the proxies rely on).
  \<^item> Certs: \<open>internal/certs\<close>: which certificates the snapshot needs and which stored one is reused; the
    contract \<open>name_cover\<close> of certificate names, interpreted for both ways the code checks it.
  \<^item> Proxy: \<open>internal/proxy\<close>: what is answered to a request, which certificate a handshake gets. An
    HTTP response is the list of its actions.
  \<^item> Network: \<open>internal/daemon/network.go\<close>: the listeners, their health (locale \<open>listener_slot\<close>), the
    certificate refresh, and the goroutines that serve, as the step relation \<open>serves\<close>: a server may
    end by itself, which the runtime does not notice.
  \<^item> App, Daemon: \<open>internal/daemon/app.go\<close> and \<open>events.go\<close>. App holds the operations of the daemon;
    Daemon the step relation \<open>daemon_runs\<close>, which interleaves start, requests, watcher events and close
    in any order, with the containers of the last successful scan as a ghost; the invariant
    \<open>daemon_inv\<close> is proved by rule induction, and the end-to-end properties rest on it.
  \<^item> Docker: \<open>internal/daemon/docker_runtime.go\<close>: what is made of the output of the docker command. The
    goroutine that relays events and the loop that consumes them are two small-step machines
    (\<open>relay_step\<close>, \<open>consumeDockerEvents\<close>) that share two channels; \<open>stream_step\<close> interleaves them.
  \<^item> Admin, Json, AdminApi: \<open>internal/admin\<close> and \<open>internal/adminapi\<close>: the views, their JSON as \<open>encoding/json\<close>
    makes it from the struct tags and reads it back, the server with its socket file, and the client. The locale \<open>admin_backend\<close> says what clients rely on; the daemon is its
    interpretation.
  \<^item> Dashboard, Menubar, DoctorChecks: \<open>internal/dashboard\<close>, \<open>internal/menubar\<close>, \<open>internal/doctor\<close>: the
    clients of the admin API. The menu bar is modelled with the arrays behind its slice of slots, since
    pointers into them outlive a reallocation.
  \<^item> System, Resolver, Launchd, Installer: the operating system (files with contents, mode and owner,
    a clock, commands), and \<open>internal/install\<close> on top of it.
  \<^item> Cli: \<open>cmd/devproxy\<close> and \<open>main.go\<close>: the commands. One that needs root is run again under \<open>sudo\<close>,
    with the environment and configuration the second process finds.

  \<^bold>\<open>What the theorems show.\<close> From Docker to the answer of a proxy, and to the dashboard page, the
  program serves exactly the names the running containers claim, each by its best claim
  (\<open>daemon_serves_last_scan\<close>, \<open>dashboard_lists_claimed_names\<close> and the lemmas of Reconciler). No route
  leads anywhere but to a published port of a running container on this machine; a public name is
  routed only if the managed suffix is public itself; the dashboard and the admin socket are private. Errors leave the state they found: a
  failed scan keeps the routes, a failed certificate refresh the certificates, a failed start no
  listener, a failed staging no binary. The stream of Docker events never goes quiet unnoticed. What
  an uninstall may remove is named file by file. The snapshot is well formed in every reachable state of
  the daemon (\<open>daemon_state_well_formed\<close>). Some theorems describe behaviour that is surprising
  rather than wanted (a repeated domain conflicting with itself, certificates reissued at every refresh, menu
  items that open another route); the manifest lists these as findings.

  \<^bold>\<open>Conventions.\<close> A Go error is its message. A function that returns a value and an error is a sum, one
  that returns only an error an option. Effects are explicit state passing: \<open>'w\<close> is the outside world of
  the daemon, \<open>'x sys\<close> the system of the installer, \<open>'s\<close> the state behind a client. Locks do not
  appear, and goroutines only as steps of a relation: an operation under the daemon's mutex is one step, and Daemon interleaves the
  steps. Integers that count or name ports are unbounded, with the ranges of \<open>strconv.Atoi\<close> written
  out; the snapshot version is a 64-bit word, file modes are 32-bit words. \<open>sort.Slice\<close> is the stable
  sort of any rearrangement of its input.

  \<^bold>\<open>Bounds and termination.\<close> Every definition is total: loops are structural recursion over the list
  they range over, except the polling loop of \<open>waitForServiceRunning\<close>, which terminates because the
  clock advances by 200 ms each round and commands never set it back; how long it waits at most is
  proved (\<open>waiting_ends_in_time\<close>). No fuel is used.

  \<^bold>\<open>Parameters.\<close> What is not in this repository is an argument: the answers of docker, mkcert,
  launchctl and sudo, X.509 parsing, key loading, the sockets, \<open>viper\<close> and \<open>cobra\<close>, \<open>url.Parse\<close>, the
  growth of slices, and the faults of file operations.

  \<^bold>\<open>Not modelled\<close>: HTML templates and static files, the tray icon and the systray library, JSON
  text (Json has its abstract syntax), the bytes of HTTP and DNS messages below what the handlers
  read and write, logging, and data races: two goroutines of the menu bar and concurrent calls of
  \<open>RebuildSnapshot\<close> can interleave inside an operation, which the steps here exclude.
\<close>

end
